(* ===== verification/Prelude.thy ===== *)
theory Prelude
  imports Main "HOL-Library.Word" "HOL-Library.AList" "HOL-Library.Sublist"
begin

section \<open>Shared vocabulary: documents, maps, suffixed names, number and string formatting\<close>

text \<open>
  This theory holds what every component of the operator shares and none of them owns:
  the untyped documents (\<open>map[string]any\<close>) the adapters build and read, Go maps as
  association lists, the two \<open>fmt\<close> verbs the sources use (\<open>%d\<close> and \<open>%q\<close>), and the
  lemmas on names of the form "base name followed by a fixed suffix" from which the
  isolation results of the adapters follow.
\<close>

named_theorems doc_simps \<open>evaluation of document builders and of path lookups\<close>
named_theorems emit_intros \<open>what every event of a computation satisfies\<close>
named_theorems stop_intros \<open>computations that stop at the first failure\<close>

subsection \<open>Documents\<close>

text \<open>
  A value of Go's \<open>any\<close> as it occurs inside \<open>unstructured.Unstructured.Object\<close>: the JSON
  values, with integers kept at the 64 bits of \<open>int64\<close>. A number that is not an integer is
  kept as its literal, since the sources never look inside one.
\<close>

datatype json =
    JNull
  | JBool bool
  | JInt "64 word"
  | JFloat string
  | JStr string
  | JArr "json list"
  | JObj "(string \<times> json) list"

type_synonym doc = "(string \<times> json) list"
type_synonym labels = "(string \<times> string) list"

text \<open>\<open>m[k] = v\<close> on a Go map kept as an association list.\<close>

definition put :: "string \<Rightarrow> 'v \<Rightarrow> (string \<times> 'v) list \<Rightarrow> (string \<times> 'v) list" where
  "put k v m = AList.update k v m"

lemma map_of_put [simp, doc_simps]: "map_of (put k v m) = (map_of m)(k \<mapsto> v)"
  by (simp add: put_def update_conv')

lemma put_Nil [simp]: "put k v [] = [(k, v)]"
  by (simp add: put_def)

lemma put_Cons [simp]: "put k v ((k', v') # m) = (if k = k' then (k, v) # m else (k', v') # put k v m)"
  by (simp add: put_def)

lemma put_nonempty [simp]: "put k v m \<noteq> []"
  by (simp add: put_def)

text \<open>
  \<open>if b { m[k] = v }\<close>, and \<open>if p != nil { m[k] = f(*p) }\<close> for a pointer or a comma-ok lookup.
\<close>

definition put_if :: "bool \<Rightarrow> string \<Rightarrow> 'v \<Rightarrow> (string \<times> 'v) list \<Rightarrow> (string \<times> 'v) list" where
  "put_if b k v m = (if b then put k v m else m)"

definition put_some :: "'p option \<Rightarrow> string \<Rightarrow> ('p \<Rightarrow> 'v) \<Rightarrow> (string \<times> 'v) list \<Rightarrow> (string \<times> 'v) list" where
  "put_some p k f m = (case p of None \<Rightarrow> m | Some x \<Rightarrow> put k (f x) m)"

lemma map_of_put_if [simp, doc_simps]:
  "map_of (put_if b k v m) k' = (if b \<and> k' = k then Some v else map_of m k')"
  by (simp add: put_if_def)

lemma map_of_put_some [simp, doc_simps]:
  "map_of (put_some p k f m) k' = (if p \<noteq> None \<and> k' = k then Some (f (the p)) else map_of m k')"
  by (auto simp: put_some_def split: option.split)

lemma put_if_simps [simp]: "put_if True k v m = put k v m" "put_if False k v m = m"
  by (simp_all add: put_if_def)

lemma put_some_simps [simp]: "put_some None k f m = m" "put_some (Some x) k f m = put k (f x) m"
  by (simp_all add: put_some_def)

lemma put_if_eq_Nil [simp]: "put_if b k v m = [] \<longleftrightarrow> \<not> b \<and> m = []"
  by (simp add: put_if_def)

lemma put_some_eq_Nil [simp]: "put_some p k f m = [] \<longleftrightarrow> p = None \<and> m = []"
  by (cases p) simp_all

text \<open>
  A string-valued map copied entry by entry into a \<open>map[string]any\<close>, as the sources do with
  user-supplied annotations.
\<close>

definition strings :: "labels \<Rightarrow> doc" where
  "strings m = map (\<lambda>(k, v). (k, JStr v)) m"

lemma map_of_strings [simp, doc_simps]: "map_of (strings m) k = map_option JStr (map_of m k)"
  by (induction m) (auto simp: strings_def)

lemma strings_eq_Nil [simp]: "strings m = [] \<longleftrightarrow> m = []"
  by (simp add: strings_def)

text \<open>The value at a path of nested maps, if every step of the path exists.\<close>

fun field_at :: "json \<Rightarrow> string list \<Rightarrow> json option" where
  "field_at j [] = Some j"
| "field_at (JObj m) (k # ks) = (case map_of m k of None \<Rightarrow> None | Some j \<Rightarrow> field_at j ks)"
| "field_at _ (_ # _) = None"

lemma field_at_append:
  "field_at j (ks @ ls) = (case field_at j ks of None \<Rightarrow> None | Some j' \<Rightarrow> field_at j' ls)"
  by (induction j ks rule: field_at.induct) (auto split: option.splits)

text \<open>The value at a path that goes through arrays as well.\<close>

datatype selector = Key string | Idx nat

fun json_at :: "json \<Rightarrow> selector list \<Rightarrow> json option" where
  "json_at j [] = Some j"
| "json_at (JObj m) (Key k # p) = (case map_of m k of None \<Rightarrow> None | Some j \<Rightarrow> json_at j p)"
| "json_at (JArr xs) (Idx i # p) = (if i < length xs then json_at (xs ! i) p else None)"
| "json_at _ (_ # _) = None"

text \<open>The strings of a document that is a map of strings only.\<close>

fun string_entries :: "doc \<Rightarrow> labels option" where
  "string_entries [] = Some []"
| "string_entries ((k, JStr v) # m) = map_option (Cons (k, v)) (string_entries m)"
| "string_entries _ = None"

lemma string_entries_strings [simp]: "string_entries (strings m) = Some m"
  by (induction m) (auto simp: strings_def)

text \<open>\<open>m[k]\<close> on a \<open>map[string]string\<close>: the empty string when the key is missing.\<close>

definition lookup_str :: "labels \<Rightarrow> string \<Rightarrow> string" where
  "lookup_str m k = (case map_of m k of None \<Rightarrow> [] | Some v \<Rightarrow> v)"

subsection \<open>Label selection\<close>

text \<open>
  Equality-based label selection: every required label is present with the required value.
\<close>

definition selects :: "labels \<Rightarrow> labels \<Rightarrow> bool" where
  "selects sel ls \<longleftrightarrow> (\<forall>(k, v) \<in> set sel. map_of ls k = Some v)"

lemma selects_Nil [simp]: "selects [] ls"
  by (simp add: selects_def)

lemma selects_Cons [simp]: "selects ((k, v) # sel) ls \<longleftrightarrow> map_of ls k = Some v \<and> selects sel ls"
  by (simp add: selects_def)

subsection \<open>Names built by appending a suffix\<close>

text \<open>
  Every object an adapter derives from a custom resource is named by appending a fixed
  suffix to the resource's name. Two such names can only agree when one suffix ends the
  other, which \<open>suffix\<close> of the library decides on literals.
\<close>

lemma append_suffix_clash:
  assumes "a @ s = b @ t"
  shows "suffix s t \<or> suffix t s"
proof -
  have "suffix s (b @ t)" using assms by (metis suffixI)
  moreover have "suffix t (b @ t)" by (simp add: suffixI)
  ultimately show ?thesis by (rule suffix_same_cases)
qed

lemma append_suffix_neq: "\<not> suffix s t \<Longrightarrow> \<not> suffix t s \<Longrightarrow> a @ s \<noteq> b @ t"
  using append_suffix_clash by blast

subsection \<open>Formatting: the verbs \<open>%d\<close> and \<open>%q\<close>\<close>

text \<open>\<open>%d\<close> of a non-negative number, most significant digit first.\<close>

fun show_nat :: "nat \<Rightarrow> string" where
  "show_nat n =
     (if n < 10 then [''0123456789'' ! n]
      else show_nat (n div 10) @ [''0123456789'' ! (n mod 10)])"

declare show_nat.simps [simp del]

text \<open>\<open>%d\<close> of a Go integer.\<close>

definition show_int :: "int \<Rightarrow> string" where
  "show_int i = (if i < 0 then ''-'' @ show_nat (nat (- i)) else show_nat (nat i))"

definition hex_digits :: "nat \<Rightarrow> string" where
  "hex_digits n = [''0123456789abcdef'' ! (n div 16), ''0123456789abcdef'' ! (n mod 16)]"

text \<open>
  \<open>%q\<close> is \<open>strconv.Quote\<close>. On bytes: the quote and the backslash are escaped, the seven
  control characters that have a letter escape get it, printable ASCII stands for itself and
  every other byte becomes \<open>\xHH\<close>. For well-formed multi-byte runes Go keeps printable ones
  verbatim; strings with bytes above 127 are outside what the theorems here speak about.
\<close>

definition quote_char :: "char \<Rightarrow> string" where
  "quote_char c =
     (let n = of_char c :: nat; esc = (\<lambda>l. [CHR 92, l]) in
      if n = 34 then esc (CHR 34)
      else if n = 92 then esc (CHR 92)
      else if 32 \<le> n \<and> n < 127 then [c]
      else if n = 7 then esc (CHR ''a'')
      else if n = 8 then esc (CHR ''b'')
      else if n = 12 then esc (CHR ''f'')
      else if n = 10 then esc (CHR ''n'')
      else if n = 13 then esc (CHR ''r'')
      else if n = 9 then esc (CHR ''t'')
      else if n = 11 then esc (CHR ''v'')
      else esc (CHR ''x'') @ hex_digits n)"

definition quote :: "string \<Rightarrow> string" where
  "quote s = [CHR 34] @ concat (map quote_char s) @ [CHR 34]"

end
