(* ===== verification/Kube.thy ===== *)
theory Kube
  imports Prelude
begin

section \<open>The Kubernetes vocabulary the sources are written in\<close>

text \<open>
  The object model of the API machinery as the operator sees it (group-version-kinds,
  object metadata, conditions, unstructured objects, the paas custom resources), the
  third-party functions the sources call, as parameters with their documented laws, and
  the API client, as a record of arbitrary functions over an opaque cluster state. Nothing
  in this theory decides what the API server does: every theorem on the reconciler holds
  for every instance of \<open>client\<close>.
\<close>

subsection \<open>Group, version, kind\<close>

datatype gvk = GVK (gvk_group: string) (gvk_version: string) (gvk_kind: string)

subsection \<open>Metadata and conditions\<close>

text \<open>
  The fields of \<open>metav1.ObjectMeta\<close> the sources read or write. \<open>DeletionTimestamp\<close> is
  \<open>None\<close> where \<open>IsZero()\<close> holds.
\<close>

record ObjectMeta =
  om_Name :: string
  om_Namespace :: string
  om_Generation :: "64 word"
  om_DeletionTimestamp :: "string option"
  om_Finalizers :: "string list"

datatype ConditionStatus = ConditionTrue | ConditionFalse | ConditionUnknown

text \<open>\<open>metav1.Condition\<close>.\<close>

record condition =
  cond_Type :: string
  cond_Status :: ConditionStatus
  cond_ObservedGeneration :: "64 word"
  cond_LastTransitionTime :: string
  cond_Reason :: string
  cond_Message :: string

text \<open>
  A paas custom resource: metadata, spec and status. The engine is generic in the last two,
  as \<open>GenericReconciler[T, PT]\<close> is.
\<close>

record ('s, 't) cr =
  cr_meta :: ObjectMeta
  cr_spec :: 's
  cr_status :: 't

text \<open>
  \<open>unstructured.Unstructured\<close>: identity and metadata as the setters of that type write
  them, and the remaining top-level entries of its \<open>Object\<close> map (\<open>spec\<close>, \<open>status\<close>,
  \<open>rules\<close>, ...).
\<close>

record unstructured =
  u_gvk :: gvk
  u_name :: string
  u_namespace :: string
  u_labels :: labels
  u_annotations :: labels
  u_finalizers :: "string list"
  u_object :: doc

text \<open>\<open>&unstructured.Unstructured{}\<close> after SetGroupVersionKind, SetName, SetNamespace, SetLabels.\<close>

definition new_object :: "gvk \<Rightarrow> string \<Rightarrow> string \<Rightarrow> labels \<Rightarrow> unstructured" where
  "new_object g n ns ls =
     \<lparr>u_gvk = g, u_name = n, u_namespace = ns, u_labels = ls, u_annotations = [],
      u_finalizers = [], u_object = []\<rparr>"

text \<open>\<open>u.Object[k] = v\<close> for a top-level entry that is not metadata.\<close>

definition set_entry :: "string \<Rightarrow> json \<Rightarrow> unstructured \<Rightarrow> unstructured" where
  "set_entry k v u = u\<lparr>u_object := put k v (u_object u)\<rparr>"

lemma new_object_simps [simp]:
  "u_gvk (new_object g n ns ls) = g" "u_name (new_object g n ns ls) = n"
  "u_namespace (new_object g n ns ls) = ns" "u_labels (new_object g n ns ls) = ls"
  "u_annotations (new_object g n ns ls) = []" "u_finalizers (new_object g n ns ls) = []"
  "u_object (new_object g n ns ls) = []"
  by (simp_all add: new_object_def)

lemma set_entry_simps [simp]:
  "u_gvk (set_entry k v u) = u_gvk u" "u_name (set_entry k v u) = u_name u"
  "u_namespace (set_entry k v u) = u_namespace u" "u_labels (set_entry k v u) = u_labels u"
  "u_annotations (set_entry k v u) = u_annotations u"
  "u_finalizers (set_entry k v u) = u_finalizers u"
  "u_object (set_entry k v u) = put k v (u_object u)"
  by (simp_all add: set_entry_def)

text \<open>The value at a path of an object, and the same for the paths tests look at.\<close>

definition at_path :: "unstructured \<Rightarrow> string list \<Rightarrow> json option" where
  "at_path u ks = field_at (JObj (u_object u)) ks"

subsection \<open>Third-party functions, as parameters\<close>

text \<open>
  The functions of apimachinery and controller-runtime the sources call for their result.
  They are arguments of the model. The last component of the \<open>Nested*\<close> results, an error,
  is dropped by every caller in the sources, so the parameters return the pair of value and
  \<open>found\<close> flag. \<open>containsFinalizer\<close> and its companions act on the finalizer list that
  \<open>GetFinalizers\<close>/\<open>SetFinalizers\<close> expose.
\<close>

record deps =
  quantity_String :: "string \<Rightarrow> string"
  nestedString :: "json \<Rightarrow> string list \<Rightarrow> string \<times> bool"
  nestedInt64 :: "json \<Rightarrow> string list \<Rightarrow> 64 word \<times> bool"
  nestedBool :: "json \<Rightarrow> string list \<Rightarrow> bool \<times> bool"
  nestedSlice :: "json \<Rightarrow> string list \<Rightarrow> json list \<times> bool"
  nestedStringMap :: "json \<Rightarrow> string list \<Rightarrow> labels \<times> bool"
  setStatusCondition :: "condition list \<Rightarrow> condition \<Rightarrow> condition list"
  containsFinalizer :: "string list \<Rightarrow> string \<Rightarrow> bool"
  addFinalizer :: "string list \<Rightarrow> string \<Rightarrow> string list"
  removeFinalizer :: "string list \<Rightarrow> string \<Rightarrow> string list"

text \<open>
  What the documentation of package \<open>unstructured\<close> says of the accessors: the value and
  true when the path leads to a value of the type, the zero value and false otherwise.
\<close>

definition nested_ok :: "deps \<Rightarrow> bool" where
  "nested_ok D \<longleftrightarrow>
     (\<forall>j p. nestedString D j p = (case field_at j p of Some (JStr s) \<Rightarrow> (s, True) | _ \<Rightarrow> ('''', False))) \<and>
     (\<forall>j p. nestedInt64 D j p = (case field_at j p of Some (JInt i) \<Rightarrow> (i, True) | _ \<Rightarrow> (0, False))) \<and>
     (\<forall>j p. nestedBool D j p = (case field_at j p of Some (JBool b) \<Rightarrow> (b, True) | _ \<Rightarrow> (False, False))) \<and>
     (\<forall>j p. nestedSlice D j p = (case field_at j p of Some (JArr xs) \<Rightarrow> (xs, True) | _ \<Rightarrow> ([], False))) \<and>
     (\<forall>j p. nestedStringMap D j p =
        (case field_at j p of
           Some (JObj m) \<Rightarrow> (case string_entries m of Some ls \<Rightarrow> (ls, True) | None \<Rightarrow> ([], False))
         | _ \<Rightarrow> ([], False)))"

text \<open>
  Package \<open>controllerutil\<close>: AddFinalizer adds the name when it is missing, RemoveFinalizer
  drops every occurrence, and neither touches other finalizers.
\<close>

definition finalizers_ok :: "deps \<Rightarrow> bool" where
  "finalizers_ok D \<longleftrightarrow>
     (\<forall>fs f. containsFinalizer D fs f \<longleftrightarrow> f \<in> set fs) \<and>
     (\<forall>fs f. set (addFinalizer D fs f) = insert f (set fs)) \<and>
     (\<forall>fs f. set (removeFinalizer D fs f) = set fs - {f})"

text \<open>
  Package \<open>meta\<close>: SetStatusCondition leaves conditions of other types as they are, and the
  condition of the given type carries the new status, reason, message and observed
  generation; the transition time is the library's business.
\<close>

definition conditions_ok :: "deps \<Rightarrow> bool" where
  "conditions_ok D \<longleftrightarrow>
     (\<forall>cs c. filter (\<lambda>d. cond_Type d \<noteq> cond_Type c) (setStatusCondition D cs c)
             = filter (\<lambda>d. cond_Type d \<noteq> cond_Type c) cs) \<and>
     (\<forall>cs c. \<exists>t. find (\<lambda>d. cond_Type d = cond_Type c) (setStatusCondition D cs c)
             = Some (c\<lparr>cond_LastTransitionTime := t\<rparr>))"

lemma conditions_ok_find:
  assumes "conditions_ok D"
  shows "\<exists>t. find (\<lambda>d. cond_Type d = cond_Type c) (setStatusCondition D cs c)
             = Some (c\<lparr>cond_LastTransitionTime := t\<rparr>)"
  using assms by (simp add: conditions_ok_def)

lemma conditions_ok_others:
  assumes "conditions_ok D"
  shows "filter (\<lambda>d. cond_Type d \<noteq> cond_Type c) (setStatusCondition D cs c)
       = filter (\<lambda>d. cond_Type d \<noteq> cond_Type c) cs"
  using assms by (simp add: conditions_ok_def)

subsection \<open>A documented instance of the parameters\<close>

text \<open>
  One instance that satisfies all the laws above, used by the witnesses to show that the
  hypotheses on the parameters can hold together.
\<close>

definition doc_setStatusCondition :: "condition list \<Rightarrow> condition \<Rightarrow> condition list" where
  "doc_setStatusCondition cs c =
     (if find (\<lambda>d. cond_Type d = cond_Type c) cs = None then cs @ [c]
      else map (\<lambda>d. if cond_Type d = cond_Type c then c else d) cs)"

definition doc_deps :: deps where
  "doc_deps =
     \<lparr>quantity_String = (\<lambda>q. q),
      nestedString = (\<lambda>j p. case field_at j p of Some (JStr s) \<Rightarrow> (s, True) | _ \<Rightarrow> ('''', False)),
      nestedInt64 = (\<lambda>j p. case field_at j p of Some (JInt i) \<Rightarrow> (i, True) | _ \<Rightarrow> (0, False)),
      nestedBool = (\<lambda>j p. case field_at j p of Some (JBool b) \<Rightarrow> (b, True) | _ \<Rightarrow> (False, False)),
      nestedSlice = (\<lambda>j p. case field_at j p of Some (JArr xs) \<Rightarrow> (xs, True) | _ \<Rightarrow> ([], False)),
      nestedStringMap = (\<lambda>j p. case field_at j p of
           Some (JObj m) \<Rightarrow> (case string_entries m of Some ls \<Rightarrow> (ls, True) | None \<Rightarrow> ([], False))
         | _ \<Rightarrow> ([], False)),
      setStatusCondition = doc_setStatusCondition,
      containsFinalizer = (\<lambda>fs f. List.member fs f),
      addFinalizer = (\<lambda>fs f. if List.member fs f then fs else fs @ [f]),
      removeFinalizer = (\<lambda>fs f. filter (\<lambda>g. g \<noteq> f) fs)\<rparr>"

lemma doc_deps_simps [simp]:
  "containsFinalizer doc_deps fs f \<longleftrightarrow> f \<in> set fs"
  "addFinalizer doc_deps fs f = (if f \<in> set fs then fs else fs @ [f])"
  "removeFinalizer doc_deps fs f = filter (\<lambda>g. g \<noteq> f) fs"
  "quantity_String doc_deps q = q"
  by (simp_all add: doc_deps_def)

lemma nested_ok_doc [simp]: "nested_ok doc_deps"
  by (simp add: nested_ok_def doc_deps_def)

lemma finalizers_ok_doc [simp]: "finalizers_ok doc_deps"
  by (auto simp: finalizers_ok_def doc_deps_def)

lemma find_map_replace:
  "find (\<lambda>d. cond_Type d = cond_Type c) cs \<noteq> None \<Longrightarrow>
   find (\<lambda>d. cond_Type d = cond_Type c) (map (\<lambda>d. if cond_Type d = cond_Type c then c else d) cs) = Some c"
  by (induction cs) auto

lemma filter_map_replace:
  "filter (\<lambda>d. cond_Type d \<noteq> cond_Type c) (map (\<lambda>d. if cond_Type d = cond_Type c then c else d) cs)
   = filter (\<lambda>d. cond_Type d \<noteq> cond_Type c) cs"
  by (induction cs) auto

lemma conditions_ok_doc [simp]: "conditions_ok doc_deps"
  unfolding conditions_ok_def
proof (intro conjI allI)
  fix cs c
  show "filter (\<lambda>d. cond_Type d \<noteq> cond_Type c) (setStatusCondition doc_deps cs c)
          = filter (\<lambda>d. cond_Type d \<noteq> cond_Type c) cs"
    by (simp add: doc_deps_def doc_setStatusCondition_def filter_map_replace)
  have "find (\<lambda>d. cond_Type d = cond_Type c) (setStatusCondition doc_deps cs c) = Some c"
  proof (cases "find (\<lambda>d. cond_Type d = cond_Type c) cs")
    case None
    then show ?thesis
      by (induction cs) (auto simp: doc_deps_def doc_setStatusCondition_def split: if_splits)
  next
    case (Some d)
    then show ?thesis
      using find_map_replace [of c cs] by (simp add: doc_deps_def doc_setStatusCondition_def)
  qed
  then show "\<exists>t. find (\<lambda>d. cond_Type d = cond_Type c) (setStatusCondition doc_deps cs c)
                = Some (c\<lparr>cond_LastTransitionTime := t\<rparr>)"
    by (intro exI [of _ "cond_LastTransitionTime c"]) simp
qed

end
