(* ===== verification/Effects.thy ===== *)
theory Effects
  imports Kube
begin

section \<open>Effects: the API client, errors as values, and the calls a run makes\<close>

text \<open>
  The reconciler talks to the cluster through \<open>client.Client\<close>. That client is a parameter:
  a record of functions over an opaque state \<open>'w\<close>, each returning an error or a result and
  the next state. A computation threads that state and appends every call it makes, with
  its outcome, to a trace. The second half of the theory is the calculus in which the
  properties of the reconciler's traces are proved, once per combinator, for every client.
\<close>

subsection \<open>Errors\<close>

text \<open>
  \<open>NotFound\<close> is an API status error for which \<open>apierrors.IsNotFound\<close> holds, \<open>ApiError\<close> any
  other error of a client call, \<open>NilDeref\<close> the run-time panic of a nil pointer.
\<close>

datatype error = NotFound | ApiError string | NilDeref

definition IsNotFound :: "error \<Rightarrow> bool" where
  "IsNotFound e \<longleftrightarrow> e = NotFound"

subsection \<open>Typed objects the engine lists\<close>

record IngressClass =
  ic_Name :: string
  ic_Annotations :: labels

record Pod =
  pod_Name :: string
  pod_Namespace :: string
  pod_Labels :: labels
  pod_Conditions :: "(string \<times> ConditionStatus) list"

subsection \<open>The client\<close>

record ('c, 'w) client =
  api_GetCR :: "string \<Rightarrow> string \<Rightarrow> 'w \<Rightarrow> (error + 'c) \<times> 'w"
  api_Get :: "gvk \<Rightarrow> string \<Rightarrow> string \<Rightarrow> 'w \<Rightarrow> (error + unstructured) \<times> 'w"
  api_Update :: "'c \<Rightarrow> 'w \<Rightarrow> (error + 'c) \<times> 'w"
  api_StatusUpdate :: "'c \<Rightarrow> 'w \<Rightarrow> (error + 'c) \<times> 'w"
  api_Patch :: "unstructured \<Rightarrow> string \<Rightarrow> bool \<Rightarrow> 'w \<Rightarrow> (error + unstructured) \<times> 'w"
  api_Delete :: "gvk \<Rightarrow> string \<Rightarrow> string \<Rightarrow> 'w \<Rightarrow> (error + unit) \<times> 'w"
  api_DeleteAllPVCs :: "string \<Rightarrow> labels \<Rightarrow> 'w \<Rightarrow> (error + unit) \<times> 'w"
  api_ListIngressClasses :: "'w \<Rightarrow> (error + IngressClass list) \<times> 'w"
  api_ListPods :: "string \<Rightarrow> labels \<Rightarrow> 'w \<Rightarrow> (error + Pod list) \<times> 'w"

text \<open>One constructor per call, with the arguments the call is made with.\<close>

datatype 'c call =
    GetCR string string
  | Get gvk string string
  | Update 'c
  | StatusUpdate 'c
  | Patch unstructured string bool
  | Delete gvk string string
  | DeleteAllPVCs string labels
  | ListIngressClasses
  | ListPods string labels
  | Eventf string string string string

text \<open>An event of the trace: a call and the error it returned, if any.\<close>

type_synonym 'c event = "'c call \<times> error option"

record ('c, 'w) st =
  st_world :: 'w
  st_trace :: "'c event list"

type_synonym ('c, 'w, 'a) io = "('c, 'w) st \<Rightarrow> (error + 'a) \<times> ('c, 'w) st"

fun outcome_of :: "error + 'a \<Rightarrow> error option" where
  "outcome_of (Inl e) = Some e"
| "outcome_of (Inr _) = None"

subsection \<open>Combinators\<close>

definition returnE :: "'a \<Rightarrow> ('c, 'w, 'a) io" where
  "returnE x = (\<lambda>s. (Inr x, s))"

definition throwE :: "error \<Rightarrow> ('c, 'w, 'a) io" where
  "throwE e = (\<lambda>s. (Inl e, s))"

text \<open>\<open>x, err := m; if err != nil { return err }; f(x)\<close>\<close>

definition bindE :: "('c, 'w, 'a) io \<Rightarrow> ('a \<Rightarrow> ('c, 'w, 'b) io) \<Rightarrow> ('c, 'w, 'b) io" where
  "bindE m f = (\<lambda>s. case m s of (Inl e, s') \<Rightarrow> (Inl e, s') | (Inr x, s') \<Rightarrow> f x s')"

text \<open>\<open>x, err := m; f(x, err)\<close> where the code inspects the error itself.\<close>

definition tryE :: "('c, 'w, 'a) io \<Rightarrow> (error + 'a \<Rightarrow> ('c, 'w, 'b) io) \<Rightarrow> ('c, 'w, 'b) io" where
  "tryE m f = (\<lambda>s. case m s of (r, s') \<Rightarrow> f r s')"

text \<open>A call of the client: it moves the cluster state and leaves its event in the trace.\<close>

definition perform :: "'c call \<Rightarrow> ('w \<Rightarrow> (error + 'a) \<times> 'w) \<Rightarrow> ('c, 'w, 'a) io" where
  "perform c f = (\<lambda>s. case f (st_world s) of
      (r, w) \<Rightarrow> (r, \<lparr>st_world = w, st_trace = st_trace s @ [(c, outcome_of r)]\<rparr>))"

lemmas io_defs = returnE_def throwE_def bindE_def tryE_def perform_def

text \<open>A run from a cluster state, with an empty trace.\<close>

definition run :: "('c, 'w, 'a) io \<Rightarrow> 'w \<Rightarrow> (error + 'a) \<times> 'c event list" where
  "run m w = (case m \<lparr>st_world = w, st_trace = []\<rparr> of (r, s) \<Rightarrow> (r, st_trace s))"

subsection \<open>The trace calculus\<close>

text \<open>
  \<open>emits m P\<close>: from every state, \<open>m\<close> only appends to the trace, and its result and the
  events it appended satisfy \<open>P\<close>.
\<close>

definition emits :: "('c, 'w, 'a) io \<Rightarrow> (error + 'a \<Rightarrow> 'c event list \<Rightarrow> bool) \<Rightarrow> bool" where
  "emits m P \<longleftrightarrow> (\<forall>s. \<exists>evs. st_trace (snd (m s)) = st_trace s @ evs \<and> P (fst (m s)) evs)"

lemma emitsI: "(\<And>s. \<exists>evs. st_trace (snd (m s)) = st_trace s @ evs \<and> P (fst (m s)) evs) \<Longrightarrow> emits m P"
  by (simp add: emits_def)

lemma emits_mono: "emits m P \<Longrightarrow> (\<And>r evs. P r evs \<Longrightarrow> Q r evs) \<Longrightarrow> emits m Q"
  unfolding emits_def by metis

lemma emits_conj: "emits m P \<Longrightarrow> emits m Q \<Longrightarrow> emits m (\<lambda>r evs. P r evs \<and> Q r evs)"
  unfolding emits_def by (metis same_append_eq)

lemma emits_returnE: "P (Inr x) [] \<Longrightarrow> emits (returnE x) P"
  by (simp add: emits_def returnE_def)

lemma emits_throwE: "P (Inl e) [] \<Longrightarrow> emits (throwE e) P"
  by (simp add: emits_def throwE_def)

lemma emits_perform: "(\<And>r. P r [(c, outcome_of r)]) \<Longrightarrow> emits (perform c f) P"
  by (simp add: emits_def perform_def split: prod.split)

lemma emits_tryE:
  assumes "emits m (\<lambda>r evs. emits (f r) (\<lambda>r' evs'. P r' (evs @ evs')))"
  shows "emits (tryE m f) P"
proof (rule emitsI)
  fix s
  obtain r s1 where m: "m s = (r, s1)" by (cases "m s")
  from assms [unfolded emits_def, rule_format, of s] m obtain evs
    where 1: "st_trace s1 = st_trace s @ evs"
      and 2: "\<forall>s. \<exists>evs'. st_trace (snd (f r s)) = st_trace s @ evs' \<and> P (fst (f r s)) (evs @ evs')"
    by (auto simp: emits_def)
  from 2 obtain evs' where "st_trace (snd (f r s1)) = st_trace s1 @ evs'"
    and "P (fst (f r s1)) (evs @ evs')" by blast
  with 1 m show "\<exists>evs. st_trace (snd (tryE m f s)) = st_trace s @ evs \<and> P (fst (tryE m f s)) evs"
    by (intro exI [of _ "evs @ evs'"]) (simp add: tryE_def)
qed

lemma bindE_tryE:
  "bindE m f = tryE m (\<lambda>r. case r of Inl e \<Rightarrow> throwE e | Inr x \<Rightarrow> f x)"
  by (rule ext) (auto simp: io_defs split: prod.split sum.split)

lemma emits_bindE:
  assumes "emits m (\<lambda>r evs. case r of
      Inl e \<Rightarrow> P (Inl e) evs
    | Inr x \<Rightarrow> emits (f x) (\<lambda>r' evs'. P r' (evs @ evs')))"
  shows "emits (bindE m f) P"
  unfolding bindE_tryE
  by (rule emits_tryE, rule emits_mono [OF assms])
     (auto intro: emits_throwE split: sum.splits)

text \<open>The same in steps: what the first step emits, then what the rest makes of it.\<close>

lemma emits_bind:
  assumes "emits m P" and "\<And>e evs. P (Inl e) evs \<Longrightarrow> Q (Inl e) evs"
    and "\<And>x evs. P (Inr x) evs \<Longrightarrow> emits (f x) (\<lambda>r' evs'. Q r' (evs @ evs'))"
  shows "emits (bindE m f) Q"
  by (rule emits_bindE, rule emits_mono [OF assms(1)]) (auto intro: assms(2,3) split: sum.split)

text \<open>The result and the trace of a run satisfy what the computation emits.\<close>

lemma emits_run: "emits m P \<Longrightarrow> run m w = (r, evs) \<Longrightarrow> P r evs"
  unfolding emits_def run_def
  by (drule spec [of _ "\<lparr>st_world = w, st_trace = []\<rparr>"]) (auto split: prod.splits)

subsection \<open>Two instances: what every event satisfies, and stopping at the first failure\<close>

definition all_events :: "('c event \<Rightarrow> bool) \<Rightarrow> ('c, 'w, 'a) io \<Rightarrow> bool" where
  "all_events \<phi> m \<longleftrightarrow> emits m (\<lambda>r evs. \<forall>ev \<in> set evs. \<phi> ev)"

lemma all_events_returnE [simp, emit_intros]: "all_events \<phi> (returnE x)"
  by (simp add: all_events_def emits_returnE)

lemma all_events_throwE [simp, emit_intros]: "all_events \<phi> (throwE e)"
  by (simp add: all_events_def emits_throwE)

lemma all_events_perform [emit_intros]: "(\<And>o'. \<phi> (c, o')) \<Longrightarrow> all_events \<phi> (perform c f)"
  by (simp add: all_events_def emits_perform)

lemma all_events_tryE [emit_intros]:
  assumes "all_events \<phi> m" and "\<And>r. all_events \<phi> (f r)"
  shows "all_events \<phi> (tryE m f)"
  unfolding all_events_def
proof (rule emits_tryE, rule emits_mono [OF assms(1) [unfolded all_events_def]])
  fix r and evs :: "'a event list"
  assume "\<forall>ev\<in>set evs. \<phi> ev"
  then show "emits (f r) (\<lambda>r' evs'. \<forall>ev\<in>set (evs @ evs'). \<phi> ev)"
    by (intro emits_mono [OF assms(2) [unfolded all_events_def]]) auto
qed

lemma all_events_bindE [emit_intros]:
  "all_events \<phi> m \<Longrightarrow> (\<And>x. all_events \<phi> (f x)) \<Longrightarrow> all_events \<phi> (bindE m f)"
  unfolding bindE_tryE by (rule all_events_tryE) (auto split: sum.split)

lemma all_events_mono: "all_events \<phi> m \<Longrightarrow> (\<And>ev. \<phi> ev \<Longrightarrow> \<psi> ev) \<Longrightarrow> all_events \<psi> m"
  unfolding all_events_def by (erule emits_mono) blast

text \<open>
  What the result of a first step tells about the second, and properties of traces that
  survive concatenation.
\<close>

lemma all_events_bindE_result:
  fixes m :: "('c, 'w, 'a) io" and f :: "'a \<Rightarrow> ('c, 'w, 'b) io"
  assumes m: "emits m (\<lambda>r evs. (\<forall>ev \<in> set evs. \<phi> ev) \<and> (\<forall>x. r = Inr x \<longrightarrow> R x))"
    and f: "\<And>x. R x \<Longrightarrow> all_events \<phi> (f x)"
  shows "all_events \<phi> (bindE m f)"
  unfolding all_events_def
proof (rule emits_bindE, rule emits_mono [OF m], elim conjE)
  fix r :: "error + 'a" and evs :: "'c event list"
  assume "\<forall>ev\<in>set evs. \<phi> ev" and "\<forall>x. r = Inr x \<longrightarrow> R x"
  then show "case r of Inl e \<Rightarrow> \<forall>ev\<in>set evs. \<phi> ev
      | Inr x \<Rightarrow> emits (f x) (\<lambda>r' evs'. \<forall>ev\<in>set (evs @ evs'). \<phi> ev)"
    by (cases r) (auto intro!: emits_mono [OF f [unfolded all_events_def]])
qed

lemma emits_closed_bindE:
  fixes m :: "('c, 'w, 'a) io" and f :: "'a \<Rightarrow> ('c, 'w, 'b) io"
  assumes closed: "\<And>e1 e2. Q e1 \<Longrightarrow> Q e2 \<Longrightarrow> Q (e1 @ e2)"
    and m: "emits m (\<lambda>r. Q)" and f: "\<And>x. emits (f x) (\<lambda>r. Q)"
  shows "emits (bindE m f) (\<lambda>r. Q)"
proof (rule emits_bindE, rule emits_mono [OF m])
  fix r :: "error + 'a" and evs :: "'c event list"
  assume "Q evs"
  then show "case r of Inl e \<Rightarrow> Q evs | Inr x \<Rightarrow> emits (f x) (\<lambda>r' evs'. Q (evs @ evs'))"
    by (cases r) (auto intro!: emits_mono [OF f] closed)
qed

text \<open>
  The errors the engine swallows are the not-found answers to a get or a delete. A
  computation stops at the first failure if every event but the last is a success or
  tolerated, and it returns an error exactly when the last event failed with that error.
\<close>

fun tolerated :: "'c event \<Rightarrow> bool" where
  "tolerated (_, None) = True"
| "tolerated (GetCR _ _, Some e) = (e = NotFound)"
| "tolerated (Get _ _ _, Some e) = (e = NotFound)"
| "tolerated (Delete _ _ _, Some e) = (e = NotFound)"
| "tolerated (_, Some _) = False"

definition stops_at_failure :: "error + 'a \<Rightarrow> 'c event list \<Rightarrow> bool" where
  "stops_at_failure r evs \<longleftrightarrow>
     (case r of
        Inr _ \<Rightarrow> list_all tolerated evs
      | Inl e \<Rightarrow> \<exists>evs' c. evs = evs' @ [(c, Some e)] \<and> list_all tolerated evs')"

lemma stops_at_failure_append:
  "list_all tolerated evs \<Longrightarrow> stops_at_failure r evs' \<Longrightarrow> stops_at_failure r (evs @ evs')"
  by (auto simp: stops_at_failure_def split: sum.splits)

lemma stops_returnE [stop_intros]: "emits (returnE x) stops_at_failure"
  by (rule emits_returnE) (simp add: stops_at_failure_def)

lemma stops_perform [stop_intros]: "emits (perform c f) stops_at_failure"
  by (rule emits_perform) (auto simp: stops_at_failure_def split: sum.split)

lemma emits_stops_prefix:
  "list_all tolerated evs \<Longrightarrow> emits m stops_at_failure \<Longrightarrow>
   emits m (\<lambda>r evs'. stops_at_failure r (evs @ evs'))"
  by (erule emits_mono) (rule stops_at_failure_append)

lemma stops_bindE [stop_intros]:
  fixes m :: "('c, 'w, 'a) io" and f :: "'a \<Rightarrow> ('c, 'w, 'b) io"
  assumes "emits m stops_at_failure" and "\<And>x. emits (f x) stops_at_failure"
  shows "emits (bindE m f) stops_at_failure"
proof (rule emits_bindE, rule emits_mono [OF assms(1)])
  fix r :: "error + 'a" and evs :: "'c event list"
  assume "stops_at_failure r evs"
  then show "case r of Inl e \<Rightarrow> stops_at_failure (Inl e) evs
        | Inr x \<Rightarrow> emits (f x) (\<lambda>r' evs'. stops_at_failure r' (evs @ evs'))"
    by (cases r) (simp_all add: stops_at_failure_def emits_stops_prefix [OF _ assms(2), unfolded stops_at_failure_def])
qed

text \<open>The one place where an error is inspected: a call whose not-found answer is tolerated.\<close>

lemma stops_try_perform:
  assumes tol: "\<And>e. tolerated (c, Some e) \<longleftrightarrow> e = NotFound"
    and ok: "\<And>x. emits (f (Inr x)) stops_at_failure"
    and nf: "emits (f (Inl NotFound)) stops_at_failure"
    and err: "\<And>e. e \<noteq> NotFound \<Longrightarrow> f (Inl e) = throwE e"
  shows "emits (tryE (perform c g) f) stops_at_failure"
proof (rule emits_tryE, rule emits_perform)
  fix r
  show "emits (f r) (\<lambda>r' evs'. stops_at_failure r' ([(c, outcome_of r)] @ evs'))"
  proof (cases "r = Inl NotFound \<or> (\<exists>x. r = Inr x)")
    case True
    then have "list_all tolerated [(c, outcome_of r)]" and "emits (f r) stops_at_failure"
      using tol [of NotFound] ok nf by auto
    then show ?thesis by (rule emits_stops_prefix)
  next
    case False
    then obtain e where r: "r = Inl e" "e \<noteq> NotFound" by (cases r) auto
    show ?thesis
      unfolding r(1) err [OF r(2)] by (rule emits_throwE) (simp add: stops_at_failure_def)
  qed
qed

end
