(* ===== verification/Reconciler.thy ===== *)
theory Reconciler
  imports Effects
begin

section \<open>The reconciliation engine\<close>

text \<open>
  \<open>internal/reconciler/reconciler.go\<close>, function by function. A vendor integration is an
  \<open>adapter\<close>: the methods of the Go interface, and the three optional extensions as
  \<open>option\<close> fields, \<open>None\<close> where the type assertion on the adapter fails. Log calls are left
  out; everything else is a call of the client or of the recorder and shows in the trace.
\<close>

subsection \<open>Data\<close>

definition FinalizerName :: string where
  "FinalizerName = ''paas.cncp.nl/cleanup''"

record TargetStatus =
  ts_Phase :: string
  ts_Ready :: bool
  ts_ObservedCount :: "32 word"
  ts_ReadyCount :: "32 word"

record ExtraResource =
  x_GVK :: gvk
  x_Name :: string
  x_Desired :: "unstructured option"
  x_PatchOnly :: bool

record ('s, 't) adapter =
  a_GVK :: gvk
  a_TargetName :: "string \<Rightarrow> string"
  a_ObjectKind :: string
  a_FieldManager :: string
  a_BuildManifest :: "('s, 't) cr \<Rightarrow> string \<Rightarrow> string \<Rightarrow> string \<Rightarrow> unstructured"
  a_ExtractStatus :: "unstructured option \<Rightarrow> TargetStatus"
  a_ApplyStatus :: "('s, 't) cr \<Rightarrow> string \<Rightarrow> TargetStatus \<Rightarrow> ('s, 't) cr \<times> string"
  a_ExtraResources :: "(('s, 't) cr \<Rightarrow> string \<Rightarrow> string \<Rightarrow> string \<Rightarrow> ExtraResource list) option"
  a_PVCLabelSelector :: "(('s, 't) cr \<Rightarrow> string \<Rightarrow> labels) option"
  a_IngressClass ::
    "((('s, 't) cr \<Rightarrow> string \<times> bool) \<times> (('s, 't) cr \<Rightarrow> string \<Rightarrow> ('s, 't) cr option)) option"

text \<open>
  \<open>SetIngressClassName\<close> writes through the pointer \<open>cr.Spec.Ingress\<close>: its model returns
  \<open>None\<close> where that pointer is nil and Go panics.
\<close>

record ('s, 't, 'w) reconciler =
  r_Client :: "(('s, 't) cr, 'w) client"
  r_Adapter :: "('s, 't) adapter"
  r_Name :: string

text \<open>\<open>ctrl.Result\<close>, durations in nanoseconds as \<open>time.Duration\<close> counts them.\<close>

record Result =
  Requeue :: bool
  RequeueAfter :: int

definition emptyResult :: Result where
  "emptyResult = \<lparr>Requeue = False, RequeueAfter = 0\<rparr>"

definition Second :: int where "Second = 1000000000"
definition Minute :: int where "Minute = 60 * Second"

definition defaultIngressClassAnnotation :: string where
  "defaultIngressClassAnnotation = ''ingressclass.kubernetes.io/is-default-class''"

definition annotationTrue :: string where
  "annotationTrue = ''true''"

definition statefulSetGVK :: gvk where
  "statefulSetGVK = GVK ''apps'' ''v1'' ''StatefulSet''"

definition podGVK :: gvk where
  "podGVK = GVK '''' ''v1'' ''Pod''"

subsection \<open>Single calls\<close>

definition GetTarget ::
    "('c, 'w) client \<Rightarrow> gvk \<Rightarrow> string \<Rightarrow> string \<Rightarrow> ('c, 'w, unstructured option) io" where
  "GetTarget c g ns name =
     tryE (perform (Get g ns name) (api_Get c g ns name)) (\<lambda>r. case r of
       Inr u \<Rightarrow> returnE (Some u)
     | Inl e \<Rightarrow> if IsNotFound e then returnE None else throwE e)"

definition getTarget :: "('s, 't, 'w) reconciler \<Rightarrow> string \<Rightarrow> string \<Rightarrow>
    (('s, 't) cr, 'w, unstructured option) io" where
  "getTarget r ns name = GetTarget (r_Client r) (a_GVK (r_Adapter r)) ns name"

text \<open>
  The patch returns the object as merged by the server, which the Go code finds in the
  object it passed in.
\<close>

definition applyTarget :: "('s, 't, 'w) reconciler \<Rightarrow> unstructured \<Rightarrow>
    (('s, 't) cr, 'w, unstructured) io" where
  "applyTarget r desired =
     (let owner = a_FieldManager (r_Adapter r)
      in perform (Patch desired owner True) (api_Patch (r_Client r) desired owner True))"

definition deleteTarget :: "('s, 't, 'w) reconciler \<Rightarrow> string \<Rightarrow> string \<Rightarrow>
    (('s, 't) cr, 'w, bool) io" where
  "deleteTarget r ns name =
     (let g = a_GVK (r_Adapter r)
      in tryE (perform (Delete g ns name) (api_Delete (r_Client r) g ns name)) (\<lambda>res. case res of
           Inl e \<Rightarrow> if IsNotFound e then returnE False else throwE e
         | Inr _ \<Rightarrow> returnE True))"

definition deleteExtra :: "('s, 't, 'w) reconciler \<Rightarrow> gvk \<Rightarrow> string \<Rightarrow> string \<Rightarrow>
    (('s, 't) cr, 'w, unit) io" where
  "deleteExtra r g ns name =
     tryE (perform (Delete g ns name) (api_Delete (r_Client r) g ns name)) (\<lambda>res. case res of
       Inl e \<Rightarrow> if IsNotFound e then returnE () else throwE e
     | Inr _ \<Rightarrow> returnE ())"

subsection \<open>Unsticking a StatefulSet rollout\<close>

fun isPodReady_conditions :: "(string \<times> ConditionStatus) list \<Rightarrow> bool" where
  "isPodReady_conditions [] = False"
| "isPodReady_conditions ((t, s) # cs) =
     (if t = ''Ready'' then s = ConditionTrue else isPodReady_conditions cs)"

definition isPodReady :: "Pod \<Rightarrow> bool" where
  "isPodReady pod = isPodReady_conditions (pod_Conditions pod)"

fun deleteStalePods :: "('s, 't, 'w) reconciler \<Rightarrow> string \<Rightarrow> Pod list \<Rightarrow>
    (('s, 't) cr, 'w, unit) io" where
  "deleteStalePods r updateRevision [] = returnE ()"
| "deleteStalePods r updateRevision (pod # pods) =
     (if lookup_str (pod_Labels pod) ''controller-revision-hash'' = updateRevision \<or> isPodReady pod
      then deleteStalePods r updateRevision pods
      else tryE (perform (Delete podGVK (pod_Namespace pod) (pod_Name pod))
                   (api_Delete (r_Client r) podGVK (pod_Namespace pod) (pod_Name pod)))
             (\<lambda>res. case res of
                Inl e \<Rightarrow> if \<not> IsNotFound e then throwE e else deleteStalePods r updateRevision pods
              | Inr _ \<Rightarrow> deleteStalePods r updateRevision pods))"

definition unstickStatefulSetRollout :: "deps \<Rightarrow> ('s, 't, 'w) reconciler \<Rightarrow> string \<Rightarrow> string \<Rightarrow>
    (('s, 't) cr, 'w, unit) io" where
  "unstickStatefulSetRollout D r ns name =
     bindE (GetTarget (r_Client r) statefulSetGVK ns name) (\<lambda>found. case found of
       None \<Rightarrow> returnE ()
     | Some sts \<Rightarrow>
         (let obj = JObj (u_object sts);
              updateRevision = fst (nestedString D obj [''status'', ''updateRevision'']);
              currentRevision = fst (nestedString D obj [''status'', ''currentRevision''])
          in if updateRevision = '''' \<or> updateRevision = currentRevision then returnE ()
             else
               (let selector = fst (nestedStringMap D obj [''spec'', ''selector'', ''matchLabels''])
                in if selector = [] then returnE ()
                   else bindE (perform (ListPods ns selector) (api_ListPods (r_Client r) ns selector))
                          (\<lambda>pods. deleteStalePods r updateRevision pods))))"

subsection \<open>Auxiliary objects\<close>

fun applyExtras :: "deps \<Rightarrow> ('s, 't, 'w) reconciler \<Rightarrow> string \<Rightarrow> ExtraResource list \<Rightarrow>
    (('s, 't) cr, 'w, unit) io" where
  "applyExtras D r ns [] = returnE ()"
| "applyExtras D r ns (extra # extras) =
     (case x_Desired extra of
        Some desired \<Rightarrow>
          (let patch =
             bindE (applyTarget r desired) (\<lambda>_.
               if x_PatchOnly extra \<and> x_GVK extra = statefulSetGVK
               then bindE (unstickStatefulSetRollout D r ns (x_Name extra)) (\<lambda>_. applyExtras D r ns extras)
               else applyExtras D r ns extras)
           in if x_PatchOnly extra
              then bindE (GetTarget (r_Client r) (x_GVK extra) ns (x_Name extra)) (\<lambda>existing.
                     case existing of None \<Rightarrow> applyExtras D r ns extras | Some _ \<Rightarrow> patch)
              else patch)
      | None \<Rightarrow> bindE (deleteExtra r (x_GVK extra) ns (x_Name extra)) (\<lambda>_. applyExtras D r ns extras))"

definition applyExtraResources :: "deps \<Rightarrow> ('s, 't, 'w) reconciler \<Rightarrow> ('s, 't) cr \<Rightarrow> string \<Rightarrow>
    (('s, 't) cr, 'w, unit) io" where
  "applyExtraResources D r c targetName =
     (case a_ExtraResources (r_Adapter r) of
        None \<Rightarrow> returnE ()
      | Some er \<Rightarrow>
          (let ns = om_Namespace (cr_meta c)
           in applyExtras D r ns (er c targetName ns (om_Name (cr_meta c)))))"

fun deleteExtras :: "('s, 't, 'w) reconciler \<Rightarrow> string \<Rightarrow> ExtraResource list \<Rightarrow>
    (('s, 't) cr, 'w, unit) io" where
  "deleteExtras r ns [] = returnE ()"
| "deleteExtras r ns (extra # extras) =
     (if x_PatchOnly extra then deleteExtras r ns extras
      else bindE (deleteExtra r (x_GVK extra) ns (x_Name extra)) (\<lambda>_. deleteExtras r ns extras))"

definition deleteExtraResources :: "('s, 't, 'w) reconciler \<Rightarrow> ('s, 't) cr \<Rightarrow> string \<Rightarrow>
    (('s, 't) cr, 'w, unit) io" where
  "deleteExtraResources r c targetName =
     (case a_ExtraResources (r_Adapter r) of
        None \<Rightarrow> returnE ()
      | Some er \<Rightarrow>
          (let ns = om_Namespace (cr_meta c)
           in deleteExtras r ns (er c targetName ns (om_Name (cr_meta c)))))"

definition deletePVCs :: "('s, 't, 'w) reconciler \<Rightarrow> ('s, 't) cr \<Rightarrow> string \<Rightarrow>
    (('s, 't) cr, 'w, unit) io" where
  "deletePVCs r c targetName =
     (case a_PVCLabelSelector (r_Adapter r) of
        None \<Rightarrow> returnE ()
      | Some selector \<Rightarrow>
          (let ls = selector c targetName; ns = om_Namespace (cr_meta c)
           in if ls = [] then returnE ()
              else perform (DeleteAllPVCs ns ls) (api_DeleteAllPVCs (r_Client r) ns ls)))"

subsection \<open>The default ingress class\<close>

fun pickDefaultClass :: "string \<Rightarrow> IngressClass list \<Rightarrow> string" where
  "pickDefaultClass resolved [] = resolved"
| "pickDefaultClass resolved (ic # ics) =
     (if lookup_str (ic_Annotations ic) defaultIngressClassAnnotation \<noteq> annotationTrue
      then pickDefaultClass resolved ics
      else if resolved \<noteq> '''' then ''''
      else pickDefaultClass (ic_Name ic) ics)"

definition resolveDefaultIngressClass :: "('s, 't, 'w) reconciler \<Rightarrow> (('s, 't) cr, 'w, string) io" where
  "resolveDefaultIngressClass r =
     bindE (perform ListIngressClasses (api_ListIngressClasses (r_Client r)))
       (\<lambda>classes. returnE (pickDefaultClass '''' classes))"

text \<open>The returned resource is \<open>cr\<close> after the in-place mutation.\<close>

definition defaultIngressClass :: "('s, 't, 'w) reconciler \<Rightarrow> ('s, 't) cr \<Rightarrow>
    (('s, 't) cr, 'w, ('s, 't) cr) io" where
  "defaultIngressClass r c =
     (case a_IngressClass (r_Adapter r) of
        None \<Rightarrow> returnE c
      | Some (requestedClass, setClass) \<Rightarrow>
          (let (className, requested) = requestedClass c
           in if \<not> requested \<or> className \<noteq> '''' then returnE c
              else bindE (resolveDefaultIngressClass r) (\<lambda>resolved.
                     if resolved = '''' then returnE c
                     else (case setClass c resolved of
                             None \<Rightarrow> throwE NilDeref
                           | Some c' \<Rightarrow> returnE c'))))"

subsection \<open>Reconcile\<close>

text \<open>The deletion path.\<close>

definition reconcileDelete :: "deps \<Rightarrow> ('s, 't, 'w) reconciler \<Rightarrow> ('s, 't) cr \<Rightarrow> string \<Rightarrow>
    (('s, 't) cr, 'w, Result) io" where
  "reconcileDelete D r c targetName =
     (if containsFinalizer D (om_Finalizers (cr_meta c)) FinalizerName
      then bindE (deleteTarget r (om_Namespace (cr_meta c)) targetName) (\<lambda>deleted.
           bindE (deleteExtraResources r c targetName) (\<lambda>_.
           bindE (deletePVCs r c targetName) (\<lambda>_.
             let fs = removeFinalizer D (om_Finalizers (cr_meta c)) FinalizerName;
                 c' = c\<lparr>cr_meta := (cr_meta c)\<lparr>om_Finalizers := fs\<rparr>\<rparr>
             in bindE (perform (Update c') (api_Update (r_Client r) c')) (\<lambda>_. returnE emptyResult))))
      else returnE emptyResult)"

text \<open>
  The normal path from step 3 on: apply the target, record its creation, apply or prune the
  auxiliary objects, mirror the status, and ask to be polled again.
\<close>

definition applyAndMirror :: "deps \<Rightarrow> ('s, 't, 'w) reconciler \<Rightarrow> ('s, 't) cr \<Rightarrow> string \<Rightarrow>
    unstructured option \<Rightarrow> (('s, 't) cr, 'w, Result) io" where
  "applyAndMirror D r c targetName existing =
     (let A = r_Adapter r; ns = om_Namespace (cr_meta c); name = om_Name (cr_meta c) in
      bindE (applyTarget r (a_BuildManifest A c targetName ns name)) (\<lambda>desired.
      bindE (if existing = None
             then perform (Eventf ''Normal'' ''TargetCreated'' ''Sync''
                    (a_ObjectKind A @ '' '' @ quote targetName @ '' created in namespace '' @ quote ns))
                    (\<lambda>w. (Inr (), w))
             else returnE ()) (\<lambda>_.
      bindE (applyExtraResources D r c targetName) (\<lambda>_.
        let status = a_ExtractStatus A (Some desired);
            c2 = fst (a_ApplyStatus A c targetName status)
        in bindE (perform (StatusUpdate c2) (api_StatusUpdate (r_Client r) c2)) (\<lambda>_.
             returnE \<lparr>Requeue = False,
                      RequeueAfter = (if ts_Ready status then 5 * Minute else 15 * Second)\<rparr>)))))"

text \<open>The normal path.\<close>

definition reconcileNormal :: "deps \<Rightarrow> ('s, 't, 'w) reconciler \<Rightarrow> ('s, 't) cr \<Rightarrow> string \<Rightarrow>
    (('s, 't) cr, 'w, Result) io" where
  "reconcileNormal D r c targetName =
     (if \<not> containsFinalizer D (om_Finalizers (cr_meta c)) FinalizerName
      then
        (let fs = addFinalizer D (om_Finalizers (cr_meta c)) FinalizerName;
             c' = c\<lparr>cr_meta := (cr_meta c)\<lparr>om_Finalizers := fs\<rparr>\<rparr>
         in bindE (perform (Update c') (api_Update (r_Client r) c'))
              (\<lambda>_. returnE \<lparr>Requeue = True, RequeueAfter = 0\<rparr>))
      else
        bindE (getTarget r (om_Namespace (cr_meta c)) targetName) (\<lambda>existing.
        bindE (defaultIngressClass r c) (\<lambda>c1.
          applyAndMirror D r c1 targetName existing)))"

definition Reconcile :: "deps \<Rightarrow> ('s, 't, 'w) reconciler \<Rightarrow> string \<Rightarrow> string \<Rightarrow>
    (('s, 't) cr, 'w, Result) io" where
  "Reconcile D r ns name =
     tryE (perform (GetCR ns name) (api_GetCR (r_Client r) ns name)) (\<lambda>res. case res of
       Inl e \<Rightarrow> if IsNotFound e then returnE emptyResult else throwE e
     | Inr c \<Rightarrow>
         (let targetName = a_TargetName (r_Adapter r) (om_Name (cr_meta c))
          in if om_DeletionTimestamp (cr_meta c) \<noteq> None
             then reconcileDelete D r c targetName
             else reconcileNormal D r c targetName))"

end
