(* ===== verification/Scripts.thy ===== *)
theory Scripts
  imports Reconciler
begin

section \<open>Scripted runs: the engine's straight-line parts\<close>

text \<open>
  The deletion path and the finalizer step make a fixed sequence of calls and stop at the
  first failure. \<open>follows m cs\<close> says so: the calls made are a prefix of \<open>cs\<close>, all of
  \<open>cs\<close> when \<open>m\<close> succeeds, and a failure ends the run. Scripts compose along \<open>bindE\<close>, so
  the script of the whole path is the concatenation of the scripts of its steps.
\<close>

definition follows :: "('c, 'w, 'a) io \<Rightarrow> 'c call list \<Rightarrow> bool" where
  "follows m cs \<longleftrightarrow>
     emits m (\<lambda>r evs. stops_at_failure r evs \<and> prefix (map fst evs) cs \<and>
                      (\<forall>x. r = Inr x \<longrightarrow> map fst evs = cs))"

lemma followsD:
  assumes "follows m cs" and "run m w = (r, evs)"
  shows "stops_at_failure r evs" and "prefix (map fst evs) cs"
    and "r = Inr x \<Longrightarrow> map fst evs = cs"
  using emits_run [OF assms(1) [unfolded follows_def] assms(2)] by auto

lemma follows_stops: "follows m cs \<Longrightarrow> emits m stops_at_failure"
  unfolding follows_def by (erule emits_mono) simp

lemma follows_calls: "follows m cs \<Longrightarrow> all_events (\<lambda>ev. fst ev \<in> set cs) m"
  unfolding follows_def all_events_def
  by (erule emits_mono) (metis imageI image_set set_mono_prefix subsetD)

lemma follows_returnE: "follows (returnE x) []"
  unfolding follows_def by (rule emits_returnE) (simp add: stops_at_failure_def)

lemma follows_perform: "follows (perform c f) [c]"
  unfolding follows_def by (rule emits_perform) (auto simp: stops_at_failure_def split: sum.split)

lemma follows_bindE:
  fixes m :: "('c, 'w, 'a) io" and f :: "'a \<Rightarrow> ('c, 'w, 'b) io"
  assumes m: "follows m cs" and f: "\<And>x. follows (f x) ds"
  shows "follows (bindE m f) (cs @ ds)"
  unfolding follows_def
proof (rule emits_bindE, rule emits_mono [OF m [unfolded follows_def]])
  fix r :: "error + 'a" and evs :: "'c event list"
  assume h: "stops_at_failure r evs \<and> prefix (map fst evs) cs \<and> (\<forall>x. r = Inr x \<longrightarrow> map fst evs = cs)"
  show "case r of
      Inl e \<Rightarrow> stops_at_failure (Inl e :: error + 'b) evs \<and> prefix (map fst evs) (cs @ ds) \<and>
        (\<forall>x::'b. Inl e = Inr x \<longrightarrow> map fst evs = cs @ ds)
    | Inr x \<Rightarrow> emits (f x) (\<lambda>r' evs'. stops_at_failure r' (evs @ evs') \<and>
        prefix (map fst (evs @ evs')) (cs @ ds) \<and> (\<forall>y. r' = Inr y \<longrightarrow> map fst (evs @ evs') = cs @ ds))"
  proof (cases r)
    case (Inl e)
    with h show ?thesis by (simp add: stops_at_failure_def)
  next
    case (Inr x)
    with h have "list_all tolerated evs" "map fst evs = cs" by (simp_all add: stops_at_failure_def)
    with Inr show ?thesis
      by (auto intro!: emits_mono [OF f [unfolded follows_def]] stops_at_failure_append)
  qed
qed

text \<open>A delete whose not-found answer counts as done.\<close>

lemma follows_delete:
  fixes d :: "'w \<Rightarrow> (error + 'a) \<times> 'w" and f :: "error + 'a \<Rightarrow> ('c, 'w, 'b) io"
  assumes "\<And>x. f (Inr x) = returnE (g x)" and "f (Inl NotFound) = returnE y"
    and "\<And>e. e \<noteq> NotFound \<Longrightarrow> f (Inl e) = throwE e"
  shows "follows (tryE (perform (Delete k ns n) d) f) [Delete k ns n]"
  unfolding follows_def
proof (rule emits_tryE, rule emits_perform)
  fix r :: "error + 'a"
  consider (ok) x where "r = Inr x" | (nf) "r = Inl NotFound" | (err) e where "r = Inl e" "e \<noteq> NotFound"
    by (cases r) auto
  then show "emits (f r) (\<lambda>r' evs'. stops_at_failure r' ([(Delete k ns n, outcome_of r)] @ evs') \<and>
      prefix (map fst ([(Delete k ns n, outcome_of r)] @ evs')) [Delete k ns n] \<and>
      (\<forall>x. r' = Inr x \<longrightarrow> map fst ([(Delete k ns n, outcome_of r)] @ evs') = [Delete k ns n]))"
    by cases (auto simp: assms stops_at_failure_def intro!: emits_returnE emits_throwE)
qed

lemma follows_deleteTarget:
  "follows (deleteTarget r ns n) [Delete (a_GVK (r_Adapter r)) ns n]"
  unfolding deleteTarget_def Let_def
  by (rule follows_delete [where g = "\<lambda>_. True" and y = False]) (simp_all add: IsNotFound_def)

lemma follows_deleteExtra: "follows (deleteExtra r g ns n) [Delete g ns n]"
  unfolding deleteExtra_def
  by (rule follows_delete [where g = "\<lambda>_. ()" and y = "()"]) (simp_all add: IsNotFound_def)

subsection \<open>The script of the deletion path\<close>

text \<open>
  The extras an adapter reports; the delete calls for those the operator owns; the label
  selector for the claims; and the whole cleanup.
\<close>

definition extras :: "('s, 't) adapter \<Rightarrow> ('s, 't) cr \<Rightarrow> string \<Rightarrow> ExtraResource list" where
  "extras A c t =
     (case a_ExtraResources A of
        None \<Rightarrow> []
      | Some er \<Rightarrow> er c t (om_Namespace (cr_meta c)) (om_Name (cr_meta c)))"

definition owned_extras :: "('s, 't) adapter \<Rightarrow> ('s, 't) cr \<Rightarrow> string \<Rightarrow> ExtraResource list" where
  "owned_extras A c t = filter (\<lambda>x. \<not> x_PatchOnly x) (extras A c t)"

definition pvc_calls :: "('s, 't) adapter \<Rightarrow> ('s, 't) cr \<Rightarrow> string \<Rightarrow> ('s, 't) cr call list" where
  "pvc_calls A c t =
     (case a_PVCLabelSelector A of
        None \<Rightarrow> []
      | Some sel \<Rightarrow> if sel c t = [] then [] else [DeleteAllPVCs (om_Namespace (cr_meta c)) (sel c t)])"

definition cleanup_calls :: "('s, 't) adapter \<Rightarrow> ('s, 't) cr \<Rightarrow> string \<Rightarrow> ('s, 't) cr call list" where
  "cleanup_calls A c t =
     (let ns = om_Namespace (cr_meta c) in
      Delete (a_GVK A) ns t #
      map (\<lambda>x. Delete (x_GVK x) ns (x_Name x)) (owned_extras A c t) @ pvc_calls A c t)"

text \<open>The resource with its finalizer list replaced.\<close>

definition with_finalizers :: "string list \<Rightarrow> ('s, 't) cr \<Rightarrow> ('s, 't) cr" where
  "with_finalizers fs c = c\<lparr>cr_meta := (cr_meta c)\<lparr>om_Finalizers := fs\<rparr>\<rparr>"

lemma with_finalizers_simps [simp]:
  "cr_spec (with_finalizers fs c) = cr_spec c" "cr_status (with_finalizers fs c) = cr_status c"
  "om_Finalizers (cr_meta (with_finalizers fs c)) = fs"
  "om_Name (cr_meta (with_finalizers fs c)) = om_Name (cr_meta c)"
  "om_Namespace (cr_meta (with_finalizers fs c)) = om_Namespace (cr_meta c)"
  "om_DeletionTimestamp (cr_meta (with_finalizers fs c)) = om_DeletionTimestamp (cr_meta c)"
  "om_Generation (cr_meta (with_finalizers fs c)) = om_Generation (cr_meta c)"
  by (simp_all add: with_finalizers_def)

lemma applyExtraResources_eq:
  "applyExtraResources D r c t = applyExtras D r (om_Namespace (cr_meta c)) (extras (r_Adapter r) c t)"
  by (simp add: applyExtraResources_def extras_def Let_def split: option.split)

lemma deleteExtraResources_eq:
  "deleteExtraResources r c t = deleteExtras r (om_Namespace (cr_meta c)) (extras (r_Adapter r) c t)"
  by (simp add: deleteExtraResources_def extras_def Let_def split: option.split)

lemma follows_deleteExtras:
  "follows (deleteExtras r ns xs)
     (map (\<lambda>x. Delete (x_GVK x) ns (x_Name x)) (filter (\<lambda>x. \<not> x_PatchOnly x) xs))"
proof (induction xs)
  case Nil
  show ?case by (simp add: follows_returnE)
next
  case (Cons x xs)
  then show ?case
    using follows_bindE [OF follows_deleteExtra [of r "x_GVK x" ns "x_Name x"], of "\<lambda>_. deleteExtras r ns xs"]
    by simp
qed

lemma follows_deleteExtraResources:
  "follows (deleteExtraResources r c t)
     (map (\<lambda>x. Delete (x_GVK x) (om_Namespace (cr_meta c)) (x_Name x)) (owned_extras (r_Adapter r) c t))"
  by (simp add: deleteExtraResources_eq owned_extras_def follows_deleteExtras)

lemma follows_deletePVCs: "follows (deletePVCs r c t) (pvc_calls (r_Adapter r) c t)"
  by (auto simp: deletePVCs_def pvc_calls_def Let_def
           intro: follows_returnE follows_perform split: option.split)

lemma follows_reconcileDelete:
  assumes "containsFinalizer D (om_Finalizers (cr_meta c)) FinalizerName"
  shows "follows (reconcileDelete D r c t)
           (cleanup_calls (r_Adapter r) c t @
            [Update (with_finalizers (removeFinalizer D (om_Finalizers (cr_meta c)) FinalizerName) c)])"
proof -
  let ?u = "with_finalizers (removeFinalizer D (om_Finalizers (cr_meta c)) FinalizerName) c"
  have upd: "follows (bindE (perform (Update ?u) (api_Update (r_Client r) ?u)) (\<lambda>_. returnE emptyResult)) [Update ?u]"
    using follows_bindE [OF follows_perform follows_returnE] by simp
  show ?thesis
    using follows_bindE [OF follows_deleteTarget
            follows_bindE [OF follows_deleteExtraResources
              follows_bindE [OF follows_deletePVCs upd]],
            of r "om_Namespace (cr_meta c)" t r c t r c t] assms
    by (simp add: reconcileDelete_def cleanup_calls_def Let_def with_finalizers_def)
qed

lemma follows_addFinalizer:
  assumes "\<not> containsFinalizer D (om_Finalizers (cr_meta c)) FinalizerName"
  shows "follows (reconcileNormal D r c t)
           [Update (with_finalizers (addFinalizer D (om_Finalizers (cr_meta c)) FinalizerName) c)]"
proof -
  let ?u = "with_finalizers (addFinalizer D (om_Finalizers (cr_meta c)) FinalizerName) c"
  have "follows (bindE (perform (Update ?u) (api_Update (r_Client r) ?u))
          (\<lambda>_. returnE \<lparr>Requeue = True, RequeueAfter = 0\<rparr>)) [Update ?u]"
    using follows_bindE [OF follows_perform follows_returnE] by simp
  with assms show ?thesis by (simp add: reconcileNormal_def Let_def with_finalizers_def)
qed

text \<open>
  Read backwards: once a call of the script shows up in the trace, every call before it has
  been made and was answered with success or a tolerated not-found.
\<close>

lemma follows_before:
  assumes "follows m (cs @ [c])" and "run m w = (r, evs)" and "c \<in> fst ` set evs" and "c \<notin> set cs"
  shows "\<exists>pre o'. evs = pre @ [(c, o')] \<and> map fst pre = cs \<and> list_all tolerated pre"
proof -
  have pfx: "prefix (map fst evs) (cs @ [c])" and stop: "stops_at_failure r evs"
    using followsD [OF assms(1,2)] by auto
  from pfx assms(3,4) have full: "map fst evs = cs @ [c]"
    by (metis image_set prefix_snoc set_mono_prefix subsetD)
  then obtain pre ev where evs: "evs = pre @ [ev]" by (cases evs rule: rev_cases) auto
  with full have "map fst pre = cs" "fst ev = c" by auto
  moreover from stop evs have "list_all tolerated pre"
    by (cases r) (auto simp: stops_at_failure_def)
  ultimately show ?thesis using evs by (metis prod.collapse)
qed

end
