(* ===== verification/AdapterSpec.thy ===== *)
theory AdapterSpec
  imports Scripts
begin

section \<open>The contract between the engine and a vendor integration\<close>

text \<open>
  The Go interface \<open>Adapter\<close> and its optional extensions state in prose what an integration
  promises: the manifest is the target object named and labelled as asked, every possible
  auxiliary object is listed on every call whether or not it is wanted, mirroring a status
  touches nothing else, the ingress class is only set where an ingress was requested. This
  theory states that contract as a locale and proves, once, what the engine guarantees for
  every adapter that keeps it. Each vendor theory interprets the locale on its own model.
\<close>

definition extra_id :: "ExtraResource \<Rightarrow> gvk \<times> string" where
  "extra_id x = (x_GVK x, x_Name x)"

definition object_id :: "unstructured \<Rightarrow> gvk \<times> string" where
  "object_id u = (u_gvk u, u_name u)"

text \<open>The resource the manifest is built from: \<open>cr\<close>, or \<open>cr\<close> with the class defaulted.\<close>

definition class_defaulted :: "('s, 't) adapter \<Rightarrow> ('s, 't) cr \<Rightarrow> ('s, 't) cr \<Rightarrow> bool" where
  "class_defaulted A c c1 \<longleftrightarrow>
     c1 = c \<or>
     (\<exists>rq setc cls. a_IngressClass A = Some (rq, setc) \<and> rq c = ('''', True) \<and> cls \<noteq> '''' \<and> setc c cls = Some c1)"

locale adapter =
  fixes A :: "('s, 't) adapter"
    and ready_of :: "'t \<Rightarrow> bool"
  assumes target_name: "a_TargetName A n = n"
    and manifest_id: "object_id (a_BuildManifest A c n ns owner) = (a_GVK A, n)"
    and manifest_namespace: "u_namespace (a_BuildManifest A c n ns owner) = ns"
    and manifest_labels:
      "map_of (u_labels (a_BuildManifest A c n ns owner)) ''app.kubernetes.io/managed-by'' = Some (a_FieldManager A)"
      "map_of (u_labels (a_BuildManifest A c n ns owner)) ''paas.cncp.nl/owner'' = Some owner"
    and extras_desired_id: "x \<in> set (extras A c t) \<Longrightarrow> x_Desired x = Some d \<Longrightarrow> object_id d = extra_id x"
    and extras_namespace:
      "x \<in> set (extras A c t) \<Longrightarrow> x_Desired x = Some d \<Longrightarrow> u_namespace d = om_Namespace (cr_meta c)"
    and extras_labels:
      "x \<in> set (extras A c t) \<Longrightarrow> x_Desired x = Some d \<Longrightarrow> \<not> x_PatchOnly x \<Longrightarrow>
       map_of (u_labels d) ''app.kubernetes.io/managed-by'' = Some (a_FieldManager A) \<and>
       map_of (u_labels d) ''paas.cncp.nl/owner'' = Some (om_Name (cr_meta c))"
    and extras_listed:
      "map (\<lambda>x. (extra_id x, x_PatchOnly x)) (extras A c t) =
       map (\<lambda>x. (extra_id x, x_PatchOnly x)) (extras A c' t)"
    and extras_distinct: "distinct (map extra_id (extras A c t))"
    and extras_not_target: "(a_GVK A, t) \<notin> set (map extra_id (extras A c t))"
    and patch_only_desired: "x \<in> set (extras A c t) \<Longrightarrow> x_PatchOnly x \<Longrightarrow> x_Desired x \<noteq> None"
    and apply_status_frame:
      "cr_meta (fst (a_ApplyStatus A c t s)) = cr_meta c"
      "cr_spec (fst (a_ApplyStatus A c t s)) = cr_spec c"
    and apply_status_ready: "ready_of (cr_status (fst (a_ApplyStatus A c t s))) = ts_Ready s"
    and ingress_set:
      "a_IngressClass A = Some (rq, setc) \<Longrightarrow> snd (rq c) \<Longrightarrow>
       \<exists>c'. setc c cls = Some c' \<and> cr_meta c' = cr_meta c \<and> cr_status c' = cr_status c \<and> rq c' = (cls, True)"
begin

lemma class_defaulted_frame:
  assumes "class_defaulted A c c1"
  shows "cr_meta c1 = cr_meta c" and "cr_status c1 = cr_status c"
proof -
  have "cr_meta c1 = cr_meta c \<and> cr_status c1 = cr_status c"
  proof (cases "c1 = c")
    case False
    with assms obtain rq setc cls where "a_IngressClass A = Some (rq, setc)" "rq c = ('''', True)"
      and "setc c cls = Some c1" by (auto simp: class_defaulted_def)
    with ingress_set [of rq setc c cls] show ?thesis by auto
  qed simp
  then show "cr_meta c1 = cr_meta c" and "cr_status c1 = cr_status c" by simp_all
qed

lemma extras_ids_stable: "map extra_id (extras A c t) = map extra_id (extras A c' t)"
proof -
  have "map fst (map (\<lambda>x. (extra_id x, x_PatchOnly x)) (extras A c t))
      = map fst (map (\<lambda>x. (extra_id x, x_PatchOnly x)) (extras A c' t))"
    by (simp only: extras_listed [of c t c'])
  then show ?thesis by (simp add: comp_def)
qed

text \<open>Which extras are owned by the operator depends on the target's name only.\<close>

lemma owned_ids_stable: "map extra_id (owned_extras A c t) = map extra_id (owned_extras A c' t)"
proof -
  have own: "map extra_id (owned_extras A d t)
      = map fst (filter (\<lambda>p. \<not> snd p) (map (\<lambda>x. (extra_id x, x_PatchOnly x)) (extras A d t)))" for d
    by (simp add: owned_extras_def filter_map comp_def)
  show ?thesis by (simp only: own extras_listed [of c t c'])
qed

lemma extra_unique:
  assumes "x \<in> set (extras A c t)" "y \<in> set (extras A c t)" "extra_id x = extra_id y"
  shows "x = y"
  using assms extras_distinct [of c t] by (auto simp: distinct_map inj_on_def)

end

subsection \<open>The normal path, call by call\<close>

lemma defaultIngressClass_emits:
  "emits (defaultIngressClass r c)
     (\<lambda>res evs. (\<forall>ev \<in> set evs. fst ev = ListIngressClasses) \<and>
                (\<forall>c1. res = Inr c1 \<longrightarrow> class_defaulted (r_Adapter r) c c1))"
  (is "emits _ ?P")
proof (cases "a_IngressClass (r_Adapter r)")
  case None
  then show ?thesis by (simp add: defaultIngressClass_def emits_returnE class_defaulted_def)
next
  case (Some p)
  obtain rq setc where p: "p = (rq, setc)" by (cases p)
  obtain cls req where rq: "rq c = (cls, req)" by (cases "rq c")
  show ?thesis
  proof (cases "\<not> req \<or> cls \<noteq> ''''")
    case True
    with Some p rq show ?thesis
      by (auto simp: defaultIngressClass_def class_defaulted_def intro: emits_returnE)
  next
    case False
    have "emits (resolveDefaultIngressClass r) (\<lambda>res evs. \<forall>ev \<in> set evs. fst ev = ListIngressClasses)"
      unfolding resolveDefaultIngressClass_def all_events_def [symmetric]
      by (intro emit_intros) simp
    then have "emits (bindE (resolveDefaultIngressClass r) (\<lambda>resolved.
        if resolved = '''' then returnE c
        else (case setc c resolved of None \<Rightarrow> throwE NilDeref | Some c' \<Rightarrow> returnE c'))) ?P"
      using Some p rq False
      by (auto intro!: emits_bindE emits_returnE emits_throwE elim!: emits_mono
               simp: class_defaulted_def split: sum.split option.split)
    with Some p rq False show ?thesis by (simp add: defaultIngressClass_def)
  qed
qed

text \<open>The calls the normal path may make for a resource that already carries the finalizer.\<close>

fun normal_call :: "('s, 't) adapter \<Rightarrow> ('s, 't) cr \<Rightarrow> string \<Rightarrow> ('s, 't) cr call \<Rightarrow> bool" where
  "normal_call A c t (Get g ns n) =
     (ns = om_Namespace (cr_meta c) \<and>
      (g = a_GVK A \<or>
       (\<exists>c1. class_defaulted A c c1 \<and> (\<exists>x \<in> set (extras A c1 t). x_PatchOnly x \<and> x_GVK x = g))))"
| "normal_call A c t (Patch u fm force) =
     (fm = a_FieldManager A \<and> force \<and>
      (\<exists>c1. class_defaulted A c c1 \<and>
        (u = a_BuildManifest A c1 t (om_Namespace (cr_meta c)) (om_Name (cr_meta c)) \<or>
         (\<exists>x \<in> set (extras A c1 t). x_Desired x = Some u))))"
| "normal_call A c t (Delete g ns n) =
     (g = podGVK \<or>
      ns = om_Namespace (cr_meta c) \<and>
      (\<exists>c1. class_defaulted A c c1 \<and>
         (\<exists>x \<in> set (extras A c1 t). x_Desired x = None \<and> extra_id x = (g, n))))"
| "normal_call A c t (StatusUpdate c2) =
     (\<exists>c1 s. class_defaulted A c c1 \<and> c2 = fst (a_ApplyStatus A c1 t s))"
| "normal_call A c t (ListPods ns sel) = (ns = om_Namespace (cr_meta c) \<and> sel \<noteq> [])"
| "normal_call A c t ListIngressClasses = True"
| "normal_call A c t (Eventf ty reason act msg) = (ty = ''Normal'' \<and> reason = ''TargetCreated'')"
| "normal_call A c t (Update _) = False"
| "normal_call A c t (GetCR _ _) = False"
| "normal_call A c t (DeleteAllPVCs _ _) = False"

lemma GetTarget_events:
  "(\<And>o'. \<phi> (Get g ns n, o')) \<Longrightarrow> all_events \<phi> (GetTarget cl g ns n)"
  unfolding GetTarget_def by (intro emit_intros) (auto split: sum.split)

lemma deleteStalePods_events:
  "(\<And>pod o'. pod \<in> set pods \<Longrightarrow> \<phi> (Delete podGVK (pod_Namespace pod) (pod_Name pod), o')) \<Longrightarrow>
   all_events \<phi> (deleteStalePods r rv pods)"
proof (induction pods)
  case (Cons pod pods)
  then have IH: "all_events \<phi> (deleteStalePods r rv pods)" by simp
  from Cons.prems have "all_events \<phi> (tryE (perform (Delete podGVK (pod_Namespace pod) (pod_Name pod))
        (api_Delete (r_Client r) podGVK (pod_Namespace pod) (pod_Name pod)))
      (\<lambda>res. case res of Inl e \<Rightarrow> if \<not> IsNotFound e then throwE e else deleteStalePods r rv pods
                        | Inr _ \<Rightarrow> deleteStalePods r rv pods))"
    by (intro emit_intros) (auto simp: IH split: sum.split)
  with IH show ?case by simp
qed simp

lemma unstick_events:
  assumes "\<And>n o'. \<phi> (Get statefulSetGVK ns n, o')" and "\<And>sel o'. sel \<noteq> [] \<Longrightarrow> \<phi> (ListPods ns sel, o')"
    and "\<And>ns n o'. \<phi> (Delete podGVK ns n, o')"
  shows "all_events \<phi> (unstickStatefulSetRollout D r ns n)"
  unfolding unstickStatefulSetRollout_def Let_def
  by (intro emit_intros GetTarget_events assms)
     (auto intro!: emit_intros deleteStalePods_events assms split: option.split)

lemma applyExtras_events:
  assumes get: "\<And>x n o'. x \<in> set xs \<Longrightarrow> x_PatchOnly x \<Longrightarrow> \<phi> (Get (x_GVK x) ns n, o')" and pods: "\<And>sel o'. sel \<noteq> [] \<Longrightarrow> \<phi> (ListPods ns sel, o')"
    and pod: "\<And>ns n o'. \<phi> (Delete podGVK ns n, o')"
    and patch: "\<And>x d o'. x \<in> set xs \<Longrightarrow> x_Desired x = Some d \<Longrightarrow>
                  \<phi> (Patch d (a_FieldManager (r_Adapter r)) True, o')"
    and delete: "\<And>x o'. x \<in> set xs \<Longrightarrow> x_Desired x = None \<Longrightarrow> \<phi> (Delete (x_GVK x) ns (x_Name x), o')"
  shows "all_events \<phi> (applyExtras D r ns xs)"
  using get patch delete
proof (induction xs)
  case (Cons x xs)
  have IH: "all_events \<phi> (applyExtras D r ns xs)"
    by (rule Cons.IH) (auto intro: Cons.prems)
  show ?case
  proof (cases "x_Desired x")
    case None
    then have "all_events \<phi> (deleteExtra r (x_GVK x) ns (x_Name x))"
      using Cons.prems(3) [of x] unfolding deleteExtra_def by (intro emit_intros) (auto split: sum.split)
    with None IH show ?thesis by (auto intro: emit_intros)
  next
    case (Some d)
    then have "all_events \<phi> (applyTarget r d)"
      using Cons.prems(2) [of x d] by (auto simp: applyTarget_def Let_def intro: emit_intros)
    with Some IH show ?thesis
      using Cons.prems(1) [of x]
      by (auto simp: Let_def intro!: emit_intros GetTarget_events unstick_events pods pod split: option.split)
  qed
qed simp

context adapter
begin

lemma applyAndMirror_calls:
  assumes c1: "class_defaulted A c c1" and A: "r_Adapter r = A"
  shows "all_events (\<lambda>ev. normal_call A c t (fst ev)) (applyAndMirror D r c1 t ex)"
proof -
  note meta = class_defaulted_frame [OF c1]
  have "all_events (\<lambda>ev. normal_call A c t (fst ev)) (applyExtraResources D r c1 t)"
    unfolding applyExtraResources_eq A meta
    using c1 by (intro applyExtras_events) (auto simp: A extra_id_def)
  then show ?thesis
    using c1 unfolding applyAndMirror_def applyTarget_def Let_def A meta
    by (intro emit_intros) (auto intro: emit_intros)
qed

lemma normal_calls:
  assumes fin: "containsFinalizer D (om_Finalizers (cr_meta c)) FinalizerName" and A: "r_Adapter r = A"
  shows "all_events (\<lambda>ev. normal_call A c t (fst ev)) (reconcileNormal D r c t)"
proof -
  have default: "emits (defaultIngressClass r c) (\<lambda>res evs.
      (\<forall>ev \<in> set evs. normal_call A c t (fst ev)) \<and> (\<forall>c1. res = Inr c1 \<longrightarrow> class_defaulted A c c1))"
    by (rule emits_mono [OF defaultIngressClass_emits]) (auto simp: A)
  have "all_events (\<lambda>ev. normal_call A c t (fst ev))
      (bindE (defaultIngressClass r c) (\<lambda>c1. applyAndMirror D r c1 t ex))" for ex
    by (rule all_events_bindE_result [OF default applyAndMirror_calls [OF _ A]])
  then show ?thesis
    using fin unfolding reconcileNormal_def getTarget_def
    by (simp add: A all_events_bindE [OF GetTarget_events])
qed

end

end
