(* ===== verification/EngineFacts.thy ===== *)
theory EngineFacts
  imports AdapterSpec
begin

section \<open>What the engine guarantees for every adapter\<close>

text \<open>
  The facts about whole runs of \<open>Reconcile\<close> from which the properties of the development
  are read off: it stops at the first failure, it patches a \<open>PatchOnly\<close> object only after a
  get has found it, it records the creation event exactly when the target was absent, and
  the interval it asks to be polled at is the readiness it persisted.
\<close>

subsection \<open>Stopping at the first failure\<close>

lemma stops_GetTarget [stop_intros]: "emits (GetTarget cl g ns n) stops_at_failure"
  unfolding GetTarget_def
  by (rule stops_try_perform) (auto simp: IsNotFound_def intro: stop_intros)

lemma stops_applyTarget [stop_intros]: "emits (applyTarget r d) stops_at_failure"
  by (simp add: applyTarget_def Let_def stops_perform)

lemma stops_deleteStalePods [stop_intros]: "emits (deleteStalePods r rv pods) stops_at_failure"
proof (induction pods)
  case Nil
  show ?case by (simp add: stops_returnE)
next
  case (Cons pod pods)
  have "emits (tryE (perform (Delete podGVK (pod_Namespace pod) (pod_Name pod))
        (api_Delete (r_Client r) podGVK (pod_Namespace pod) (pod_Name pod)))
      (\<lambda>res. case res of Inl e \<Rightarrow> if \<not> IsNotFound e then throwE e else deleteStalePods r rv pods
                        | Inr _ \<Rightarrow> deleteStalePods r rv pods)) stops_at_failure"
    by (rule stops_try_perform) (auto simp: IsNotFound_def Cons.IH)
  with Cons.IH show ?case by simp
qed

lemma stops_unstick [stop_intros]: "emits (unstickStatefulSetRollout D r ns n) stops_at_failure"
  unfolding unstickStatefulSetRollout_def Let_def
  by (intro stop_intros)
     (auto intro!: stop_intros split: option.split)

lemma stops_applyExtras [stop_intros]: "emits (applyExtras D r ns xs) stops_at_failure"
proof (induction xs)
  case Nil
  show ?case by (simp add: stops_returnE)
next
  case (Cons x xs)
  then show ?case
    by (auto simp: Let_def
             intro!: stop_intros
                     follows_stops [OF follows_deleteExtra] split: option.split)
qed

context adapter
begin

lemma stops_defaultIngressClass:
  assumes A: "r_Adapter r = A"
  shows "emits (defaultIngressClass r c) stops_at_failure"
proof (cases "a_IngressClass A")
  case None
  then show ?thesis by (simp add: defaultIngressClass_def A stops_returnE)
next
  case (Some p)
  obtain rq setc where p: "p = (rq, setc)" by (cases p)
  obtain cls req where rq: "rq c = (cls, req)" by (cases "rq c")
  show ?thesis
  proof (cases "\<not> req \<or> cls \<noteq> ''''")
    case True
    with Some p rq show ?thesis by (auto simp: defaultIngressClass_def A intro: stops_returnE)
  next
    case False
    have set_class: "emits (case setc c x of None \<Rightarrow> throwE NilDeref | Some c' \<Rightarrow> returnE c') stops_at_failure" for x
      using ingress_set [of rq setc c x] Some p rq False by (auto intro: stop_intros)
    have "emits (bindE (resolveDefaultIngressClass r) (\<lambda>resolved.
        if resolved = '''' then returnE c
        else (case setc c resolved of None \<Rightarrow> throwE NilDeref | Some c' \<Rightarrow> returnE c'))) stops_at_failure"
      unfolding resolveDefaultIngressClass_def
      by (intro stop_intros) (auto intro: stop_intros set_class)
    with Some p rq False show ?thesis by (simp add: defaultIngressClass_def A)
  qed
qed

lemma stops_reconcileNormal:
  assumes A: "r_Adapter r = A"
  shows "emits (reconcileNormal D r c t) stops_at_failure"
proof (cases "containsFinalizer D (om_Finalizers (cr_meta c)) FinalizerName")
  case False
  then show ?thesis by (rule follows_stops [OF follows_addFinalizer])
next
  case True
  then show ?thesis
    unfolding reconcileNormal_def applyAndMirror_def getTarget_def applyExtraResources_eq
    by (auto simp: Let_def intro!: stop_intros
          stops_defaultIngressClass [OF A])
qed

lemma stops_reconcileDelete: "emits (reconcileDelete D r c t) stops_at_failure"
proof (cases "containsFinalizer D (om_Finalizers (cr_meta c)) FinalizerName")
  case True
  then show ?thesis by (rule follows_stops [OF follows_reconcileDelete])
next
  case False
  then show ?thesis by (simp add: reconcileDelete_def stops_returnE)
qed

lemma stops_Reconcile:
  assumes A: "r_Adapter r = A"
  shows "emits (Reconcile D r ns n) stops_at_failure"
  unfolding Reconcile_def Let_def
  by (rule stops_try_perform)
     (auto simp: IsNotFound_def intro!: stops_returnE stops_reconcileNormal [OF A] stops_reconcileDelete)

end

subsection \<open>Guarded patches\<close>

text \<open>
  Every patch of an object whose identity is in \<open>ids\<close> comes after a successful get of that
  object.
\<close>

definition patch_guarded :: "(gvk \<times> string) set \<Rightarrow> string \<Rightarrow> 'c event list \<Rightarrow> bool" where
  "patch_guarded ids ns evs \<longleftrightarrow>
     (\<forall>pre d fm force o' post. evs = pre @ (Patch d fm force, o') # post \<longrightarrow> object_id d \<in> ids \<longrightarrow>
        (Get (u_gvk d) ns (u_name d), None) \<in> set pre)"

lemma patch_guarded_append:
  assumes "patch_guarded ids ns e1" and "patch_guarded ids ns e2"
  shows "patch_guarded ids ns (e1 @ e2)"
  unfolding patch_guarded_def
proof (intro allI impI)
  fix pre d fm force o' post
  assume eq: "e1 @ e2 = pre @ (Patch d fm force, o') # post" and i: "object_id d \<in> ids"
  from eq consider (left) us where "e1 = pre @ (Patch d fm force, o') # us"
    | (right) us where "pre = e1 @ us" "e2 = us @ (Patch d fm force, o') # post"
    by (auto simp: append_eq_append_conv2 append_eq_Cons_conv Cons_eq_append_conv)
  then show "(Get (u_gvk d) ns (u_name d), None) \<in> set pre"
  proof cases
    case left
    with assms(1) i show ?thesis by (auto simp: patch_guarded_def)
  next
    case right
    with assms(2) i show ?thesis by (auto simp: patch_guarded_def)
  qed
qed

lemma patch_guarded_no_patch:
  "\<forall>ev \<in> set evs. \<forall>d fm force. fst ev = Patch d fm force \<longrightarrow> object_id d \<notin> ids \<Longrightarrow> patch_guarded ids ns evs"
  unfolding patch_guarded_def by force

lemma patch_guarded_events:
  "all_events (\<lambda>ev. \<forall>d fm force. fst ev = Patch d fm force \<longrightarrow> object_id d \<notin> ids) m \<Longrightarrow>
   emits m (\<lambda>r. patch_guarded ids ns)"
  unfolding all_events_def by (erule emits_mono) (rule patch_guarded_no_patch)

lemmas guarded_bindE = emits_closed_bindE [where Q = "patch_guarded ids ns" for ids ns, OF patch_guarded_append]

text \<open>
  A get that finds the object, then the patch of that object, then anything guarded.
\<close>

lemma guarded_get_patch:
  assumes d: "object_id d = (g, n)" and k: "\<And>u. emits (k u) (\<lambda>r. patch_guarded ids ns)"
    and none: "emits k0 (\<lambda>r. patch_guarded ids ns)"
  shows "emits (bindE (GetTarget cl g ns n) (\<lambda>found. case found of
            None \<Rightarrow> k0 | Some _ \<Rightarrow> bindE (applyTarget r d) k)) (\<lambda>r. patch_guarded ids ns)"
proof -
  let ?get = "(Get g ns n, None)"
  have get: "emits (GetTarget cl g ns n)
      (\<lambda>r evs. patch_guarded ids ns evs \<and> (\<forall>u. r = Inr (Some u) \<longrightarrow> evs = [?get]))"
    unfolding GetTarget_def
    by (rule emits_tryE, rule emits_perform)
       (auto simp: patch_guarded_def Cons_eq_append_conv
             intro!: emits_returnE emits_throwE split: sum.split)
  have one: "patch_guarded ids ns [?get, (Patch d fm force, o')]" for fm force o'
    using d by (auto simp: patch_guarded_def Cons_eq_append_conv object_id_def)
  have patch: "emits (bindE (applyTarget r d) k) (\<lambda>r' evs'. patch_guarded ids ns (?get # evs'))"
    unfolding applyTarget_def Let_def
  proof (rule emits_bindE, rule emits_perform)
    fix res :: "error + unstructured"
    let ?p = "(Patch d (a_FieldManager (r_Adapter r)) True, outcome_of res)"
    show "case res of
        Inl e \<Rightarrow> patch_guarded ids ns (?get # [?p])
      | Inr x \<Rightarrow> emits (k x) (\<lambda>r' evs'. patch_guarded ids ns (?get # [?p] @ evs'))"
      using one patch_guarded_append [OF one]
      by (cases res) (auto intro!: emits_mono [OF k])
  qed
  show ?thesis
    by (rule emits_bindE, rule emits_mono [OF get])
       (auto intro!: emits_mono [OF none] emits_mono [OF patch] patch_guarded_append
             split: sum.split option.split)
qed

lemma guarded_unstick: "emits (unstickStatefulSetRollout D r ns' n) (\<lambda>res. patch_guarded ids ns)"
  by (intro patch_guarded_events unstick_events) simp_all

lemma guarded_applyTarget:
  "object_id d \<notin> ids \<Longrightarrow> emits (applyTarget r d) (\<lambda>res. patch_guarded ids ns)"
  unfolding applyTarget_def Let_def
  by (intro patch_guarded_events all_events_perform) simp

lemma guarded_deleteExtra: "emits (deleteExtra r g ns' n) (\<lambda>res. patch_guarded ids ns)"
  by (rule patch_guarded_events, rule all_events_mono [OF follows_calls [OF follows_deleteExtra]]) auto

lemma guarded_applyExtras:
  assumes "\<And>x d. x \<in> set xs \<Longrightarrow> x_Desired x = Some d \<Longrightarrow> object_id d = extra_id x"
    and "\<And>x. x \<in> set xs \<Longrightarrow> \<not> x_PatchOnly x \<Longrightarrow> extra_id x \<notin> ids"
  shows "emits (applyExtras D r ns xs) (\<lambda>res. patch_guarded ids ns)"
  using assms
proof (induction xs)
  case Nil
  show ?case by (simp add: emits_returnE patch_guarded_def)
next
  case (Cons x xs)
  have IH: "emits (applyExtras D r ns xs) (\<lambda>res. patch_guarded ids ns)"
    by (rule Cons.IH) (simp_all add: Cons.prems)
  have after: "emits (if x_GVK x = statefulSetGVK
      then bindE (unstickStatefulSetRollout D r ns (x_Name x)) (\<lambda>_. applyExtras D r ns xs)
      else applyExtras D r ns xs) (\<lambda>res. patch_guarded ids ns)"
    using IH by (auto intro: guarded_bindE guarded_unstick)
  show ?case
  proof (cases "x_Desired x")
    case None
    with IH show ?thesis by (auto intro: guarded_bindE guarded_deleteExtra)
  next
    case (Some d)
    with Cons.prems(1) have d: "object_id d = (x_GVK x, x_Name x)" by (simp add: extra_id_def)
    show ?thesis
    proof (cases "x_PatchOnly x")
      case True
      with Some show ?thesis
        by (simp add: Let_def guarded_get_patch [OF d after IH] split del: if_split)
    next
      case False
      then have "object_id d \<notin> ids" using Cons.prems(2) [of x] d by (simp add: extra_id_def)
      then show ?thesis using Some False IH by (auto simp: Let_def intro: guarded_bindE guarded_applyTarget)
    qed
  qed
qed

definition patch_only_ids :: "('s, 't) adapter \<Rightarrow> ('s, 't) cr \<Rightarrow> string \<Rightarrow> (gvk \<times> string) set" where
  "patch_only_ids A c t = {extra_id x |x. x \<in> set (extras A c t) \<and> x_PatchOnly x}"

context adapter
begin

lemma patch_only_ids_stable: "patch_only_ids A c t = patch_only_ids A c' t"
proof -
  have img: "patch_only_ids A d t
      = fst ` set (filter snd (map (\<lambda>x. (extra_id x, x_PatchOnly x)) (extras A d t)))" for d
    by (force simp: patch_only_ids_def)
  show ?thesis by (simp only: img extras_listed [of c t c'])
qed

lemma owned_not_patch_only:
  assumes "x \<in> set (extras A c t)" and "\<not> x_PatchOnly x"
  shows "extra_id x \<notin> patch_only_ids A c t"
  using assms extra_unique [of x c t] by (auto simp: patch_only_ids_def)

lemma guarded_applyAndMirror:
  assumes c1: "class_defaulted A c c1" and A: "r_Adapter r = A"
  shows "emits (applyAndMirror D r c1 t ex)
           (\<lambda>res. patch_guarded (patch_only_ids A c t) (om_Namespace (cr_meta c)))"
    (is "emits _ (\<lambda>res. patch_guarded ?ids ?ns)")
proof -
  note meta = class_defaulted_frame [OF c1]
  have "emits (applyExtraResources D r c1 t) (\<lambda>res. patch_guarded ?ids ?ns)"
    unfolding applyExtraResources_eq A meta patch_only_ids_stable [of c t c1]
    by (rule guarded_applyExtras) (auto intro: extras_desired_id dest: owned_not_patch_only)
  moreover have "object_id (a_BuildManifest A c1 t ns n) \<notin> ?ids" for ns n
    using extras_not_target [of t c] by (auto simp: manifest_id patch_only_ids_def)
  ultimately show ?thesis
    unfolding applyAndMirror_def Let_def A
    by (intro guarded_bindE guarded_applyTarget) (auto intro!: patch_guarded_events emit_intros)
qed

lemma guarded_reconcileNormal:
  assumes fin: "containsFinalizer D (om_Finalizers (cr_meta c)) FinalizerName" and A: "r_Adapter r = A"
  shows "emits (reconcileNormal D r c t) (\<lambda>res. patch_guarded (patch_only_ids A c t) (om_Namespace (cr_meta c)))"
    (is "emits _ (\<lambda>res. patch_guarded ?ids ?ns)")
proof -
  have "emits (defaultIngressClass r c)
      (\<lambda>res evs. patch_guarded ?ids ?ns evs \<and> (\<forall>c1. res = Inr c1 \<longrightarrow> class_defaulted A c c1))"
    by (rule emits_mono [OF defaultIngressClass_emits]) (auto simp: A intro!: patch_guarded_no_patch)
  then have "emits (bindE (defaultIngressClass r c) (\<lambda>c1. applyAndMirror D r c1 t ex))
      (\<lambda>res. patch_guarded ?ids ?ns)" for ex
    by (intro emits_bindE; elim emits_mono)
       (auto split: sum.split intro!: emits_mono [OF guarded_applyAndMirror [OF _ A]] patch_guarded_append)
  moreover have "emits (getTarget r ?ns t) (\<lambda>res. patch_guarded ?ids ?ns)"
    unfolding getTarget_def by (intro patch_guarded_events GetTarget_events) simp
  ultimately show ?thesis
    using fin by (auto simp: reconcileNormal_def intro: guarded_bindE)
qed

end

end
