(* ===== verification/EngineRuns.thy ===== *)
theory EngineRuns
  imports EngineFacts
begin

section \<open>Whole runs of Reconcile\<close>

subsection \<open>From the paths to the run\<close>

definition reconcilePath :: "deps \<Rightarrow> ('s, 't, 'w) reconciler \<Rightarrow> ('s, 't) cr \<Rightarrow>
    (('s, 't) cr, 'w, Result) io" where
  "reconcilePath D r c =
     (let t = a_TargetName (r_Adapter r) (om_Name (cr_meta c))
      in if om_DeletionTimestamp (cr_meta c) \<noteq> None then reconcileDelete D r c t else reconcileNormal D r c t)"

text \<open>The resource a run works on: what the first get returned.\<close>

definition fetched :: "('s, 't, 'w) reconciler \<Rightarrow> string \<Rightarrow> string \<Rightarrow> 'w \<Rightarrow> ('s, 't) cr \<Rightarrow> bool" where
  "fetched r ns n w c \<longleftrightarrow> fst (api_GetCR (r_Client r) ns n w) = Inr c"

lemma run_Reconcile_fetched:
  assumes f: "fetched r ns n w c" and run: "run (Reconcile D r ns n) w = (res, evs)"
    and path: "emits (reconcilePath D r c) P"
  shows "\<exists>evs'. evs = (GetCR ns n, None) # evs' \<and> P res evs'"
proof -
  obtain w1 where get: "api_GetCR (r_Client r) ns n w = (Inr c, w1)"
    using f by (metis fetched_def prod.collapse)
  let ?s = "\<lparr>st_world = w1, st_trace = [(GetCR ns n, None)]\<rparr>"
  have eq: "Reconcile D r ns n \<lparr>st_world = w, st_trace = []\<rparr> = reconcilePath D r c ?s"
    using get by (simp add: Reconcile_def reconcilePath_def io_defs Let_def)
  from path [unfolded emits_def, rule_format, of ?s]
  obtain evs' where "st_trace (snd (reconcilePath D r c ?s)) = [(GetCR ns n, None)] @ evs'"
    and "P (fst (reconcilePath D r c ?s)) evs'" by auto
  moreover have "fst (reconcilePath D r c ?s) = res" "st_trace (snd (reconcilePath D r c ?s)) = evs"
    using run eq by (auto simp: run_def split: prod.splits)
  ultimately show ?thesis by auto
qed

lemma run_Reconcile_not_fetched:
  assumes "fst (api_GetCR (r_Client r) ns n w) = Inl e"
  shows "run (Reconcile D r ns n) w =
    (if e = NotFound then Inr emptyResult else Inl e, [(GetCR ns n, Some e)])"
  using assms by (cases "api_GetCR (r_Client r) ns n w")
    (auto simp: run_def Reconcile_def io_defs IsNotFound_def)

lemma follows_before_emits:
  assumes "follows m (cs @ [c])" and "c \<notin> set cs"
  shows "emits m (\<lambda>r evs. c \<in> fst ` set evs \<longrightarrow>
           (\<exists>pre o'. evs = pre @ [(c, o')] \<and> map fst pre = cs \<and> list_all tolerated pre))"
proof (rule emits_mono [OF assms(1) [unfolded follows_def]], intro impI, elim conjE)
  fix r evs
  assume stop: "stops_at_failure r evs" and pfx: "prefix (map fst evs) (cs @ [c])" and "c \<in> fst ` set evs"
  then have full: "map fst evs = cs @ [c]"
    using assms(2) by (metis image_set prefix_snoc set_mono_prefix subsetD)
  then obtain pre ev where evs: "evs = pre @ [ev]" by (cases evs rule: rev_cases) auto
  from stop evs have tol: "list_all tolerated pre"
    by (cases r) (auto simp: stops_at_failure_def)
  from full evs have "map fst pre = cs" "ev = (c, snd ev)" by (auto simp: prod_eq_iff)
  with evs tol show "\<exists>pre o'. evs = pre @ [(c, o')] \<and> map fst pre = cs \<and> list_all tolerated pre"
    by blast
qed

lemma update_not_in_cleanup: "Update u \<notin> set (cleanup_calls A c t)"
  by (auto simp: cleanup_calls_def pvc_calls_def Let_def split: option.splits if_splits)

text \<open>A script whose last call is an update, and the only one.\<close>

lemma follows_last:
  assumes "follows m (cs @ [Update v])" and cs: "\<And>u. Update u \<notin> set cs"
  shows "emits m (\<lambda>r evs. \<forall>u o'. (Update u, o') \<in> set evs \<longrightarrow>
           u = v \<and> (\<exists>pre. evs = pre @ [(Update u, o')] \<and> map fst pre = cs \<and> list_all tolerated pre))"
proof (rule emits_mono [OF emits_conj [OF follows_calls [OF assms(1), unfolded all_events_def]
         follows_before_emits [OF assms(1) cs]]], intro allI impI, elim conjE)
  fix r evs u o'
  assume calls: "\<forall>ev\<in>set evs. fst ev \<in> set (cs @ [Update v])" and ev: "(Update u, o') \<in> set evs"
    and before: "Update v \<in> fst ` set evs \<longrightarrow>
      (\<exists>pre o'. evs = pre @ [(Update v, o')] \<and> map fst pre = cs \<and> list_all tolerated pre)"
  from calls ev cs have u: "u = v" by fastforce
  with ev have "Update v \<in> fst ` set evs" by force
  with before obtain pre o2 where pre: "evs = pre @ [(Update v, o2)]" "map fst pre = cs" "list_all tolerated pre"
    by blast
  have "(Update v, o') \<notin> set pre" using pre(2) cs [of v] by (metis fst_conv image_eqI image_set)
  with ev u pre(1) have "o' = o2" by auto
  with u pre show "u = v \<and> (\<exists>pre. evs = pre @ [(Update u, o')] \<and> map fst pre = cs \<and> list_all tolerated pre)"
    by blast
qed

lemma follows_any: "follows m cs \<Longrightarrow> emits m (\<lambda>r evs. True)"
  unfolding follows_def by (erule emits_mono) simp

lemma reconcileDelete_emptyResult:
  "emits (reconcileDelete D r c t) (\<lambda>res evs. \<forall>x. res = Inr x \<longrightarrow> x = emptyResult)"
proof -
  have upd: "emits (bindE (perform (Update u) (api_Update (r_Client r) u)) (\<lambda>_. returnE emptyResult))
      (\<lambda>res evs. \<forall>x. res = Inr x \<longrightarrow> x = emptyResult)" for u
    by (rule emits_bind [OF follows_any [OF follows_perform]]) (simp_all add: emits_returnE)
  show ?thesis
    unfolding reconcileDelete_def Let_def
    by (auto intro!: emits_returnE emits_bind [OF follows_any [OF follows_deleteTarget]]
          emits_bind [OF follows_any [OF follows_deleteExtraResources]]
          emits_bind [OF follows_any [OF follows_deletePVCs]] upd)
qed

text \<open>An update that is tolerated has succeeded.\<close>

lemma last_update_success:
  "list_all tolerated evs \<Longrightarrow> map fst evs = cs @ [Update u] \<Longrightarrow> snd (last evs) = None"
  by (cases evs rule: rev_cases) (auto simp: prod_eq_iff elim: tolerated.elims)

subsection \<open>The last event, and the creation event\<close>

definition is_creation :: "'c event \<Rightarrow> bool" where
  "is_creation ev \<longleftrightarrow> (case fst ev of Eventf _ _ _ _ \<Rightarrow> True | _ \<Rightarrow> False)"

definition creations :: "'c event list \<Rightarrow> nat" where
  "creations evs = length (filter is_creation evs)"

lemma creations_append [simp]: "creations (e1 @ e2) = creations e1 + creations e2"
  by (simp add: creations_def)

lemma creations_Nil [simp]: "creations [] = 0"
  by (simp add: creations_def)

lemma creations_0_if: "\<forall>ev \<in> set evs. \<not> is_creation ev \<Longrightarrow> creations evs = 0"
  by (simp add: creations_def filter_empty_conv)

lemma no_creation: "all_events (\<lambda>ev. \<not> is_creation ev) m \<Longrightarrow> emits m (\<lambda>r evs. creations evs = 0)"
  unfolding all_events_def by (erule emits_mono) (rule creations_0_if)

lemma no_creation_applyExtras: "emits (applyExtras D r ns xs) (\<lambda>res evs. creations evs = 0)"
  by (intro no_creation applyExtras_events) (simp_all add: is_creation_def)

lemma no_creation_applyTarget: "emits (applyTarget r d) (\<lambda>res evs. creations evs = 0)"
  unfolding applyTarget_def Let_def by (intro no_creation all_events_perform) (simp add: is_creation_def)

text \<open>
  A successful run of the tail of the normal path ends with the status update, asks to be
  polled at the interval that belongs to the status it applied, and has recorded the
  creation once or not at all.
\<close>

definition poll_result :: "bool \<Rightarrow> Result" where
  "poll_result ready = \<lparr>Requeue = False, RequeueAfter = (if ready then 5 * Minute else 15 * Second)\<rparr>"

lemma applyAndMirror_result:
  "emits (applyAndMirror D r c t ex) (\<lambda>res evs.
     creations evs \<le> (if ex = None then 1 else 0) \<and>
     (\<forall>x. res = Inr x \<longrightarrow>
        creations evs = (if ex = None then 1 else 0) \<and>
        (\<exists>d pre. evs = pre @ [(StatusUpdate (fst (a_ApplyStatus (r_Adapter r) c t
                                   (a_ExtractStatus (r_Adapter r) (Some d)))), None)] \<and>
                 x = poll_result (ts_Ready (a_ExtractStatus (r_Adapter r) (Some d))))))"
proof -
  let ?st = "\<lambda>d. a_ExtractStatus (r_Adapter r) (Some d)"
  let ?c2 = "\<lambda>d. fst (a_ApplyStatus (r_Adapter r) c t (?st d))"
  have event: "emits (if ex = None
        then perform (Eventf ''Normal'' ''TargetCreated'' ''Sync'' msg) (\<lambda>w. (Inr (), w))
        else returnE ()) (\<lambda>res evs. creations evs = (if ex = None then 1 else 0))" for msg
    by (auto intro!: emits_perform emits_returnE simp: creations_def is_creation_def)
  have last: "emits (bindE (perform (StatusUpdate (?c2 d)) (api_StatusUpdate (r_Client r) (?c2 d))) (\<lambda>_. returnE x))
      (\<lambda>res evs. creations evs = 0 \<and> (\<forall>y. res = Inr y \<longrightarrow> y = x \<and> evs = [(StatusUpdate (?c2 d), None)]))"
    for d and x :: Result
    by (rule emits_bind [where P = "\<lambda>res evs. evs = [(StatusUpdate (?c2 d), outcome_of res)]"])
       (auto intro!: emits_perform emits_returnE simp: creations_def is_creation_def)
  have extra: "emits (bindE (applyExtras D r ns xs) (\<lambda>_.
        bindE (perform (StatusUpdate (?c2 d)) (api_StatusUpdate (r_Client r) (?c2 d))) (\<lambda>_. returnE x)))
      (\<lambda>res evs. creations evs = 0 \<and>
         (\<forall>y. res = Inr y \<longrightarrow> y = x \<and> (\<exists>pre. evs = pre @ [(StatusUpdate (?c2 d), None)])))"
    for ns xs d and x :: Result
    by (rule emits_bind [OF no_creation_applyExtras]) (auto intro!: emits_mono [OF last])
  have created: "emits (bindE (if ex = None
        then perform (Eventf ''Normal'' ''TargetCreated'' ''Sync'' msg) (\<lambda>w. (Inr (), w))
        else returnE ()) (\<lambda>_. bindE (applyExtras D r ns xs) (\<lambda>_.
        bindE (perform (StatusUpdate (?c2 d)) (api_StatusUpdate (r_Client r) (?c2 d))) (\<lambda>_. returnE x))))
      (\<lambda>res evs. creations evs = (if ex = None then 1 else 0) \<and>
         (\<forall>y. res = Inr y \<longrightarrow> y = x \<and> (\<exists>pre. evs = pre @ [(StatusUpdate (?c2 d), None)])))"
    for msg ns xs d and x :: Result
    by (rule emits_bind [OF event]) (auto intro!: emits_mono [OF extra])
  show ?thesis
    unfolding applyAndMirror_def applyExtraResources_eq Let_def poll_result_def [symmetric]
  proof (rule emits_bind [OF no_creation_applyTarget])
    fix d and evs :: "('a, 'b) cr event list"
    assume "creations evs = 0"
    then show "emits (bindE (if ex = None
        then perform (Eventf ''Normal'' ''TargetCreated'' ''Sync''
               (a_ObjectKind (r_Adapter r) @ '' '' @ quote t @ '' created in namespace '' @
                quote (om_Namespace (cr_meta c)))) (\<lambda>w. (Inr (), w))
        else returnE ()) (\<lambda>_. bindE (applyExtras D r (om_Namespace (cr_meta c)) (extras (r_Adapter r) c t)) (\<lambda>_.
        bindE (perform (StatusUpdate (?c2 d)) (api_StatusUpdate (r_Client r) (?c2 d)))
          (\<lambda>_. returnE (poll_result (ts_Ready (?st d)))))))
      (\<lambda>r' evs'. creations (evs @ evs') \<le> (if ex = None then 1 else 0) \<and>
        (\<forall>x. r' = Inr x \<longrightarrow> creations (evs @ evs') = (if ex = None then 1 else 0) \<and>
          (\<exists>d pre. evs @ evs' = pre @ [(StatusUpdate (?c2 d), None)] \<and> x = poll_result (ts_Ready (?st d)))))"
      by (intro emits_mono [OF created [of _ _ _ d]]) (simp, metis append_assoc)
  qed simp
qed

subsection \<open>The normal path of a resource that carries the finalizer\<close>

lemma GetTarget_result:
  "emits (GetTarget cl g ns n) (\<lambda>res evs. \<exists>o'. evs = [(Get g ns n, o')] \<and>
     (\<forall>ex. res = Inr ex \<longrightarrow> (ex = None) = (o' = Some NotFound)))"
  unfolding GetTarget_def
  by (rule emits_tryE, rule emits_perform)
     (auto intro!: emits_returnE emits_throwE simp: IsNotFound_def split: sum.split)

definition target_absent :: "'c event list \<Rightarrow> bool" where
  "target_absent evs \<longleftrightarrow> (case evs of ev # _ \<Rightarrow> snd ev = Some NotFound | [] \<Rightarrow> False)"

lemma defaultIngressClass_result:
  assumes A: "r_Adapter r = A"
  shows "emits (defaultIngressClass r c) (\<lambda>res evs. creations evs = 0 \<and>
           (\<forall>c1. res = Inr c1 \<longrightarrow> class_defaulted A c c1))"
  by (rule emits_mono [OF defaultIngressClass_emits])
     (auto simp: A is_creation_def intro!: creations_0_if)

lemma reconcileNormal_result:
  assumes fin: "containsFinalizer D (om_Finalizers (cr_meta c)) FinalizerName" and A: "r_Adapter r = A"
  shows "emits (reconcileNormal D r c t) (\<lambda>res evs.
     (\<exists>o' rest. evs = (Get (a_GVK A) (om_Namespace (cr_meta c)) t, o') # rest) \<and>
     creations evs \<le> (if target_absent evs then 1 else 0) \<and>
     (\<forall>x. res = Inr x \<longrightarrow>
        creations evs = (if target_absent evs then 1 else 0) \<and>
        (\<exists>c1 d pre. class_defaulted A c c1 \<and>
           evs = pre @ [(StatusUpdate (fst (a_ApplyStatus A c1 t (a_ExtractStatus A (Some d)))), None)] \<and>
           x = poll_result (ts_Ready (a_ExtractStatus A (Some d))))))"
proof -
  let ?last = "\<lambda>c1 d. (StatusUpdate (fst (a_ApplyStatus A c1 t (a_ExtractStatus A (Some d)))), None)"
  let ?poll = "\<lambda>d. poll_result (ts_Ready (a_ExtractStatus A (Some d)))"
  have tail: "emits (bindE (defaultIngressClass r c) (\<lambda>c1. applyAndMirror D r c1 t ex)) (\<lambda>res evs.
      creations evs \<le> (if ex = None then 1 else 0) \<and>
      (\<forall>x. res = Inr x \<longrightarrow> creations evs = (if ex = None then 1 else 0) \<and>
         (\<exists>c1 d pre. class_defaulted A c c1 \<and> evs = pre @ [?last c1 d] \<and> x = ?poll d)))" for ex
  proof (rule emits_bind [OF defaultIngressClass_result [OF A]], simp)
    fix c1 and evs :: "('a, 'b) cr event list"
    assume h: "creations evs = 0 \<and> (\<forall>c'. Inr c1 = (Inr c' :: error + ('a, 'b) cr) \<longrightarrow> class_defaulted A c c')"
    show "emits (applyAndMirror D r c1 t ex) (\<lambda>r' evs'.
      creations (evs @ evs') \<le> (if ex = None then 1 else 0) \<and>
      (\<forall>x. r' = Inr x \<longrightarrow> creations (evs @ evs') = (if ex = None then 1 else 0) \<and>
         (\<exists>c1 d pre. class_defaulted A c c1 \<and> evs @ evs' = pre @ [?last c1 d] \<and> x = ?poll d)))"
      using h A by (intro emits_mono [OF applyAndMirror_result]) (simp, metis append_assoc)
  qed
  have none: "is_creation (Get g n m, o') = False" for g n m o' by (simp add: is_creation_def)
  show ?thesis
    unfolding reconcileNormal_def getTarget_def
    using fin A
    by (simp split del: if_split)
       (rule emits_bind [OF GetTarget_result],
        force simp: creations_def none target_absent_def,
        rule emits_mono [OF tail],
        force simp: creations_def none target_absent_def split: if_splits)
qed

end
