(* ===== verification/EngineTouch.thy ===== *)
theory EngineTouch
  imports EngineRuns
begin

section \<open>What a run may touch\<close>

text \<open>
  The calls of a whole run, by path: identity and namespace of everything that is patched,
  deleted or updated. These are the facts behind the ownership properties.
\<close>

text \<open>A run on a resource under deletion that updates the resource has made every cleanup call before.\<close>

lemma release_run:
  assumes "fetched r ns n w c" and "om_DeletionTimestamp (cr_meta c) \<noteq> None"
    and "run (Reconcile D r ns n) w = (res, evs)" and "(Update u, o') \<in> set evs"
  defines "t \<equiv> a_TargetName (r_Adapter r) (om_Name (cr_meta c))"
  shows "u = with_finalizers (removeFinalizer D (om_Finalizers (cr_meta c)) FinalizerName) c \<and>
         (\<exists>pre. evs = (GetCR ns n, None) # pre @ [(Update u, o')] \<and>
           map fst pre = cleanup_calls (r_Adapter r) c t \<and> list_all tolerated pre)"
proof -
  let ?u = "with_finalizers (removeFinalizer D (om_Finalizers (cr_meta c)) FinalizerName) c"
  let ?cs = "cleanup_calls (r_Adapter r) c t"
  have "emits (reconcilePath D r c) (\<lambda>res evs. \<forall>u o'. (Update u, o') \<in> set evs \<longrightarrow>
      u = ?u \<and> (\<exists>pre. evs = pre @ [(Update u, o')] \<and> map fst pre = ?cs \<and> list_all tolerated pre))"
  proof (cases "containsFinalizer D (om_Finalizers (cr_meta c)) FinalizerName")
    case True
    then show ?thesis
      using assms(2) follows_last [OF follows_reconcileDelete [OF True] update_not_in_cleanup]
      by (simp add: reconcilePath_def Let_def t_def)
  next
    case False
    with assms(2) show ?thesis
      by (simp add: reconcilePath_def Let_def reconcileDelete_def emits_returnE)
  qed
  from run_Reconcile_fetched [OF assms(1,3) this] obtain evs' where evs: "evs = (GetCR ns n, None) # evs'"
    and upd: "\<forall>u o'. (Update u, o') \<in> set evs' \<longrightarrow>
      u = ?u \<and> (\<exists>pre. evs' = pre @ [(Update u, o')] \<and> map fst pre = ?cs \<and> list_all tolerated pre)"
    by blast
  from evs assms(4) have "(Update u, o') \<in> set evs'" by simp
  with upd evs show ?thesis by auto
qed

context adapter
begin

lemma normal_run_calls:
  assumes f: "fetched r ns n w c" and live: "om_DeletionTimestamp (cr_meta c) = None"
    and run: "run (Reconcile D r ns n) w = (res, evs)" and A: "r_Adapter r = A" and ev: "ev \<in> set evs"
  shows "fst ev = GetCR ns n \<or>
         fst ev = Update (with_finalizers (addFinalizer D (om_Finalizers (cr_meta c)) FinalizerName) c) \<or>
         normal_call A c (om_Name (cr_meta c)) (fst ev)"
proof -
  let ?u = "with_finalizers (addFinalizer D (om_Finalizers (cr_meta c)) FinalizerName) c"
  let ?ok = "\<lambda>cl. cl = Update ?u \<or> normal_call A c (om_Name (cr_meta c)) cl"
  have "all_events (\<lambda>ev. ?ok (fst ev)) (reconcilePath D r c)"
  proof (cases "containsFinalizer D (om_Finalizers (cr_meta c)) FinalizerName")
    case True
    show ?thesis
      using live A by (simp add: reconcilePath_def Let_def target_name all_events_mono [OF normal_calls [OF True A]])
  next
    case False
    show ?thesis
      using live A
        all_events_mono [OF follows_calls [OF follows_addFinalizer [OF False]],
          where \<psi> = "\<lambda>ev. ?ok (fst ev)"]
      by (auto simp: reconcilePath_def Let_def target_name)
  qed
  from run_Reconcile_fetched [OF f run this [unfolded all_events_def]] ev show ?thesis by auto
qed

lemma deletion_run_calls:
  assumes f: "fetched r ns n w c" and del: "om_DeletionTimestamp (cr_meta c) \<noteq> None"
    and run: "run (Reconcile D r ns n) w = (res, evs)" and A: "r_Adapter r = A" and ev: "ev \<in> set evs"
  shows "fst ev = GetCR ns n \<or>
         fst ev = Update (with_finalizers (removeFinalizer D (om_Finalizers (cr_meta c)) FinalizerName) c) \<or>
         fst ev \<in> set (cleanup_calls A c (om_Name (cr_meta c)))"
proof -
  let ?u = "with_finalizers (removeFinalizer D (om_Finalizers (cr_meta c)) FinalizerName) c"
  let ?ok = "\<lambda>cl. cl = Update ?u \<or> cl \<in> set (cleanup_calls A c (om_Name (cr_meta c)))"
  have "all_events (\<lambda>ev. ?ok (fst ev)) (reconcilePath D r c)"
  proof (cases "containsFinalizer D (om_Finalizers (cr_meta c)) FinalizerName")
    case True
    show ?thesis
      using del A all_events_mono [OF follows_calls [OF follows_reconcileDelete [OF True]],
          where \<psi> = "\<lambda>ev. ?ok (fst ev)"]
      by (auto simp: reconcilePath_def Let_def target_name)
  next
    case False
    show ?thesis
      using del False by (simp add: reconcilePath_def Let_def reconcileDelete_def)
  qed
  from run_Reconcile_fetched [OF f run this [unfolded all_events_def]] ev show ?thesis by auto
qed

text \<open>Identity of what the normal path patches: the target, or a listed extra, in the resource's namespace.\<close>

lemma normal_patch_identity:
  assumes "normal_call A c t (Patch d fm force)"
  shows "u_namespace d = om_Namespace (cr_meta c)"
    and "object_id d \<in> insert (a_GVK A, t) (extra_id ` set (extras A c t))"
proof -
  from assms obtain c1 where c1: "class_defaulted A c c1"
    and d: "d = a_BuildManifest A c1 t (om_Namespace (cr_meta c)) (om_Name (cr_meta c)) \<or>
            (\<exists>x \<in> set (extras A c1 t). x_Desired x = Some d)" by auto
  have ids: "extra_id ` set (extras A c1 t) = extra_id ` set (extras A c t)"
    using extras_ids_stable [of c1 t c] by (metis image_set)
  show "u_namespace d = om_Namespace (cr_meta c)"
    using d extras_namespace [of _ c1 t d] class_defaulted_frame(1) [OF c1]
    by (auto simp: manifest_namespace)
  show "object_id d \<in> insert (a_GVK A, t) (extra_id ` set (extras A c t))"
    unfolding ids [symmetric] using d extras_desired_id [of _ c1 t d] by (force simp: manifest_id)
qed

lemma owned_or_patch_only:
  assumes "i \<in> extra_id ` set (extras A c t)"
  shows "i \<in> extra_id ` set (owned_extras A c t) \<or> i \<in> patch_only_ids A c t"
  using assms by (auto simp: owned_extras_def patch_only_ids_def)

lemma cleanup_deletes:
  assumes "(g, k) \<in> insert (a_GVK A, t) (extra_id ` set (owned_extras A c t))"
  shows "Delete g (om_Namespace (cr_meta c)) k \<in> set (cleanup_calls A c t)"
  using assms by (force simp: cleanup_calls_def Let_def extra_id_def)

lemma owned_ids_set: "extra_id ` set (owned_extras A c t) = extra_id ` set (owned_extras A c' t)"
  using owned_ids_stable [of c t c'] by (metis image_set)

lemma patched_then_deleted:
  assumes patch: "normal_call A c t (Patch d fm force)" and ns: "om_Namespace (cr_meta c') = om_Namespace (cr_meta c)"
  shows "Delete (u_gvk d) (u_namespace d) (u_name d) \<in> set (cleanup_calls A c' t) \<or>
         object_id d \<in> patch_only_ids A c t"
proof -
  consider (own) "object_id d \<in> insert (a_GVK A, t) (extra_id ` set (owned_extras A c' t))"
    | (guarded) "object_id d \<in> patch_only_ids A c t"
    using normal_patch_identity(2) [OF patch] owned_or_patch_only [of _ c t] owned_ids_set [of c t c'] by blast
  then show ?thesis
    using cleanup_deletes [of "u_gvk d" "u_name d" t c'] normal_patch_identity(1) [OF patch] ns
    by cases (simp_all add: object_id_def)
qed

text \<open>What either path may delete.\<close>

lemma run_deletes:
  assumes f: "fetched r ns n w c" and run: "run (Reconcile D r ns n) w = (res, evs)" and A: "r_Adapter r = A"
    and ev: "(Delete g m k, o') \<in> set evs"
  shows "g = podGVK \<or>
         m = om_Namespace (cr_meta c) \<and>
         (g, k) \<in> insert (a_GVK A, om_Name (cr_meta c)) (extra_id ` set (owned_extras A c (om_Name (cr_meta c))))"
proof (cases "om_DeletionTimestamp (cr_meta c)")
  case None
  have "normal_call A c (om_Name (cr_meta c)) (Delete g m k)"
    using normal_run_calls [OF f None run A ev] by simp
  then consider "g = podGVK" | c1 x where "m = om_Namespace (cr_meta c)" "class_defaulted A c c1"
    "x \<in> set (extras A c1 (om_Name (cr_meta c)))" "x_Desired x = None" "extra_id x = (g, k)" by auto
  then show ?thesis
  proof cases
    case 2
    then have "x \<in> set (owned_extras A c1 (om_Name (cr_meta c)))"
      using patch_only_desired [of x c1] by (auto simp: owned_extras_def)
    then have "(g, k) \<in> extra_id ` set (owned_extras A c (om_Name (cr_meta c)))"
      using owned_ids_set [of c1 _ c] 2(5) by (metis imageI)
    with 2 show ?thesis by simp
  qed simp
next
  case (Some d)
  then have "Delete g m k \<in> set (cleanup_calls A c (om_Name (cr_meta c)))"
    using deletion_run_calls [OF f _ run A ev] by simp
  then show ?thesis
    by (force simp: cleanup_calls_def Let_def pvc_calls_def extra_id_def split: option.splits if_splits)
qed

lemma owned_disjoint_patch_only:
  "extra_id ` set (owned_extras A c t) \<inter> patch_only_ids A c t = {}"
  using owned_not_patch_only [of _ c t] by (auto simp: owned_extras_def)

lemma target_not_patch_only: "(a_GVK A, t) \<notin> patch_only_ids A c t"
  using extras_not_target [of t c] by (force simp: patch_only_ids_def)

text \<open>Only the normal path patches, and only what \<open>normal_call\<close> allows.\<close>

lemma run_patches:
  assumes f: "fetched r ns n w c" and run: "run (Reconcile D r ns n) w = (res, evs)" and A: "r_Adapter r = A"
    and ev: "(Patch d fm force, o') \<in> set evs"
  shows "om_DeletionTimestamp (cr_meta c) = None" and "normal_call A c (om_Name (cr_meta c)) (Patch d fm force)"
proof -
  show live: "om_DeletionTimestamp (cr_meta c) = None"
    using deletion_run_calls [OF f _ run A ev]
    by (force simp: cleanup_calls_def Let_def pvc_calls_def split: option.splits if_splits)
  show "normal_call A c (om_Name (cr_meta c)) (Patch d fm force)"
    using normal_run_calls [OF f live run A ev] by simp
qed

text \<open>Every update carries the fetched resource with another finalizer list.\<close>

lemma run_updates:
  assumes f: "fetched r ns n w c" and run: "run (Reconcile D r ns n) w = (res, evs)" and A: "r_Adapter r = A"
    and ev: "(Update u, o') \<in> set evs"
  shows "\<exists>fs. u = with_finalizers fs c"
proof (cases "om_DeletionTimestamp (cr_meta c)")
  case None
  show ?thesis using normal_run_calls [OF f None run A ev] by auto
next
  case (Some d)
  then show ?thesis
    using deletion_run_calls [OF f _ run A ev] by (auto simp: update_not_in_cleanup)
qed

lemma run_status_updates:
  assumes f: "fetched r ns n w c" and run: "run (Reconcile D r ns n) w = (res, evs)" and A: "r_Adapter r = A"
    and ev: "(StatusUpdate c2, o') \<in> set evs"
  shows "\<exists>c1 s. class_defaulted A c c1 \<and> c2 = fst (a_ApplyStatus A c1 (om_Name (cr_meta c)) s)"
proof (cases "om_DeletionTimestamp (cr_meta c)")
  case None
  show ?thesis using normal_run_calls [OF f None run A ev] by auto
next
  case (Some d)
  then show ?thesis
    using deletion_run_calls [OF f _ run A ev]
    by (auto simp: cleanup_calls_def Let_def pvc_calls_def split: option.splits if_splits)
qed

end

subsection \<open>Completeness of the auxiliary objects\<close>

text \<open>
  A run over the extras that succeeds has patched every wanted object and deleted every
  unwanted one; an object that is only patched may still be missing.
\<close>

definition settled :: "string \<Rightarrow> string \<Rightarrow> ExtraResource \<Rightarrow> 'c event list \<Rightarrow> bool" where
  "settled fm ns x evs \<longleftrightarrow>
     (case x_Desired x of
        Some d \<Rightarrow> (Patch d fm True, None) \<in> set evs \<or>
          x_PatchOnly x \<and> (Get (x_GVK x) ns (x_Name x), Some NotFound) \<in> set evs
      | None \<Rightarrow> (\<exists>o'. (Delete (x_GVK x) ns (x_Name x), o') \<in> set evs \<and> (o' = None \<or> o' = Some NotFound)))"

lemma settled_mono: "settled fm ns x evs \<Longrightarrow> set evs \<subseteq> set evs' \<Longrightarrow> settled fm ns x evs'"
  by (auto simp: settled_def split: option.splits)

lemma applyTarget_result: "emits (applyTarget r d)
    (\<lambda>res evs. \<forall>u. res = Inr u \<longrightarrow> (Patch d (a_FieldManager (r_Adapter r)) True, None) \<in> set evs)"
  unfolding applyTarget_def Let_def by (rule emits_perform) auto

lemma deleteExtra_result: "emits (deleteExtra r g ns n) (\<lambda>res evs. \<forall>u. res = Inr u \<longrightarrow>
    (\<exists>o'. (Delete g ns n, o') \<in> set evs \<and> (o' = None \<or> o' = Some NotFound)))"
  unfolding deleteExtra_def
  by (rule emits_tryE, rule emits_perform)
     (auto intro!: emits_returnE emits_throwE simp: IsNotFound_def split: sum.split)

lemma emits_any_unstick: "emits (unstickStatefulSetRollout D r ns n) (\<lambda>res evs. True)"
  by (rule emits_mono [OF stops_unstick]) simp

lemma GetTarget_missing: "emits (GetTarget cl g ns n) (\<lambda>res evs. res = Inr None \<longrightarrow> (Get g ns n, Some NotFound) \<in> set evs)"
  unfolding GetTarget_def
  by (rule emits_tryE, rule emits_perform)
     (auto intro!: emits_returnE emits_throwE simp: IsNotFound_def split: sum.split)

lemma applyExtras_settles:
  "emits (applyExtras D r ns xs)
     (\<lambda>res evs. \<forall>u. res = Inr u \<longrightarrow> (\<forall>x \<in> set xs. settled (a_FieldManager (r_Adapter r)) ns x evs))"
proof (induction xs)
  case Nil
  show ?case by (simp add: emits_returnE)
next
  case (Cons x xs)
  let ?fm = "a_FieldManager (r_Adapter r)"
  let ?all = "\<lambda>evs. \<forall>x \<in> set xs. settled ?fm ns x evs"
  have rest: "emits (applyExtras D r ns xs)
      (\<lambda>res evs'. \<forall>u. res = Inr u \<longrightarrow> settled ?fm ns x (evs @ evs') \<and> ?all (evs @ evs'))"
    if "settled ?fm ns x evs" for evs
    using that by (intro emits_mono [OF Cons.IH]) (auto intro: settled_mono)
  have unstick: "emits (bindE (unstickStatefulSetRollout D r ns (x_Name x)) (\<lambda>_. applyExtras D r ns xs))
      (\<lambda>res evs'. \<forall>u. res = Inr u \<longrightarrow> settled ?fm ns x (evs @ evs') \<and> ?all (evs @ evs'))"
    if "settled ?fm ns x evs" for evs
    by (rule emits_bind [OF emits_any_unstick], simp, simp only: append_assoc [symmetric], rule rest)
       (rule settled_mono [OF that], auto)
  show ?case
  proof (cases "x_Desired x")
    case None
    then show ?thesis
      by simp (rule emits_bind [OF deleteExtra_result], simp,
        rule emits_mono [OF rest], auto simp: settled_def)
  next
    case (Some d)
    have patch: "emits (bindE (applyTarget r d) (\<lambda>_. if x_PatchOnly x \<and> x_GVK x = statefulSetGVK
          then bindE (unstickStatefulSetRollout D r ns (x_Name x)) (\<lambda>_. applyExtras D r ns xs)
          else applyExtras D r ns xs))
        (\<lambda>res evs'. \<forall>u. res = Inr u \<longrightarrow> settled ?fm ns x (evs @ evs') \<and> ?all (evs @ evs'))" for evs
    proof (rule emits_bind [OF applyTarget_result], simp)
      fix u and evs' :: "('a, 'b) cr event list"
      assume "\<forall>v. Inr u = (Inr v :: error + unstructured) \<longrightarrow> (Patch d ?fm True, None) \<in> set evs'"
      then have st: "settled ?fm ns x (evs @ evs')" using Some by (simp add: settled_def)
      show "emits (if x_PatchOnly x \<and> x_GVK x = statefulSetGVK
          then bindE (unstickStatefulSetRollout D r ns (x_Name x)) (\<lambda>_. applyExtras D r ns xs)
          else applyExtras D r ns xs)
        (\<lambda>res evs''. \<forall>u. res = Inr u \<longrightarrow> settled ?fm ns x (evs @ evs' @ evs'') \<and> ?all (evs @ evs' @ evs''))"
        using unstick [OF st] rest [OF st] by simp
    qed
    show ?thesis
    proof (cases "x_PatchOnly x")
      case True
      have "emits (bindE (GetTarget (r_Client r) (x_GVK x) ns (x_Name x)) (\<lambda>found. case found of
            None \<Rightarrow> applyExtras D r ns xs
          | Some _ \<Rightarrow> bindE (applyTarget r d) (\<lambda>_. if x_GVK x = statefulSetGVK
              then bindE (unstickStatefulSetRollout D r ns (x_Name x)) (\<lambda>_. applyExtras D r ns xs)
              else applyExtras D r ns xs)))
        (\<lambda>res evs. \<forall>u. res = Inr u \<longrightarrow> settled ?fm ns x evs \<and> ?all evs)"
      proof (rule emits_bind [OF GetTarget_missing], simp)
        fix found and evs :: "('a, 'b) cr event list"
        assume miss: "(Inr found :: error + unstructured option) = Inr None \<longrightarrow>
          (Get (x_GVK x) ns (x_Name x), Some NotFound) \<in> set evs"
        show "emits (case found of
            None \<Rightarrow> applyExtras D r ns xs
          | Some _ \<Rightarrow> bindE (applyTarget r d) (\<lambda>_. if x_GVK x = statefulSetGVK
              then bindE (unstickStatefulSetRollout D r ns (x_Name x)) (\<lambda>_. applyExtras D r ns xs)
              else applyExtras D r ns xs))
          (\<lambda>res evs'. \<forall>u. res = Inr u \<longrightarrow> settled ?fm ns x (evs @ evs') \<and> ?all (evs @ evs'))"
        proof (cases found)
          case None
          with miss Some True have "settled ?fm ns x evs" by (simp add: settled_def)
          from rest [OF this] None show ?thesis by simp
        next
          case found: (Some u)
          show ?thesis using patch [of evs] True by (simp add: found split del: if_split)
        qed
      qed
      with Some True show ?thesis by (simp add: Let_def split del: if_split)
    next
      case False
      with Some patch [of "[]"] show ?thesis by (simp add: Let_def)
    qed
  qed
qed

text \<open>The whole normal path: the manifest is applied and every auxiliary object settled.\<close>

definition all_settled :: "('s, 't) adapter \<Rightarrow> ('s, 't) cr \<Rightarrow> string \<Rightarrow> ('s, 't) cr event list \<Rightarrow> bool" where
  "all_settled A c t evs \<longleftrightarrow>
     (Patch (a_BuildManifest A c t (om_Namespace (cr_meta c)) (om_Name (cr_meta c))) (a_FieldManager A) True, None)
        \<in> set evs \<and>
     (\<forall>x \<in> set (extras A c t). settled (a_FieldManager A) (om_Namespace (cr_meta c)) x evs)"

lemma all_settled_mono: "all_settled A c t evs \<Longrightarrow> set evs \<subseteq> set evs' \<Longrightarrow> all_settled A c t evs'"
  unfolding all_settled_def by (blast intro: settled_mono)

lemma event_any: "emits (if b then perform cl f else returnE ()) (\<lambda>res evs. True)"
  by (auto intro: emits_perform emits_returnE)

lemma applyAndMirror_settles:
  fixes r :: "('s, 't, 'w) reconciler" and c :: "('s, 't) cr"
  shows "emits (applyAndMirror D r c t ex) (\<lambda>res evs. \<forall>x. res = Inr x \<longrightarrow> all_settled (r_Adapter r) c t evs)"
proof -
  let ?A = "r_Adapter r" and ?ns = "om_Namespace (cr_meta c)"
  let ?m = "a_BuildManifest ?A c t ?ns (om_Name (cr_meta c))"
  have last: "emits (bindE (perform cl f) (\<lambda>_. returnE y)) (\<lambda>res evs'. \<forall>x. res = Inr x \<longrightarrow> all_settled ?A c t (evs @ evs'))"
    if "all_settled ?A c t evs" for cl f evs and y :: Result
    using that by (auto intro!: emits_bindE emits_perform emits_returnE all_settled_mono [OF that] split: sum.split)
  show ?thesis
    unfolding applyAndMirror_def applyExtraResources_eq Let_def
  proof (rule emits_bind [OF applyTarget_result], simp, rule emits_bind [OF event_any], simp,
         rule emits_bind [OF applyExtras_settles], simp)
    fix d u and v :: unit and e1 e2 e3 :: "('s, 't) cr event list"
    let ?st = "a_ExtractStatus ?A (Some d)"
    let ?c2 = "fst (a_ApplyStatus ?A c t ?st)"
    assume "\<forall>u. Inr d = (Inr u :: error + unstructured) \<longrightarrow> (Patch ?m (a_FieldManager ?A) True, None) \<in> set e1"
      and "\<forall>u. (Inr v :: error + unit) = Inr u \<longrightarrow> (\<forall>x\<in>set (extras ?A c t). settled (a_FieldManager ?A) ?ns x e3)"
    then have "all_settled ?A c t (e1 @ e2 @ e3)"
      unfolding all_settled_def by (auto intro: settled_mono)
    from last [OF this]
    show "emits (bindE (perform (StatusUpdate ?c2) (api_StatusUpdate (r_Client r) ?c2))
           (\<lambda>_. returnE \<lparr>Requeue = False, RequeueAfter = if ts_Ready ?st then 5 * Minute else 15 * Second\<rparr>))
         (\<lambda>r' evs'. \<forall>x. r' = Inr x \<longrightarrow> all_settled ?A c t (e1 @ e2 @ e3 @ evs'))"
      by (simp only: append_assoc)
  qed
qed

context adapter
begin

lemma reconcileNormal_settles:
  assumes fin: "containsFinalizer D (om_Finalizers (cr_meta c)) FinalizerName" and A: "r_Adapter r = A"
  shows "emits (reconcileNormal D r c t)
           (\<lambda>res evs. \<forall>x. res = Inr x \<longrightarrow> (\<exists>c1. class_defaulted A c c1 \<and> all_settled A c1 t evs))"
proof -
  have get: "emits (getTarget r ns t) (\<lambda>res evs. True)" for ns
    unfolding getTarget_def by (rule emits_mono [OF GetTarget_result]) simp
  have "emits (bindE (getTarget r (om_Namespace (cr_meta c)) t) (\<lambda>existing.
      bindE (defaultIngressClass r c) (\<lambda>c1. applyAndMirror D r c1 t existing)))
      (\<lambda>res evs. \<forall>x. res = Inr x \<longrightarrow> (\<exists>c1. class_defaulted A c c1 \<and> all_settled A c1 t evs))"
  proof (rule emits_bind [OF get], simp, rule emits_bind [OF defaultIngressClass_result [OF A]], simp)
    fix existing c1 and e1 e2 :: "('s, 't) cr event list"
    assume "creations e2 = 0 \<and> (\<forall>c'. (Inr c1 :: error + ('s, 't) cr) = Inr c' \<longrightarrow> class_defaulted A c c')"
    then have c1: "class_defaulted A c c1" by simp
    show "emits (applyAndMirror D r c1 t existing)
        (\<lambda>res evs. \<forall>x. res = Inr x \<longrightarrow> (\<exists>c1. class_defaulted A c c1 \<and> all_settled A c1 t (e1 @ e2 @ evs)))"
    proof (rule emits_mono [OF applyAndMirror_settles], intro allI impI)
      fix res :: "error + Result" and evs :: "('s, 't) cr event list" and x
      assume "\<forall>x. res = Inr x \<longrightarrow> all_settled (r_Adapter r) c1 t evs" and "res = Inr x"
      then have "all_settled A c1 t evs" by (simp add: A)
      then have "all_settled A c1 t (e1 @ e2 @ evs)" by (rule all_settled_mono) auto
      with c1 show "\<exists>c1. class_defaulted A c c1 \<and> all_settled A c1 t (e1 @ e2 @ evs)" by blast
    qed
  qed
  then show ?thesis using fin by (simp add: reconcileNormal_def)
qed

text \<open>A whole run of a live resource that carries the finalizer.\<close>

lemma normal_run:
  assumes f: "fetched r ns n w c" and live: "om_DeletionTimestamp (cr_meta c) = None"
    and fin: "containsFinalizer D (om_Finalizers (cr_meta c)) FinalizerName"
    and run: "run (Reconcile D r ns n) w = (res, evs)" and A: "r_Adapter r = A"
    and path: "emits (reconcileNormal D r c (om_Name (cr_meta c))) P"
  shows "\<exists>evs'. evs = (GetCR ns n, None) # evs' \<and> P res evs'"
  using run_Reconcile_fetched [OF f run, of P] path live
  by (simp add: reconcilePath_def Let_def A target_name)

lemma normal_run_result:
  assumes "fetched r ns n w c" and "om_DeletionTimestamp (cr_meta c) = None"
    and "containsFinalizer D (om_Finalizers (cr_meta c)) FinalizerName"
    and "run (Reconcile D r ns n) w = (Inr x, evs)" and A: "r_Adapter r = A"
  shows "\<exists>c1 d pre. class_defaulted A c c1 \<and>
           evs = pre @ [(StatusUpdate (fst (a_ApplyStatus A c1 (om_Name (cr_meta c)) (a_ExtractStatus A (Some d)))), None)] \<and>
           x = poll_result (ts_Ready (a_ExtractStatus A (Some d)))"
  using normal_run [OF assms(1-4) A reconcileNormal_result [OF assms(3) A]]
  by (force simp del: append_Cons simp: append_Cons [symmetric])

lemma deletion_no_patch:
  assumes "fetched r ns n w c" and "om_DeletionTimestamp (cr_meta c) \<noteq> None"
    and "run (Reconcile D r ns n) w = (res, evs)" and "r_Adapter r = A"
  shows "(Patch d fm force, o') \<notin> set evs"
proof
  assume "(Patch d fm force, o') \<in> set evs"
  from deletion_run_calls [OF assms this] show False
    by (auto simp: cleanup_calls_def Let_def pvc_calls_def split: option.splits if_splits)
qed

lemma guarded_run:
  assumes f: "fetched r ns n w c" and run: "run (Reconcile D r ns n) w = (res, evs)" and A: "r_Adapter r = A"
  shows "patch_guarded (patch_only_ids A c (om_Name (cr_meta c))) (om_Namespace (cr_meta c)) evs"
    (is "patch_guarded ?ids ?ns evs")
proof (cases "om_DeletionTimestamp (cr_meta c)")
  case (Some x)
  then show ?thesis
    using deletion_no_patch [OF f _ run A] by (intro patch_guarded_no_patch) force
next
  case None
  have "emits (reconcilePath D r c) (\<lambda>res. patch_guarded ?ids ?ns)"
  proof (cases "containsFinalizer D (om_Finalizers (cr_meta c)) FinalizerName")
    case True
    from guarded_reconcileNormal [OF this A] None show ?thesis
      by (simp add: reconcilePath_def Let_def A target_name)
  next
    case False
    have "emits (reconcileNormal D r c (om_Name (cr_meta c))) (\<lambda>res. patch_guarded ?ids ?ns)"
      by (rule patch_guarded_events, rule all_events_mono [OF follows_calls [OF follows_addFinalizer [OF False]]]) auto
    with None show ?thesis by (simp add: reconcilePath_def Let_def A target_name)
  qed
  from run_Reconcile_fetched [OF f run this] obtain evs' where evs: "evs = [(GetCR ns n, None)] @ evs'"
    and "patch_guarded ?ids ?ns evs'" by auto
  then show ?thesis
    unfolding evs by (intro patch_guarded_append) (simp_all add: patch_guarded_no_patch)
qed

end

subsection \<open>The rollout unsticker, call by call\<close>

definition stuck_pod :: "string \<Rightarrow> Pod \<Rightarrow> bool" where
  "stuck_pod updateRevision pod \<longleftrightarrow>
     lookup_str (pod_Labels pod) ''controller-revision-hash'' \<noteq> updateRevision \<and> \<not> isPodReady pod"

definition delete_pod :: "Pod \<Rightarrow> 'c call" where
  "delete_pod pod = Delete podGVK (pod_Namespace pod) (pod_Name pod)"

lemma follows_deleteStalePods:
  "follows (deleteStalePods r rv pods) (map delete_pod (filter (stuck_pod rv) pods))"
proof (induction pods)
  case Nil
  show ?case by (simp add: follows_returnE)
next
  case (Cons pod pods)
  let ?del = "perform (delete_pod pod) (api_Delete (r_Client r) podGVK (pod_Namespace pod) (pod_Name pod))"
  have split: "tryE ?del (\<lambda>res. case res of
        Inl e \<Rightarrow> if \<not> IsNotFound e then throwE e else deleteStalePods r rv pods
      | Inr _ \<Rightarrow> deleteStalePods r rv pods) =
     bindE (tryE ?del (\<lambda>res. case res of Inl e \<Rightarrow> if IsNotFound e then returnE () else throwE e | Inr _ \<Rightarrow> returnE ()))
       (\<lambda>_. deleteStalePods r rv pods)"
    by (rule ext) (auto simp: io_defs split: prod.split sum.split)
  have "follows (tryE ?del (\<lambda>res. case res of Inl e \<Rightarrow> if IsNotFound e then returnE () else throwE e | Inr _ \<Rightarrow> returnE ()))
      [delete_pod pod]"
    unfolding delete_pod_def
    by (rule follows_delete [where g = "\<lambda>_. ()" and y = "()"]) (simp_all add: IsNotFound_def)
  from follows_bindE [OF this Cons.IH] Cons.IH show ?case
    by (simp add: stuck_pod_def delete_pod_def [symmetric] split)
qed

end
