(* ===== verification/ApiTypes.thy ===== *)
theory ApiTypes
  imports Kube
begin

section \<open>The paas API types\<close>

text \<open>
  The structs of \<open>api/v1alpha1\<close>: shared building blocks first, then spec and status of each
  custom resource. An \<open>int32\<close> is a \<open>32 word\<close>, a pointer to a struct an \<open>option\<close>, a
  \<open>map[string]string\<close> an association list and a \<open>corev1.ResourceList\<close> an association list
  from resource names to quantities as written.
\<close>

subsection \<open>Shared blocks\<close>

record IngressSpec =
  ing_Host :: string
  ing_IngressClassName :: string
  ing_TLSSecretName :: string
  ing_Annotations :: labels

record ServiceExposeSpec =
  exp_Type :: string
  exp_Annotations :: labels

record MonitoringSpec =
  EnablePodMonitor :: bool

record StorageSpec =
  sto_Size :: string
  sto_StorageClass :: string

record DatabaseSpec =
  db_Name :: string
  db_Owner :: string

record PersistenceSpec =
  per_Size :: string
  per_StorageClass :: string

record ResourceRequirements =
  rr_Limits :: "(string \<times> string) list"
  rr_Requests :: "(string \<times> string) list"

subsection \<open>PostgresCluster\<close>

record PostgresClusterSpec =
  pg_Instances :: "32 word"
  pg_Image :: string
  pg_Storage :: StorageSpec
  pg_Database :: DatabaseSpec
  pg_Resources :: ResourceRequirements
  pg_Monitoring :: MonitoringSpec
  pg_Expose :: "ServiceExposeSpec option"

record PostgresClusterStatus =
  pgs_Ready :: bool
  pgs_Phase :: string
  pgs_Instances :: "32 word"
  pgs_ReadyInstances :: "32 word"
  pgs_Message :: string
  pgs_Conditions :: "condition list"

type_synonym PostgresCluster = "(PostgresClusterSpec, PostgresClusterStatus) cr"

subsection \<open>MariaDBCluster\<close>

record MariaDBClusterSpec =
  mdb_Replicas :: "32 word"
  mdb_Image :: string
  mdb_Storage :: StorageSpec
  mdb_Database :: DatabaseSpec
  mdb_Resources :: ResourceRequirements
  mdb_Monitoring :: MonitoringSpec
  mdb_Expose :: "ServiceExposeSpec option"

record MariaDBClusterStatus =
  mdbs_Ready :: bool
  mdbs_Phase :: string
  mdbs_Replicas :: "32 word"
  mdbs_ReadyReplicas :: "32 word"
  mdbs_Message :: string
  mdbs_Conditions :: "condition list"

type_synonym MariaDBCluster = "(MariaDBClusterSpec, MariaDBClusterStatus) cr"

subsection \<open>MongoDBCluster\<close>

record MongoDBClusterSpec =
  mgo_Replicas :: "32 word"
  mgo_Image :: string
  mgo_Storage :: StorageSpec
  mgo_Resources :: ResourceRequirements
  mgo_Monitoring :: MonitoringSpec
  mgo_Expose :: "ServiceExposeSpec option"

record MongoDBClusterStatus =
  mgos_Ready :: bool
  mgos_Phase :: string
  mgos_Replicas :: "32 word"
  mgos_ReadyReplicas :: "32 word"
  mgos_Message :: string
  mgos_Conditions :: "condition list"

type_synonym MongoDBCluster = "(MongoDBClusterSpec, MongoDBClusterStatus) cr"

subsection \<open>ValkeyCluster\<close>

record ValkeyClusterSpec =
  vk_Shards :: "32 word"
  vk_Replicas :: "32 word"
  vk_Image :: string
  vk_Persistence :: PersistenceSpec
  vk_Resources :: ResourceRequirements
  vk_Expose :: "ServiceExposeSpec option"
  vk_Monitoring :: MonitoringSpec

record ValkeyClusterStatus =
  vks_Ready :: bool
  vks_Phase :: string
  vks_Shards :: "32 word"
  vks_ReadyShards :: "32 word"
  vks_Message :: string
  vks_Conditions :: "condition list"

type_synonym ValkeyCluster = "(ValkeyClusterSpec, ValkeyClusterStatus) cr"

subsection \<open>RabbitMQCluster\<close>

record RabbitMQClusterSpec =
  rmq_Replicas :: "32 word"
  rmq_Image :: string
  rmq_Storage :: StorageSpec
  rmq_Resources :: ResourceRequirements
  rmq_Ingress :: "IngressSpec option"
  rmq_Expose :: "ServiceExposeSpec option"
  rmq_Monitoring :: MonitoringSpec

record RabbitMQClusterStatus =
  rmqs_Ready :: bool
  rmqs_Phase :: string
  rmqs_Replicas :: "32 word"
  rmqs_ReadyReplicas :: "32 word"
  rmqs_Message :: string
  rmqs_Conditions :: "condition list"

type_synonym RabbitMQCluster = "(RabbitMQClusterSpec, RabbitMQClusterStatus) cr"

subsection \<open>KafkaCluster\<close>

record KafkaClusterSpec =
  kfk_Replicas :: "32 word"
  kfk_Version :: string
  kfk_Storage :: StorageSpec
  kfk_Resources :: ResourceRequirements
  kfk_Monitoring :: MonitoringSpec
  kfk_Expose :: "ServiceExposeSpec option"

record KafkaClusterStatus =
  kfks_Ready :: bool
  kfks_Phase :: string
  kfks_Message :: string
  kfks_Conditions :: "condition list"

type_synonym KafkaCluster = "(KafkaClusterSpec, KafkaClusterStatus) cr"

subsection \<open>GrafanaInstance\<close>

record GrafanaInstanceSpec =
  gra_Version :: string
  gra_Replicas :: "32 word"
  gra_Persistence :: "PersistenceSpec option"
  gra_Ingress :: "IngressSpec option"
  gra_Expose :: "ServiceExposeSpec option"
  gra_PrometheusRef :: string
  gra_LokiRef :: string

record GrafanaInstanceStatus =
  gras_Ready :: bool
  gras_Phase :: string
  gras_Replicas :: "32 word"
  gras_Message :: string
  gras_Conditions :: "condition list"

type_synonym GrafanaInstance = "(GrafanaInstanceSpec, GrafanaInstanceStatus) cr"

subsection \<open>PrometheusInstance\<close>

record PrometheusInstanceSpec =
  pro_Version :: string
  pro_Replicas :: "32 word"
  pro_Retention :: string
  pro_Storage :: "StorageSpec option"
  pro_Resources :: ResourceRequirements
  pro_Ingress :: "IngressSpec option"
  pro_Expose :: "ServiceExposeSpec option"

record PrometheusInstanceStatus =
  pros_Ready :: bool
  pros_Phase :: string
  pros_Replicas :: "32 word"
  pros_ReadyReplicas :: "32 word"
  pros_Message :: string
  pros_Conditions :: "condition list"

type_synonym PrometheusInstance = "(PrometheusInstanceSpec, PrometheusInstanceStatus) cr"

subsection \<open>LokiInstance\<close>

record LokiObjectStorageSpec =
  los_SecretName :: string

record LokiInstanceSpec =
  lok_Size :: string
  lok_StorageClassName :: string
  lok_ObjectStorage :: LokiObjectStorageSpec

record LokiInstanceStatus =
  loks_Ready :: bool
  loks_Phase :: string
  loks_Message :: string
  loks_Conditions :: "condition list"

type_synonym LokiInstance = "(LokiInstanceSpec, LokiInstanceStatus) cr"

subsection \<open>AlloyInstance\<close>

record AlloyInstanceSpec =
  aly_LokiInstanceRef :: string
  aly_Replicas :: "32 word"

record AlloyInstanceStatus =
  alys_Ready :: bool
  alys_Phase :: string
  alys_Message :: string
  alys_Conditions :: "condition list"

type_synonym AlloyInstance = "(AlloyInstanceSpec, AlloyInstanceStatus) cr"

end
