(* ===== verification/AdapterCommon.thy ===== *)
theory AdapterCommon
  imports AdapterSpec ApiTypes
begin

section \<open>What the vendor packages repeat\<close>

text \<open>
  Fragments that the vendor packages carry as identical copies: the label pair, the resource
  list, the annotation copy, the Ready condition, the search for a condition in a target's
  status, and the conversions between \<open>int32\<close> and \<open>int64\<close>.
\<close>

named_theorems adapter_defs \<open>the constants and builders of the vendor packages\<close>

subsection \<open>Integer conversions\<close>

text \<open>\<open>int64(x)\<close> of an \<open>int32\<close> extends the sign, \<open>int32(x)\<close> of an \<open>int64\<close> keeps 32 bits.\<close>

definition int64 :: "32 word \<Rightarrow> 64 word" where
  "int64 x = scast x"

definition int32 :: "64 word \<Rightarrow> 32 word" where
  "int32 x = ucast x"

lemma sint_int64 [simp]: "sint (int64 x) = sint x"
proof -
  have "- (2 ^ 31) \<le> sint x" "sint x < 2 ^ 31"
    using sint_greater_eq [of x] sint_less [of x] by simp_all
  then show ?thesis
    by (simp add: int64_def signed_scast_eq signed_take_bit_int_eq_self)
qed

lemma sint_int32: "- (2 ^ 31) \<le> sint x \<Longrightarrow> sint x < 2 ^ 31 \<Longrightarrow> sint (int32 x) = sint x"
proof -
  assume r: "- (2 ^ 31) \<le> sint x" "sint x < 2 ^ 31"
  have "sint (int32 x) = signed_take_bit 31 (uint x)"
    by (simp add: int32_def sint_uint unsigned_ucast_eq signed_take_bit_take_bit)
  also have "\<dots> = signed_take_bit 31 (signed_take_bit 63 (uint x))"
    by simp
  also have "\<dots> = signed_take_bit 31 (sint x)"
    by (simp add: sint_uint)
  finally show ?thesis
    using r by (simp add: signed_take_bit_int_eq_self)
qed

subsection \<open>Labels, resources, conditions\<close>

text \<open>\<open>commonLabels\<close> of a package, given its \<open>FieldManager\<close>.\<close>

definition commonLabels :: "string \<Rightarrow> string \<Rightarrow> labels" where
  "commonLabels fieldManager owner =
     [(''app.kubernetes.io/managed-by'', fieldManager), (''paas.cncp.nl/owner'', owner)]"

text \<open>\<open>nil\<close> is \<open>None\<close>; quantities are rendered by \<open>Quantity.String()\<close>.\<close>

definition resourceListJSON :: "deps \<Rightarrow> (string \<times> string) list \<Rightarrow> doc option" where
  "resourceListJSON D lst =
     (if lst = [] then None
      else
        (let out = put_some (map_of lst ''memory'') ''memory'' (\<lambda>mem. JStr (quantity_String D mem))
                     (put_some (map_of lst ''cpu'') ''cpu'' (\<lambda>cpu. JStr (quantity_String D cpu)) [])
         in if out = [] then None else Some out))"

text \<open>
  The \<open>resources\<close> entry of a manifest: requests, then limits, and no entry at all when both
  are empty.
\<close>

definition resources_json :: "deps \<Rightarrow> ResourceRequirements \<Rightarrow> doc" where
  "resources_json D res =
     put_some (resourceListJSON D (rr_Limits res)) ''limits'' JObj
       (put_some (resourceListJSON D (rr_Requests res)) ''requests'' JObj [])"

definition put_resources :: "deps \<Rightarrow> ResourceRequirements \<Rightarrow> doc \<Rightarrow> doc" where
  "put_resources D res spec =
     (let resources = resources_json D res in put_if (resources \<noteq> []) ''resources'' (JObj resources) spec)"

text \<open>The copy of user-supplied annotations, made only when there are any.\<close>

definition put_annotations :: "string \<Rightarrow> labels \<Rightarrow> doc \<Rightarrow> doc" where
  "put_annotations k anns m = put_if (anns \<noteq> []) k (JObj (strings anns)) m"

text \<open>
  The condition every \<open>ApplyStatus\<close> builds and hands to \<open>meta.SetStatusCondition\<close>.
\<close>

definition set_ready_condition ::
    "deps \<Rightarrow> 64 word \<Rightarrow> string \<Rightarrow> string \<Rightarrow> string \<Rightarrow> bool \<Rightarrow> condition list \<Rightarrow> condition list" where
  "set_ready_condition D generation notReadyReason readyReason message ready conditions =
     (let condition = \<lparr>cond_Type = ''Ready'', cond_Status = ConditionFalse,
                       cond_ObservedGeneration = generation, cond_LastTransitionTime = '''',
                       cond_Reason = notReadyReason, cond_Message = message\<rparr>;
          condition' = (if ready then condition\<lparr>cond_Status := ConditionTrue, cond_Reason := readyReason\<rparr>
                        else condition)
      in setStatusCondition D conditions condition')"

text \<open>\<open>(%d/%d unit)\<close> of two \<open>int32\<close> counts.\<close>

definition show_counts :: "TargetStatus \<Rightarrow> string" where
  "show_counts s = show_int (sint (ts_ReadyCount s)) @ ''/'' @ show_int (sint (ts_ObservedCount s))"

text \<open>
  \<open>v, _ := cond[k].(string)\<close>: the string at a key, or the empty string when the key is
  missing or holds something else.
\<close>

definition assert_string :: "doc \<Rightarrow> string \<Rightarrow> string" where
  "assert_string m k = (case map_of m k of Some (JStr s) \<Rightarrow> s | _ \<Rightarrow> '''')"

text \<open>
  The status of a target that is not there or has not reported anything yet, and an entry of
  an \<open>ExtraResource\<close> list whose \<open>PatchOnly\<close> field is left out.
\<close>

definition unknown_status :: TargetStatus where
  "unknown_status = \<lparr>ts_Phase = ''Unknown'', ts_Ready = False, ts_ObservedCount = 0, ts_ReadyCount = 0\<rparr>"

definition extra_resource :: "gvk \<Rightarrow> string \<Rightarrow> unstructured option \<Rightarrow> ExtraResource" where
  "extra_resource g n d = \<lparr>x_GVK = g, x_Name = n, x_Desired = d, x_PatchOnly = False\<rparr>"

lemma extra_resource_simps [simp]:
  "x_GVK (extra_resource g n d) = g" "x_Name (extra_resource g n d) = n"
  "x_Desired (extra_resource g n d) = d" "\<not> x_PatchOnly (extra_resource g n d)"
  "extra_id (extra_resource g n d) = (g, n)"
  by (simp_all add: extra_resource_def extra_id_def)

lemma unknown_status_simps [simp]:
  "ts_Phase unknown_status = ''Unknown''" "\<not> ts_Ready unknown_status"
  "ts_ObservedCount unknown_status = 0" "ts_ReadyCount unknown_status = 0"
  by (simp_all add: unknown_status_def)

text \<open>A phase that is not reported, or reported empty, is \<open>Unknown\<close>.\<close>

definition reported :: "string \<times> bool \<Rightarrow> string" where
  "reported r = (case r of (phase, found) \<Rightarrow> if \<not> found \<or> phase = '''' then ''Unknown'' else phase)"

subsection \<open>Reading a condition off a target\<close>

text \<open>
  The loop three packages carry (loki, strimzi, alloy): the first condition of the wanted type
  decides phase and readiness, entries that are not maps are skipped.
\<close>

fun condition_status :: "deps \<Rightarrow> string \<Rightarrow> json list \<Rightarrow> TargetStatus" where
  "condition_status D ty [] = unknown_status"
| "condition_status D ty (c # cs) =
     (case c of
        JObj cond \<Rightarrow>
          (if fst (nestedString D (JObj cond) [''type'']) \<noteq> ty then condition_status D ty cs
           else
             (let status = fst (nestedString D (JObj cond) [''status'']);
                  reason = fst (nestedString D (JObj cond) [''reason'']);
                  reason = (if reason = '''' then ''Unknown'' else reason)
              in \<lparr>ts_Phase = reason, ts_Ready = (status = ''True''), ts_ObservedCount = 0, ts_ReadyCount = 0\<rparr>))
      | _ \<Rightarrow> condition_status D ty cs)"

text \<open>
  The loop of mariadb and rabbitmq, on type assertions instead of accessors: whether the
  first condition of the type is True, and its reason where it has one.
\<close>

fun condition_reason :: "string \<Rightarrow> json list \<Rightarrow> bool \<times> string" where
  "condition_reason ty [] = (False, ''Unknown'')"
| "condition_reason ty (c # cs) =
     (case c of
        JObj cond \<Rightarrow>
          (if assert_string cond ''type'' \<noteq> ty then condition_reason ty cs
           else
             (let ready = (assert_string cond ''status'' = ''True'');
                  r = assert_string cond ''reason''
              in (ready, if r \<noteq> '''' then r else ''Unknown'')))
      | _ \<Rightarrow> condition_reason ty cs)"

text \<open>The first condition of a type among the entries of a \<open>conditions\<close> array.\<close>

fun first_condition :: "string \<Rightarrow> json list \<Rightarrow> doc option" where
  "first_condition ty [] = None"
| "first_condition ty (JObj cond # cs) =
     (if assert_string cond ''type'' = ty then Some cond else first_condition ty cs)"
| "first_condition ty (_ # cs) = first_condition ty cs"

lemma nestedString_assert:
  "nested_ok D \<Longrightarrow> fst (nestedString D (JObj m) [k]) = assert_string m k"
  by (auto simp: nested_ok_def assert_string_def split: option.split json.split)

lemma condition_status_first:
  assumes "nested_ok D"
  shows "ts_Ready (condition_status D ty cs) \<longleftrightarrow>
           (\<exists>cond. first_condition ty cs = Some cond \<and> assert_string cond ''status'' = ''True'')"
    and "ts_Phase (condition_status D ty cs) =
           (case first_condition ty cs of None \<Rightarrow> ''Unknown''
            | Some cond \<Rightarrow> if assert_string cond ''reason'' = '''' then ''Unknown'' else assert_string cond ''reason'')"
  by (induction ty cs rule: first_condition.induct)
     (simp_all add: nestedString_assert [OF assms] Let_def)

lemma condition_reason_first:
  "condition_reason ty cs =
     (case first_condition ty cs of None \<Rightarrow> (False, ''Unknown'')
      | Some cond \<Rightarrow> (assert_string cond ''status'' = ''True'',
          if assert_string cond ''reason'' = '''' then ''Unknown'' else assert_string cond ''reason''))"
  by (induction ty cs rule: first_condition.induct) (simp_all add: Let_def)

subsection \<open>Lower case\<close>

text \<open>\<open>strings.ToLower\<close> on ASCII, which the service types of the API are restricted to.\<close>

definition lower_char :: "char \<Rightarrow> char" where
  "lower_char c = (let n = of_char c :: nat in if 65 \<le> n \<and> n \<le> 90 then char_of (n + 32) else c)"

definition ToLower :: "string \<Rightarrow> string" where
  "ToLower s = map lower_char s"

subsection \<open>Facts shared by the interpretations\<close>

lemma set_ready_condition_find:
  assumes "conditions_ok D"
  shows "\<exists>cnd. find (\<lambda>d. cond_Type d = ''Ready'') (set_ready_condition D g nr rr msg ready cs) = Some cnd \<and>
          (cond_Status cnd = ConditionTrue \<longleftrightarrow> ready) \<and> (cond_Status cnd = ConditionFalse \<longleftrightarrow> \<not> ready) \<and>
          cond_Reason cnd = (if ready then rr else nr) \<and> cond_Message cnd = msg \<and>
          cond_ObservedGeneration cnd = g"
proof -
  let ?c = "\<lparr>cond_Type = ''Ready'', cond_Status = ConditionFalse, cond_ObservedGeneration = g,
             cond_LastTransitionTime = '''', cond_Reason = nr, cond_Message = msg\<rparr>"
  let ?d = "if ready then ?c\<lparr>cond_Status := ConditionTrue, cond_Reason := rr\<rparr> else ?c"
  from conditions_ok_find [OF assms, of ?d cs] obtain t where
    "find (\<lambda>d. cond_Type d = cond_Type ?d) (setStatusCondition D cs ?d)
       = Some (?d\<lparr>cond_LastTransitionTime := t\<rparr>)" by blast
  then have "find (\<lambda>d. cond_Type d = ''Ready'') (set_ready_condition D g nr rr msg ready cs)
       = Some (?d\<lparr>cond_LastTransitionTime := t\<rparr>)"
    by (simp add: set_ready_condition_def Let_def split: if_splits)
  then show ?thesis by auto
qed

lemma set_ready_condition_others:
  assumes "conditions_ok D"
  shows "filter (\<lambda>d. cond_Type d \<noteq> ''Ready'') (set_ready_condition D g nr rr msg ready cs)
       = filter (\<lambda>d. cond_Type d \<noteq> ''Ready'') cs"
proof -
  let ?c = "\<lparr>cond_Type = ''Ready'', cond_Status = ConditionFalse, cond_ObservedGeneration = g,
             cond_LastTransitionTime = '''', cond_Reason = nr, cond_Message = msg\<rparr>"
  let ?d = "if ready then ?c\<lparr>cond_Status := ConditionTrue, cond_Reason := rr\<rparr> else ?c"
  have "cond_Type ?d = ''Ready''" by simp
  with conditions_ok_others [OF assms, of ?d cs] show ?thesis
    by (simp add: set_ready_condition_def Let_def)
qed

lemma map_of_commonLabels [simp]:
  "map_of (commonLabels fm owner) ''app.kubernetes.io/managed-by'' = Some fm"
  "map_of (commonLabels fm owner) ''paas.cncp.nl/owner'' = Some owner"
  by (simp_all add: commonLabels_def)

lemma map_of_put_resources [simp]: "k \<noteq> ''resources'' \<Longrightarrow> map_of (put_resources D res spec) k = map_of spec k"
  by (simp add: put_resources_def Let_def)

lemma map_of_put_annotations [simp]:
  "map_of (put_annotations k anns m) k' =
     (if anns \<noteq> [] \<and> k' = k then Some (JObj (strings anns)) else map_of m k')"
  by (simp add: put_annotations_def)

end
