(* ===== verification/StatusSpec.thy ===== *)
theory StatusSpec
  imports AdapterCommon
begin

section \<open>The contract of a status mirror\<close>

text \<open>
  Every \<open>ApplyStatus\<close> writes the same shape of status: a ready flag, a phase, a message and
  a condition list with the Ready condition maintained by \<open>meta.SetStatusCondition\<close>. The
  locale \<open>status_mirror\<close> extends the adapter contract by that shape, and
  \<open>counted_readiness\<close> extends it by the rule of the vendors that report replica counts. A
  \<open>status_view\<close> is the part of a resource's status all ten kinds have in common.
\<close>

record status_view =
  v_Ready :: bool
  v_Phase :: string
  v_Message :: string
  v_Conditions :: "condition list"

definition ready_condition :: "condition list \<Rightarrow> condition option" where
  "ready_condition cs = find (\<lambda>d. cond_Type d = ''Ready'') cs"

definition other_conditions :: "condition list \<Rightarrow> condition list" where
  "other_conditions cs = filter (\<lambda>d. cond_Type d \<noteq> ''Ready'') cs"

locale status_mirror = adapter A "\<lambda>t. v_Ready (view_of t)"
  for A :: "('s, 't) adapter" and view_of :: "'t \<Rightarrow> status_view" +
  fixes D :: deps and notReady :: string and isReady :: string
  assumes apply_phase: "v_Phase (view_of (cr_status (fst (a_ApplyStatus A c t s)))) = ts_Phase s"
    and apply_message:
      "v_Message (view_of (cr_status (fst (a_ApplyStatus A c t s)))) = snd (a_ApplyStatus A c t s)"
    and apply_conditions:
      "v_Conditions (view_of (cr_status (fst (a_ApplyStatus A c t s)))) =
       set_ready_condition D (om_Generation (cr_meta c)) notReady isReady (snd (a_ApplyStatus A c t s))
         (ts_Ready s) (v_Conditions (view_of (cr_status c)))"
    and extract_missing: "a_ExtractStatus A None = unknown_status"
begin

lemma mirrored:
  assumes "conditions_ok D"
  shows "\<exists>cnd. ready_condition (v_Conditions (view_of (cr_status (fst (a_ApplyStatus A c t s))))) = Some cnd \<and>
          (cond_Status cnd = ConditionTrue \<longleftrightarrow> ts_Ready s) \<and>
          (cond_Status cnd = ConditionFalse \<longleftrightarrow> \<not> ts_Ready s) \<and>
          cond_Reason cnd = (if ts_Ready s then isReady else notReady) \<and>
          cond_Message cnd = v_Message (view_of (cr_status (fst (a_ApplyStatus A c t s)))) \<and>
          cond_ObservedGeneration cnd = om_Generation (cr_meta c)"
  unfolding apply_conditions apply_message ready_condition_def
  by (rule set_ready_condition_find [OF assms])

lemma other_conditions_kept:
  assumes "conditions_ok D"
  shows "other_conditions (v_Conditions (view_of (cr_status (fst (a_ApplyStatus A c t s))))) =
         other_conditions (v_Conditions (view_of (cr_status c)))"
  unfolding apply_conditions other_conditions_def
  by (rule set_ready_condition_others [OF assms])

text \<open>Mirroring the same observation twice leaves ready flag, phase and message as they are.\<close>

lemma remirror:
  "let c' = fst (a_ApplyStatus A c t s); c'' = fst (a_ApplyStatus A c' t s) in
     v_Ready (view_of (cr_status c'')) = v_Ready (view_of (cr_status c')) \<and>
     v_Phase (view_of (cr_status c'')) = v_Phase (view_of (cr_status c'))"
  by (simp add: Let_def apply_phase apply_status_ready)

end

locale counted_readiness = status_mirror A view_of D notReady isReady
  for A :: "('s, 't) adapter" and view_of D notReady isReady +
  assumes ready_counts:
    "ts_Ready (a_ExtractStatus A u) \<Longrightarrow>
     0 < sint (ts_ObservedCount (a_ExtractStatus A u)) \<and>
     sint (ts_ObservedCount (a_ExtractStatus A u)) \<le> sint (ts_ReadyCount (a_ExtractStatus A u))"
begin

lemma not_ready_when_scaled_to_zero:
  "sint (ts_ObservedCount (a_ExtractStatus A u)) \<le> 0 \<Longrightarrow> \<not> ts_Ready (a_ExtractStatus A u)"
  using ready_counts [of u] by auto

lemma ready_flag_needs_members:
  assumes "v_Ready (view_of (cr_status (fst (a_ApplyStatus A c t (a_ExtractStatus A u)))))"
  shows "u \<noteq> None" and "0 < sint (ts_ReadyCount (a_ExtractStatus A u))"
  using assms ready_counts [of u] by (cases u; simp add: apply_status_ready extract_missing)+

end

end
