(* ===== verification/IngressObj.thy ===== *)
theory IngressObj
  imports AdapterCommon
begin

section \<open>Ingress objects\<close>

text \<open>\<open>internal/ingress/ingress.go\<close>: the Ingress built for the kinds whose vendor builds none.\<close>

definition ingress_GVK :: gvk where
  [adapter_defs]: "ingress_GVK = GVK ''networking.k8s.io'' ''v1'' ''Ingress''"

definition ingress_rules :: "string \<Rightarrow> string \<Rightarrow> 64 word \<Rightarrow> json" where
  "ingress_rules host backendServiceName backendPort =
     JArr [JObj [
       (''host'', JStr host),
       (''http'', JObj [
         (''paths'', JArr [JObj [
           (''path'', JStr ''/''),
           (''pathType'', JStr ''Prefix''),
           (''backend'', JObj [
             (''service'', JObj [
               (''name'', JStr backendServiceName),
               (''port'', JObj [(''number'', JInt backendPort)])])])]])])]]"

definition ingress_tls :: "IngressSpec \<Rightarrow> json" where
  "ingress_tls spec =
     JArr [JObj [(''hosts'', JArr [JStr (ing_Host spec)]), (''secretName'', JStr (ing_TLSSecretName spec))]]"

text \<open>The Ingress \<open>spec\<close>, which the Grafana adapter writes out again inside its manifest.\<close>

definition ingress_spec :: "IngressSpec \<Rightarrow> string \<Rightarrow> 64 word \<Rightarrow> doc" where
  "ingress_spec spec backendServiceName backendPort =
     put_if (ing_TLSSecretName spec \<noteq> '''') ''tls'' (ingress_tls spec)
       (put_if (ing_IngressClassName spec \<noteq> '''') ''ingressClassName'' (JStr (ing_IngressClassName spec))
         [(''rules'', ingress_rules (ing_Host spec) backendServiceName backendPort)])"

text \<open>\<open>SetAnnotations\<close>, called only with annotations to set.\<close>

definition set_annotations :: "labels \<Rightarrow> unstructured \<Rightarrow> unstructured" where
  "set_annotations anns u = (if anns \<noteq> [] then u\<lparr>u_annotations := anns\<rparr> else u)"

definition ingress_Build ::
    "IngressSpec \<Rightarrow> string \<Rightarrow> string \<Rightarrow> string \<Rightarrow> string \<Rightarrow> string \<Rightarrow> 32 word \<Rightarrow> unstructured" where
  "ingress_Build spec name namespace owner fieldManager backendServiceName backendPort =
     (let ingressSpec = ingress_spec spec backendServiceName (int64 backendPort);
          u = new_object ingress_GVK name namespace
                [(''app.kubernetes.io/managed-by'', fieldManager), (''paas.cncp.nl/owner'', owner)];
          u = set_annotations (ing_Annotations spec) u
      in set_entry ''spec'' (JObj ingressSpec) u)"

lemma set_annotations_simps [simp]:
  "u_gvk (set_annotations a u) = u_gvk u" "u_name (set_annotations a u) = u_name u"
  "u_namespace (set_annotations a u) = u_namespace u" "u_labels (set_annotations a u) = u_labels u"
  "u_object (set_annotations a u) = u_object u" "u_finalizers (set_annotations a u) = u_finalizers u"
  by (simp_all add: set_annotations_def)

lemma ingress_Build_simps [simp]:
  "u_gvk (ingress_Build s n ns ow fm b p) = ingress_GVK" "u_name (ingress_Build s n ns ow fm b p) = n"
  "u_namespace (ingress_Build s n ns ow fm b p) = ns"
  "map_of (u_labels (ingress_Build s n ns ow fm b p)) ''app.kubernetes.io/managed-by'' = Some fm"
  "map_of (u_labels (ingress_Build s n ns ow fm b p)) ''paas.cncp.nl/owner'' = Some ow"
  by (simp_all add: ingress_Build_def Let_def)

end
