(* ===== verification/PrometheusAdapter.thy ===== *)
theory PrometheusAdapter
  imports StatusSpec IngressObj
begin

section \<open>PrometheusInstance onto Prometheus\<close>

text \<open>
  \<open>internal/prometheus/prometheus.go\<close>: the Prometheus manifest, the web Service, the optional
  Ingress and the scrape RBAC, and the readiness rule over replica counts.
\<close>

subsection \<open>Names\<close>

definition prometheus_GVK :: gvk where
  [adapter_defs]: "prometheus_GVK = GVK ''monitoring.coreos.com'' ''v1'' ''Prometheus''"
definition prometheus_FieldManager :: string where
  [adapter_defs]: "prometheus_FieldManager = ''prometheusinstance-operator''"
definition prometheus_WebPort :: "32 word" where "prometheus_WebPort = 9090"
definition service_GVK :: gvk where
  [adapter_defs]: "service_GVK = GVK '''' ''v1'' ''Service''"
definition rbacGroup :: string where
  [adapter_defs]: "rbacGroup = ''rbac.authorization.k8s.io''"
definition serviceAccount_GVK :: gvk where
  [adapter_defs]: "serviceAccount_GVK = GVK '''' ''v1'' ''ServiceAccount''"
definition role_GVK :: gvk where
  [adapter_defs]: "role_GVK = GVK rbacGroup ''v1'' ''Role''"
definition roleBinding_GVK :: gvk where
  [adapter_defs]: "roleBinding_GVK = GVK rbacGroup ''v1'' ''RoleBinding''"
definition podSelectorLabel :: string where
  "podSelectorLabel = ''operator.prometheus.io/name''"

definition prometheus_TargetName :: "string \<Rightarrow> string" where
  [adapter_defs]: "prometheus_TargetName crName = crName"

definition prometheus_ServiceName :: "string \<Rightarrow> string" where
  [adapter_defs]: "prometheus_ServiceName crName = prometheus_TargetName crName @ ''-web''"

subsection \<open>Ingress class\<close>

definition prometheus_RequestedIngressClassName :: "PrometheusInstance \<Rightarrow> string \<times> bool" where
  "prometheus_RequestedIngressClassName c =
     (case pro_Ingress (cr_spec c) of None \<Rightarrow> ('''', False) | Some i \<Rightarrow> (ing_IngressClassName i, True))"

definition prometheus_SetIngressClassName ::
    "PrometheusInstance \<Rightarrow> string \<Rightarrow> PrometheusInstance option" where
  "prometheus_SetIngressClassName c className =
     (case pro_Ingress (cr_spec c) of
        None \<Rightarrow> None
      | Some i \<Rightarrow>
          Some (c\<lparr>cr_spec := (cr_spec c)\<lparr>pro_Ingress := Some (i\<lparr>ing_IngressClassName := className\<rparr>)\<rparr>\<rparr>))"

subsection \<open>The manifest\<close>

definition prometheus_storage :: "StorageSpec \<Rightarrow> json" where
  "prometheus_storage st =
     (let pvcSpec = put_if (sto_StorageClass st \<noteq> '''') ''storageClassName'' (JStr (sto_StorageClass st))
            [(''accessModes'', JArr [JStr ''ReadWriteOnce'']),
             (''resources'', JObj [(''requests'', JObj [(''storage'', JStr (sto_Size st))])])]
      in JObj [(''volumeClaimTemplate'', JObj [(''spec'', JObj pvcSpec)])])"

definition prometheus_BuildManifest ::
    "deps \<Rightarrow> PrometheusInstance \<Rightarrow> string \<Rightarrow> string \<Rightarrow> string \<Rightarrow> unstructured" where
  "prometheus_BuildManifest D c name namespace ownerName =
     (let spec = cr_spec c;
          promSpec =
            [(''replicas'', JInt (int64 (pro_Replicas spec))),
             (''serviceAccountName'', JStr name),
             (''serviceMonitorSelector'', JObj []),
             (''podMonitorSelector'', JObj []),
             (''securityContext'', JObj
               [(''fsGroup'', JInt 2000), (''runAsGroup'', JInt 2000),
                (''runAsNonRoot'', JBool True), (''runAsUser'', JInt 1000)])];
          promSpec = put_if (pro_Version spec \<noteq> '''') ''version'' (JStr (pro_Version spec)) promSpec;
          promSpec = put_if (pro_Retention spec \<noteq> '''') ''retention'' (JStr (pro_Retention spec)) promSpec;
          promSpec = put_some (pro_Storage spec) ''storage'' prometheus_storage promSpec;
          promSpec = put_some (pro_Storage spec) ''persistentVolumeClaimRetentionPolicy''
            (\<lambda>_. JObj [(''whenDeleted'', JStr ''Delete'')]) promSpec;
          promSpec = put_resources D (pro_Resources spec) promSpec
      in set_entry ''spec'' (JObj promSpec)
           (new_object prometheus_GVK name namespace (commonLabels prometheus_FieldManager ownerName)))"

subsection \<open>Auxiliary objects\<close>

definition scrapeRBACExtras :: "string \<Rightarrow> string \<Rightarrow> string \<Rightarrow> ExtraResource list" where
  "scrapeRBACExtras targetName namespace owner =
     (let labels = commonLabels prometheus_FieldManager owner;
          sa = new_object serviceAccount_GVK targetName namespace labels;
          role = set_entry ''rules'' (JArr [JObj
                   [(''apiGroups'', JArr [JStr '''']),
                    (''resources'', JArr [JStr ''pods'', JStr ''services'', JStr ''endpoints'']),
                    (''verbs'', JArr [JStr ''get'', JStr ''list'', JStr ''watch''])]])
                 (new_object role_GVK targetName namespace labels);
          roleBinding =
            set_entry ''subjects'' (JArr [JObj
                [(''kind'', JStr ''ServiceAccount''), (''name'', JStr targetName),
                 (''namespace'', JStr namespace)]])
              (set_entry ''roleRef'' (JObj
                  [(''apiGroup'', JStr rbacGroup), (''kind'', JStr ''Role''), (''name'', JStr targetName)])
                (new_object roleBinding_GVK targetName namespace labels))
      in [extra_resource serviceAccount_GVK targetName (Some sa),
          extra_resource role_GVK targetName (Some role),
          extra_resource roleBinding_GVK targetName (Some roleBinding)])"

definition prometheus_service :: "ServiceExposeSpec option \<Rightarrow> string \<Rightarrow> string \<Rightarrow> string \<Rightarrow> unstructured" where
  "prometheus_service expose targetName namespace owner =
     (let serviceType = (case expose of
            None \<Rightarrow> ''ClusterIP''
          | Some e \<Rightarrow> if exp_Type e \<noteq> '''' then exp_Type e else ''ClusterIP'');
          service = new_object service_GVK (prometheus_ServiceName targetName) namespace
                      (commonLabels prometheus_FieldManager owner);
          service = (case expose of None \<Rightarrow> service | Some e \<Rightarrow> set_annotations (exp_Annotations e) service)
      in set_entry ''spec'' (JObj
           [(''type'', JStr serviceType),
            (''selector'', JObj [(podSelectorLabel, JStr targetName)]),
            (''ports'', JArr [JObj
              [(''name'', JStr ''web''), (''port'', JInt (int64 prometheus_WebPort)),
               (''targetPort'', JStr ''web'')]])]) service)"

definition prometheus_ExtraResources ::
    "PrometheusInstance \<Rightarrow> string \<Rightarrow> string \<Rightarrow> string \<Rightarrow> ExtraResource list" where
  "prometheus_ExtraResources c targetName namespace owner =
     (let serviceName = prometheus_ServiceName targetName;
          ingressName = targetName @ ''-prometheus-ingress'';
          service = prometheus_service (pro_Expose (cr_spec c)) targetName namespace owner;
          rbacExtras = scrapeRBACExtras targetName namespace owner
      in case pro_Ingress (cr_spec c) of
           None \<Rightarrow>
             [extra_resource service_GVK serviceName (Some service),
              extra_resource ingress_GVK ingressName None] @ rbacExtras
         | Some i \<Rightarrow>
             (let desiredIngress = ingress_Build i ingressName namespace owner
                    prometheus_FieldManager serviceName prometheus_WebPort
              in [extra_resource service_GVK serviceName (Some service),
                  extra_resource ingress_GVK ingressName (Some desiredIngress)] @ rbacExtras))"

subsection \<open>Status\<close>

definition prometheus_ExtractStatus :: "deps \<Rightarrow> unstructured option \<Rightarrow> TargetStatus" where
  "prometheus_ExtractStatus D target =
     (case target of
        None \<Rightarrow> unknown_status
      | Some u \<Rightarrow>
          (let obj = JObj (u_object u);
               observed = int32 (fst (nestedInt64 D obj [''status'', ''replicas'']));
               ready = int32 (fst (nestedInt64 D obj [''status'', ''availableReplicas'']));
               (paused, found) = nestedBool D obj [''status'', ''paused''];
               phase = (if found \<and> paused then ''Paused''
                        else if 0 < sint observed then ''Progressing'' else ''Unknown'')
           in \<lparr>ts_Phase = phase, ts_Ready = (0 < sint observed \<and> sint observed \<le> sint ready),
               ts_ObservedCount = observed, ts_ReadyCount = ready\<rparr>))"

definition prometheus_ApplyStatus ::
    "deps \<Rightarrow> PrometheusInstance \<Rightarrow> string \<Rightarrow> TargetStatus \<Rightarrow> PrometheusInstance \<times> string" where
  "prometheus_ApplyStatus D c targetName s =
     (let message = (if ts_Ready s
            then ''Prometheus '' @ quote targetName @ '' is ready ('' @ show_counts s @ '' replicas)''
            else ''Waiting for Prometheus '' @ quote targetName @ '' (phase: '' @ ts_Phase s @ '')'');
          conditions = set_ready_condition D (om_Generation (cr_meta c))
            ''PrometheusNotReady'' ''PrometheusReady'' message (ts_Ready s) (pros_Conditions (cr_status c))
      in (c\<lparr>cr_status := (cr_status c)\<lparr>pros_Conditions := conditions, pros_Ready := ts_Ready s,
              pros_Phase := ts_Phase s, pros_Replicas := ts_ObservedCount s,
              pros_ReadyReplicas := ts_ReadyCount s, pros_Message := message\<rparr>\<rparr>, message))"

subsection \<open>The adapter\<close>

definition prometheus_Adapter :: "deps \<Rightarrow> (PrometheusInstanceSpec, PrometheusInstanceStatus) adapter" where
  "prometheus_Adapter D =
     \<lparr>a_GVK = prometheus_GVK, a_TargetName = prometheus_TargetName, a_ObjectKind = ''Prometheus'',
      a_FieldManager = prometheus_FieldManager, a_BuildManifest = prometheus_BuildManifest D,
      a_ExtractStatus = prometheus_ExtractStatus D, a_ApplyStatus = prometheus_ApplyStatus D,
      a_ExtraResources = Some prometheus_ExtraResources, a_PVCLabelSelector = None,
      a_IngressClass = Some (prometheus_RequestedIngressClassName, prometheus_SetIngressClassName)\<rparr>"

lemma prometheus_Adapter_fields [simp]:
  "a_GVK (prometheus_Adapter D) = prometheus_GVK"
  "a_TargetName (prometheus_Adapter D) = prometheus_TargetName"
  "a_ObjectKind (prometheus_Adapter D) = ''Prometheus''"
  "a_FieldManager (prometheus_Adapter D) = prometheus_FieldManager"
  "a_BuildManifest (prometheus_Adapter D) = prometheus_BuildManifest D"
  "a_ExtractStatus (prometheus_Adapter D) = prometheus_ExtractStatus D"
  "a_ApplyStatus (prometheus_Adapter D) = prometheus_ApplyStatus D"
  "a_ExtraResources (prometheus_Adapter D) = Some prometheus_ExtraResources"
  "a_PVCLabelSelector (prometheus_Adapter D) = None"
  "a_IngressClass (prometheus_Adapter D) = Some (prometheus_RequestedIngressClassName, prometheus_SetIngressClassName)"
  by (simp_all add: prometheus_Adapter_def)

definition prometheus_view :: "PrometheusInstanceStatus \<Rightarrow> status_view" where
  "prometheus_view st = \<lparr>v_Ready = pros_Ready st, v_Phase = pros_Phase st,
     v_Message = pros_Message st, v_Conditions = pros_Conditions st\<rparr>"

lemma prometheus_BuildManifest_meta [simp]:
  "u_gvk (prometheus_BuildManifest D c n ns ow) = prometheus_GVK"
  "u_name (prometheus_BuildManifest D c n ns ow) = n"
  "u_namespace (prometheus_BuildManifest D c n ns ow) = ns"
  "u_labels (prometheus_BuildManifest D c n ns ow) = commonLabels prometheus_FieldManager ow"
  by (simp_all add: prometheus_BuildManifest_def Let_def)

lemma prometheus_service_meta [simp]:
  "u_gvk (prometheus_service e t ns ow) = service_GVK"
  "u_name (prometheus_service e t ns ow) = prometheus_ServiceName t"
  "u_namespace (prometheus_service e t ns ow) = ns"
  "u_labels (prometheus_service e t ns ow) = commonLabels prometheus_FieldManager ow"
  by (simp_all add: prometheus_service_def Let_def split: option.split)

interpretation prometheus: counted_readiness "prometheus_Adapter D" prometheus_view D
  "''PrometheusNotReady''" "''PrometheusReady''"
  by unfold_locales
     (auto simp: prometheus_Adapter_def prometheus_view_def extras_def object_id_def
        prometheus_ExtraResources_def scrapeRBACExtras_def adapter_defs
        prometheus_ApplyStatus_def prometheus_ExtractStatus_def Let_def
        prometheus_RequestedIngressClassName_def prometheus_SetIngressClassName_def
      split: option.splits prod.splits if_splits)

end
