(* ===== verification/LokiAdapter.thy ===== *)
theory LokiAdapter
  imports StatusSpec
begin

section \<open>LokiInstance onto LokiStack\<close>

text \<open>
  \<open>internal/loki/loki.go\<close>: the LokiStack manifest, the \<open>fsGroup\<close> patches onto the
  StatefulSets the Loki Operator generates, the selector of the volume claims to delete, and
  readiness read off the target's Ready condition.
\<close>

definition loki_GVK :: gvk where
  [adapter_defs]: "loki_GVK = GVK ''loki.grafana.com'' ''v1'' ''LokiStack''"
definition loki_FieldManager :: string where
  [adapter_defs]: "loki_FieldManager = ''lokiinstance-operator''"
definition loki_QueryPort :: nat where "loki_QueryPort = 3100"
definition lokiFSGroup :: "64 word" where "lokiFSGroup = 10001"
definition pvcBackedComponents :: "string list" where
  [adapter_defs]: "pvcBackedComponents = [''ingester'', ''compactor'', ''index-gateway'']"

definition loki_TargetName :: "string \<Rightarrow> string" where
  [adapter_defs]: "loki_TargetName crName = crName"

definition loki_QueryServiceName :: "string \<Rightarrow> string" where
  "loki_QueryServiceName crName = crName @ ''-query-frontend-http''"

definition loki_WriteServiceName :: "string \<Rightarrow> string" where
  "loki_WriteServiceName crName = crName @ ''-distributor-http''"

subsection \<open>Auxiliary objects and volume claims\<close>

definition loki_component_patch :: "string \<Rightarrow> string \<Rightarrow> string \<Rightarrow> ExtraResource" where
  "loki_component_patch targetName namespace component =
     (let name = targetName @ ''-'' @ component;
          patch = set_entry ''spec'' (JObj
              [(''template'', JObj [(''spec'', JObj
                 [(''securityContext'', JObj [(''fsGroup'', JInt lokiFSGroup)])])])])
            (new_object statefulSetGVK name namespace [])
      in \<lparr>x_GVK = statefulSetGVK, x_Name = name, x_Desired = Some patch, x_PatchOnly = True\<rparr>)"

definition loki_ExtraResources ::
    "LokiInstance \<Rightarrow> string \<Rightarrow> string \<Rightarrow> string \<Rightarrow> ExtraResource list" where
  "loki_ExtraResources c targetName namespace owner =
     map (loki_component_patch targetName namespace) pvcBackedComponents"

definition loki_PVCLabelSelector :: "LokiInstance \<Rightarrow> string \<Rightarrow> labels" where
  "loki_PVCLabelSelector c targetName =
     [(''app.kubernetes.io/name'', ''lokistack''),
      (''app.kubernetes.io/instance'', targetName),
      (''app.kubernetes.io/managed-by'', ''lokistack-controller'')]"

subsection \<open>The manifest\<close>

definition loki_BuildManifest :: "LokiInstance \<Rightarrow> string \<Rightarrow> string \<Rightarrow> string \<Rightarrow> unstructured" where
  "loki_BuildManifest c name namespace ownerName =
     (let spec = cr_spec c;
          lokiSpec =
            [(''size'', JStr (lok_Size spec)),
             (''storageClassName'', JStr (lok_StorageClassName spec)),
             (''storage'', JObj
               [(''schemas'', JArr [JObj
                  [(''version'', JStr ''v13''), (''effectiveDate'', JStr ''2024-01-01'')]]),
                (''secret'', JObj
                  [(''name'', JStr (los_SecretName (lok_ObjectStorage spec))), (''type'', JStr ''s3'')])])]
      in set_entry ''spec'' (JObj lokiSpec)
           (new_object loki_GVK name namespace (commonLabels loki_FieldManager ownerName)))"

subsection \<open>Status\<close>

definition loki_ExtractStatus :: "deps \<Rightarrow> unstructured option \<Rightarrow> TargetStatus" where
  "loki_ExtractStatus D target =
     (case target of
        None \<Rightarrow> unknown_status
      | Some u \<Rightarrow>
          condition_status D ''Ready'' (fst (nestedSlice D (JObj (u_object u)) [''status'', ''conditions''])))"

definition loki_ApplyStatus ::
    "deps \<Rightarrow> LokiInstance \<Rightarrow> string \<Rightarrow> TargetStatus \<Rightarrow> LokiInstance \<times> string" where
  "loki_ApplyStatus D c targetName s =
     (let message = (if ts_Ready s then ''LokiStack '' @ quote targetName @ '' is ready''
            else ''Waiting for LokiStack '' @ quote targetName @ '' (phase: '' @ ts_Phase s @ '')'');
          conditions = set_ready_condition D (om_Generation (cr_meta c))
            ''LokiStackNotReady'' ''LokiStackReady'' message (ts_Ready s) (loks_Conditions (cr_status c))
      in (c\<lparr>cr_status := (cr_status c)\<lparr>loks_Conditions := conditions, loks_Ready := ts_Ready s,
              loks_Phase := ts_Phase s, loks_Message := message\<rparr>\<rparr>, message))"

subsection \<open>The adapter\<close>

definition loki_Adapter :: "deps \<Rightarrow> (LokiInstanceSpec, LokiInstanceStatus) adapter" where
  "loki_Adapter D =
     \<lparr>a_GVK = loki_GVK, a_TargetName = loki_TargetName, a_ObjectKind = ''LokiStack'',
      a_FieldManager = loki_FieldManager, a_BuildManifest = loki_BuildManifest,
      a_ExtractStatus = loki_ExtractStatus D, a_ApplyStatus = loki_ApplyStatus D,
      a_ExtraResources = Some loki_ExtraResources, a_PVCLabelSelector = Some loki_PVCLabelSelector,
      a_IngressClass = None\<rparr>"

lemma loki_Adapter_fields [simp]:
  "a_GVK (loki_Adapter D) = loki_GVK"
  "a_TargetName (loki_Adapter D) = loki_TargetName"
  "a_ObjectKind (loki_Adapter D) = ''LokiStack''"
  "a_FieldManager (loki_Adapter D) = loki_FieldManager"
  "a_BuildManifest (loki_Adapter D) = loki_BuildManifest"
  "a_ExtractStatus (loki_Adapter D) = loki_ExtractStatus D"
  "a_ApplyStatus (loki_Adapter D) = loki_ApplyStatus D"
  "a_ExtraResources (loki_Adapter D) = Some loki_ExtraResources"
  "a_PVCLabelSelector (loki_Adapter D) = Some loki_PVCLabelSelector"
  "a_IngressClass (loki_Adapter D) = None"
  by (simp_all add: loki_Adapter_def)

definition loki_view :: "LokiInstanceStatus \<Rightarrow> status_view" where
  "loki_view st = \<lparr>v_Ready = loks_Ready st, v_Phase = loks_Phase st,
     v_Message = loks_Message st, v_Conditions = loks_Conditions st\<rparr>"

lemma loki_BuildManifest_meta [simp]:
  "u_gvk (loki_BuildManifest c n ns ow) = loki_GVK"
  "u_name (loki_BuildManifest c n ns ow) = n"
  "u_namespace (loki_BuildManifest c n ns ow) = ns"
  "u_labels (loki_BuildManifest c n ns ow) = commonLabels loki_FieldManager ow"
  by (simp_all add: loki_BuildManifest_def Let_def)

interpretation loki: status_mirror "loki_Adapter D" loki_view D
  "''LokiStackNotReady''" "''LokiStackReady''"
  by unfold_locales
     (auto simp: loki_Adapter_def loki_view_def extras_def object_id_def extra_id_def
        loki_ExtraResources_def loki_component_patch_def adapter_defs statefulSetGVK_def
        loki_ApplyStatus_def loki_ExtractStatus_def Let_def)

end
