(* ===== verification/GrafanaAdapter.thy ===== *)
theory GrafanaAdapter
  imports PrometheusAdapter LokiAdapter
begin

section \<open>GrafanaInstance onto Grafana\<close>

text \<open>
  \<open>internal/grafana/grafana.go\<close>: the Grafana manifest with its optional Ingress, Service and
  volume claim, the datasources that wire it to the namespace's Prometheus and Loki, and the
  names the other packages use to get their dashboards picked up.
\<close>

subsection \<open>Names\<close>

definition grafana_Group :: string where
  [adapter_defs]: "grafana_Group = ''grafana.integreatly.org''"
definition grafana_Version :: string where
  [adapter_defs]: "grafana_Version = ''v1beta1''"
definition grafana_GVK :: gvk where
  [adapter_defs]: "grafana_GVK = GVK grafana_Group grafana_Version ''Grafana''"
definition datasource_GVK :: gvk where
  [adapter_defs]: "datasource_GVK = GVK grafana_Group grafana_Version ''GrafanaDatasource''"
definition grafana_FieldManager :: string where
  [adapter_defs]: "grafana_FieldManager = ''grafanainstance-operator''"
definition grafana_ScopeLabel :: string where
  "grafana_ScopeLabel = ''dashboards.paas.cncp.nl/scope''"
definition grafana_DatasourceUID :: string where "grafana_DatasourceUID = ''prometheus''"
definition grafana_LokiDatasourceUID :: string where "grafana_LokiDatasourceUID = ''loki''"
definition lokiOrgID :: string where "lokiOrgID = ''fake''"
definition grafana_WebPort :: "64 word" where "grafana_WebPort = 3000"

definition grafana_TargetName :: "string \<Rightarrow> string" where
  [adapter_defs]: "grafana_TargetName crName = crName"

definition grafana_ServiceName :: "string \<Rightarrow> string" where
  [adapter_defs]: "grafana_ServiceName crName = grafana_TargetName crName @ ''-service''"

definition grafana_InstanceSelector :: "string \<Rightarrow> json" where
  "grafana_InstanceSelector namespace =
     JObj [(''matchLabels'', JObj [(grafana_ScopeLabel, JStr namespace)])]"

subsection \<open>Ingress class\<close>

definition grafana_RequestedIngressClassName :: "GrafanaInstance \<Rightarrow> string \<times> bool" where
  "grafana_RequestedIngressClassName c =
     (case gra_Ingress (cr_spec c) of None \<Rightarrow> ('''', False) | Some i \<Rightarrow> (ing_IngressClassName i, True))"

definition grafana_SetIngressClassName :: "GrafanaInstance \<Rightarrow> string \<Rightarrow> GrafanaInstance option" where
  "grafana_SetIngressClassName c className =
     (case gra_Ingress (cr_spec c) of
        None \<Rightarrow> None
      | Some i \<Rightarrow>
          Some (c\<lparr>cr_spec := (cr_spec c)\<lparr>gra_Ingress := Some (i\<lparr>ing_IngressClassName := className\<rparr>)\<rparr>\<rparr>))"

subsection \<open>The manifest\<close>

text \<open>\<open>metadata.annotations\<close> of a nested object, present only with annotations to carry.\<close>

definition put_metadata_annotations :: "labels \<Rightarrow> doc \<Rightarrow> doc" where
  "put_metadata_annotations anns m =
     put_if (anns \<noteq> []) ''metadata'' (JObj [(''annotations'', JObj (strings anns))]) m"

definition grafana_ingress :: "string \<Rightarrow> IngressSpec \<Rightarrow> json" where
  "grafana_ingress name i =
     JObj (put_metadata_annotations (ing_Annotations i)
       [(''spec'', JObj (ingress_spec i (grafana_ServiceName name) grafana_WebPort))])"

definition grafana_service :: "ServiceExposeSpec \<Rightarrow> json" where
  "grafana_service e =
     (let serviceSpec = put_if (exp_Type e \<noteq> '''') ''type'' (JStr (exp_Type e)) []
      in JObj (put_metadata_annotations (exp_Annotations e) [(''spec'', JObj serviceSpec)]))"

definition grafana_pvc :: "PersistenceSpec \<Rightarrow> json" where
  "grafana_pvc p =
     (let pvcSpec = put_if (per_StorageClass p \<noteq> '''') ''storageClassName'' (JStr (per_StorageClass p))
            [(''accessModes'', JArr [JStr ''ReadWriteOnce'']),
             (''resources'', JObj [(''requests'', JObj [(''storage'', JStr (per_Size p))])])]
      in JObj [(''spec'', JObj pvcSpec)])"

definition grafana_BuildManifest :: "GrafanaInstance \<Rightarrow> string \<Rightarrow> string \<Rightarrow> string \<Rightarrow> unstructured" where
  "grafana_BuildManifest c name namespace ownerName =
     (let spec = cr_spec c;
          deploymentSpec = [(''replicas'', JInt (int64 (gra_Replicas spec)))];
          grafanaSpec = [(''deployment'', JObj [(''spec'', JObj deploymentSpec)])];
          grafanaSpec = put_if (gra_Version spec \<noteq> '''') ''version'' (JStr (gra_Version spec)) grafanaSpec;
          grafanaSpec = put_some (gra_Ingress spec) ''ingress'' (grafana_ingress name) grafanaSpec;
          grafanaSpec = put_some (gra_Expose spec) ''service'' grafana_service grafanaSpec;
          grafanaSpec = put_some (gra_Persistence spec) ''persistentVolumeClaim'' grafana_pvc grafanaSpec
      in set_entry ''spec'' (JObj grafanaSpec)
           (new_object grafana_GVK name namespace
             (commonLabels grafana_FieldManager ownerName @ [(grafana_ScopeLabel, namespace)])))"

subsection \<open>Datasources\<close>

definition service_url :: "string \<Rightarrow> string \<Rightarrow> nat \<Rightarrow> string" where
  "service_url service namespace port =
     ''http://'' @ service @ ''.'' @ namespace @ ''.svc:'' @ show_nat port"

definition grafana_prometheus_datasource :: "string \<Rightarrow> string \<Rightarrow> string \<Rightarrow> json" where
  "grafana_prometheus_datasource prometheusRef targetName namespace =
     JObj
       [(''instanceSelector'', grafana_InstanceSelector namespace),
        (''uid'', JStr grafana_DatasourceUID),
        (''datasource'', JObj
          [(''name'', JStr ''Prometheus''), (''type'', JStr ''prometheus''), (''access'', JStr ''proxy''),
           (''url'', JStr (service_url (prometheus_ServiceName prometheusRef) namespace
                       (unat prometheus_WebPort))),
           (''isDefault'', JBool True)])]"

definition grafana_loki_datasource :: "string \<Rightarrow> string \<Rightarrow> string \<Rightarrow> json" where
  "grafana_loki_datasource lokiRef targetName namespace =
     JObj
       [(''instanceSelector'', grafana_InstanceSelector namespace),
        (''uid'', JStr grafana_LokiDatasourceUID),
        (''datasource'', JObj
          [(''name'', JStr ''Loki''), (''type'', JStr ''loki''), (''access'', JStr ''proxy''),
           (''url'', JStr (service_url (loki_QueryServiceName lokiRef) namespace loki_QueryPort)),
           (''jsonData'', JObj [(''httpHeaderName1'', JStr ''X-Scope-OrgID'')]),
           (''secureJsonData'', JObj [(''httpHeaderValue1'', JStr lokiOrgID)])])]"

definition grafana_ExtraResources ::
    "GrafanaInstance \<Rightarrow> string \<Rightarrow> string \<Rightarrow> string \<Rightarrow> ExtraResource list" where
  "grafana_ExtraResources c targetName namespace owner =
     (let labels = commonLabels grafana_FieldManager owner;
          datasourceName = targetName @ ''-prometheus'';
          datasource = set_entry ''spec''
            (grafana_prometheus_datasource (gra_PrometheusRef (cr_spec c)) targetName namespace)
            (new_object datasource_GVK datasourceName namespace labels);
          lokiDatasourceName = targetName @ ''-loki'';
          extras = [extra_resource datasource_GVK datasourceName (Some datasource)]
      in if gra_LokiRef (cr_spec c) = ''''
         then extras @ [extra_resource datasource_GVK lokiDatasourceName None]
         else
           (let lokiDatasource = set_entry ''spec''
                  (grafana_loki_datasource (gra_LokiRef (cr_spec c)) targetName namespace)
                  (new_object datasource_GVK lokiDatasourceName namespace labels)
            in extras @ [extra_resource datasource_GVK lokiDatasourceName (Some lokiDatasource)]))"

subsection \<open>Status\<close>

definition grafana_ExtractStatus :: "deps \<Rightarrow> unstructured option \<Rightarrow> TargetStatus" where
  "grafana_ExtractStatus D target =
     (case target of
        None \<Rightarrow> unknown_status
      | Some u \<Rightarrow>
          (let obj = JObj (u_object u);
               stage = reported (nestedString D obj [''status'', ''stage'']);
               stageStatus = fst (nestedString D obj [''status'', ''stageStatus'']);
               replicas = fst (nestedInt64 D obj [''status'', ''replicas'']);
               (desired, found) =
                 nestedInt64 D obj [''spec'', ''deployment'', ''spec'', ''replicas''];
               desired = (if \<not> found then 1 else desired)
           in \<lparr>ts_Phase = stage @ ''/'' @ stageStatus,
               ts_Ready = (stage = ''complete'' \<and> stageStatus = ''success''),
               ts_ObservedCount = int32 desired, ts_ReadyCount = int32 replicas\<rparr>))"

definition grafana_ApplyStatus ::
    "deps \<Rightarrow> GrafanaInstance \<Rightarrow> string \<Rightarrow> TargetStatus \<Rightarrow> GrafanaInstance \<times> string" where
  "grafana_ApplyStatus D c targetName s =
     (let message = (if ts_Ready s
            then ''Grafana '' @ quote targetName @ '' is ready ('' @ show_counts s @ '' replicas)''
            else ''Waiting for Grafana '' @ quote targetName @ '' (stage: '' @ ts_Phase s @ '')'');
          conditions = set_ready_condition D (om_Generation (cr_meta c))
            ''GrafanaNotReady'' ''GrafanaReady'' message (ts_Ready s) (gras_Conditions (cr_status c))
      in (c\<lparr>cr_status := (cr_status c)\<lparr>gras_Conditions := conditions, gras_Ready := ts_Ready s,
              gras_Phase := ts_Phase s, gras_Replicas := ts_ReadyCount s,
              gras_Message := message\<rparr>\<rparr>, message))"

subsection \<open>The adapter\<close>

definition grafana_Adapter :: "deps \<Rightarrow> (GrafanaInstanceSpec, GrafanaInstanceStatus) adapter" where
  "grafana_Adapter D =
     \<lparr>a_GVK = grafana_GVK, a_TargetName = grafana_TargetName, a_ObjectKind = ''Grafana'',
      a_FieldManager = grafana_FieldManager, a_BuildManifest = grafana_BuildManifest,
      a_ExtractStatus = grafana_ExtractStatus D, a_ApplyStatus = grafana_ApplyStatus D,
      a_ExtraResources = Some grafana_ExtraResources, a_PVCLabelSelector = None,
      a_IngressClass = Some (grafana_RequestedIngressClassName, grafana_SetIngressClassName)\<rparr>"

lemma grafana_Adapter_fields [simp]:
  "a_GVK (grafana_Adapter D) = grafana_GVK"
  "a_TargetName (grafana_Adapter D) = grafana_TargetName"
  "a_ObjectKind (grafana_Adapter D) = ''Grafana''"
  "a_FieldManager (grafana_Adapter D) = grafana_FieldManager"
  "a_BuildManifest (grafana_Adapter D) = grafana_BuildManifest"
  "a_ExtractStatus (grafana_Adapter D) = grafana_ExtractStatus D"
  "a_ApplyStatus (grafana_Adapter D) = grafana_ApplyStatus D"
  "a_ExtraResources (grafana_Adapter D) = Some grafana_ExtraResources"
  "a_PVCLabelSelector (grafana_Adapter D) = None"
  "a_IngressClass (grafana_Adapter D) = Some (grafana_RequestedIngressClassName, grafana_SetIngressClassName)"
  by (simp_all add: grafana_Adapter_def)

definition grafana_view :: "GrafanaInstanceStatus \<Rightarrow> status_view" where
  "grafana_view st = \<lparr>v_Ready = gras_Ready st, v_Phase = gras_Phase st,
     v_Message = gras_Message st, v_Conditions = gras_Conditions st\<rparr>"

lemma grafana_BuildManifest_meta [simp]:
  "u_gvk (grafana_BuildManifest c n ns ow) = grafana_GVK"
  "u_name (grafana_BuildManifest c n ns ow) = n"
  "u_namespace (grafana_BuildManifest c n ns ow) = ns"
  "u_labels (grafana_BuildManifest c n ns ow) =
     commonLabels grafana_FieldManager ow @ [(grafana_ScopeLabel, ns)]"
  by (simp_all add: grafana_BuildManifest_def Let_def)

interpretation grafana: status_mirror "grafana_Adapter D" grafana_view D
  "''GrafanaNotReady''" "''GrafanaReady''"
  by unfold_locales
     (auto simp: grafana_Adapter_def grafana_view_def extras_def object_id_def
        grafana_ExtraResources_def adapter_defs map_add_Some_iff
        grafana_ApplyStatus_def grafana_ExtractStatus_def Let_def
        grafana_RequestedIngressClassName_def grafana_SetIngressClassName_def
      split: option.splits prod.splits if_splits)

subsection \<open>Dashboards of the other packages\<close>

text \<open>
  The GrafanaDashboard spec every package with a dashboard writes: its own folder, input name
  and embedded JSON, this package's selector and datasource.
\<close>

definition dashboard_GVK :: gvk where
  [adapter_defs]: "dashboard_GVK = GVK grafana_Group grafana_Version ''GrafanaDashboard''"

definition dashboard_spec :: "string \<Rightarrow> string \<Rightarrow> string \<Rightarrow> string \<Rightarrow> json" where
  "dashboard_spec namespace folder inputName dashboardJSON =
     JObj
       [(''instanceSelector'', grafana_InstanceSelector namespace),
        (''folder'', JStr folder),
        (''datasources'', JArr [JObj
          [(''inputName'', JStr inputName), (''datasourceName'', JStr grafana_DatasourceUID)]]),
        (''json'', JStr dashboardJSON)]"

definition dashboard_object ::
    "string \<Rightarrow> string \<Rightarrow> labels \<Rightarrow> string \<Rightarrow> string \<Rightarrow> string \<Rightarrow> unstructured" where
  "dashboard_object name namespace labels folder inputName dashboardJSON =
     set_entry ''spec'' (dashboard_spec namespace folder inputName dashboardJSON)
       (new_object dashboard_GVK name namespace labels)"

lemma dashboard_object_meta [simp]:
  "u_gvk (dashboard_object n ns ls f i j) = dashboard_GVK" "u_name (dashboard_object n ns ls f i j) = n"
  "u_namespace (dashboard_object n ns ls f i j) = ns" "u_labels (dashboard_object n ns ls f i j) = ls"
  by (simp_all add: dashboard_object_def)

end
