(* ===== verification/CnpgAdapter.thy ===== *)
theory CnpgAdapter
  imports GrafanaAdapter
begin

section \<open>PostgresCluster onto a CloudNativePG Cluster\<close>

text \<open>
  \<open>internal/cnpg/cnpg.go\<close>: the Cluster manifest with its optional external service and
  PodMonitor switch, the dashboard that goes with monitoring, and readiness from the instance
  counts.
\<close>

definition cnpg_GVK :: gvk where
  [adapter_defs]: "cnpg_GVK = GVK ''postgresql.cnpg.io'' ''v1'' ''Cluster''"
definition cnpg_FieldManager :: string where
  [adapter_defs]: "cnpg_FieldManager = ''postgrescluster-operator''"

definition cnpg_TargetName :: "string \<Rightarrow> string" where
  [adapter_defs]: "cnpg_TargetName crName = crName"

definition cnpg_managed :: "string \<Rightarrow> ServiceExposeSpec \<Rightarrow> json" where
  "cnpg_managed name expose =
     (let serviceMetadata = put_annotations ''annotations'' (exp_Annotations expose)
            [(''name'', JStr (name @ ''-external''))]
      in JObj [(''services'', JObj [(''additional'', JArr [JObj
           [(''selectorType'', JStr ''rw''),
            (''serviceTemplate'', JObj
              [(''metadata'', JObj serviceMetadata),
               (''spec'', JObj [(''type'', JStr (exp_Type expose))])])]])])])"

definition cnpg_BuildManifest ::
    "deps \<Rightarrow> PostgresCluster \<Rightarrow> string \<Rightarrow> string \<Rightarrow> string \<Rightarrow> unstructured" where
  "cnpg_BuildManifest D c name namespace ownerName =
     (let spec = cr_spec c;
          storage = put_if (sto_StorageClass (pg_Storage spec) \<noteq> '''') ''storageClass''
            (JStr (sto_StorageClass (pg_Storage spec))) [(''size'', JStr (sto_Size (pg_Storage spec)))];
          clusterSpec =
            [(''instances'', JInt (int64 (pg_Instances spec))),
             (''storage'', JObj storage),
             (''bootstrap'', JObj [(''initdb'', JObj
               [(''database'', JStr (db_Name (pg_Database spec))),
                (''owner'', JStr (db_Owner (pg_Database spec)))])])];
          clusterSpec = put_if (pg_Image spec \<noteq> '''') ''imageName'' (JStr (pg_Image spec)) clusterSpec;
          clusterSpec = put_resources D (pg_Resources spec) clusterSpec;
          clusterSpec = put_some (pg_Expose spec) ''managed'' (cnpg_managed name) clusterSpec;
          clusterSpec = put_if (EnablePodMonitor (pg_Monitoring spec)) ''monitoring''
            (JObj [(''enablePodMonitor'', JBool True)]) clusterSpec
      in set_entry ''spec'' (JObj clusterSpec)
           (new_object cnpg_GVK name namespace (commonLabels cnpg_FieldManager ownerName)))"

definition cnpg_ExtraResources ::
    "string \<Rightarrow> PostgresCluster \<Rightarrow> string \<Rightarrow> string \<Rightarrow> string \<Rightarrow> ExtraResource list" where
  "cnpg_ExtraResources dashboardJSON c targetName namespace owner =
     (let dashboardName = targetName @ ''-dashboard''
      in if \<not> EnablePodMonitor (pg_Monitoring (cr_spec c))
         then [extra_resource dashboard_GVK dashboardName None]
         else
           (let dashboard = dashboard_object dashboardName namespace
                  (commonLabels cnpg_FieldManager owner) ''CloudNativePG'' ''DS_PROMETHEUS'' dashboardJSON
            in [extra_resource dashboard_GVK dashboardName (Some dashboard)]))"

definition cnpg_ExtractStatus :: "deps \<Rightarrow> unstructured option \<Rightarrow> TargetStatus" where
  "cnpg_ExtractStatus D target =
     (case target of
        None \<Rightarrow> unknown_status
      | Some u \<Rightarrow>
          (let obj = JObj (u_object u);
               phase = reported (nestedString D obj [''status'', ''phase'']);
               observed = int32 (fst (nestedInt64 D obj [''status'', ''instances'']));
               ready = int32 (fst (nestedInt64 D obj [''status'', ''readyInstances'']))
           in \<lparr>ts_Phase = phase, ts_Ready = (0 < sint observed \<and> sint observed \<le> sint ready),
               ts_ObservedCount = observed, ts_ReadyCount = ready\<rparr>))"

definition cnpg_ApplyStatus ::
    "deps \<Rightarrow> PostgresCluster \<Rightarrow> string \<Rightarrow> TargetStatus \<Rightarrow> PostgresCluster \<times> string" where
  "cnpg_ApplyStatus D c targetName s =
     (let message = (if ts_Ready s
            then ''CNPG Cluster '' @ quote targetName @ '' is ready ('' @ show_counts s @ '' instances)''
            else ''Waiting for CNPG Cluster '' @ quote targetName @ '' (phase: '' @ ts_Phase s @ '')'');
          conditions = set_ready_condition D (om_Generation (cr_meta c))
            ''ClusterNotReady'' ''ClusterReady'' message (ts_Ready s) (pgs_Conditions (cr_status c))
      in (c\<lparr>cr_status := (cr_status c)\<lparr>pgs_Conditions := conditions, pgs_Ready := ts_Ready s, pgs_Phase := ts_Phase s, pgs_Instances := ts_ObservedCount s, 
              pgs_ReadyInstances := ts_ReadyCount s, pgs_Message := message\<rparr>\<rparr>, message))"

text \<open>\<open>GetCluster\<close>: the engine's lookup at this package's kind.\<close>

definition cnpg_GetCluster :: "('c, 'w) client \<Rightarrow> string \<Rightarrow> string \<Rightarrow> ('c, 'w, unstructured option) io" where
  "cnpg_GetCluster c namespace name = GetTarget c cnpg_GVK namespace name"

subsection \<open>The adapter\<close>

definition cnpg_Adapter :: "deps \<Rightarrow> string \<Rightarrow> (PostgresClusterSpec, PostgresClusterStatus) adapter" where
  "cnpg_Adapter D dashboardJSON =
     \<lparr>a_GVK = cnpg_GVK, a_TargetName = cnpg_TargetName, a_ObjectKind = ''CNPG Cluster'',
      a_FieldManager = cnpg_FieldManager, a_BuildManifest = cnpg_BuildManifest D,
      a_ExtractStatus = cnpg_ExtractStatus D, a_ApplyStatus = cnpg_ApplyStatus D,
      a_ExtraResources = Some (cnpg_ExtraResources dashboardJSON), a_PVCLabelSelector = None,
      a_IngressClass = None\<rparr>"

lemma cnpg_Adapter_fields [simp]:
  "a_GVK (cnpg_Adapter D dashboardJSON) = cnpg_GVK"
  "a_TargetName (cnpg_Adapter D dashboardJSON) = cnpg_TargetName"
  "a_ObjectKind (cnpg_Adapter D dashboardJSON) = ''CNPG Cluster''"
  "a_FieldManager (cnpg_Adapter D dashboardJSON) = cnpg_FieldManager"
  "a_BuildManifest (cnpg_Adapter D dashboardJSON) = cnpg_BuildManifest D"
  "a_ExtractStatus (cnpg_Adapter D dashboardJSON) = cnpg_ExtractStatus D"
  "a_ApplyStatus (cnpg_Adapter D dashboardJSON) = cnpg_ApplyStatus D"
  "a_ExtraResources (cnpg_Adapter D dashboardJSON) = Some (cnpg_ExtraResources dashboardJSON)"
  "a_PVCLabelSelector (cnpg_Adapter D dashboardJSON) = None"
  "a_IngressClass (cnpg_Adapter D dashboardJSON) = None"
  by (simp_all add: cnpg_Adapter_def)

definition cnpg_view :: "PostgresClusterStatus \<Rightarrow> status_view" where
  "cnpg_view st = \<lparr>v_Ready = pgs_Ready st, v_Phase = pgs_Phase st,
     v_Message = pgs_Message st, v_Conditions = pgs_Conditions st\<rparr>"

lemma cnpg_BuildManifest_meta [simp]:
  "u_gvk (cnpg_BuildManifest D c n ns ow) = cnpg_GVK"
  "u_name (cnpg_BuildManifest D c n ns ow) = n"
  "u_namespace (cnpg_BuildManifest D c n ns ow) = ns"
  "u_labels (cnpg_BuildManifest D c n ns ow) = commonLabels cnpg_FieldManager ow"
  by (simp_all add: cnpg_BuildManifest_def Let_def)

interpretation cnpg: counted_readiness "cnpg_Adapter D dashboardJSON" cnpg_view D
  "''ClusterNotReady''" "''ClusterReady''"
  by unfold_locales
     (auto simp: cnpg_Adapter_def cnpg_view_def extras_def object_id_def
        cnpg_ExtraResources_def adapter_defs
        cnpg_ApplyStatus_def cnpg_ExtractStatus_def Let_def 
      split: option.splits prod.splits if_splits)

end
