(* ===== verification/Cluster.thy ===== *)
theory Cluster
  imports EngineRuns CnpgAdapter PrometheusAdapter LokiAdapter
begin

section \<open>A cluster in memory\<close>

text \<open>
  One instance of the client parameter: an API server kept as lists, behaving as the API
  conventions document. A get of a missing object is NotFound, an update replaces metadata
  and spec and keeps the stored status, a status update keeps everything else, a resource
  whose deletion was requested goes away with its last finalizer, a server-side apply creates
  the object or merges its entries into the stored one, deletes are NotFound on a missing
  object. The theorems on the reconciler do not depend on it: it shows that their hypotheses
  can hold, and the witnesses evaluate the reconciler on it.
\<close>

record ('s, 't) cluster =
  cl_Resources :: "((string \<times> string) \<times> ('s, 't) cr) list"
  cl_Objects :: "((gvk \<times> string \<times> string) \<times> unstructured) list"
  cl_Claims :: "(string \<times> labels) list"
  cl_Classes :: "IngressClass list"
  cl_Pods :: "Pod list"

definition cr_key :: "('s, 't) cr \<Rightarrow> string \<times> string" where
  "cr_key c = (om_Namespace (cr_meta c), om_Name (cr_meta c))"

definition object_key :: "unstructured \<Rightarrow> gvk \<times> string \<times> string" where
  "object_key u = (u_gvk u, u_namespace u, u_name u)"

fun merge_json :: "json \<Rightarrow> json \<Rightarrow> json" and merge_entries :: "doc \<Rightarrow> doc \<Rightarrow> doc" where
  "merge_json (JObj new) (JObj stored) = JObj (merge_entries new stored)"
| "merge_json j _ = j"
| "merge_entries [] stored = stored"
| "merge_entries ((k, v) # new) stored =
     merge_entries new (put k (case map_of stored k of None \<Rightarrow> v | Some v' \<Rightarrow> merge_json v v') stored)"

definition server_apply :: "unstructured \<Rightarrow> unstructured option \<Rightarrow> unstructured" where
  "server_apply u stored =
     (case stored of None \<Rightarrow> u | Some s \<Rightarrow> u\<lparr>u_object := merge_entries (u_object u) (u_object s)\<rparr>)"

definition memory_client :: "(('s, 't) cr, ('s, 't) cluster) client" where
  "memory_client =
     \<lparr>api_GetCR = (\<lambda>ns n w. (case map_of (cl_Resources w) (ns, n) of
          None \<Rightarrow> Inl NotFound | Some c \<Rightarrow> Inr c, w)),
      api_Get = (\<lambda>g ns n w. (case map_of (cl_Objects w) (g, ns, n) of
          None \<Rightarrow> Inl NotFound | Some u \<Rightarrow> Inr u, w)),
      api_Update = (\<lambda>c w. case map_of (cl_Resources w) (cr_key c) of
          None \<Rightarrow> (Inl NotFound, w)
        | Some stored \<Rightarrow>
            (let c' = c\<lparr>cr_status := cr_status stored\<rparr>
             in (Inr c', w\<lparr>cl_Resources :=
                  if om_DeletionTimestamp (cr_meta c) \<noteq> None \<and> om_Finalizers (cr_meta c) = []
                  then AList.delete (cr_key c) (cl_Resources w)
                  else AList.update (cr_key c) c' (cl_Resources w)\<rparr>))),
      api_StatusUpdate = (\<lambda>c w. case map_of (cl_Resources w) (cr_key c) of
          None \<Rightarrow> (Inl NotFound, w)
        | Some stored \<Rightarrow>
            (let c' = stored\<lparr>cr_status := cr_status c\<rparr>
             in (Inr c', w\<lparr>cl_Resources := AList.update (cr_key c) c' (cl_Resources w)\<rparr>))),
      api_Patch = (\<lambda>u fm force w.
          (let u' = server_apply u (map_of (cl_Objects w) (object_key u))
           in (Inr u', w\<lparr>cl_Objects := AList.update (object_key u) u' (cl_Objects w)\<rparr>))),
      api_Delete = (\<lambda>g ns n w. if map_of (cl_Objects w) (g, ns, n) = None then (Inl NotFound, w)
          else (Inr (), w\<lparr>cl_Objects := AList.delete (g, ns, n) (cl_Objects w)\<rparr>)),
      api_DeleteAllPVCs = (\<lambda>ns sel w.
          (Inr (), w\<lparr>cl_Claims := filter (\<lambda>(m, ls). \<not> (m = ns \<and> selects sel ls)) (cl_Claims w)\<rparr>)),
      api_ListIngressClasses = (\<lambda>w. (Inr (cl_Classes w), w)),
      api_ListPods = (\<lambda>ns sel w.
          (Inr (filter (\<lambda>p. pod_Namespace p = ns \<and> selects sel (pod_Labels p)) (cl_Pods w)), w))\<rparr>"

definition memory_reconciler :: "('s, 't) adapter \<Rightarrow> string \<Rightarrow> ('s, 't, ('s, 't) cluster) reconciler" where
  "memory_reconciler A name = \<lparr>r_Client = memory_client, r_Adapter = A, r_Name = name\<rparr>"

lemma memory_reconciler_simps [simp]:
  "r_Client (memory_reconciler A n) = memory_client" "r_Adapter (memory_reconciler A n) = A"
  by (simp_all add: memory_reconciler_def)

text \<open>A cluster that holds one resource, and nothing else yet.\<close>

definition cluster_of :: "('s, 't) cr \<Rightarrow> ('s, 't) cluster" where
  "cluster_of c = \<lparr>cl_Resources = [(cr_key c, c)], cl_Objects = [], cl_Claims = [],
                   cl_Classes = [], cl_Pods = []\<rparr>"

lemma fetched_cluster_of [simp]:
  "fetched (memory_reconciler A name) ns n (w\<lparr>cl_Resources := [(cr_key c, c)]\<rparr>) c \<longleftrightarrow>
     ns = om_Namespace (cr_meta c) \<and> n = om_Name (cr_meta c)"
  by (auto simp: fetched_def memory_client_def cr_key_def)

lemma fetched_cluster_of' [simp]:
  "fetched (memory_reconciler A name) ns n (cluster_of c) c \<longleftrightarrow>
     ns = om_Namespace (cr_meta c) \<and> n = om_Name (cr_meta c)"
  by (auto simp: fetched_def memory_client_def cluster_of_def cr_key_def)

subsection \<open>Sample resources\<close>

definition sample_meta :: "string \<Rightarrow> string option \<Rightarrow> string list \<Rightarrow> ObjectMeta" where
  "sample_meta n del fs =
     \<lparr>om_Name = n, om_Namespace = ''team-a'', om_Generation = 3, om_DeletionTimestamp = del, om_Finalizers = fs\<rparr>"

definition sample_pg :: "string option \<Rightarrow> string list \<Rightarrow> bool \<Rightarrow> PostgresCluster" where
  "sample_pg del fs mon =
     \<lparr>cr_meta = sample_meta ''db'' del fs,
      cr_spec = \<lparr>pg_Instances = 3, pg_Image = '''', pg_Storage = \<lparr>sto_Size = ''1Gi'', sto_StorageClass = ''''\<rparr>,
                 pg_Database = \<lparr>db_Name = ''app'', db_Owner = ''app''\<rparr>,
                 pg_Resources = \<lparr>rr_Limits = [], rr_Requests = []\<rparr>,
                 pg_Monitoring = \<lparr>EnablePodMonitor = mon\<rparr>, pg_Expose = None\<rparr>,
      cr_status = \<lparr>pgs_Ready = False, pgs_Phase = '''', pgs_Instances = 0, pgs_ReadyInstances = 0,
                   pgs_Message = '''', pgs_Conditions = []\<rparr>\<rparr>"

definition sample_loki :: "string option \<Rightarrow> string list \<Rightarrow> LokiInstance" where
  "sample_loki del fs =
     \<lparr>cr_meta = sample_meta ''logs'' del fs,
      cr_spec = \<lparr>lok_Size = ''1x.demo'', lok_StorageClassName = ''standard'',
                 lok_ObjectStorage = \<lparr>los_SecretName = ''s3''\<rparr>\<rparr>,
      cr_status = \<lparr>loks_Ready = False, loks_Phase = '''', loks_Message = '''', loks_Conditions = []\<rparr>\<rparr>"

definition sample_prometheus :: "string list \<Rightarrow> string \<Rightarrow> PrometheusInstance" where
  "sample_prometheus fs cls =
     \<lparr>cr_meta = sample_meta ''prom'' None fs,
      cr_spec = \<lparr>pro_Version = '''', pro_Replicas = 1, pro_Retention = '''', pro_Storage = None,
                 pro_Resources = \<lparr>rr_Limits = [], rr_Requests = []\<rparr>,
                 pro_Ingress = Some \<lparr>ing_Host = ''prom.example'', ing_IngressClassName = cls,
                   ing_TLSSecretName = '''', ing_Annotations = []\<rparr>, pro_Expose = None\<rparr>,
      cr_status = \<lparr>pros_Ready = False, pros_Phase = '''', pros_Replicas = 0, pros_ReadyReplicas = 0,
                   pros_Message = '''', pros_Conditions = []\<rparr>\<rparr>"

lemma sample_simps [simp]:
  "cr_meta (sample_pg del fs mon) = sample_meta ''db'' del fs"
  "cr_meta (sample_loki del fs) = sample_meta ''logs'' del fs"
  "cr_meta (sample_prometheus fs cls) = sample_meta ''prom'' None fs"
  "om_Name (sample_meta n del fs) = n" "om_Namespace (sample_meta n del fs) = ''team-a''"
  "om_Generation (sample_meta n del fs) = 3"
  "om_DeletionTimestamp (sample_meta n del fs) = del" "om_Finalizers (sample_meta n del fs) = fs"
  by (simp_all add: sample_pg_def sample_loki_def sample_prometheus_def sample_meta_def)

abbreviation "sample_cnpg \<equiv> cnpg_Adapter doc_deps ''{}''"

lemmas memory_simps = memory_client_def cluster_of_def cr_key_def object_key_def server_apply_def

lemmas reconcile_simps = run_def io_defs Reconcile_def Let_def IsNotFound_def
  reconcileDelete_def deleteTarget_def deleteExtraResources_def deleteExtra_def deletePVCs_def
  reconcileNormal_def getTarget_def GetTarget_def defaultIngressClass_def applyAndMirror_def
  applyTarget_def applyExtraResources_def resolveDefaultIngressClass_def

subsection \<open>Two runs on a sample\<close>

text \<open>The normal and the deletion run of a PostgresCluster that carries the finalizer.\<close>

definition pg_reconciler ::
    "(PostgresClusterSpec, PostgresClusterStatus, (PostgresClusterSpec, PostgresClusterStatus) cluster) reconciler" where
  "pg_reconciler = memory_reconciler sample_cnpg ''postgrescluster''"

definition pg_run :: "string option \<Rightarrow> string list \<Rightarrow> bool \<Rightarrow> (error + Result) \<times> PostgresCluster event list" where
  "pg_run del fs mon = run (Reconcile doc_deps pg_reconciler ''team-a'' ''db'') (cluster_of (sample_pg del fs mon))"

lemma pg_reconciler_simps [simp]:
  "r_Client pg_reconciler = memory_client" "r_Adapter pg_reconciler = sample_cnpg"
  by (simp_all add: pg_reconciler_def)

lemma fetched_pg [simp]:
  "fetched pg_reconciler ''team-a'' ''db'' (cluster_of (sample_pg del fs mon)) (sample_pg del fs mon)"
  by (simp add: pg_reconciler_def)

lemma pg_run_pair: "run (Reconcile doc_deps pg_reconciler ''team-a'' ''db'') (cluster_of (sample_pg del fs mon))
    = (fst (pg_run del fs mon), snd (pg_run del fs mon))"
  by (simp add: pg_run_def)

abbreviation "pg_live \<equiv> sample_pg None [FinalizerName] True"
abbreviation "pg_deleted \<equiv> sample_pg (Some ''now'') [FinalizerName] True"

lemma sample_contract: "adapter sample_cnpg pgs_Ready"
  using cnpg.adapter_axioms [of doc_deps "''{}''"] by (simp add: cnpg_view_def)

lemma cnpg_frame [simp]:
  "cr_meta (fst (cnpg_ApplyStatus D c t s)) = cr_meta c"
  "cr_spec (fst (cnpg_ApplyStatus D c t s)) = cr_spec c"
  by (simp_all add: cnpg_ApplyStatus_def Let_def)

lemma pg_live_run:
  "\<exists>d. snd (pg_run None [FinalizerName] True) =
    [(GetCR ''team-a'' ''db'', None), (Get cnpg_GVK ''team-a'' ''db'', Some NotFound),
     (Patch (cnpg_BuildManifest doc_deps pg_live ''db'' ''team-a'' ''db'') cnpg_FieldManager True, None),
     (Eventf ''Normal'' ''TargetCreated'' ''Sync''
        (''CNPG Cluster '' @ quote ''db'' @ '' created in namespace '' @ quote ''team-a''), None),
     (Patch (dashboard_object ''db-dashboard'' ''team-a'' (commonLabels cnpg_FieldManager ''db'')
        ''CloudNativePG'' ''DS_PROMETHEUS'' ''{}'') cnpg_FieldManager True, None),
     (StatusUpdate d, None)] \<and> (\<exists>x. fst (pg_run None [FinalizerName] True) = Inr x)"
  by (simp add: pg_run_def reconcile_simps memory_simps cnpg_TargetName_def cnpg_ExtraResources_def adapter_defs
      sample_pg_def)

lemma pg_deleted_run:
  "snd (pg_run (Some ''now'') [FinalizerName] True) =
    [(GetCR ''team-a'' ''db'', None), (Delete cnpg_GVK ''team-a'' ''db'', Some NotFound),
     (Delete dashboard_GVK ''team-a'' ''db-dashboard'', Some NotFound),
     (Update (with_finalizers [] pg_deleted), None)]"
  by (simp add: pg_run_def reconcile_simps memory_simps cnpg_TargetName_def cnpg_ExtraResources_def with_finalizers_def)

text \<open>
  The normal run of a LokiInstance whose LokiStack operator has created the ingester's
  StatefulSet, which is stuck in a rollout with one crashing pod.
\<close>

definition ingester :: unstructured where
  "ingester = set_entry ''status'' (JObj [(''updateRevision'', JStr ''r2''), (''currentRevision'', JStr ''r1'')])
     (set_entry ''spec'' (JObj [(''selector'', JObj [(''matchLabels'', JObj [(''app'', JStr ''ingester'')])])])
       (new_object statefulSetGVK ''logs-ingester'' ''team-a'' []))"

definition crashing_pod :: Pod where
  "crashing_pod = \<lparr>pod_Name = ''logs-ingester-0'', pod_Namespace = ''team-a'',
     pod_Labels = [(''app'', ''ingester''), (''controller-revision-hash'', ''r1'')],
     pod_Conditions = [(''Ready'', ConditionFalse)]\<rparr>"

abbreviation "loki_live \<equiv> sample_loki None [FinalizerName]"

definition loki_reconciler ::
    "(LokiInstanceSpec, LokiInstanceStatus, (LokiInstanceSpec, LokiInstanceStatus) cluster) reconciler" where
  "loki_reconciler = memory_reconciler (loki_Adapter doc_deps) ''lokiinstance''"

definition loki_cluster :: "(LokiInstanceSpec, LokiInstanceStatus) cluster" where
  "loki_cluster = (cluster_of loki_live)\<lparr>cl_Objects := [(object_key ingester, ingester)], cl_Pods := [crashing_pod]\<rparr>"

definition loki_run :: "(error + Result) \<times> LokiInstance event list" where
  "loki_run = run (Reconcile doc_deps loki_reconciler ''team-a'' ''logs'') loki_cluster"

lemma loki_reconciler_simps [simp]:
  "r_Client loki_reconciler = memory_client" "r_Adapter loki_reconciler = loki_Adapter doc_deps"
  by (simp_all add: loki_reconciler_def)

lemma fetched_loki [simp]: "fetched loki_reconciler ''team-a'' ''logs'' loki_cluster loki_live"
  by (simp add: fetched_def memory_simps loki_cluster_def)

lemma loki_run_pair: "run (Reconcile doc_deps loki_reconciler ''team-a'' ''logs'') loki_cluster = (fst loki_run, snd loki_run)"
  by (simp add: loki_run_def)

lemma loki_frame [simp]:
  "cr_meta (fst (loki_ApplyStatus D c t s)) = cr_meta c"
  by (simp add: loki_ApplyStatus_def Let_def)

lemma doc_nested [simp]:
  "nestedString doc_deps j p = (case field_at j p of Some (JStr s) \<Rightarrow> (s, True) | _ \<Rightarrow> ('''', False))"
  "nestedStringMap doc_deps j p = (case field_at j p of
           Some (JObj m) \<Rightarrow> (case string_entries m of Some ls \<Rightarrow> (ls, True) | None \<Rightarrow> ([], False))
         | _ \<Rightarrow> ([], False))"
  by (simp_all add: doc_deps_def)

lemma loki_run_eq:
  "\<exists>d x. snd loki_run =
     [(GetCR ''team-a'' ''logs'', None), (Get loki_GVK ''team-a'' ''logs'', Some NotFound),
      (Patch (loki_BuildManifest loki_live ''logs'' ''team-a'' ''logs'') loki_FieldManager True, None),
      (Eventf ''Normal'' ''TargetCreated'' ''Sync''
        (''LokiStack '' @ quote ''logs'' @ '' created in namespace '' @ quote ''team-a''), None),
      (Get statefulSetGVK ''team-a'' ''logs-ingester'', None),
      (Patch (the (x_Desired (loki_component_patch ''logs'' ''team-a'' ''ingester''))) loki_FieldManager True, None),
      (Get statefulSetGVK ''team-a'' ''logs-ingester'', None),
      (ListPods ''team-a'' [(''app'', ''ingester'')], None),
      (Delete podGVK ''team-a'' ''logs-ingester-0'', Some NotFound),
      (Get statefulSetGVK ''team-a'' ''logs-compactor'', Some NotFound),
      (Get statefulSetGVK ''team-a'' ''logs-index-gateway'', Some NotFound),
      (StatusUpdate d, None)] \<and> fst loki_run = Inr x"
  by (simp add: loki_run_def loki_cluster_def ingester_def crashing_pod_def reconcile_simps memory_simps
      loki_TargetName_def loki_ExtraResources_def pvcBackedComponents_def loki_component_patch_def
      unstickStatefulSetRollout_def isPodReady_def lookup_str_def statefulSetGVK_def loki_GVK_def podGVK_def)

lemma loki_patch_only_ids:
  "patch_only_ids (loki_Adapter D) c t = (\<lambda>component. (statefulSetGVK, t @ ''-'' @ component)) ` set pvcBackedComponents"
proof -
  have "patch_only_ids (loki_Adapter D) c t
      = extra_id ` set (map (loki_component_patch t (om_Namespace (cr_meta c))) pvcBackedComponents)"
    by (auto simp: patch_only_ids_def extras_def loki_ExtraResources_def loki_component_patch_def Let_def)
  then show ?thesis by (simp add: image_image loki_component_patch_def Let_def extra_id_def)
qed

lemma loki_run_patches:
  "(Patch (the (x_Desired (loki_component_patch ''logs'' ''team-a'' ''ingester''))) loki_FieldManager True, None)
     \<in> set (snd loki_run)"
  using loki_run_eq by auto

end
