(* ===== verification/EngineProps.thy ===== *)
theory EngineProps
  imports EngineTouch Cluster
begin

section \<open>Properties of the engine\<close>

text \<open>
  What holds of every run of \<open>Reconcile\<close>, whatever the API server answers: for every client,
  every cluster state and every adapter that keeps the contract of theory \<open>AdapterSpec\<close>.
\<close>

abbreviation target_of :: "('s, 't, 'w) reconciler \<Rightarrow> ('s, 't) cr \<Rightarrow> string" where
  "target_of r c \<equiv> a_TargetName (r_Adapter r) (om_Name (cr_meta c))"

subsection \<open>Deletion\<close>

text \<open>
  C1: the finalizer is released last. Whatever the API server answers, a run on a resource
  under deletion updates the resource only as its last call, after the target, every auxiliary
  object the operator owns and the volume claims have each been deleted, in that order, with
  success or NotFound; the update drops exactly the operator's finalizer and leaves the spec
  alone.
\<close>

theorem finalizer_released_after_cleanup:
  assumes "finalizers_ok D" and "fetched r ns n w c" and "om_DeletionTimestamp (cr_meta c) \<noteq> None"
    and "run (Reconcile D r ns n) w = (res, evs)" and "(Update u, o') \<in> set evs"
  shows "\<exists>pre. evs = (GetCR ns n, None) # pre @ [(Update u, o')] \<and>
           map fst pre = cleanup_calls (r_Adapter r) c (target_of r c) \<and> list_all tolerated pre \<and>
           set (om_Finalizers (cr_meta u)) = set (om_Finalizers (cr_meta c)) - {FinalizerName} \<and>
           cr_spec u = cr_spec c"
  using release_run [OF assms(2-5)] assms(1) by (auto simp: finalizers_ok_def)

theorem finalizer_released_after_cleanup_witness:
  "\<exists>pre. snd (pg_run (Some ''now'') [FinalizerName] True) =
        (GetCR ''team-a'' ''db'', None) # pre @ [(Update (with_finalizers [] pg_deleted), None)] \<and>
     map fst pre = cleanup_calls sample_cnpg pg_deleted ''db''"
proof -
  have "(Update (with_finalizers [] pg_deleted), None) \<in> set (snd (pg_run (Some ''now'') [FinalizerName] True))"
    by (simp add: pg_deleted_run)
  from finalizer_released_after_cleanup [OF finalizers_ok_doc fetched_pg _ pg_run_pair this]
  show ?thesis by (auto simp: cnpg_TargetName_def)
qed

text \<open>
  C9: a deletion run that succeeds has completed the deletion: it made every cleanup call of
  the adapter, the update that drops the finalizer succeeded, and it does not ask to be run
  again.
\<close>

theorem deletion_completes:
  assumes "finalizers_ok D" and "fetched r ns n w c" and "om_DeletionTimestamp (cr_meta c) \<noteq> None"
    and "FinalizerName \<in> set (om_Finalizers (cr_meta c))"
    and "run (Reconcile D r ns n) w = (Inr x, evs)"
  shows "x = emptyResult \<and>
         (\<exists>u. map fst evs = GetCR ns n # cleanup_calls (r_Adapter r) c (target_of r c) @ [Update u] \<and>
              FinalizerName \<notin> set (om_Finalizers (cr_meta u)) \<and> snd (last evs) = None)"
proof -
  let ?u = "with_finalizers (removeFinalizer D (om_Finalizers (cr_meta c)) FinalizerName) c"
  have fin: "containsFinalizer D (om_Finalizers (cr_meta c)) FinalizerName"
    using assms(1,4) by (simp add: finalizers_ok_def)
  let ?cs = "cleanup_calls (r_Adapter r) c (target_of r c) @ [Update ?u]"
  have "emits (reconcilePath D r c) (\<lambda>res evs. (\<forall>y. res = Inr y \<longrightarrow> y = emptyResult) \<and>
      stops_at_failure res evs \<and> prefix (map fst evs) ?cs \<and> (\<forall>y. res = Inr y \<longrightarrow> map fst evs = ?cs))"
    using assms(3) emits_conj [OF reconcileDelete_emptyResult follows_reconcileDelete [OF fin, unfolded follows_def]]
    by (simp add: reconcilePath_def Let_def)
  from run_Reconcile_fetched [OF assms(2,5) this] obtain evs' where
    evs: "evs = (GetCR ns n, None) # evs'" and calls: "map fst evs' = ?cs"
    and stop: "stops_at_failure (Inr x :: error + Result) evs'" and x: "x = emptyResult" by auto
  from stop have tol: "list_all tolerated evs'" by (simp add: stops_at_failure_def)
  have "snd (last evs) = None" and "FinalizerName \<notin> set (om_Finalizers (cr_meta ?u))"
    using last_update_success [OF tol calls] evs calls assms(1) by (auto simp: finalizers_ok_def)
  with x evs calls show ?thesis by (intro conjI exI [of _ ?u]) simp_all
qed

theorem deletion_completes_witness:
  "\<exists>u. map fst (snd (run (Reconcile doc_deps (memory_reconciler (loki_Adapter doc_deps) ''loki'') ''team-a'' ''logs'')
          (cluster_of (sample_loki (Some ''now'') [FinalizerName])))) =
       [GetCR ''team-a'' ''logs'', Delete loki_GVK ''team-a'' ''logs'',
        DeleteAllPVCs ''team-a'' (loki_PVCLabelSelector (sample_loki None []) ''logs''), Update u] \<and>
     FinalizerName \<notin> set (om_Finalizers (cr_meta u))"
proof -
  let ?c = "sample_loki (Some ''now'') [FinalizerName]"
  let ?m = "run (Reconcile doc_deps (memory_reconciler (loki_Adapter doc_deps) ''loki'') ''team-a'' ''logs'') (cluster_of ?c)"
  have "fst ?m = Inr emptyResult"
    by (simp add: reconcile_simps memory_simps loki_TargetName_def loki_ExtraResources_def
        loki_component_patch_def pvcBackedComponents_def loki_PVCLabelSelector_def)
  then have r: "?m = (Inr emptyResult, snd ?m)" by (metis prod.collapse)
  have f: "fetched (memory_reconciler (loki_Adapter doc_deps) ''loki'') ''team-a'' ''logs'' (cluster_of ?c) ?c"
    by simp
  from deletion_completes [OF finalizers_ok_doc f _ _ r]
  show ?thesis
    by (auto simp: cleanup_calls_def owned_extras_def extras_def pvc_calls_def loki_TargetName_def
        loki_ExtraResources_def loki_component_patch_def pvcBackedComponents_def loki_PVCLabelSelector_def
        Let_def)
qed

subsection \<open>Before the finalizer is persisted\<close>

text \<open>
  C8: nothing is written before the finalizer is. A run on a live resource without the
  operator's finalizer makes one call after fetching it, the update that adds the finalizer,
  and then asks to be requeued or returns the update's error.
\<close>

theorem finalizer_persisted_first:
  assumes "finalizers_ok D" and "fetched r ns n w c" and "om_DeletionTimestamp (cr_meta c) = None"
    and "FinalizerName \<notin> set (om_Finalizers (cr_meta c))"
    and "run (Reconcile D r ns n) w = (res, evs)"
  shows "\<exists>fs o'. evs = [(GetCR ns n, None), (Update (with_finalizers fs c), o')] \<and>
           set fs = insert FinalizerName (set (om_Finalizers (cr_meta c))) \<and>
           res = (case o' of None \<Rightarrow> Inr \<lparr>Requeue = True, RequeueAfter = 0\<rparr> | Some e \<Rightarrow> Inl e)"
proof -
  let ?fs = "addFinalizer D (om_Finalizers (cr_meta c)) FinalizerName"
  have "emits (reconcilePath D r c) (\<lambda>res evs. \<exists>o'. evs = [(Update (with_finalizers ?fs c), o')] \<and>
      res = (case o' of None \<Rightarrow> Inr \<lparr>Requeue = True, RequeueAfter = 0\<rparr> | Some e \<Rightarrow> Inl e))"
    using assms(1,3,4)
    by (auto simp: reconcilePath_def reconcileNormal_def Let_def finalizers_ok_def with_finalizers_def
             intro!: emits_bindE emits_perform emits_returnE split: sum.split)
  from run_Reconcile_fetched [OF assms(2,5) this] obtain o' where
    "evs = [(GetCR ns n, None), (Update (with_finalizers ?fs c), o')]"
    "res = (case o' of None \<Rightarrow> Inr \<lparr>Requeue = True, RequeueAfter = 0\<rparr> | Some e \<Rightarrow> Inl e)" by auto
  with assms(1) show ?thesis by (intro exI [of _ ?fs] exI [of _ o']) (simp add: finalizers_ok_def)
qed

theorem finalizer_persisted_first_witness:
  "\<exists>fs o'. snd (pg_run None [''other''] True) =
        [(GetCR ''team-a'' ''db'', None), (Update (with_finalizers fs (sample_pg None [''other''] True)), o')] \<and>
      set fs = {FinalizerName, ''other''}"
proof -
  have "FinalizerName \<notin> set (om_Finalizers (cr_meta (sample_pg None [''other''] True)))"
    by (simp add: FinalizerName_def)
  from finalizer_persisted_first [OF finalizers_ok_doc fetched_pg _ this pg_run_pair] show ?thesis by auto
qed

subsection \<open>Failures\<close>

text \<open>
  C14: the first failure ends the run. A run that returns an error made no call after the one
  that failed with it; a run that succeeds swallowed nothing but NotFound answers to gets and
  deletes.
\<close>

theorem first_failure_is_returned:
  assumes "adapter A ready_of" and "r_Adapter r = A" and "run (Reconcile D r ns n) w = (res, evs)"
  shows "case res of
           Inr x \<Rightarrow> list_all tolerated evs
         | Inl e \<Rightarrow> \<exists>pre call. evs = pre @ [(call, Some e)] \<and> list_all tolerated pre"
  using emits_run [OF adapter.stops_Reconcile [OF assms(1,2)] assms(3)]
  by (simp add: stops_at_failure_def split: sum.splits)

theorem first_failure_is_returned_witness:
  "case fst (pg_run None [FinalizerName] True) of
     Inr x \<Rightarrow> list_all tolerated (snd (pg_run None [FinalizerName] True))
   | Inl e \<Rightarrow> \<exists>pre call. snd (pg_run None [FinalizerName] True) = pre @ [(call, Some e)] \<and> list_all tolerated pre"
  by (rule first_failure_is_returned [OF sample_contract _ pg_run_pair]) simp

subsection \<open>What a run may touch\<close>

text \<open>
  C2: nothing applied is left behind. Take any object some normal run of a resource has
  server-side applied, whatever the spec was then, and a later run that releases the finalizer
  of the resource of that name, whatever the spec is by then: the later run has asked for the
  deletion of that very object, unless it is one of the PatchOnly objects a vendor operator
  owns.
\<close>

theorem no_orphans:
  assumes A: "adapter A ready_of" "r_Adapter r = A" "r_Adapter r' = A"
    and live: "fetched r ns n w c" "om_DeletionTimestamp (cr_meta c) = None"
      "run (Reconcile D r ns n) w = (res, evs)" "(Patch d fm force, o1) \<in> set evs"
    and del: "fetched r' ns n w' c'" "om_DeletionTimestamp (cr_meta c') \<noteq> None"
      "run (Reconcile D r' ns n) w' = (res', evs')" "(Update u, o2) \<in> set evs'"
    and same: "om_Name (cr_meta c') = om_Name (cr_meta c)" "om_Namespace (cr_meta c') = om_Namespace (cr_meta c)"
  shows "Delete (u_gvk d) (u_namespace d) (u_name d) \<in> fst ` set evs' \<or>
         object_id d \<in> patch_only_ids A c (om_Name (cr_meta c))"
proof -
  let ?t = "om_Name (cr_meta c)"
  have "normal_call A c ?t (Patch d fm force)"
    using adapter.normal_run_calls [OF A(1) live(1-3) A(2) live(4)] by simp
  note patched = adapter.patched_then_deleted [OF A(1) this same(2)]
  from release_run [OF del] obtain pre
    where evs': "evs' = (GetCR ns n, None) # pre @ [(Update u, o2)]"
    and pre: "map fst pre = cleanup_calls A c' ?t"
    by (auto simp: A(3) adapter.target_name [OF A(1)] same)
  have "set (cleanup_calls A c' ?t) = fst ` set pre" by (metis pre image_set)
  with evs' patched show ?thesis by auto
qed

theorem no_orphans_witness:
  "Delete cnpg_GVK ''team-a'' ''db'' \<in> fst ` set (snd (pg_run (Some ''now'') [FinalizerName] True)) \<or>
   object_id (cnpg_BuildManifest doc_deps pg_live ''db'' ''team-a'' ''db'') \<in> patch_only_ids sample_cnpg pg_live ''db''"
proof -
  have p: "(Patch (cnpg_BuildManifest doc_deps pg_live ''db'' ''team-a'' ''db'') cnpg_FieldManager True, None)
      \<in> set (snd (pg_run None [FinalizerName] True))"
    using pg_live_run by auto
  have u: "(Update (with_finalizers [] pg_deleted), None) \<in> set (snd (pg_run (Some ''now'') [FinalizerName] True))"
    by (simp add: pg_deleted_run)
  show ?thesis
    using no_orphans [OF sample_contract _ _ fetched_pg _ pg_run_pair p
        fetched_pg _ pg_run_pair u] by simp
qed

text \<open>
  C11: a run deletes only what the operator owns. Every delete call of a run, except the
  deletion of a stuck pod, names the target or an auxiliary object of the adapter in the
  resource's own namespace, and never an object listed as PatchOnly.
\<close>

theorem deletes_only_owned:
  assumes "adapter A ready_of" and "r_Adapter r = A" and "fetched r ns n w c"
    and "run (Reconcile D r ns n) w = (res, evs)" and "(Delete g m k, o') \<in> set evs"
  shows "g = podGVK \<or>
         m = om_Namespace (cr_meta c) \<and>
         ((g, k) = (a_GVK A, om_Name (cr_meta c)) \<or> (g, k) \<in> extra_id ` set (owned_extras A c (om_Name (cr_meta c)))) \<and>
         (g, k) \<notin> patch_only_ids A c (om_Name (cr_meta c))"
  using adapter.run_deletes [OF assms(1,3,4,2,5)]
    adapter.owned_disjoint_patch_only [OF assms(1), of c "om_Name (cr_meta c)"]
    adapter.target_not_patch_only [OF assms(1), of "om_Name (cr_meta c)" c]
  by blast

theorem deletes_only_owned_witness:
  "dashboard_GVK = podGVK \<or> ''team-a'' = ''team-a'' \<and>
   ((dashboard_GVK, ''db-dashboard'') = (cnpg_GVK, ''db'') \<or>
    (dashboard_GVK, ''db-dashboard'') \<in> extra_id ` set (owned_extras sample_cnpg pg_deleted ''db'')) \<and>
   (dashboard_GVK, ''db-dashboard'') \<notin> patch_only_ids sample_cnpg pg_deleted ''db''"
proof -
  have "(Delete dashboard_GVK ''team-a'' ''db-dashboard'', Some NotFound)
      \<in> set (snd (pg_run (Some ''now'') [FinalizerName] True))"
    by (simp add: pg_deleted_run)
  from deletes_only_owned [OF sample_contract _ fetched_pg pg_run_pair this] show ?thesis by simp
qed

text \<open>
  C12: a run patches only its own objects. Every server-side apply of a run is forced under
  the adapter's field manager, happens on a live resource, stays in the resource's namespace
  and names the target or a listed auxiliary object.
\<close>

theorem patches_only_own_objects:
  assumes "adapter A ready_of" and "r_Adapter r = A" and "fetched r ns n w c"
    and "run (Reconcile D r ns n) w = (res, evs)" and "(Patch d fm force, o') \<in> set evs"
  shows "u_namespace d = om_Namespace (cr_meta c) \<and> fm = a_FieldManager A \<and> force \<and>
         om_DeletionTimestamp (cr_meta c) = None \<and>
         object_id d \<in> insert (a_GVK A, om_Name (cr_meta c)) (extra_id ` set (extras A c (om_Name (cr_meta c))))"
proof -
  note patch = adapter.run_patches [OF assms(1,3,4,2,5)]
  show ?thesis
    using patch adapter.normal_patch_identity [OF assms(1) patch(2)] by auto
qed

theorem patches_only_own_objects_witness:
  "u_namespace (cnpg_BuildManifest doc_deps pg_live ''db'' ''team-a'' ''db'') = ''team-a'' \<and>
   object_id (cnpg_BuildManifest doc_deps pg_live ''db'' ''team-a'' ''db'')
     \<in> insert (cnpg_GVK, ''db'') (extra_id ` set (extras sample_cnpg pg_live ''db''))"
proof -
  have "(Patch (cnpg_BuildManifest doc_deps pg_live ''db'' ''team-a'' ''db'') cnpg_FieldManager True, None)
      \<in> set (snd (pg_run None [FinalizerName] True))"
    using pg_live_run by auto
  from patches_only_own_objects [OF sample_contract _ fetched_pg pg_run_pair this] show ?thesis by simp
qed

text \<open>
  C13: objects of a vendor operator are only patched once they exist: a patch of a PatchOnly
  object comes after a get of that object that found it in the same run.
\<close>

theorem patch_only_guarded:
  assumes "adapter A ready_of" and "r_Adapter r = A" and "fetched r ns n w c"
    and "run (Reconcile D r ns n) w = (res, evs)" and "evs = pre @ (Patch d fm force, o') # post"
    and "object_id d \<in> patch_only_ids A c (om_Name (cr_meta c))"
  shows "(Get (u_gvk d) (om_Namespace (cr_meta c)) (u_name d), None) \<in> set pre"
  using adapter.guarded_run [OF assms(1,3,4,2)] assms(5,6) by (auto simp: patch_guarded_def)

theorem patch_only_guarded_witness:
  "\<exists>pre o' post. snd loki_run =
      pre @ (Patch (the (x_Desired (loki_component_patch ''logs'' ''team-a'' ''ingester''))) loki_FieldManager True, o') # post \<and>
      (Get statefulSetGVK ''team-a'' ''logs-ingester'', None) \<in> set pre"
proof -
  let ?d = "the (x_Desired (loki_component_patch ''logs'' ''team-a'' ''ingester''))"
  from split_list [OF loki_run_patches] obtain pre post
    where split: "snd loki_run = pre @ (Patch ?d loki_FieldManager True, None) # post" by blast
  have "object_id ?d \<in> patch_only_ids (loki_Adapter doc_deps) loki_live ''logs''"
    by (simp add: loki_patch_only_ids pvcBackedComponents_def loki_component_patch_def Let_def object_id_def)
  with patch_only_guarded [OF loki.adapter_axioms _ fetched_loki loki_run_pair split]
  have "(Get statefulSetGVK ''team-a'' ''logs-ingester'', None) \<in> set pre"
    by (simp add: loki_component_patch_def Let_def)
  with split show ?thesis by blast
qed

subsection \<open>What a successful run has done\<close>

text \<open>
  C4: a successful run has done everything that is wanted. When a run on a live resource that
  carries the finalizer succeeds, the manifest built from the resource (with its ingress class
  defaulted) was applied, every wanted auxiliary object was applied, every unwanted one was
  deleted or already gone, and a PatchOnly object was either patched or found missing.
\<close>

theorem success_settles_everything:
  assumes "adapter A ready_of" and "r_Adapter r = A" and "finalizers_ok D" and "fetched r ns n w c"
    and "om_DeletionTimestamp (cr_meta c) = None" and "FinalizerName \<in> set (om_Finalizers (cr_meta c))"
    and "run (Reconcile D r ns n) w = (Inr x, evs)"
  shows "\<exists>c1. class_defaulted A c c1 \<and>
    (Patch (a_BuildManifest A c1 (om_Name (cr_meta c)) (om_Namespace (cr_meta c)) (om_Name (cr_meta c)))
       (a_FieldManager A) True, None) \<in> set evs \<and>
    (\<forall>e \<in> set (extras A c1 (om_Name (cr_meta c))).
       settled (a_FieldManager A) (om_Namespace (cr_meta c)) e evs)"
proof -
  have fin: "containsFinalizer D (om_Finalizers (cr_meta c)) FinalizerName"
    using assms(3,6) by (simp add: finalizers_ok_def)
  from adapter.normal_run [OF assms(1,4,5) fin assms(7,2) adapter.reconcileNormal_settles [OF assms(1) fin assms(2)]]
  obtain evs' c1 where evs: "evs = (GetCR ns n, None) # evs'" and c1: "class_defaulted A c c1"
    and settled: "all_settled A c1 (om_Name (cr_meta c)) evs'" by auto
  from settled have "all_settled A c1 (om_Name (cr_meta c)) evs"
    by (rule all_settled_mono) (auto simp: evs)
  with c1 show ?thesis
    by (auto simp: all_settled_def adapter.class_defaulted_frame [OF assms(1) c1])
qed

theorem success_settles_everything_witness:
  "\<exists>c1. class_defaulted sample_cnpg pg_live c1 \<and>
    (Patch (cnpg_BuildManifest doc_deps c1 ''db'' ''team-a'' ''db'') cnpg_FieldManager True, None)
       \<in> set (snd (pg_run None [FinalizerName] True)) \<and>
    (\<forall>e \<in> set (extras sample_cnpg c1 ''db'').
       settled cnpg_FieldManager ''team-a'' e (snd (pg_run None [FinalizerName] True)))"
proof -
  from pg_live_run obtain x where "fst (pg_run None [FinalizerName] True) = Inr x" by blast
  then have "run (Reconcile doc_deps pg_reconciler ''team-a'' ''db'') (cluster_of pg_live)
      = (Inr x, snd (pg_run None [FinalizerName] True))"
    by (simp add: pg_run_pair)
  from success_settles_everything [OF sample_contract _ finalizers_ok_doc fetched_pg _ _ this]
  show ?thesis by simp
qed

text \<open>
  C10: the poll interval is that of the persisted readiness. A successful run on a live
  resource that carries the finalizer ends with a status update of that resource, and asks to
  be polled after five minutes if the ready flag in that update is set and after fifteen
  seconds otherwise.
\<close>

theorem poll_interval_matches_persisted_status:
  assumes "adapter A ready_of" and "r_Adapter r = A" and "finalizers_ok D" and "fetched r ns n w c"
    and "om_DeletionTimestamp (cr_meta c) = None" and "FinalizerName \<in> set (om_Finalizers (cr_meta c))"
    and "run (Reconcile D r ns n) w = (Inr x, evs)"
  shows "\<exists>pre c2. evs = pre @ [(StatusUpdate c2, None)] \<and> cr_meta c2 = cr_meta c \<and> \<not> Requeue x \<and>
           RequeueAfter x = (if ready_of (cr_status c2) then 5 * Minute else 15 * Second)"
proof -
  have fin: "containsFinalizer D (om_Finalizers (cr_meta c)) FinalizerName"
    using assms(3,6) by (simp add: finalizers_ok_def)
  from adapter.normal_run_result [OF assms(1,4,5) fin assms(7,2)] obtain c1 d pre where
    c1: "class_defaulted A c c1" and
    evs: "evs = pre @ [(StatusUpdate (fst (a_ApplyStatus A c1 (om_Name (cr_meta c)) (a_ExtractStatus A (Some d)))), None)]" and
    x: "x = poll_result (ts_Ready (a_ExtractStatus A (Some d)))" by blast
  show ?thesis
    unfolding evs x
    by (rule exI [of _ pre], rule exI, rule conjI, rule refl)
       (simp add: poll_result_def adapter.apply_status_frame [OF assms(1)]
        adapter.apply_status_ready [OF assms(1)] adapter.class_defaulted_frame [OF assms(1) c1])
qed

theorem poll_interval_matches_persisted_status_witness:
  "\<exists>x pre c2. fst (pg_run None [FinalizerName] True) = Inr x \<and>
     snd (pg_run None [FinalizerName] True) = pre @ [(StatusUpdate c2, None)] \<and> cr_meta c2 = cr_meta pg_live \<and>
     RequeueAfter x = (if pgs_Ready (cr_status c2) then 5 * Minute else 15 * Second)"
proof -
  from pg_live_run obtain x where x: "fst (pg_run None [FinalizerName] True) = Inr x" by blast
  then have "run (Reconcile doc_deps pg_reconciler ''team-a'' ''db'') (cluster_of pg_live)
      = (Inr x, snd (pg_run None [FinalizerName] True))"
    by (simp add: pg_run_pair)
  from poll_interval_matches_persisted_status [OF sample_contract _ finalizers_ok_doc fetched_pg _ _ this] x
  show ?thesis by (simp split del: if_split) blast
qed

text \<open>
  C27: the creation event is recorded once, exactly when the target was absent: a successful
  run on a live resource that carries the finalizer starts by getting the target, and records
  one TargetCreated event if that get was answered NotFound and none otherwise.
\<close>

theorem creation_event_iff_absent:
  assumes "adapter A ready_of" and "r_Adapter r = A" and "finalizers_ok D" and "fetched r ns n w c"
    and "om_DeletionTimestamp (cr_meta c) = None" and "FinalizerName \<in> set (om_Finalizers (cr_meta c))"
    and "run (Reconcile D r ns n) w = (Inr x, evs)"
  shows "\<exists>o' rest. evs = (GetCR ns n, None) # (Get (a_GVK A) (om_Namespace (cr_meta c)) (om_Name (cr_meta c)), o') # rest \<and>
           creations evs = (if o' = Some NotFound then 1 else 0)"
proof -
  have fin: "containsFinalizer D (om_Finalizers (cr_meta c)) FinalizerName"
    using assms(3,6) by (simp add: finalizers_ok_def)
  from adapter.normal_run [OF assms(1,4,5) fin assms(7,2) reconcileNormal_result [OF fin assms(2)]]
  obtain evs' o' rest where "evs = (GetCR ns n, None) # evs'"
    and "evs' = (Get (a_GVK A) (om_Namespace (cr_meta c)) (om_Name (cr_meta c)), o') # rest"
    and "creations evs' = (if target_absent evs' then 1 else 0)" by auto
  then show ?thesis by (simp add: target_absent_def creations_def is_creation_def)
qed

theorem creation_event_iff_absent_witness:
  "creations (snd (pg_run None [FinalizerName] True)) = 1"
proof -
  from pg_live_run obtain x where "fst (pg_run None [FinalizerName] True) = Inr x" by blast
  then have "run (Reconcile doc_deps pg_reconciler ''team-a'' ''db'') (cluster_of pg_live)
      = (Inr x, snd (pg_run None [FinalizerName] True))"
    by (simp add: pg_run_pair)
  from creation_event_iff_absent [OF sample_contract _ finalizers_ok_doc fetched_pg _ _ this] pg_live_run
  show ?thesis by auto
qed



subsection \<open>The default ingress class\<close>

text \<open>
  What the documentation of the annotation promises: the class marked default, if exactly
  one is.
\<close>

definition is_default_class :: "IngressClass \<Rightarrow> bool" where
  "is_default_class ic \<longleftrightarrow> map_of (ic_Annotations ic) ''ingressclass.kubernetes.io/is-default-class'' = Some ''true''"

definition unique_default :: "IngressClass list \<Rightarrow> string" where
  "unique_default ics = (case filter is_default_class ics of [ic] \<Rightarrow> ic_Name ic | _ \<Rightarrow> '''')"

lemma marked_default: "lookup_str (ic_Annotations ic) defaultIngressClassAnnotation = annotationTrue \<longleftrightarrow> is_default_class ic"
  by (simp add: lookup_str_def is_default_class_def defaultIngressClassAnnotation_def annotationTrue_def split: option.split)

lemma pickDefaultClass_resolved:
  "resolved \<noteq> '''' \<Longrightarrow> pickDefaultClass resolved ics = (if filter is_default_class ics = [] then resolved else '''')"
  by (induction ics) (simp_all add: marked_default)

lemma pickDefaultClass_unique:
  "\<forall>ic \<in> set ics. ic_Name ic \<noteq> '''' \<Longrightarrow> pickDefaultClass '''' ics = unique_default ics"
  by (induction ics)
     (auto simp: unique_default_def marked_default pickDefaultClass_resolved split: list.splits)

text \<open>
  C30: an ingress class left unset is resolved to the cluster's only default class. With
  exactly one class marked default the resource gets that class, with none or several it is
  left unset, and a resource without ingress or with an explicit class is left as it is.
\<close>

theorem ingress_class_resolution:
  assumes "adapter A ready_of" and "r_Adapter r = A" and "a_IngressClass A = Some (rq, setc)"
    and "fst (api_ListIngressClasses (r_Client r) w) = Inr ics" and "\<forall>ic \<in> set ics. ic_Name ic \<noteq> ''''"
  shows "\<exists>c1. fst (run (defaultIngressClass r c) w) = Inr c1 \<and> cr_meta c1 = cr_meta c \<and> cr_status c1 = cr_status c \<and>
           rq c1 = (if rq c = ('''', True) then (unique_default ics, True) else rq c)"
proof -
  obtain cls req where rq: "rq c = (cls, req)" by (cases "rq c")
  obtain w1 where list: "api_ListIngressClasses (r_Client r) w = (Inr ics, w1)"
    using assms(4) by (metis prod.collapse)
  show ?thesis
  proof (cases "\<not> req \<or> cls \<noteq> ''''")
    case True
    then show ?thesis
      using assms(2,3) rq by (auto simp: defaultIngressClass_def run_def returnE_def)
  next
    case False
    then have rq': "rq c = ('''', True)" using rq by simp
    with adapter.ingress_set [OF assms(1,3), of c "unique_default ics"] obtain c' where
      c': "setc c (unique_default ics) = Some c'" "cr_meta c' = cr_meta c" "cr_status c' = cr_status c"
        "rq c' = (unique_default ics, True)" by auto
    with rq' list assms(2,3) show ?thesis
      by (simp add: defaultIngressClass_def resolveDefaultIngressClass_def run_def io_defs
          pickDefaultClass_unique [OF assms(5)])
  qed
qed

definition sample_classes :: "IngressClass list" where
  "sample_classes =
     [\<lparr>ic_Name = ''nginx'', ic_Annotations = []\<rparr>,
      \<lparr>ic_Name = ''traefik'', ic_Annotations = [(''ingressclass.kubernetes.io/is-default-class'', ''true'')]\<rparr>]"

theorem ingress_class_resolution_witness:
  "\<exists>c1. fst (run (defaultIngressClass (memory_reconciler (prometheus_Adapter doc_deps) ''prometheusinstance'')
            (sample_prometheus [FinalizerName] ''''))
          ((cluster_of (sample_prometheus [FinalizerName] ''''))\<lparr>cl_Classes := sample_classes\<rparr>)) = Inr c1 \<and>
     prometheus_RequestedIngressClassName c1 = (''traefik'', True)"
proof -
  let ?c = "sample_prometheus [FinalizerName] ''''" and ?A = "prometheus_Adapter doc_deps"
  have ics: "fst (api_ListIngressClasses (r_Client (memory_reconciler ?A ''prometheusinstance''))
      ((cluster_of ?c)\<lparr>cl_Classes := sample_classes\<rparr>)) = Inr sample_classes"
    by (simp add: memory_client_def)
  have "\<forall>ic \<in> set sample_classes. ic_Name ic \<noteq> ''''" by (simp add: sample_classes_def)
  from ingress_class_resolution [OF prometheus.adapter_axioms [of doc_deps] _ _ ics this, where c = ?c
      and rq = prometheus_RequestedIngressClassName and setc = prometheus_SetIngressClassName]
  show ?thesis
    by (auto simp: prometheus_RequestedIngressClassName_def sample_prometheus_def unique_default_def
        sample_classes_def is_default_class_def)
qed

subsection \<open>Unsticking a rollout\<close>

text \<open>
  C31: of a StatefulSet in the middle of a rollout, the pods that are both of another revision
  and not ready are deleted, in the order listed, and no others; when the function succeeds
  all of them have been.
\<close>

theorem unstick_deletes_stuck_pods:
  assumes "nested_ok D"
    and get: "api_Get (r_Client r) statefulSetGVK ns n w = (Inr sts, w1)"
    and upd: "at_path sts [''status'', ''updateRevision''] = Some (JStr rv)" "rv \<noteq> ''''"
    and cur: "at_path sts [''status'', ''currentRevision''] = Some (JStr cur)" "cur \<noteq> rv"
    and sel: "at_path sts [''spec'', ''selector'', ''matchLabels''] = Some (JObj (strings ls))" "ls \<noteq> []"
    and pods: "api_ListPods (r_Client r) ns ls w1 = (Inr pods, w2)"
    and run: "run (unstickStatefulSetRollout D r ns n) w = (res, evs)"
  shows "prefix (map fst evs)
           (Get statefulSetGVK ns n # ListPods ns ls # map delete_pod (filter (stuck_pod rv) pods)) \<and>
         (res = Inr () \<longrightarrow> map fst evs =
            Get statefulSetGVK ns n # ListPods ns ls # map delete_pod (filter (stuck_pod rv) pods))"
proof -
  let ?s = "\<lparr>st_world = w2, st_trace = [(Get statefulSetGVK ns n, None), (ListPods ns ls, None)]\<rparr>"
  have eq: "unstickStatefulSetRollout D r ns n \<lparr>st_world = w, st_trace = []\<rparr> = deleteStalePods r rv pods ?s"
    using assms(1) get upd cur sel pods
    by (simp add: unstickStatefulSetRollout_def GetTarget_def io_defs nested_ok_def at_path_def Let_def)
  from follows_deleteStalePods [of r rv pods, unfolded follows_def emits_def, rule_format, of ?s]
  obtain evs' where "st_trace (snd (deleteStalePods r rv pods ?s)) = st_trace ?s @ evs'"
    and "prefix (map fst evs') (map delete_pod (filter (stuck_pod rv) pods))"
    and "fst (deleteStalePods r rv pods ?s) = Inr () \<longrightarrow> map fst evs' = map delete_pod (filter (stuck_pod rv) pods)"
    by auto
  moreover have "res = fst (deleteStalePods r rv pods ?s)" "evs = st_trace (snd (deleteStalePods r rv pods ?s))"
    using run eq by (auto simp: run_def split: prod.splits)
  ultimately show ?thesis by simp
qed

theorem unstick_deletes_stuck_pods_witness:
  "prefix (map fst (snd (run (unstickStatefulSetRollout doc_deps loki_reconciler ''team-a'' ''logs-ingester'') loki_cluster)))
     [Get statefulSetGVK ''team-a'' ''logs-ingester'', ListPods ''team-a'' [(''app'', ''ingester'')],
      Delete podGVK ''team-a'' ''logs-ingester-0'']"
proof -
  have get: "api_Get (r_Client loki_reconciler) statefulSetGVK ''team-a'' ''logs-ingester'' loki_cluster = (Inr ingester, loki_cluster)"
    by (simp add: memory_simps loki_cluster_def ingester_def)
  have pods: "api_ListPods (r_Client loki_reconciler) ''team-a'' [(''app'', ''ingester'')] loki_cluster = (Inr [crashing_pod], loki_cluster)"
    by (simp add: memory_simps loki_cluster_def crashing_pod_def)
  have upd: "at_path ingester [''status'', ''updateRevision''] = Some (JStr ''r2'')"
    and cur: "at_path ingester [''status'', ''currentRevision''] = Some (JStr ''r1'')"
    and sel: "at_path ingester [''spec'', ''selector'', ''matchLabels''] = Some (JObj (strings [(''app'', ''ingester'')]))"
    by (simp_all add: ingester_def at_path_def strings_def)
  from unstick_deletes_stuck_pods [OF nested_ok_doc get upd _ cur _ sel _ pods prod.collapse [symmetric]]
  show ?thesis
    by (simp add: stuck_pod_def delete_pod_def crashing_pod_def isPodReady_def lookup_str_def)
qed

text \<open>
  A resource that is gone is no error: the run ends with the empty result after the one
  get; any other failure of that get is returned, and nothing else is called.
\<close>

theorem unreadable_resource_is_left_alone:
  assumes "fst (api_GetCR (r_Client r) ns n w) = Inl e"
  shows "run (Reconcile D r ns n) w = (if e = NotFound then Inr emptyResult else Inl e, [(GetCR ns n, Some e)])"
  by (rule run_Reconcile_not_fetched [OF assms])

theorem unreadable_resource_is_left_alone_witness:
  "run (Reconcile doc_deps pg_reconciler ''team-a'' ''gone'') (cluster_of pg_live) =
     (Inr emptyResult, [(GetCR ''team-a'' ''gone'', Some NotFound)])"
  using unreadable_resource_is_left_alone [of pg_reconciler "''team-a''" "''gone''" "cluster_of pg_live" NotFound]
  by (simp add: memory_simps)

end
