(* ===== verification/Webhook.thy ===== *)
theory Webhook
  imports Effects "HOL-Library.Transitive_Closure_Table"
begin

section \<open>The singleton webhooks\<close>

text \<open>
  \<open>internal/webhook/v1alpha1\<close>: the validating webhooks that keep GrafanaInstance,
  PrometheusInstance and LokiInstance to one per namespace. The list call of the client and
  \<open>apimeta.ExtractList\<close> are parameters; an extracted item is \<open>None\<close> where the type
  assertion to \<open>client.Object\<close> fails, and its name otherwise. The second half is the system
  the webhook lives in: an API server that asks the webhook and then stores the object,
  either in one step or with other requests in between.
\<close>

subsection \<open>The check\<close>

datatype review_error = Wrapped string error | Rejected string

definition sibling_message :: "string \<Rightarrow> string \<Rightarrow> string \<Rightarrow> string" where
  "sibling_message namespace kind name =
     ''namespace '' @ quote namespace @ '' already has a '' @ kind @ '' named '' @ quote name @
     ''; only one '' @ kind @ '' is allowed per namespace''"

fun first_sibling :: "string \<Rightarrow> string option list \<Rightarrow> string option" where
  "first_sibling newName [] = None"
| "first_sibling newName (item # items) =
     (case item of
        None \<Rightarrow> first_sibling newName items
      | Some name \<Rightarrow> if name = newName then first_sibling newName items else Some name)"

definition rejectIfSiblingExists ::
    "(string \<Rightarrow> error + 'l) \<Rightarrow> ('l \<Rightarrow> error + string option list) \<Rightarrow> string \<Rightarrow> string \<Rightarrow> string \<Rightarrow>
     review_error option" where
  "rejectIfSiblingExists list extractList namespace kind newName =
     (let failed = Wrapped (''checking for an existing '' @ kind @ '' in namespace '' @ quote namespace) in
      case list namespace of
        Inl err \<Rightarrow> Some (failed err)
      | Inr l \<Rightarrow>
          (case extractList l of
             Inl err \<Rightarrow> Some (failed err)
           | Inr items \<Rightarrow>
               map_option (\<lambda>name. Rejected (sibling_message namespace kind name)) (first_sibling newName items)))"

text \<open>
  The three validators. They look at the object's name and namespace only, so they take its
  metadata; updates and deletes are always admitted.
\<close>

definition GrafanaInstance_ValidateCreate ::
    "(string \<Rightarrow> error + 'l) \<Rightarrow> ('l \<Rightarrow> error + string option list) \<Rightarrow> ObjectMeta \<Rightarrow> review_error option" where
  "GrafanaInstance_ValidateCreate list extractList obj =
     rejectIfSiblingExists list extractList (om_Namespace obj) ''GrafanaInstance'' (om_Name obj)"

definition PrometheusInstance_ValidateCreate ::
    "(string \<Rightarrow> error + 'l) \<Rightarrow> ('l \<Rightarrow> error + string option list) \<Rightarrow> ObjectMeta \<Rightarrow> review_error option" where
  "PrometheusInstance_ValidateCreate list extractList obj =
     rejectIfSiblingExists list extractList (om_Namespace obj) ''PrometheusInstance'' (om_Name obj)"

definition LokiInstance_ValidateCreate ::
    "(string \<Rightarrow> error + 'l) \<Rightarrow> ('l \<Rightarrow> error + string option list) \<Rightarrow> ObjectMeta \<Rightarrow> review_error option" where
  "LokiInstance_ValidateCreate list extractList obj =
     rejectIfSiblingExists list extractList (om_Namespace obj) ''LokiInstance'' (om_Name obj)"

definition ValidateUpdate :: "ObjectMeta \<Rightarrow> ObjectMeta \<Rightarrow> review_error option" where
  "ValidateUpdate oldObj newObj = None"

definition ValidateDelete :: "ObjectMeta \<Rightarrow> review_error option" where
  "ValidateDelete obj = None"

lemma first_sibling_None: "first_sibling n items = None \<longleftrightarrow> (\<forall>m. Some m \<in> set items \<longrightarrow> m = n)"
  by (induction items) (auto split: option.splits)

lemma first_sibling_Some: "first_sibling n items = Some m \<Longrightarrow> Some m \<in> set items \<and> m \<noteq> n"
  by (induction items) (auto split: option.splits if_splits)

lemma rejectIfSiblingExists_None:
  "rejectIfSiblingExists list ex ns kind n = None \<longleftrightarrow>
     (\<exists>l items. list ns = Inr l \<and> ex l = Inr items \<and> (\<forall>m. Some m \<in> set items \<longrightarrow> m = n))"
  by (auto simp: rejectIfSiblingExists_def Let_def first_sibling_None split: sum.splits)

subsection \<open>The server around the webhook\<close>

text \<open>
  The store holds the metadata of the stored objects of one kind, and listing a namespace
  lists their names. \<open>admitted\<close> are the creates the webhook has let through and the server
  has not stored yet. A name can be taken once per namespace.
\<close>

record admission =
  adm_stored :: "ObjectMeta list"
  adm_admitted :: "ObjectMeta list"

definition no_objects :: admission where
  "no_objects = \<lparr>adm_stored = [], adm_admitted = []\<rparr>"

definition listing :: "admission \<Rightarrow> string \<Rightarrow> error + ObjectMeta list" where
  "listing s ns = Inr (filter (\<lambda>m. om_Namespace m = ns) (adm_stored s))"

definition names_of :: "ObjectMeta list \<Rightarrow> error + string option list" where
  "names_of l = Inr (map (\<lambda>m. Some (om_Name m)) l)"

definition taken :: "admission \<Rightarrow> ObjectMeta \<Rightarrow> bool" where
  "taken s obj \<longleftrightarrow> (\<exists>m \<in> set (adm_stored s). om_Namespace m = om_Namespace obj \<and> om_Name m = om_Name obj)"

type_synonym validator =
  "(string \<Rightarrow> error + ObjectMeta list) \<Rightarrow> (ObjectMeta list \<Rightarrow> error + string option list) \<Rightarrow> ObjectMeta \<Rightarrow>
   review_error option"

text \<open>One request at a time: the check and the store happen together.\<close>

inductive serial_step :: "validator \<Rightarrow> admission \<Rightarrow> admission \<Rightarrow> bool" for V where
  serial_create: "V (listing s) names_of obj = None \<Longrightarrow> \<not> taken s obj \<Longrightarrow>
    serial_step V s (s\<lparr>adm_stored := obj # adm_stored s\<rparr>)"
| serial_remove: "serial_step V s (s\<lparr>adm_stored := filter P (adm_stored s)\<rparr>)"

text \<open>Requests interleave: another request may be checked before this one is stored.\<close>

inductive concurrent_step :: "validator \<Rightarrow> admission \<Rightarrow> admission \<Rightarrow> bool" for V where
  check: "V (listing s) names_of obj = None \<Longrightarrow>
    concurrent_step V s (s\<lparr>adm_admitted := obj # adm_admitted s\<rparr>)"
| store: "obj \<in> set (adm_admitted s) \<Longrightarrow> \<not> taken s obj \<Longrightarrow>
    concurrent_step V s \<lparr>adm_stored = obj # adm_stored s, adm_admitted = remove1 obj (adm_admitted s)\<rparr>"
| remove: "concurrent_step V s (s\<lparr>adm_stored := filter P (adm_stored s)\<rparr>)"

definition one_per_namespace :: "admission \<Rightarrow> bool" where
  "one_per_namespace s \<longleftrightarrow>
     (\<forall>m \<in> set (adm_stored s). \<forall>m' \<in> set (adm_stored s).
        om_Namespace m = om_Namespace m' \<longrightarrow> om_Name m = om_Name m')"

subsection \<open>The contract of a validator\<close>

text \<open>
  What the server relies on: a create is admitted exactly when the namespace could be listed
  and holds no object of another name.
\<close>

locale singleton_validator =
  fixes V :: validator
  assumes admits: "V list ex obj = None \<longleftrightarrow>
    (\<exists>l items. list (om_Namespace obj) = Inr l \<and> ex l = Inr items \<and>
       (\<forall>m. Some m \<in> set items \<longrightarrow> m = om_Name obj))"
begin

lemma admits_listing:
  "V (listing s) names_of obj = None \<longleftrightarrow>
   (\<forall>m \<in> set (adm_stored s). om_Namespace m = om_Namespace obj \<longrightarrow> om_Name m = om_Name obj)"
  by (auto simp: admits listing_def names_of_def)

lemma serial_step_one:
  assumes "serial_step V s s'" and "one_per_namespace s"
  shows "one_per_namespace s'"
  using assms(1)
proof cases
  case (serial_create obj)
  let ?agree = "\<lambda>m m'. om_Namespace m = om_Namespace m' \<longrightarrow> om_Name m = om_Name m'"
  have to: "\<forall>m \<in> set (adm_stored s). ?agree m obj"
    using serial_create by (simp add: admits_listing)
  then have from_obj: "\<forall>m \<in> set (adm_stored s). ?agree obj m" by metis
  have all: "\<forall>m \<in> set (adm_stored s). \<forall>m' \<in> set (adm_stored s). ?agree m m'"
    using assms(2) unfolding one_per_namespace_def .
  have "\<forall>m \<in> insert obj (set (adm_stored s)). \<forall>m' \<in> insert obj (set (adm_stored s)). ?agree m m'"
  proof (intro ballI)
    fix m m'
    assume "m \<in> insert obj (set (adm_stored s))" and "m' \<in> insert obj (set (adm_stored s))"
    then show "?agree m m'"
      using to from_obj all by (metis insert_iff)
  qed
  moreover have "set (adm_stored s') = insert obj (set (adm_stored s))"
    using serial_create(1) by simp
  ultimately show ?thesis by (simp only: one_per_namespace_def)
next
  case (serial_remove P)
  then have "set (adm_stored s') \<subseteq> set (adm_stored s)" by auto
  with assms(2) show ?thesis unfolding one_per_namespace_def by (meson subsetD)
qed

lemma serial_invariant: "(serial_step V)\<^sup>*\<^sup>* s s' \<Longrightarrow> one_per_namespace s \<Longrightarrow> one_per_namespace s'"
  by (induction rule: rtranclp_induct) (auto intro: serial_step_one)

lemma race: "\<exists>s. (concurrent_step V)\<^sup>*\<^sup>* no_objects s \<and> \<not> one_per_namespace s"
proof -
  let ?a = "\<lparr>om_Name = ''a'', om_Namespace = ''team'', om_Generation = 1, om_DeletionTimestamp = None, om_Finalizers = []\<rparr>"
  let ?b = "?a\<lparr>om_Name := ''b''\<rparr>"
  let ?s1 = "no_objects\<lparr>adm_admitted := [?a]\<rparr>" and ?s2 = "no_objects\<lparr>adm_admitted := [?b, ?a]\<rparr>"
  let ?s3 = "\<lparr>adm_stored = [?a], adm_admitted = [?b]\<rparr>" and ?s4 = "\<lparr>adm_stored = [?b, ?a], adm_admitted = []\<rparr>"
  have "concurrent_step V no_objects ?s1"
    using check [of V no_objects ?a] by (simp add: admits_listing no_objects_def)
  moreover have "concurrent_step V ?s1 ?s2"
    using check [of V ?s1 ?b] by (simp add: admits_listing no_objects_def)
  moreover have "concurrent_step V ?s2 ?s3"
    using store [of ?a ?s2 V] by (simp add: no_objects_def taken_def)
  moreover have "concurrent_step V ?s3 ?s4"
    using store [of ?b ?s3 V] by (simp add: taken_def)
  ultimately have "(concurrent_step V)\<^sup>*\<^sup>* no_objects ?s4"
    by (meson converse_rtranclp_into_rtranclp rtranclp.rtrancl_refl)
  moreover have "\<not> one_per_namespace ?s4"
    by (simp add: one_per_namespace_def)
  ultimately show ?thesis by blast
qed

end

interpretation grafana_rule: singleton_validator GrafanaInstance_ValidateCreate
  by unfold_locales (simp add: GrafanaInstance_ValidateCreate_def rejectIfSiblingExists_None)

interpretation prometheus_rule: singleton_validator PrometheusInstance_ValidateCreate
  by unfold_locales (simp add: PrometheusInstance_ValidateCreate_def rejectIfSiblingExists_None)

interpretation loki_rule: singleton_validator LokiInstance_ValidateCreate
  by unfold_locales (simp add: LokiInstance_ValidateCreate_def rejectIfSiblingExists_None)

subsection \<open>Properties\<close>

text \<open>
  C34: the create webhook lets an object in exactly when it could list the namespace and every
  sibling it finds there bears the object's own name; a failed list rejects the create.
\<close>

theorem create_admitted_iff_no_sibling:
  "GrafanaInstance_ValidateCreate list ex obj = None \<longleftrightarrow>
     (\<exists>l items. list (om_Namespace obj) = Inr l \<and> ex l = Inr items \<and> set items \<subseteq> {None, Some (om_Name obj)})"
  by (simp add: GrafanaInstance_ValidateCreate_def rejectIfSiblingExists_None subset_iff split_option_all)




end
