(* ===== verification/AlloyAdapter.thy ===== *)
theory AlloyAdapter
  imports LokiAdapter
begin

section \<open>AlloyInstance onto an Alloy\<close>

text \<open>
  \<open>internal/alloy/alloy.go\<close>: the collector's configuration text with the Loki push URL, the
  namespace-scoped RBAC, and readiness from the Deployed condition. This is the one package
  without auxiliary objects.
\<close>

definition alloy_GVK :: gvk where
  [adapter_defs]: "alloy_GVK = GVK ''collectors.grafana.com'' ''v1alpha1'' ''Alloy''"
definition alloy_FieldManager :: string where
  [adapter_defs]: "alloy_FieldManager = ''alloyinstance-operator''"

definition alloy_TargetName :: "string \<Rightarrow> string" where
  [adapter_defs]: "alloy_TargetName crName = crName"

text \<open>A text between quotation marks, and lines joined with a line feed after each.\<close>

definition dq :: "string \<Rightarrow> string" where
  "dq s = [CHR 34] @ s @ [CHR 34]"

definition unlines :: "string list \<Rightarrow> string" where
  "unlines ls = concat (map (\<lambda>l. l @ [CHR 10]) ls)"

text \<open>\<open>fmt.Sprintf(alloyConfigTemplate, url)\<close>, line by line.\<close>

definition alloyConfigLines :: "string \<Rightarrow> string list" where
  "alloyConfigLines url =
     [''discovery.kubernetes '' @ dq ''pods'' @ '' {'',
      ''  role = '' @ dq ''pod'',
      '''',
      ''  namespaces {'',
      ''    own_namespace = true'',
      ''  }'',
      ''}'',
      '''',
      ''discovery.relabel '' @ dq ''pod_logs'' @ '' {'',
      ''  targets = discovery.kubernetes.pods.targets'',
      '''',
      ''  rule {'',
      ''    source_labels = ['' @ dq ''__meta_kubernetes_namespace'' @ '']'',
      ''    target_label  = '' @ dq ''namespace'',
      ''  }'',
      ''  rule {'',
      ''    source_labels = ['' @ dq ''__meta_kubernetes_pod_name'' @ '']'',
      ''    target_label  = '' @ dq ''pod'',
      ''  }'',
      ''  rule {'',
      ''    source_labels = ['' @ dq ''__meta_kubernetes_pod_container_name'' @ '']'',
      ''    target_label  = '' @ dq ''container'',
      ''  }'',
      ''  rule {'',
      ''    source_labels = ['' @ dq ''__meta_kubernetes_pod_node_name'' @ '']'',
      ''    target_label  = '' @ dq ''node'',
      ''  }'',
      ''}'',
      '''',
      ''loki.source.kubernetes '' @ dq ''pod_logs'' @ '' {'',
      ''  targets    = discovery.relabel.pod_logs.output'',
      ''  forward_to = [loki.write.default.receiver]'',
      ''}'',
      '''',
      ''loki.write '' @ dq ''default'' @ '' {'',
      ''  endpoint {'',
      ''    url = '' @ quote url,
      ''  }'',
      ''}'']"

definition alloyConfig :: "string \<Rightarrow> string" where
  "alloyConfig url = unlines (alloyConfigLines url)"

definition alloy_writeURL :: "string \<Rightarrow> string \<Rightarrow> string" where
  "alloy_writeURL lokiInstanceRef namespace =
     ''http://'' @ loki_WriteServiceName lokiInstanceRef @ ''.'' @ namespace @
     ''.svc.cluster.local:'' @ show_nat loki_QueryPort @ ''/loki/api/v1/push''"

definition alloy_BuildManifest :: "AlloyInstance \<Rightarrow> string \<Rightarrow> string \<Rightarrow> string \<Rightarrow> unstructured" where
  "alloy_BuildManifest c name namespace ownerName =
     (let replicas = aly_Replicas (cr_spec c);
          replicas = (if replicas = 0 then 1 else replicas);
          writeURL = alloy_writeURL (aly_LokiInstanceRef (cr_spec c)) namespace;
          alloySpec =
            [(''alloy'', JObj [(''configMap'', JObj [(''content'', JStr (alloyConfig writeURL))])]),
             (''controller'', JObj
               [(''type'', JStr ''deployment''), (''replicas'', JInt (int64 replicas))]),
             (''rbac'', JObj [(''namespaces'', JArr [JStr namespace])])]
      in set_entry ''spec'' (JObj alloySpec)
           (new_object alloy_GVK name namespace (commonLabels alloy_FieldManager ownerName)))"

definition alloy_ExtractStatus :: "deps \<Rightarrow> unstructured option \<Rightarrow> TargetStatus" where
  "alloy_ExtractStatus D target =
     (case target of
        None \<Rightarrow> unknown_status
      | Some u \<Rightarrow>
          condition_status D ''Deployed''
            (fst (nestedSlice D (JObj (u_object u)) [''status'', ''conditions''])))"

definition alloy_ApplyStatus ::
    "deps \<Rightarrow> AlloyInstance \<Rightarrow> string \<Rightarrow> TargetStatus \<Rightarrow> AlloyInstance \<times> string" where
  "alloy_ApplyStatus D c targetName s =
     (let message = (if ts_Ready s
            then ''Alloy '' @ quote targetName @ '' is deployed''
            else ''Waiting for Alloy '' @ quote targetName @ '' (phase: '' @ ts_Phase s @ '')'');
          conditions = set_ready_condition D (om_Generation (cr_meta c))
            ''AlloyNotReady'' ''AlloyReady'' message (ts_Ready s) (alys_Conditions (cr_status c))
      in (c\<lparr>cr_status := (cr_status c)\<lparr>alys_Conditions := conditions, alys_Ready := ts_Ready s, alys_Phase := ts_Phase s, alys_Message := message\<rparr>\<rparr>, message))"

subsection \<open>The adapter\<close>

definition alloy_Adapter :: "deps \<Rightarrow> (AlloyInstanceSpec, AlloyInstanceStatus) adapter" where
  "alloy_Adapter D =
     \<lparr>a_GVK = alloy_GVK, a_TargetName = alloy_TargetName, a_ObjectKind = ''Alloy'',
      a_FieldManager = alloy_FieldManager, a_BuildManifest = alloy_BuildManifest,
      a_ExtractStatus = alloy_ExtractStatus D, a_ApplyStatus = alloy_ApplyStatus D,
      a_ExtraResources = None, a_PVCLabelSelector = None,
      a_IngressClass = None\<rparr>"

lemma alloy_Adapter_fields [simp]:
  "a_GVK (alloy_Adapter D) = alloy_GVK"
  "a_TargetName (alloy_Adapter D) = alloy_TargetName"
  "a_ObjectKind (alloy_Adapter D) = ''Alloy''"
  "a_FieldManager (alloy_Adapter D) = alloy_FieldManager"
  "a_BuildManifest (alloy_Adapter D) = alloy_BuildManifest"
  "a_ExtractStatus (alloy_Adapter D) = alloy_ExtractStatus D"
  "a_ApplyStatus (alloy_Adapter D) = alloy_ApplyStatus D"
  "a_ExtraResources (alloy_Adapter D) = None"
  "a_PVCLabelSelector (alloy_Adapter D) = None"
  "a_IngressClass (alloy_Adapter D) = None"
  by (simp_all add: alloy_Adapter_def)

definition alloy_view :: "AlloyInstanceStatus \<Rightarrow> status_view" where
  "alloy_view st = \<lparr>v_Ready = alys_Ready st, v_Phase = alys_Phase st,
     v_Message = alys_Message st, v_Conditions = alys_Conditions st\<rparr>"

lemma alloy_BuildManifest_meta [simp]:
  "u_gvk (alloy_BuildManifest c n ns ow) = alloy_GVK"
  "u_name (alloy_BuildManifest c n ns ow) = n"
  "u_namespace (alloy_BuildManifest c n ns ow) = ns"
  "u_labels (alloy_BuildManifest c n ns ow) = commonLabels alloy_FieldManager ow"
  by (simp_all add: alloy_BuildManifest_def Let_def)

interpretation alloy: status_mirror "alloy_Adapter D" alloy_view D
  "''AlloyNotReady''" "''AlloyReady''"
  by unfold_locales
     (auto simp: alloy_Adapter_def alloy_view_def extras_def object_id_def
        adapter_defs
        alloy_ApplyStatus_def alloy_ExtractStatus_def Let_def 
      split: option.splits prod.splits if_splits)

end
