(* ===== verification/Quoting.thy ===== *)
theory Quoting
  imports Prelude
begin

section \<open>Reading quoted text back\<close>

text \<open>
  \<open>strconv.Unquote\<close> of a double-quoted literal, on bytes: the inverse the reader of a
  configuration file applies to what \<open>%q\<close> wrote. The lemmas show that quoting loses nothing
  and never produces a line feed, so a quoted value stays on its line.
\<close>

definition escape_letter :: "char \<Rightarrow> char option" where
  "escape_letter e = map_of
     [(CHR 34, CHR 34), (CHR 92, CHR 92), (CHR ''a'', CHR 7), (CHR ''b'', CHR 8), (CHR ''f'', CHR 12),
      (CHR ''n'', CHR 10), (CHR ''r'', CHR 13), (CHR ''t'', CHR 9), (CHR ''v'', CHR 11)] e"

definition hex_value :: "char \<Rightarrow> nat option" where
  "hex_value h =
     (let n = of_char h :: nat in
      if 48 \<le> n \<and> n \<le> 57 then Some (n - 48)
      else if 97 \<le> n \<and> n \<le> 102 then Some (n - 87)
      else None)"

fun unescape :: "string \<Rightarrow> string option" where
  "unescape [] = Some []"
| "unescape [c] = (if c = CHR 92 then None else Some [c])"
| "unescape (c # e # s) =
     (if c \<noteq> CHR 92 then map_option (Cons c) (unescape (e # s))
      else if e = CHR ''x''
      then (case s of
              h # l # s' \<Rightarrow>
                (case (hex_value h, hex_value l) of
                   (Some m, Some n) \<Rightarrow> map_option (Cons (char_of (16 * m + n))) (unescape s')
                 | _ \<Rightarrow> None)
            | _ \<Rightarrow> None)
      else (case escape_letter e of None \<Rightarrow> None | Some d \<Rightarrow> map_option (Cons d) (unescape s)))"

definition unquote :: "string \<Rightarrow> string option" where
  "unquote s =
     (if 2 \<le> length s \<and> hd s = CHR 34 \<and> last s = CHR 34 then unescape (butlast (tl s)) else None)"

text \<open>
  What \<open>quote_char\<close> makes of a character, checked for all 256 of them: the character itself, a
  letter escape, or two hexadecimal digits, none of them a line feed.
\<close>

definition quotes_well :: "char \<Rightarrow> bool" where
  "quotes_well c =
     (case quote_char c of
        [d] \<Rightarrow> d = c \<and> d \<noteq> CHR 92 \<and> d \<noteq> CHR 10
      | [b, e] \<Rightarrow> b = CHR 92 \<and> e \<noteq> CHR ''x'' \<and> escape_letter e = Some c \<and> e \<noteq> CHR 10
      | [b, x, h, l] \<Rightarrow> b = CHR 92 \<and> x = CHR ''x'' \<and> h \<noteq> CHR 10 \<and> l \<noteq> CHR 10 \<and>
          (case (hex_value h, hex_value l) of (Some m, Some n) \<Rightarrow> char_of (16 * m + n) = c | _ \<Rightarrow> False)
      | _ \<Rightarrow> False)"

lemma all_quote_well: "\<forall>c. quotes_well c"
  by code_simp

lemma quote_char_cases:
  obtains (plain) "quote_char c = [c]" "c \<noteq> CHR 92" "c \<noteq> CHR 10"
  | (letter) e where "quote_char c = [CHR 92, e]" "e \<noteq> CHR ''x''" "escape_letter e = Some c" "e \<noteq> CHR 10"
  | (hex) h l m n where "quote_char c = [CHR 92, CHR ''x'', h, l]" "h \<noteq> CHR 10" "l \<noteq> CHR 10"
      "hex_value h = Some m" "hex_value l = Some n" "char_of (16 * m + n) = c"
  using all_quote_well [rule_format, of c] unfolding quotes_well_def
  by (auto split: list.splits option.splits)

lemma unescape_plain: "c \<noteq> CHR 92 \<Longrightarrow> unescape (c # s) = map_option (Cons c) (unescape s)"
  by (cases s) simp_all

lemma unescape_quote_char: "unescape (quote_char c @ s) = map_option (Cons c) (unescape s)"
  by (cases c rule: quote_char_cases) (simp_all add: unescape_plain)

lemma unescape_quoted: "unescape (concat (map quote_char s)) = Some s"
  by (induction s) (simp_all add: unescape_quote_char)

lemma unquote_quote [simp]: "unquote (quote s) = Some s"
  by (simp add: unquote_def quote_def unescape_quoted butlast_append)

lemma quote_char_no_newline: "CHR 10 \<notin> set (quote_char c)"
  by (cases c rule: quote_char_cases) simp_all

lemma quote_no_newline [simp]: "CHR 10 \<notin> set (quote s)"
  by (auto simp: quote_def quote_char_no_newline)

subsection \<open>Lines\<close>

text \<open>The lines of a text, the pending one first.\<close>

fun lines_from :: "string \<Rightarrow> string \<Rightarrow> string list" where
  "lines_from pending [] = (if pending = [] then [] else [pending])"
| "lines_from pending (c # s) =
     (if c = CHR 10 then pending # lines_from [] s else lines_from (pending @ [c]) s)"

abbreviation lines_of :: "string \<Rightarrow> string list" where
  "lines_of \<equiv> lines_from []"

lemma lines_from_append:
  "CHR 10 \<notin> set l \<Longrightarrow> lines_from pending (l @ CHR 10 # s) = (pending @ l) # lines_of s"
  by (induction l arbitrary: pending) auto

lemma lines_of_terminated:
  "\<forall>l \<in> set ls. CHR 10 \<notin> set l \<Longrightarrow> lines_of (concat (map (\<lambda>l. l @ [CHR 10]) ls)) = ls"
  by (induction ls) (simp_all add: lines_from_append)

end
