(* ===== verification/AlloyProps.thy ===== *)
theory AlloyProps
  imports Cluster AlloyAdapter Quoting
begin

section \<open>The collector's configuration\<close>

text \<open>
  The Alloy adapter writes a configuration text and quotes the push URL into it. A reader of
  that text gets the template back line by line, and the URL byte by byte, whatever the
  reference in the spec holds (bytes above 127 aside, which \<open>quote\<close> does not model).
\<close>

lemma alloyConfig_lines: "lines_of (alloyConfig url) = alloyConfigLines url"
proof -
  have "\<forall>l \<in> set (alloyConfigLines url). CHR 10 \<notin> set l"
    by (simp add: alloyConfigLines_def dq_def)
  then show ?thesis
    unfolding alloyConfig_def unlines_def by (rule lines_of_terminated)
qed


text \<open>The URL is the write endpoint of the LokiInstance the spec names, in the collector's namespace.\<close>

lemma alloy_pushes_to_the_referenced_loki:
  "json_at (JObj (u_object (alloy_BuildManifest c n ns ow))) [Key ''spec'', Key ''alloy'', Key ''configMap'', Key ''content''] =
     Some (JStr (alloyConfig (''http://'' @ loki_WriteServiceName (aly_LokiInstanceRef (cr_spec c)) @ ''.'' @ ns @
       ''.svc.cluster.local:3100/loki/api/v1/push''))) \<and>
   (\<exists>k. json_at (JObj (u_object (alloy_BuildManifest c n ns ow))) [Key ''spec'', Key ''controller'', Key ''replicas''] = Some (JInt k) \<and>
      sint k = (if aly_Replicas (cr_spec c) = 0 then 1 else sint (aly_Replicas (cr_spec c)))) \<and>
   json_at (JObj (u_object (alloy_BuildManifest c n ns ow))) [Key ''spec'', Key ''rbac'', Key ''namespaces''] = Some (JArr [JStr ns])"
  by (simp add: alloy_BuildManifest_def Let_def alloy_writeURL_def loki_QueryPort_def show_nat.simps)

end
