(* ===== verification/ApiCodec.thy ===== *)
theory ApiCodec
  imports Cluster
begin

section \<open>Structs on the wire\<close>

text \<open>
  The engine reads and writes custom resources as Go structs, and the API server stores JSON.
  Here is that boundary: \<open>encoding/json\<close> with the \<open>omitempty\<close> and \<open>omitzero\<close> options of the struct
  tags of \<open>api/v1alpha1\<close>, the defaults of the \<open>+kubebuilder:default\<close> markers as the API server
  fills them in for absent fields, and decoding into a zero value. First the fields, each with
  the laws that carry every struct; then the shared structs; then the contract of a spec, the
  locale \<open>wire\<close>, and what it means for the engine. A quantity is kept as the string it was
  written as.
\<close>

named_theorems codec_defs \<open>encoders, decoders and defaulting of structs\<close>

subsection \<open>Fields\<close>

text \<open>The document of a struct, in the order of its fields; a field with no value is omitted.\<close>

primrec struct_doc :: "(string \<times> json option) list \<Rightarrow> doc" where
  "struct_doc [] = []"
| "struct_doc (f # fs) = (case snd f of None \<Rightarrow> struct_doc fs | Some v \<Rightarrow> (fst f, v) # struct_doc fs)"

definition omit_string :: "string \<Rightarrow> json option" where
  "omit_string s = (if s = '''' then None else Some (JStr s))"

definition omit_int :: "32 word \<Rightarrow> json option" where
  "omit_int i = (if i = 0 then None else Some (JInt (int64 i)))"

definition omit_bool :: "bool \<Rightarrow> json option" where
  "omit_bool b = (if b then Some (JBool True) else None)"

definition omit_strings :: "labels \<Rightarrow> json option" where
  "omit_strings ls = (if ls = [] then None else Some (JObj (strings ls)))"

text \<open>\<open>omitzero\<close> on a struct, and \<open>omitempty\<close> on a pointer to one.\<close>

definition omit_zero :: "'s \<Rightarrow> ('s \<Rightarrow> doc) \<Rightarrow> 's \<Rightarrow> json option" where
  "omit_zero zero enc s = (if s = zero then None else Some (JObj (enc s)))"

definition omit_nil :: "('s \<Rightarrow> doc) \<Rightarrow> 's option \<Rightarrow> json option" where
  "omit_nil enc p = map_option (\<lambda>s. JObj (enc s)) p"

text \<open>Reading a field into a Go zero value: absent fields stay zero.\<close>

definition as_string :: "json option \<Rightarrow> string" where
  "as_string v = (case v of Some (JStr s) \<Rightarrow> s | _ \<Rightarrow> '''')"

definition as_int :: "json option \<Rightarrow> 32 word" where
  "as_int v = (case v of Some (JInt i) \<Rightarrow> int32 i | _ \<Rightarrow> 0)"

definition as_bool :: "json option \<Rightarrow> bool" where
  "as_bool v = (case v of Some (JBool b) \<Rightarrow> b | _ \<Rightarrow> False)"

definition as_strings :: "json option \<Rightarrow> labels" where
  "as_strings v = (case v of Some (JObj o') \<Rightarrow> (case string_entries o' of Some ls \<Rightarrow> ls | None \<Rightarrow> []) | _ \<Rightarrow> [])"

definition as_struct :: "(doc \<Rightarrow> 's) \<Rightarrow> json option \<Rightarrow> 's" where
  "as_struct dec v = dec (case v of Some (JObj o') \<Rightarrow> o' | _ \<Rightarrow> [])"

definition as_pointer :: "(doc \<Rightarrow> 's) \<Rightarrow> json option \<Rightarrow> 's option" where
  "as_pointer dec v = (case v of Some (JObj o') \<Rightarrow> Some (dec o') | _ \<Rightarrow> None)"

text \<open>The API server's defaulting: a value for a field that is absent, then the fields of a struct that is there.\<close>

definition filled_field :: "json \<Rightarrow> json option \<Rightarrow> json option" where
  "filled_field v x = (case x of None \<Rightarrow> Some v | Some _ \<Rightarrow> x)"

definition filled_in :: "(doc \<Rightarrow> doc) \<Rightarrow> json option \<Rightarrow> json option" where
  "filled_in f x = (case x of Some (JObj o') \<Rightarrow> Some (JObj (f o')) | _ \<Rightarrow> x)"

definition default_field :: "string \<Rightarrow> json \<Rightarrow> doc \<Rightarrow> doc" where
  "default_field k v m = (if map_of m k = None then put k v m else m)"

definition default_in :: "string \<Rightarrow> (doc \<Rightarrow> doc) \<Rightarrow> doc \<Rightarrow> doc" where
  "default_in k f m = (case map_of m k of Some (JObj o') \<Rightarrow> put k (JObj (f o')) m | _ \<Rightarrow> m)"

text \<open>What defaulting amounts to on the Go value: a zero becomes the default.\<close>

definition or_default :: "'a \<Rightarrow> 'a \<Rightarrow> 'a \<Rightarrow> 'a" where
  "or_default zero d x = (if x = zero then d else x)"

subsection \<open>Laws of the fields\<close>

definition first_of :: "'a option \<Rightarrow> 'a option \<Rightarrow> 'a option" where
  "first_of v w = (case v of None \<Rightarrow> w | Some x \<Rightarrow> Some x)"

lemma first_of_simps [simp]: "first_of v None = v" "first_of (Some x) w = Some x" "first_of None w = w"
  by (auto simp: first_of_def split: option.split)

lemma map_of_struct_doc [simp]:
  "map_of (struct_doc []) k = None"
  "map_of (struct_doc ((k', v) # fs)) k = (if k = k' then first_of v (map_of (struct_doc fs) k) else map_of (struct_doc fs) k)"
  by (auto simp: first_of_def split: option.split)

declare struct_doc.simps [simp del]

lemma struct_doc_Nil [simp]: "struct_doc [] = []"
  by (simp add: struct_doc.simps)

lemma map_of_default_field [simp]:
  "map_of (default_field k v m) k' = (if k' = k then filled_field v (map_of m k) else map_of m k')"
  by (auto simp: default_field_def filled_field_def split: option.split)

lemma map_of_default_in [simp]:
  "map_of (default_in k f m) k' = (if k' = k then filled_in f (map_of m k) else map_of m k')"
  by (auto simp: default_in_def filled_in_def split: option.split json.split)

lemma int32_int64 [simp]: "int32 (int64 x) = x"
proof -
  have "sint (int32 (int64 x)) = sint x"
    using sint_greater_eq [of x] sint_less [of x] by (intro trans [OF sint_int32]) simp_all
  then show ?thesis by (rule signed_word_eqI)
qed

lemma int32_defaults [simp]: "int32 0 = 0" "int32 1 = 1" "int32 3 = 3"
  by (simp_all add: int32_def)

text \<open>Every field reads back what was written; a field with a default reads back the default for a zero.\<close>

lemma fields_read_back [simp]:
  "as_string (omit_string s) = s" "as_string (Some (JStr s)) = s"
  "as_int (omit_int i) = i" "as_int (Some (JInt j)) = int32 j"
  "as_bool (omit_bool b) = b" "as_bool (Some (JBool b)) = b" "as_strings (omit_strings ls) = ls"
  "as_struct dec (Some (JObj o')) = dec o'" "as_struct dec None = dec []"
  "as_pointer dec (omit_nil enc p) = map_option (\<lambda>s. dec (enc s)) p"
  "as_string None = ''''" "as_int None = 0" "as_bool None = False" "as_strings None = []"
  by (auto simp: as_string_def omit_string_def as_int_def omit_int_def as_bool_def omit_bool_def as_strings_def
      omit_strings_def as_struct_def as_pointer_def omit_nil_def split: option.split)

lemma defaulted_fields_read_back [simp]:
  "filled_field v None = Some v" "filled_field v (Some x) = Some x"
  "as_string (filled_field (JStr d) (omit_string s)) = or_default '''' d s"
  "as_int (filled_field (JInt j) (omit_int i)) = or_default 0 (int32 j) i"
  "as_bool (filled_field (JBool c) (omit_bool b)) = (b \<or> c)"
  "as_pointer dec (filled_in g (omit_nil enc' p)) = map_option (\<lambda>e. dec (g (enc' e))) p"
  by (auto simp: filled_field_def filled_in_def omit_string_def omit_int_def omit_bool_def omit_zero_def omit_nil_def
      as_pointer_def or_default_def as_string_def as_bool_def split: option.split)

lemma filled_in_omit_zero:
  "filled_in f (filled_field (JObj m) (omit_zero zero enc a)) = Some (JObj (f (if a = zero then m else enc a)))"
  by (simp add: filled_in_def filled_field_def omit_zero_def)

lemma omit_zero_read_back:
  assumes "\<And>s. dec (enc s) = s" and "dec [] = zero"
  shows "as_struct dec (omit_zero zero enc s) = s"
  using assms by (auto simp: omit_zero_def)

lemma or_default_simps [simp]:
  "or_default z d (or_default z d x) = or_default z d x"
  "or_default z d x = x \<longleftrightarrow> x \<noteq> z \<or> d = z" "or_default z z x = x" "x \<noteq> z \<Longrightarrow> or_default z d x = x"
  by (auto simp: or_default_def)

subsection \<open>The shared structs\<close>

text \<open>
  Per struct: \<open>encode\<close> and \<open>decode\<close>; \<open>default\<close>, where a field has a default; \<open>filled\<close>, what encoding,
  defaulting and decoding amount to on the Go value; and \<open>admits\<close>, what the validation markers ask.
\<close>

definition zero_Monitoring :: MonitoringSpec where
  [codec_defs]: "zero_Monitoring = \<lparr>EnablePodMonitor = False\<rparr>"

definition encode_Monitoring :: "MonitoringSpec \<Rightarrow> doc" where
  [codec_defs]: "encode_Monitoring s = struct_doc [(''enablePodMonitor'', omit_bool (EnablePodMonitor s))]"

definition decode_Monitoring :: "doc \<Rightarrow> MonitoringSpec" where
  [codec_defs]: "decode_Monitoring m = \<lparr>EnablePodMonitor = as_bool (map_of m ''enablePodMonitor'')\<rparr>"

definition default_Monitoring :: "doc \<Rightarrow> doc" where
  [codec_defs]: "default_Monitoring m = default_field ''enablePodMonitor'' (JBool True) m"

definition filled_Monitoring :: "MonitoringSpec \<Rightarrow> MonitoringSpec" where
  "filled_Monitoring s = s\<lparr>EnablePodMonitor := or_default False True (EnablePodMonitor s)\<rparr>"

definition encode_Storage :: "StorageSpec \<Rightarrow> doc" where
  [codec_defs]: "encode_Storage s = struct_doc
     [(''size'', Some (JStr (sto_Size s))), (''storageClass'', omit_string (sto_StorageClass s))]"

definition decode_Storage :: "doc \<Rightarrow> StorageSpec" where
  [codec_defs]: "decode_Storage m =
     \<lparr>sto_Size = as_string (map_of m ''size''), sto_StorageClass = as_string (map_of m ''storageClass'')\<rparr>"

definition encode_Database :: "DatabaseSpec \<Rightarrow> doc" where
  [codec_defs]: "encode_Database s = struct_doc
     [(''name'', Some (JStr (db_Name s))), (''owner'', Some (JStr (db_Owner s)))]"

definition decode_Database :: "doc \<Rightarrow> DatabaseSpec" where
  [codec_defs]: "decode_Database m =
     \<lparr>db_Name = as_string (map_of m ''name''), db_Owner = as_string (map_of m ''owner'')\<rparr>"

definition encode_Persistence :: "PersistenceSpec \<Rightarrow> doc" where
  [codec_defs]: "encode_Persistence s = struct_doc
     [(''size'', Some (JStr (per_Size s))), (''storageClass'', omit_string (per_StorageClass s))]"

definition decode_Persistence :: "doc \<Rightarrow> PersistenceSpec" where
  [codec_defs]: "decode_Persistence m =
     \<lparr>per_Size = as_string (map_of m ''size''), per_StorageClass = as_string (map_of m ''storageClass'')\<rparr>"

definition encode_Ingress :: "IngressSpec \<Rightarrow> doc" where
  [codec_defs]: "encode_Ingress s = struct_doc
     [(''host'', Some (JStr (ing_Host s))),
      (''ingressClassName'', omit_string (ing_IngressClassName s)),
      (''tlsSecretName'', omit_string (ing_TLSSecretName s)),
      (''annotations'', omit_strings (ing_Annotations s))]"

definition decode_Ingress :: "doc \<Rightarrow> IngressSpec" where
  [codec_defs]: "decode_Ingress m =
     \<lparr>ing_Host = as_string (map_of m ''host''),
      ing_IngressClassName = as_string (map_of m ''ingressClassName''),
      ing_TLSSecretName = as_string (map_of m ''tlsSecretName''),
      ing_Annotations = as_strings (map_of m ''annotations'')\<rparr>"

definition encode_Expose :: "ServiceExposeSpec \<Rightarrow> doc" where
  [codec_defs]: "encode_Expose s = struct_doc
     [(''type'', omit_string (exp_Type s)), (''annotations'', omit_strings (exp_Annotations s))]"

definition decode_Expose :: "doc \<Rightarrow> ServiceExposeSpec" where
  [codec_defs]: "decode_Expose m =
     \<lparr>exp_Type = as_string (map_of m ''type''), exp_Annotations = as_strings (map_of m ''annotations'')\<rparr>"

definition default_Expose :: "doc \<Rightarrow> doc" where
  [codec_defs]: "default_Expose m = default_field ''type'' (JStr ''LoadBalancer'') m"

definition filled_Expose :: "ServiceExposeSpec \<Rightarrow> ServiceExposeSpec" where
  "filled_Expose s = s\<lparr>exp_Type := or_default '''' ''LoadBalancer'' (exp_Type s)\<rparr>"

definition admits_Expose :: "ServiceExposeSpec option \<Rightarrow> bool" where
  "admits_Expose p \<longleftrightarrow> (case p of None \<Rightarrow> True | Some s \<Rightarrow> exp_Type s = ''LoadBalancer'')"

definition zero_Resources :: ResourceRequirements where
  [codec_defs]: "zero_Resources = \<lparr>rr_Limits = [], rr_Requests = []\<rparr>"

definition encode_Resources :: "ResourceRequirements \<Rightarrow> doc" where
  [codec_defs]: "encode_Resources s = struct_doc
     [(''limits'', omit_strings (rr_Limits s)), (''requests'', omit_strings (rr_Requests s))]"

definition decode_Resources :: "doc \<Rightarrow> ResourceRequirements" where
  [codec_defs]: "decode_Resources m =
     \<lparr>rr_Limits = as_strings (map_of m ''limits''), rr_Requests = as_strings (map_of m ''requests'')\<rparr>"

definition encode_LokiObjectStorage :: "LokiObjectStorageSpec \<Rightarrow> doc" where
  [codec_defs]: "encode_LokiObjectStorage s = struct_doc [(''secretName'', Some (JStr (los_SecretName s)))]"

definition decode_LokiObjectStorage :: "doc \<Rightarrow> LokiObjectStorageSpec" where
  [codec_defs]: "decode_LokiObjectStorage m = \<lparr>los_SecretName = as_string (map_of m ''secretName'')\<rparr>"

lemma shared_roundtrips [simp]:
  "decode_Monitoring (encode_Monitoring a) = a" "decode_Storage (encode_Storage b) = b"
  "decode_Database (encode_Database c) = c" "decode_Persistence (encode_Persistence d) = d"
  "decode_Ingress (encode_Ingress e) = e" "decode_Expose (encode_Expose f) = f"
  "decode_Resources (encode_Resources g) = g" "decode_LokiObjectStorage (encode_LokiObjectStorage h) = h"
  by (simp_all add: codec_defs)

lemma shared_omitted [simp]:
  "as_struct decode_Monitoring (omit_zero zero_Monitoring encode_Monitoring a) = a"
  "as_struct decode_Resources (omit_zero zero_Resources encode_Resources g) = g"
  by (rule omit_zero_read_back; simp add: codec_defs)+

lemma shared_defaulted [simp]:
  "decode_Expose (default_Expose (encode_Expose s)) = filled_Expose s"
  "as_struct decode_Monitoring (filled_in default_Monitoring
     (filled_field (JObj []) (omit_zero zero_Monitoring encode_Monitoring a))) = filled_Monitoring a"
  by (simp_all add: filled_in_omit_zero encode_Expose_def decode_Expose_def default_Expose_def filled_Expose_def
      encode_Monitoring_def decode_Monitoring_def default_Monitoring_def filled_Monitoring_def)
    (auto simp: zero_Monitoring_def or_default_def)

lemma filled_Monitoring_iff [simp]:
  "filled_Monitoring a = a \<longleftrightarrow> EnablePodMonitor a" "filled_Monitoring (filled_Monitoring a) = filled_Monitoring a"
  by (cases a; simp add: filled_Monitoring_def)+

lemma filled_Expose_idem [simp]: "filled_Expose \<circ> filled_Expose = filled_Expose"
  by (auto simp: filled_Expose_def)

lemma filled_Expose_admitted: "admits_Expose p \<Longrightarrow> map_option filled_Expose p = p"
  by (cases p) (simp_all add: admits_Expose_def filled_Expose_def)

subsection \<open>The contract of a spec\<close>

text \<open>
  An API server that stores a resource as it is sent: metadata and status as values, the spec
  as a document that is defaulted on every write. An update leaves the status alone, since all
  ten resources have the status subresource.
\<close>

record 't doc_store =
  ds_meta :: ObjectMeta
  ds_spec :: doc
  ds_status :: 't

definition read_back :: "(doc \<Rightarrow> 's) \<Rightarrow> 't doc_store \<Rightarrow> ('s, 't) cr" where
  "read_back dec w = \<lparr>cr_meta = ds_meta w, cr_spec = dec (ds_spec w), cr_status = ds_status w\<rparr>"

definition stores_documents ::
    "('s \<Rightarrow> doc) \<Rightarrow> (doc \<Rightarrow> doc) \<Rightarrow> (doc \<Rightarrow> 's) \<Rightarrow> (('s, 't) cr, 't doc_store) client \<Rightarrow> bool" where
  "stores_documents enc dflt dec cl \<longleftrightarrow>
     (\<forall>w ns n. api_GetCR cl ns n w =
        (if ns = om_Namespace (ds_meta w) \<and> n = om_Name (ds_meta w) then Inr (read_back dec w) else Inl NotFound, w)) \<and>
     (\<forall>w c. api_Update cl c w =
        (let w' = w\<lparr>ds_meta := cr_meta c, ds_spec := dflt (enc (cr_spec c))\<rparr> in (Inr (read_back dec w'), w')))"

text \<open>A live resource that the operator has not put its finalizer on, and what its first run leaves behind.\<close>

definition unguarded :: "'t doc_store \<Rightarrow> bool" where
  "unguarded w \<longleftrightarrow> om_DeletionTimestamp (ds_meta w) = None \<and> FinalizerName \<notin> set (om_Finalizers (ds_meta w))"

definition first_run ::
    "deps \<Rightarrow> ('s, 't, 't doc_store) reconciler \<Rightarrow> 't doc_store \<Rightarrow> 't doc_store" where
  "first_run D r w =
     st_world (snd (Reconcile D r (om_Namespace (ds_meta w)) (om_Name (ds_meta w)) \<lparr>st_world = w, st_trace = []\<rparr>))"

locale wire =
  fixes encode :: "'s \<Rightarrow> doc" and dflt :: "doc \<Rightarrow> doc" and decode :: "doc \<Rightarrow> 's" and filled :: "'s \<Rightarrow> 's"
  assumes roundtrip: "decode (encode s) = s"
    and update: "decode (dflt (encode s)) = filled s"
    and filled_idem: "filled (filled s) = filled s"
begin

lemma second_update: "decode (dflt (encode (decode (dflt (encode s))))) = decode (dflt (encode s))"
  by (simp add: update filled_idem)

lemma encode_inj: "encode s = encode s' \<longleftrightarrow> s = s'"
  by (metis roundtrip)

text \<open>The update that adds the finalizer sends the whole resource, spec included.\<close>

lemma first_run_fills:
  assumes "stores_documents encode dflt decode (r_Client r)" and "finalizers_ok D" and "unguarded w"
  shows "FinalizerName \<in> set (om_Finalizers (ds_meta (first_run D r w))) \<and>
         cr_spec (read_back decode (first_run D r w)) = filled (cr_spec (read_back decode w))"
proof -
  have "\<not> containsFinalizer D (om_Finalizers (cr_meta (read_back decode w))) FinalizerName"
    using assms(2,3) by (simp add: finalizers_ok_def read_back_def unguarded_def)
  moreover have "FinalizerName \<in> set (addFinalizer D (om_Finalizers (ds_meta w)) FinalizerName)"
    using assms(2) by (simp add: finalizers_ok_def)
  ultimately show ?thesis
    using assms(1,3)
    by (simp add: first_run_def stores_documents_def unguarded_def Reconcile_def reconcileNormal_def io_defs Let_def read_back_def update)
qed

end

end
