(* ===== verification/SpecCodecs.thy ===== *)
theory SpecCodecs
  imports ApiCodec
begin

section \<open>The ten specs on the wire\<close>

text \<open>
  Per custom resource the encoding, decoding and defaulting of its spec, from the struct tags and
  markers of \<open>api/v1alpha1/*_types.go\<close>; what an update makes of the Go value; what the validation
  markers ask; and the contract \<open>wire\<close>.
\<close>

lemmas wire_simps = option.map_ident option.map_comp

subsection \<open>PostgresCluster\<close>

definition encode_PostgresClusterSpec :: "PostgresClusterSpec \<Rightarrow> doc" where
  [codec_defs]: "encode_PostgresClusterSpec s = struct_doc
     [(''instances'', omit_int (pg_Instances s)),
      (''image'', omit_string (pg_Image s)),
      (''storage'', Some (JObj (encode_Storage (pg_Storage s)))),
      (''database'', Some (JObj (encode_Database (pg_Database s)))),
      (''resources'', omit_zero zero_Resources encode_Resources (pg_Resources s)),
      (''monitoring'', omit_zero zero_Monitoring encode_Monitoring (pg_Monitoring s)),
      (''expose'', omit_nil encode_Expose (pg_Expose s))]"

definition decode_PostgresClusterSpec :: "doc \<Rightarrow> PostgresClusterSpec" where
  [codec_defs]: "decode_PostgresClusterSpec m =
     \<lparr>pg_Instances = as_int (map_of m ''instances''),
      pg_Image = as_string (map_of m ''image''),
      pg_Storage = as_struct decode_Storage (map_of m ''storage''),
      pg_Database = as_struct decode_Database (map_of m ''database''),
      pg_Resources = as_struct decode_Resources (map_of m ''resources''),
      pg_Monitoring = as_struct decode_Monitoring (map_of m ''monitoring''),
      pg_Expose = as_pointer decode_Expose (map_of m ''expose'')\<rparr>"

definition default_PostgresClusterSpec :: "doc \<Rightarrow> doc" where
  [codec_defs]: "default_PostgresClusterSpec m =
     default_field ''instances'' (JInt 1)
      (default_in ''monitoring'' default_Monitoring
       (default_field ''monitoring'' (JObj [])
        (default_in ''expose'' default_Expose m)))"

definition filled_PostgresClusterSpec :: "PostgresClusterSpec \<Rightarrow> PostgresClusterSpec" where
  "filled_PostgresClusterSpec s = s
     \<lparr>pg_Instances := or_default 0 1 (pg_Instances s),
      pg_Monitoring := filled_Monitoring (pg_Monitoring s),
      pg_Expose := map_option filled_Expose (pg_Expose s)\<rparr>"

definition admits_PostgresClusterSpec :: "PostgresClusterSpec \<Rightarrow> bool" where
  "admits_PostgresClusterSpec s \<longleftrightarrow>
     1 \<le> sint (pg_Instances s) \<and>
     admits_Expose (pg_Expose s)"

interpretation pg_wire: wire encode_PostgresClusterSpec default_PostgresClusterSpec decode_PostgresClusterSpec filled_PostgresClusterSpec
  by unfold_locales
    (simp_all add: encode_PostgresClusterSpec_def decode_PostgresClusterSpec_def default_PostgresClusterSpec_def filled_PostgresClusterSpec_def wire_simps)

lemma filled_PostgresClusterSpec_kept: "filled_PostgresClusterSpec s = s \<longleftrightarrow>
     or_default 0 1 (pg_Instances s) = pg_Instances s \<and> filled_Monitoring (pg_Monitoring s) = pg_Monitoring s \<and> map_option filled_Expose (pg_Expose s) = pg_Expose s"
  by (cases s) (simp add: filled_PostgresClusterSpec_def)

subsection \<open>MariaDBCluster\<close>

definition encode_MariaDBClusterSpec :: "MariaDBClusterSpec \<Rightarrow> doc" where
  [codec_defs]: "encode_MariaDBClusterSpec s = struct_doc
     [(''replicas'', omit_int (mdb_Replicas s)),
      (''image'', omit_string (mdb_Image s)),
      (''storage'', Some (JObj (encode_Storage (mdb_Storage s)))),
      (''database'', Some (JObj (encode_Database (mdb_Database s)))),
      (''resources'', omit_zero zero_Resources encode_Resources (mdb_Resources s)),
      (''monitoring'', omit_zero zero_Monitoring encode_Monitoring (mdb_Monitoring s)),
      (''expose'', omit_nil encode_Expose (mdb_Expose s))]"

definition decode_MariaDBClusterSpec :: "doc \<Rightarrow> MariaDBClusterSpec" where
  [codec_defs]: "decode_MariaDBClusterSpec m =
     \<lparr>mdb_Replicas = as_int (map_of m ''replicas''),
      mdb_Image = as_string (map_of m ''image''),
      mdb_Storage = as_struct decode_Storage (map_of m ''storage''),
      mdb_Database = as_struct decode_Database (map_of m ''database''),
      mdb_Resources = as_struct decode_Resources (map_of m ''resources''),
      mdb_Monitoring = as_struct decode_Monitoring (map_of m ''monitoring''),
      mdb_Expose = as_pointer decode_Expose (map_of m ''expose'')\<rparr>"

definition default_MariaDBClusterSpec :: "doc \<Rightarrow> doc" where
  [codec_defs]: "default_MariaDBClusterSpec m =
     default_field ''replicas'' (JInt 1)
      (default_in ''monitoring'' default_Monitoring
       (default_field ''monitoring'' (JObj [])
        (default_in ''expose'' default_Expose m)))"

definition filled_MariaDBClusterSpec :: "MariaDBClusterSpec \<Rightarrow> MariaDBClusterSpec" where
  "filled_MariaDBClusterSpec s = s
     \<lparr>mdb_Replicas := or_default 0 1 (mdb_Replicas s),
      mdb_Monitoring := filled_Monitoring (mdb_Monitoring s),
      mdb_Expose := map_option filled_Expose (mdb_Expose s)\<rparr>"

definition admits_MariaDBClusterSpec :: "MariaDBClusterSpec \<Rightarrow> bool" where
  "admits_MariaDBClusterSpec s \<longleftrightarrow>
     1 \<le> sint (mdb_Replicas s) \<and>
     admits_Expose (mdb_Expose s)"

interpretation mdb_wire: wire encode_MariaDBClusterSpec default_MariaDBClusterSpec decode_MariaDBClusterSpec filled_MariaDBClusterSpec
  by unfold_locales
    (simp_all add: encode_MariaDBClusterSpec_def decode_MariaDBClusterSpec_def default_MariaDBClusterSpec_def filled_MariaDBClusterSpec_def wire_simps)

lemma filled_MariaDBClusterSpec_kept: "filled_MariaDBClusterSpec s = s \<longleftrightarrow>
     or_default 0 1 (mdb_Replicas s) = mdb_Replicas s \<and> filled_Monitoring (mdb_Monitoring s) = mdb_Monitoring s \<and> map_option filled_Expose (mdb_Expose s) = mdb_Expose s"
  by (cases s) (simp add: filled_MariaDBClusterSpec_def)

subsection \<open>MongoDBCluster\<close>

definition encode_MongoDBClusterSpec :: "MongoDBClusterSpec \<Rightarrow> doc" where
  [codec_defs]: "encode_MongoDBClusterSpec s = struct_doc
     [(''replicas'', omit_int (mgo_Replicas s)),
      (''image'', omit_string (mgo_Image s)),
      (''storage'', Some (JObj (encode_Storage (mgo_Storage s)))),
      (''resources'', omit_zero zero_Resources encode_Resources (mgo_Resources s)),
      (''monitoring'', omit_zero zero_Monitoring encode_Monitoring (mgo_Monitoring s)),
      (''expose'', omit_nil encode_Expose (mgo_Expose s))]"

definition decode_MongoDBClusterSpec :: "doc \<Rightarrow> MongoDBClusterSpec" where
  [codec_defs]: "decode_MongoDBClusterSpec m =
     \<lparr>mgo_Replicas = as_int (map_of m ''replicas''),
      mgo_Image = as_string (map_of m ''image''),
      mgo_Storage = as_struct decode_Storage (map_of m ''storage''),
      mgo_Resources = as_struct decode_Resources (map_of m ''resources''),
      mgo_Monitoring = as_struct decode_Monitoring (map_of m ''monitoring''),
      mgo_Expose = as_pointer decode_Expose (map_of m ''expose'')\<rparr>"

definition default_MongoDBClusterSpec :: "doc \<Rightarrow> doc" where
  [codec_defs]: "default_MongoDBClusterSpec m =
     default_field ''replicas'' (JInt 3)
      (default_field ''image'' (JStr ''percona/percona-server-mongodb:8.0.26-11'')
       (default_in ''monitoring'' default_Monitoring
        (default_field ''monitoring'' (JObj [])
         (default_in ''expose'' default_Expose m))))"

definition filled_MongoDBClusterSpec :: "MongoDBClusterSpec \<Rightarrow> MongoDBClusterSpec" where
  "filled_MongoDBClusterSpec s = s
     \<lparr>mgo_Replicas := or_default 0 3 (mgo_Replicas s),
      mgo_Image := or_default '''' ''percona/percona-server-mongodb:8.0.26-11'' (mgo_Image s),
      mgo_Monitoring := filled_Monitoring (mgo_Monitoring s),
      mgo_Expose := map_option filled_Expose (mgo_Expose s)\<rparr>"

definition admits_MongoDBClusterSpec :: "MongoDBClusterSpec \<Rightarrow> bool" where
  "admits_MongoDBClusterSpec s \<longleftrightarrow>
     1 \<le> sint (mgo_Replicas s) \<and>
     admits_Expose (mgo_Expose s)"

interpretation mgo_wire: wire encode_MongoDBClusterSpec default_MongoDBClusterSpec decode_MongoDBClusterSpec filled_MongoDBClusterSpec
  by unfold_locales
    (simp_all add: encode_MongoDBClusterSpec_def decode_MongoDBClusterSpec_def default_MongoDBClusterSpec_def filled_MongoDBClusterSpec_def wire_simps)

lemma filled_MongoDBClusterSpec_kept: "filled_MongoDBClusterSpec s = s \<longleftrightarrow>
     or_default 0 3 (mgo_Replicas s) = mgo_Replicas s \<and> or_default '''' ''percona/percona-server-mongodb:8.0.26-11'' (mgo_Image s) = mgo_Image s \<and> filled_Monitoring (mgo_Monitoring s) = mgo_Monitoring s \<and> map_option filled_Expose (mgo_Expose s) = mgo_Expose s"
  by (cases s) (simp add: filled_MongoDBClusterSpec_def)

subsection \<open>ValkeyCluster\<close>

definition encode_ValkeyClusterSpec :: "ValkeyClusterSpec \<Rightarrow> doc" where
  [codec_defs]: "encode_ValkeyClusterSpec s = struct_doc
     [(''shards'', omit_int (vk_Shards s)),
      (''replicas'', omit_int (vk_Replicas s)),
      (''image'', omit_string (vk_Image s)),
      (''persistence'', Some (JObj (encode_Persistence (vk_Persistence s)))),
      (''resources'', omit_zero zero_Resources encode_Resources (vk_Resources s)),
      (''expose'', omit_nil encode_Expose (vk_Expose s)),
      (''monitoring'', omit_zero zero_Monitoring encode_Monitoring (vk_Monitoring s))]"

definition decode_ValkeyClusterSpec :: "doc \<Rightarrow> ValkeyClusterSpec" where
  [codec_defs]: "decode_ValkeyClusterSpec m =
     \<lparr>vk_Shards = as_int (map_of m ''shards''),
      vk_Replicas = as_int (map_of m ''replicas''),
      vk_Image = as_string (map_of m ''image''),
      vk_Persistence = as_struct decode_Persistence (map_of m ''persistence''),
      vk_Resources = as_struct decode_Resources (map_of m ''resources''),
      vk_Expose = as_pointer decode_Expose (map_of m ''expose''),
      vk_Monitoring = as_struct decode_Monitoring (map_of m ''monitoring'')\<rparr>"

definition default_ValkeyClusterSpec :: "doc \<Rightarrow> doc" where
  [codec_defs]: "default_ValkeyClusterSpec m =
     default_field ''shards'' (JInt 1)
      (default_field ''replicas'' (JInt 0)
       (default_in ''expose'' default_Expose
        (default_in ''monitoring'' default_Monitoring
         (default_field ''monitoring'' (JObj []) m))))"

definition filled_ValkeyClusterSpec :: "ValkeyClusterSpec \<Rightarrow> ValkeyClusterSpec" where
  "filled_ValkeyClusterSpec s = s
     \<lparr>vk_Shards := or_default 0 1 (vk_Shards s),
      vk_Expose := map_option filled_Expose (vk_Expose s),
      vk_Monitoring := filled_Monitoring (vk_Monitoring s)\<rparr>"

definition admits_ValkeyClusterSpec :: "ValkeyClusterSpec \<Rightarrow> bool" where
  "admits_ValkeyClusterSpec s \<longleftrightarrow>
     1 \<le> sint (vk_Shards s) \<and>
     0 \<le> sint (vk_Replicas s) \<and>
     admits_Expose (vk_Expose s)"

interpretation vk_wire: wire encode_ValkeyClusterSpec default_ValkeyClusterSpec decode_ValkeyClusterSpec filled_ValkeyClusterSpec
  by unfold_locales
    (simp_all add: encode_ValkeyClusterSpec_def decode_ValkeyClusterSpec_def default_ValkeyClusterSpec_def filled_ValkeyClusterSpec_def wire_simps)

lemma filled_ValkeyClusterSpec_kept: "filled_ValkeyClusterSpec s = s \<longleftrightarrow>
     or_default 0 1 (vk_Shards s) = vk_Shards s \<and> map_option filled_Expose (vk_Expose s) = vk_Expose s \<and> filled_Monitoring (vk_Monitoring s) = vk_Monitoring s"
  by (cases s) (simp add: filled_ValkeyClusterSpec_def)

subsection \<open>RabbitMQCluster\<close>

definition encode_RabbitMQClusterSpec :: "RabbitMQClusterSpec \<Rightarrow> doc" where
  [codec_defs]: "encode_RabbitMQClusterSpec s = struct_doc
     [(''replicas'', omit_int (rmq_Replicas s)),
      (''image'', omit_string (rmq_Image s)),
      (''storage'', Some (JObj (encode_Storage (rmq_Storage s)))),
      (''resources'', omit_zero zero_Resources encode_Resources (rmq_Resources s)),
      (''ingress'', omit_nil encode_Ingress (rmq_Ingress s)),
      (''expose'', omit_nil encode_Expose (rmq_Expose s)),
      (''monitoring'', omit_zero zero_Monitoring encode_Monitoring (rmq_Monitoring s))]"

definition decode_RabbitMQClusterSpec :: "doc \<Rightarrow> RabbitMQClusterSpec" where
  [codec_defs]: "decode_RabbitMQClusterSpec m =
     \<lparr>rmq_Replicas = as_int (map_of m ''replicas''),
      rmq_Image = as_string (map_of m ''image''),
      rmq_Storage = as_struct decode_Storage (map_of m ''storage''),
      rmq_Resources = as_struct decode_Resources (map_of m ''resources''),
      rmq_Ingress = as_pointer decode_Ingress (map_of m ''ingress''),
      rmq_Expose = as_pointer decode_Expose (map_of m ''expose''),
      rmq_Monitoring = as_struct decode_Monitoring (map_of m ''monitoring'')\<rparr>"

definition default_RabbitMQClusterSpec :: "doc \<Rightarrow> doc" where
  [codec_defs]: "default_RabbitMQClusterSpec m =
     default_field ''replicas'' (JInt 1)
      (default_in ''expose'' default_Expose
       (default_in ''monitoring'' default_Monitoring
        (default_field ''monitoring'' (JObj []) m)))"

definition filled_RabbitMQClusterSpec :: "RabbitMQClusterSpec \<Rightarrow> RabbitMQClusterSpec" where
  "filled_RabbitMQClusterSpec s = s
     \<lparr>rmq_Replicas := or_default 0 1 (rmq_Replicas s),
      rmq_Expose := map_option filled_Expose (rmq_Expose s),
      rmq_Monitoring := filled_Monitoring (rmq_Monitoring s)\<rparr>"

definition admits_RabbitMQClusterSpec :: "RabbitMQClusterSpec \<Rightarrow> bool" where
  "admits_RabbitMQClusterSpec s \<longleftrightarrow>
     1 \<le> sint (rmq_Replicas s) \<and>
     admits_Expose (rmq_Expose s)"

interpretation rmq_wire: wire encode_RabbitMQClusterSpec default_RabbitMQClusterSpec decode_RabbitMQClusterSpec filled_RabbitMQClusterSpec
  by unfold_locales
    (simp_all add: encode_RabbitMQClusterSpec_def decode_RabbitMQClusterSpec_def default_RabbitMQClusterSpec_def filled_RabbitMQClusterSpec_def wire_simps)

lemma filled_RabbitMQClusterSpec_kept: "filled_RabbitMQClusterSpec s = s \<longleftrightarrow>
     or_default 0 1 (rmq_Replicas s) = rmq_Replicas s \<and> map_option filled_Expose (rmq_Expose s) = rmq_Expose s \<and> filled_Monitoring (rmq_Monitoring s) = rmq_Monitoring s"
  by (cases s) (simp add: filled_RabbitMQClusterSpec_def)

subsection \<open>KafkaCluster\<close>

definition encode_KafkaClusterSpec :: "KafkaClusterSpec \<Rightarrow> doc" where
  [codec_defs]: "encode_KafkaClusterSpec s = struct_doc
     [(''replicas'', omit_int (kfk_Replicas s)),
      (''version'', omit_string (kfk_Version s)),
      (''storage'', Some (JObj (encode_Storage (kfk_Storage s)))),
      (''resources'', omit_zero zero_Resources encode_Resources (kfk_Resources s)),
      (''monitoring'', omit_zero zero_Monitoring encode_Monitoring (kfk_Monitoring s)),
      (''expose'', omit_nil encode_Expose (kfk_Expose s))]"

definition decode_KafkaClusterSpec :: "doc \<Rightarrow> KafkaClusterSpec" where
  [codec_defs]: "decode_KafkaClusterSpec m =
     \<lparr>kfk_Replicas = as_int (map_of m ''replicas''),
      kfk_Version = as_string (map_of m ''version''),
      kfk_Storage = as_struct decode_Storage (map_of m ''storage''),
      kfk_Resources = as_struct decode_Resources (map_of m ''resources''),
      kfk_Monitoring = as_struct decode_Monitoring (map_of m ''monitoring''),
      kfk_Expose = as_pointer decode_Expose (map_of m ''expose'')\<rparr>"

definition default_KafkaClusterSpec :: "doc \<Rightarrow> doc" where
  [codec_defs]: "default_KafkaClusterSpec m =
     default_field ''replicas'' (JInt 3)
      (default_in ''monitoring'' default_Monitoring
       (default_field ''monitoring'' (JObj [])
        (default_in ''expose'' default_Expose m)))"

definition filled_KafkaClusterSpec :: "KafkaClusterSpec \<Rightarrow> KafkaClusterSpec" where
  "filled_KafkaClusterSpec s = s
     \<lparr>kfk_Replicas := or_default 0 3 (kfk_Replicas s),
      kfk_Monitoring := filled_Monitoring (kfk_Monitoring s),
      kfk_Expose := map_option filled_Expose (kfk_Expose s)\<rparr>"

definition admits_KafkaClusterSpec :: "KafkaClusterSpec \<Rightarrow> bool" where
  "admits_KafkaClusterSpec s \<longleftrightarrow>
     1 \<le> sint (kfk_Replicas s) \<and>
     admits_Expose (kfk_Expose s)"

interpretation kfk_wire: wire encode_KafkaClusterSpec default_KafkaClusterSpec decode_KafkaClusterSpec filled_KafkaClusterSpec
  by unfold_locales
    (simp_all add: encode_KafkaClusterSpec_def decode_KafkaClusterSpec_def default_KafkaClusterSpec_def filled_KafkaClusterSpec_def wire_simps)

lemma filled_KafkaClusterSpec_kept: "filled_KafkaClusterSpec s = s \<longleftrightarrow>
     or_default 0 3 (kfk_Replicas s) = kfk_Replicas s \<and> filled_Monitoring (kfk_Monitoring s) = kfk_Monitoring s \<and> map_option filled_Expose (kfk_Expose s) = kfk_Expose s"
  by (cases s) (simp add: filled_KafkaClusterSpec_def)

subsection \<open>GrafanaInstance\<close>

definition encode_GrafanaInstanceSpec :: "GrafanaInstanceSpec \<Rightarrow> doc" where
  [codec_defs]: "encode_GrafanaInstanceSpec s = struct_doc
     [(''version'', omit_string (gra_Version s)),
      (''replicas'', omit_int (gra_Replicas s)),
      (''persistence'', omit_nil encode_Persistence (gra_Persistence s)),
      (''ingress'', omit_nil encode_Ingress (gra_Ingress s)),
      (''expose'', omit_nil encode_Expose (gra_Expose s)),
      (''prometheusRef'', Some (JStr (gra_PrometheusRef s))),
      (''lokiRef'', omit_string (gra_LokiRef s))]"

definition decode_GrafanaInstanceSpec :: "doc \<Rightarrow> GrafanaInstanceSpec" where
  [codec_defs]: "decode_GrafanaInstanceSpec m =
     \<lparr>gra_Version = as_string (map_of m ''version''),
      gra_Replicas = as_int (map_of m ''replicas''),
      gra_Persistence = as_pointer decode_Persistence (map_of m ''persistence''),
      gra_Ingress = as_pointer decode_Ingress (map_of m ''ingress''),
      gra_Expose = as_pointer decode_Expose (map_of m ''expose''),
      gra_PrometheusRef = as_string (map_of m ''prometheusRef''),
      gra_LokiRef = as_string (map_of m ''lokiRef'')\<rparr>"

definition default_GrafanaInstanceSpec :: "doc \<Rightarrow> doc" where
  [codec_defs]: "default_GrafanaInstanceSpec m =
     default_field ''replicas'' (JInt 1)
      (default_in ''expose'' default_Expose m)"

definition filled_GrafanaInstanceSpec :: "GrafanaInstanceSpec \<Rightarrow> GrafanaInstanceSpec" where
  "filled_GrafanaInstanceSpec s = s
     \<lparr>gra_Replicas := or_default 0 1 (gra_Replicas s),
      gra_Expose := map_option filled_Expose (gra_Expose s)\<rparr>"

definition admits_GrafanaInstanceSpec :: "GrafanaInstanceSpec \<Rightarrow> bool" where
  "admits_GrafanaInstanceSpec s \<longleftrightarrow>
     0 \<le> sint (gra_Replicas s) \<and>
     admits_Expose (gra_Expose s) \<and>
     gra_PrometheusRef s \<noteq> ''''"

interpretation gra_wire: wire encode_GrafanaInstanceSpec default_GrafanaInstanceSpec decode_GrafanaInstanceSpec filled_GrafanaInstanceSpec
  by unfold_locales
    (simp_all add: encode_GrafanaInstanceSpec_def decode_GrafanaInstanceSpec_def default_GrafanaInstanceSpec_def filled_GrafanaInstanceSpec_def wire_simps)

lemma filled_GrafanaInstanceSpec_kept: "filled_GrafanaInstanceSpec s = s \<longleftrightarrow>
     or_default 0 1 (gra_Replicas s) = gra_Replicas s \<and> map_option filled_Expose (gra_Expose s) = gra_Expose s"
  by (cases s) (simp add: filled_GrafanaInstanceSpec_def)

subsection \<open>PrometheusInstance\<close>

definition encode_PrometheusInstanceSpec :: "PrometheusInstanceSpec \<Rightarrow> doc" where
  [codec_defs]: "encode_PrometheusInstanceSpec s = struct_doc
     [(''version'', omit_string (pro_Version s)),
      (''replicas'', omit_int (pro_Replicas s)),
      (''retention'', omit_string (pro_Retention s)),
      (''storage'', omit_nil encode_Storage (pro_Storage s)),
      (''resources'', omit_zero zero_Resources encode_Resources (pro_Resources s)),
      (''ingress'', omit_nil encode_Ingress (pro_Ingress s)),
      (''expose'', omit_nil encode_Expose (pro_Expose s))]"

definition decode_PrometheusInstanceSpec :: "doc \<Rightarrow> PrometheusInstanceSpec" where
  [codec_defs]: "decode_PrometheusInstanceSpec m =
     \<lparr>pro_Version = as_string (map_of m ''version''),
      pro_Replicas = as_int (map_of m ''replicas''),
      pro_Retention = as_string (map_of m ''retention''),
      pro_Storage = as_pointer decode_Storage (map_of m ''storage''),
      pro_Resources = as_struct decode_Resources (map_of m ''resources''),
      pro_Ingress = as_pointer decode_Ingress (map_of m ''ingress''),
      pro_Expose = as_pointer decode_Expose (map_of m ''expose'')\<rparr>"

definition default_PrometheusInstanceSpec :: "doc \<Rightarrow> doc" where
  [codec_defs]: "default_PrometheusInstanceSpec m =
     default_field ''replicas'' (JInt 1)
      (default_in ''expose'' default_Expose m)"

definition filled_PrometheusInstanceSpec :: "PrometheusInstanceSpec \<Rightarrow> PrometheusInstanceSpec" where
  "filled_PrometheusInstanceSpec s = s
     \<lparr>pro_Replicas := or_default 0 1 (pro_Replicas s),
      pro_Expose := map_option filled_Expose (pro_Expose s)\<rparr>"

definition admits_PrometheusInstanceSpec :: "PrometheusInstanceSpec \<Rightarrow> bool" where
  "admits_PrometheusInstanceSpec s \<longleftrightarrow>
     0 \<le> sint (pro_Replicas s) \<and>
     admits_Expose (pro_Expose s)"

interpretation pro_wire: wire encode_PrometheusInstanceSpec default_PrometheusInstanceSpec decode_PrometheusInstanceSpec filled_PrometheusInstanceSpec
  by unfold_locales
    (simp_all add: encode_PrometheusInstanceSpec_def decode_PrometheusInstanceSpec_def default_PrometheusInstanceSpec_def filled_PrometheusInstanceSpec_def wire_simps)

lemma filled_PrometheusInstanceSpec_kept: "filled_PrometheusInstanceSpec s = s \<longleftrightarrow>
     or_default 0 1 (pro_Replicas s) = pro_Replicas s \<and> map_option filled_Expose (pro_Expose s) = pro_Expose s"
  by (cases s) (simp add: filled_PrometheusInstanceSpec_def)

subsection \<open>LokiInstance\<close>

definition encode_LokiInstanceSpec :: "LokiInstanceSpec \<Rightarrow> doc" where
  [codec_defs]: "encode_LokiInstanceSpec s = struct_doc
     [(''size'', omit_string (lok_Size s)),
      (''storageClassName'', Some (JStr (lok_StorageClassName s))),
      (''objectStorage'', Some (JObj (encode_LokiObjectStorage (lok_ObjectStorage s))))]"

definition decode_LokiInstanceSpec :: "doc \<Rightarrow> LokiInstanceSpec" where
  [codec_defs]: "decode_LokiInstanceSpec m =
     \<lparr>lok_Size = as_string (map_of m ''size''),
      lok_StorageClassName = as_string (map_of m ''storageClassName''),
      lok_ObjectStorage = as_struct decode_LokiObjectStorage (map_of m ''objectStorage'')\<rparr>"

definition default_LokiInstanceSpec :: "doc \<Rightarrow> doc" where
  [codec_defs]: "default_LokiInstanceSpec m =
     default_field ''size'' (JStr ''1x.demo'') m"

definition filled_LokiInstanceSpec :: "LokiInstanceSpec \<Rightarrow> LokiInstanceSpec" where
  "filled_LokiInstanceSpec s = s
     \<lparr>lok_Size := or_default '''' ''1x.demo'' (lok_Size s)\<rparr>"

definition admits_LokiInstanceSpec :: "LokiInstanceSpec \<Rightarrow> bool" where
  "admits_LokiInstanceSpec s \<longleftrightarrow>
     lok_Size s \<in> {''1x.demo'', ''1x.pico'', ''1x.extra-small'', ''1x.small'', ''1x.medium''} \<and>
     lok_StorageClassName s \<noteq> '''' \<and>
     los_SecretName (lok_ObjectStorage s) \<noteq> ''''"

interpretation lok_wire: wire encode_LokiInstanceSpec default_LokiInstanceSpec decode_LokiInstanceSpec filled_LokiInstanceSpec
  by unfold_locales
    (simp_all add: encode_LokiInstanceSpec_def decode_LokiInstanceSpec_def default_LokiInstanceSpec_def filled_LokiInstanceSpec_def wire_simps)

lemma filled_LokiInstanceSpec_kept: "filled_LokiInstanceSpec s = s \<longleftrightarrow>
     or_default '''' ''1x.demo'' (lok_Size s) = lok_Size s"
  by (cases s) (simp add: filled_LokiInstanceSpec_def)

subsection \<open>AlloyInstance\<close>

definition encode_AlloyInstanceSpec :: "AlloyInstanceSpec \<Rightarrow> doc" where
  [codec_defs]: "encode_AlloyInstanceSpec s = struct_doc
     [(''lokiInstanceRef'', Some (JStr (aly_LokiInstanceRef s))),
      (''replicas'', omit_int (aly_Replicas s))]"

definition decode_AlloyInstanceSpec :: "doc \<Rightarrow> AlloyInstanceSpec" where
  [codec_defs]: "decode_AlloyInstanceSpec m =
     \<lparr>aly_LokiInstanceRef = as_string (map_of m ''lokiInstanceRef''),
      aly_Replicas = as_int (map_of m ''replicas'')\<rparr>"

definition default_AlloyInstanceSpec :: "doc \<Rightarrow> doc" where
  [codec_defs]: "default_AlloyInstanceSpec m =
     default_field ''replicas'' (JInt 1) m"

definition filled_AlloyInstanceSpec :: "AlloyInstanceSpec \<Rightarrow> AlloyInstanceSpec" where
  "filled_AlloyInstanceSpec s = s
     \<lparr>aly_Replicas := or_default 0 1 (aly_Replicas s)\<rparr>"

definition admits_AlloyInstanceSpec :: "AlloyInstanceSpec \<Rightarrow> bool" where
  "admits_AlloyInstanceSpec s \<longleftrightarrow>
     aly_LokiInstanceRef s \<noteq> '''' \<and>
     1 \<le> sint (aly_Replicas s)"

interpretation aly_wire: wire encode_AlloyInstanceSpec default_AlloyInstanceSpec decode_AlloyInstanceSpec filled_AlloyInstanceSpec
  by unfold_locales
    (simp_all add: encode_AlloyInstanceSpec_def decode_AlloyInstanceSpec_def default_AlloyInstanceSpec_def filled_AlloyInstanceSpec_def wire_simps)

lemma filled_AlloyInstanceSpec_kept: "filled_AlloyInstanceSpec s = s \<longleftrightarrow>
     or_default 0 1 (aly_Replicas s) = aly_Replicas s"
  by (cases s) (simp add: filled_AlloyInstanceSpec_def)

lemmas filled_kept = filled_PostgresClusterSpec_kept
  filled_MariaDBClusterSpec_kept
  filled_MongoDBClusterSpec_kept
  filled_ValkeyClusterSpec_kept
  filled_RabbitMQClusterSpec_kept
  filled_KafkaClusterSpec_kept
  filled_GrafanaInstanceSpec_kept
  filled_PrometheusInstanceSpec_kept
  filled_LokiInstanceSpec_kept
  filled_AlloyInstanceSpec_kept

lemmas admits_defs = admits_PostgresClusterSpec_def
  admits_MariaDBClusterSpec_def
  admits_MongoDBClusterSpec_def
  admits_ValkeyClusterSpec_def
  admits_RabbitMQClusterSpec_def
  admits_KafkaClusterSpec_def
  admits_GrafanaInstanceSpec_def
  admits_PrometheusInstanceSpec_def
  admits_LokiInstanceSpec_def
  admits_AlloyInstanceSpec_def

end
