(* ===== verification/MariadbAdapter.thy ===== *)
theory MariadbAdapter
  imports GrafanaAdapter
begin

section \<open>MariaDBCluster onto a MariaDB\<close>

text \<open>
  \<open>internal/mariadb/mariadb.go\<close>: the MariaDB manifest (Galera from two replicas on, generated
  credentials in kind-scoped Secrets), the dashboard, and readiness from the Ready condition.
\<close>

definition mariadb_GVK :: gvk where
  [adapter_defs]: "mariadb_GVK = GVK ''k8s.mariadb.com'' ''v1alpha1'' ''MariaDB''"
definition mariadb_FieldManager :: string where
  [adapter_defs]: "mariadb_FieldManager = ''mariadbcluster-operator''"
definition appSecretSuffix :: string where "appSecretSuffix = ''-mariadb-app''"
definition rootSecretSuffix :: string where "rootSecretSuffix = ''-mariadb-root''"

definition mariadb_TargetName :: "string \<Rightarrow> string" where
  [adapter_defs]: "mariadb_TargetName crName = crName"

definition mariadb_secret_ref :: "string \<Rightarrow> json" where
  "mariadb_secret_ref secret =
     JObj [(''name'', JStr secret), (''key'', JStr ''password''), (''generate'', JBool True)]"

definition mariadb_service :: "ServiceExposeSpec \<Rightarrow> json" where
  "mariadb_service expose =
     JObj (put_metadata_annotations (exp_Annotations expose) [(''type'', JStr (exp_Type expose))])"

definition mariadb_BuildManifest ::
    "deps \<Rightarrow> MariaDBCluster \<Rightarrow> string \<Rightarrow> string \<Rightarrow> string \<Rightarrow> unstructured" where
  "mariadb_BuildManifest D c name namespace ownerName =
     (let spec = cr_spec c;
          storage = put_if (sto_StorageClass (mdb_Storage spec) \<noteq> '''') ''storageClassName''
            (JStr (sto_StorageClass (mdb_Storage spec)))
            [(''size'', JStr (sto_Size (mdb_Storage spec))),
             (''pvcRetentionPolicy'', JObj [(''whenDeleted'', JStr ''Delete'')])];
          clusterSpec =
            [(''replicas'', JInt (int64 (mdb_Replicas spec))),
             (''storage'', JObj storage),
             (''database'', JStr (db_Name (mdb_Database spec))),
             (''username'', JStr (db_Owner (mdb_Database spec))),
             (''passwordSecretKeyRef'', mariadb_secret_ref (name @ appSecretSuffix)),
             (''rootPasswordSecretKeyRef'', mariadb_secret_ref (name @ rootSecretSuffix))];
          clusterSpec = put_if (1 < sint (mdb_Replicas spec)) ''galera''
            (JObj [(''enabled'', JBool True)]) clusterSpec;
          clusterSpec = put_if (mdb_Image spec \<noteq> '''') ''image'' (JStr (mdb_Image spec)) clusterSpec;
          clusterSpec = put_resources D (mdb_Resources spec) clusterSpec;
          clusterSpec = put_some (mdb_Expose spec) ''service'' mariadb_service clusterSpec;
          clusterSpec = put_if (EnablePodMonitor (mdb_Monitoring spec)) ''metrics''
            (JObj [(''enabled'', JBool True), (''serviceMonitor'', JObj [])]) clusterSpec
      in set_entry ''spec'' (JObj clusterSpec)
           (new_object mariadb_GVK name namespace (commonLabels mariadb_FieldManager ownerName)))"

definition mariadb_ExtraResources ::
    "string \<Rightarrow> MariaDBCluster \<Rightarrow> string \<Rightarrow> string \<Rightarrow> string \<Rightarrow> ExtraResource list" where
  "mariadb_ExtraResources dashboardJSON c targetName namespace owner =
     (let dashboardName = targetName @ ''-dashboard''
      in if \<not> EnablePodMonitor (mdb_Monitoring (cr_spec c))
         then [extra_resource dashboard_GVK dashboardName None]
         else
           (let dashboard = dashboard_object dashboardName namespace
                  (commonLabels mariadb_FieldManager owner) ''MariaDB'' ''DS_PROMETHEUS'' dashboardJSON
            in [extra_resource dashboard_GVK dashboardName (Some dashboard)]))"

definition mariadb_ExtractStatus :: "deps \<Rightarrow> unstructured option \<Rightarrow> TargetStatus" where
  "mariadb_ExtractStatus D target =
     (case target of
        None \<Rightarrow> unknown_status
      | Some u \<Rightarrow>
          (let obj = JObj (u_object u);
               observed = int32 (fst (nestedInt64 D obj [''status'', ''replicas'']));
               conditions = fst (nestedSlice D obj [''status'', ''conditions'']);
               (ready, phase) = condition_reason ''Ready'' conditions;
               readyCount = (if ready then observed else 0)
           in \<lparr>ts_Phase = phase, ts_Ready = (ready \<and> 0 < sint observed),
               ts_ObservedCount = observed, ts_ReadyCount = readyCount\<rparr>))"

definition mariadb_ApplyStatus ::
    "deps \<Rightarrow> MariaDBCluster \<Rightarrow> string \<Rightarrow> TargetStatus \<Rightarrow> MariaDBCluster \<times> string" where
  "mariadb_ApplyStatus D c targetName s =
     (let message = (if ts_Ready s
            then ''MariaDB '' @ quote targetName @ '' is ready ('' @ show_counts s @ '' replicas)''
            else ''Waiting for MariaDB '' @ quote targetName @ '' (phase: '' @ ts_Phase s @ '')'');
          conditions = set_ready_condition D (om_Generation (cr_meta c))
            ''ClusterNotReady'' ''ClusterReady'' message (ts_Ready s) (mdbs_Conditions (cr_status c))
      in (c\<lparr>cr_status := (cr_status c)\<lparr>mdbs_Conditions := conditions, mdbs_Ready := ts_Ready s, mdbs_Phase := ts_Phase s, mdbs_Replicas := ts_ObservedCount s, 
              mdbs_ReadyReplicas := ts_ReadyCount s, mdbs_Message := message\<rparr>\<rparr>, message))"

subsection \<open>The adapter\<close>

definition mariadb_Adapter :: "deps \<Rightarrow> string \<Rightarrow> (MariaDBClusterSpec, MariaDBClusterStatus) adapter" where
  "mariadb_Adapter D dashboardJSON =
     \<lparr>a_GVK = mariadb_GVK, a_TargetName = mariadb_TargetName, a_ObjectKind = ''MariaDB'',
      a_FieldManager = mariadb_FieldManager, a_BuildManifest = mariadb_BuildManifest D,
      a_ExtractStatus = mariadb_ExtractStatus D, a_ApplyStatus = mariadb_ApplyStatus D,
      a_ExtraResources = Some (mariadb_ExtraResources dashboardJSON), a_PVCLabelSelector = None,
      a_IngressClass = None\<rparr>"

lemma mariadb_Adapter_fields [simp]:
  "a_GVK (mariadb_Adapter D dashboardJSON) = mariadb_GVK"
  "a_TargetName (mariadb_Adapter D dashboardJSON) = mariadb_TargetName"
  "a_ObjectKind (mariadb_Adapter D dashboardJSON) = ''MariaDB''"
  "a_FieldManager (mariadb_Adapter D dashboardJSON) = mariadb_FieldManager"
  "a_BuildManifest (mariadb_Adapter D dashboardJSON) = mariadb_BuildManifest D"
  "a_ExtractStatus (mariadb_Adapter D dashboardJSON) = mariadb_ExtractStatus D"
  "a_ApplyStatus (mariadb_Adapter D dashboardJSON) = mariadb_ApplyStatus D"
  "a_ExtraResources (mariadb_Adapter D dashboardJSON) = Some (mariadb_ExtraResources dashboardJSON)"
  "a_PVCLabelSelector (mariadb_Adapter D dashboardJSON) = None"
  "a_IngressClass (mariadb_Adapter D dashboardJSON) = None"
  by (simp_all add: mariadb_Adapter_def)

definition mariadb_view :: "MariaDBClusterStatus \<Rightarrow> status_view" where
  "mariadb_view st = \<lparr>v_Ready = mdbs_Ready st, v_Phase = mdbs_Phase st,
     v_Message = mdbs_Message st, v_Conditions = mdbs_Conditions st\<rparr>"

lemma mariadb_BuildManifest_meta [simp]:
  "u_gvk (mariadb_BuildManifest D c n ns ow) = mariadb_GVK"
  "u_name (mariadb_BuildManifest D c n ns ow) = n"
  "u_namespace (mariadb_BuildManifest D c n ns ow) = ns"
  "u_labels (mariadb_BuildManifest D c n ns ow) = commonLabels mariadb_FieldManager ow"
  by (simp_all add: mariadb_BuildManifest_def Let_def)

interpretation mariadb: counted_readiness "mariadb_Adapter D dashboardJSON" mariadb_view D
  "''ClusterNotReady''" "''ClusterReady''"
  by unfold_locales
     (auto simp: mariadb_Adapter_def mariadb_view_def extras_def object_id_def
        mariadb_ExtraResources_def adapter_defs
        mariadb_ApplyStatus_def mariadb_ExtractStatus_def Let_def 
      split: option.splits prod.splits if_splits)

end
