(* ===== verification/ValkeyAdapter.thy ===== *)
theory ValkeyAdapter
  imports GrafanaAdapter
begin

section \<open>ValkeyCluster onto a valkey-operator ValkeyCluster\<close>

text \<open>
  \<open>internal/valkey/valkey.go\<close>: the manifest with its exporter switch, the external Service,
  the PodMonitor and dashboard, and readiness from the shard counts.
\<close>

definition valkey_GVK :: gvk where
  [adapter_defs]: "valkey_GVK = GVK ''valkey.io'' ''v1alpha1'' ''ValkeyCluster''"
definition valkey_FieldManager :: string where
  [adapter_defs]: "valkey_FieldManager = ''valkeycluster-operator''"
definition podMonitor_GVK :: gvk where
  [adapter_defs]: "podMonitor_GVK = GVK ''monitoring.coreos.com'' ''v1'' ''PodMonitor''"
definition dataPort :: "64 word" where "dataPort = 6379"
definition valkey_exporterPort :: "64 word" where "valkey_exporterPort = 9121"
definition clusterSelectorLabel :: string where "clusterSelectorLabel = ''valkey.io/cluster''"

definition valkey_TargetName :: "string \<Rightarrow> string" where
  [adapter_defs]: "valkey_TargetName crName = crName"

definition valkey_BuildManifest ::
    "deps \<Rightarrow> ValkeyCluster \<Rightarrow> string \<Rightarrow> string \<Rightarrow> string \<Rightarrow> unstructured" where
  "valkey_BuildManifest D c name namespace ownerName =
     (let spec = cr_spec c;
          persistence = put_if (per_StorageClass (vk_Persistence spec) \<noteq> '''') ''storageClassName''
            (JStr (per_StorageClass (vk_Persistence spec)))
            [(''size'', JStr (per_Size (vk_Persistence spec))), (''reclaimPolicy'', JStr ''Delete'')];
          clusterSpec =
            [(''shards'', JInt (int64 (vk_Shards spec))),
             (''replicas'', JInt (int64 (vk_Replicas spec))),
             (''persistence'', JObj persistence)];
          clusterSpec = put_if (vk_Image spec \<noteq> '''') ''image'' (JStr (vk_Image spec)) clusterSpec;
          clusterSpec = put_resources D (vk_Resources spec) clusterSpec;
          clusterSpec = put ''exporter''
            (JObj [(''enabled'', JBool (EnablePodMonitor (vk_Monitoring spec)))]) clusterSpec
      in set_entry ''spec'' (JObj clusterSpec)
           (new_object valkey_GVK name namespace (commonLabels valkey_FieldManager ownerName)))"

definition valkey_service :: "ServiceExposeSpec \<Rightarrow> string \<Rightarrow> string \<Rightarrow> string \<Rightarrow> string \<Rightarrow> unstructured" where
  "valkey_service expose name targetName namespace owner =
     set_entry ''spec'' (JObj
        [(''type'', JStr (exp_Type expose)),
         (''selector'', JObj [(clusterSelectorLabel, JStr targetName)]),
         (''ports'', JArr [JObj
            [(''name'', JStr ''valkey''), (''port'', JInt dataPort), (''targetPort'', JInt dataPort)]])])
       (set_annotations (exp_Annotations expose)
         (new_object service_GVK name namespace (commonLabels valkey_FieldManager owner)))"

definition valkey_podMonitor :: "string \<Rightarrow> string \<Rightarrow> string \<Rightarrow> string \<Rightarrow> unstructured" where
  "valkey_podMonitor podMonitorName targetName namespace owner =
     set_entry ''spec'' (JObj
        [(''selector'', JObj [(''matchLabels'', JObj [(clusterSelectorLabel, JStr targetName)])]),
         (''podMetricsEndpoints'', JArr [JObj [(''targetPort'', JInt valkey_exporterPort)]])])
       (new_object podMonitor_GVK podMonitorName namespace (commonLabels valkey_FieldManager owner))"

definition valkey_ExtraResources ::
    "string \<Rightarrow> ValkeyCluster \<Rightarrow> string \<Rightarrow> string \<Rightarrow> string \<Rightarrow> ExtraResource list" where
  "valkey_ExtraResources dashboardJSON c targetName namespace owner =
     (let name = targetName @ ''-external'';
          podMonitorName = targetName @ ''-podmonitor'';
          dashboardName = targetName @ ''-dashboard'';
          extras = (case vk_Expose (cr_spec c) of
              None \<Rightarrow> [extra_resource service_GVK name None]
            | Some expose \<Rightarrow>
                [extra_resource service_GVK name (Some (valkey_service expose name targetName namespace owner))])
      in if \<not> EnablePodMonitor (vk_Monitoring (cr_spec c))
         then extras @ [extra_resource podMonitor_GVK podMonitorName None,
                        extra_resource dashboard_GVK dashboardName None]
         else
           (let podMonitor = valkey_podMonitor podMonitorName targetName namespace owner;
                dashboard = dashboard_object dashboardName namespace
                  (commonLabels valkey_FieldManager owner) ''Valkey'' ''DS_PROM'' dashboardJSON
            in extras @ [extra_resource podMonitor_GVK podMonitorName (Some podMonitor),
                         extra_resource dashboard_GVK dashboardName (Some dashboard)]))"

definition valkey_ExtractStatus :: "deps \<Rightarrow> unstructured option \<Rightarrow> TargetStatus" where
  "valkey_ExtractStatus D target =
     (case target of
        None \<Rightarrow> unknown_status
      | Some u \<Rightarrow>
          (let obj = JObj (u_object u);
               phase = reported (nestedString D obj [''status'', ''state'']);
               observed = int32 (fst (nestedInt64 D obj [''status'', ''shards'']));
               ready = int32 (fst (nestedInt64 D obj [''status'', ''readyShards'']))
           in \<lparr>ts_Phase = phase, ts_Ready = (0 < sint observed \<and> sint observed \<le> sint ready),
               ts_ObservedCount = observed, ts_ReadyCount = ready\<rparr>))"

definition valkey_ApplyStatus ::
    "deps \<Rightarrow> ValkeyCluster \<Rightarrow> string \<Rightarrow> TargetStatus \<Rightarrow> ValkeyCluster \<times> string" where
  "valkey_ApplyStatus D c targetName s =
     (let message = (if ts_Ready s
            then ''ValkeyCluster '' @ quote targetName @ '' is ready ('' @ show_counts s @ '' shards)''
            else ''Waiting for ValkeyCluster '' @ quote targetName @ '' (state: '' @ ts_Phase s @ '')'');
          conditions = set_ready_condition D (om_Generation (cr_meta c))
            ''ClusterNotReady'' ''ClusterReady'' message (ts_Ready s) (vks_Conditions (cr_status c))
      in (c\<lparr>cr_status := (cr_status c)\<lparr>vks_Conditions := conditions, vks_Ready := ts_Ready s, vks_Phase := ts_Phase s, vks_Shards := ts_ObservedCount s, 
              vks_ReadyShards := ts_ReadyCount s, vks_Message := message\<rparr>\<rparr>, message))"

subsection \<open>The adapter\<close>

definition valkey_Adapter :: "deps \<Rightarrow> string \<Rightarrow> (ValkeyClusterSpec, ValkeyClusterStatus) adapter" where
  "valkey_Adapter D dashboardJSON =
     \<lparr>a_GVK = valkey_GVK, a_TargetName = valkey_TargetName, a_ObjectKind = ''Valkey ValkeyCluster'',
      a_FieldManager = valkey_FieldManager, a_BuildManifest = valkey_BuildManifest D,
      a_ExtractStatus = valkey_ExtractStatus D, a_ApplyStatus = valkey_ApplyStatus D,
      a_ExtraResources = Some (valkey_ExtraResources dashboardJSON), a_PVCLabelSelector = None,
      a_IngressClass = None\<rparr>"

lemma valkey_Adapter_fields [simp]:
  "a_GVK (valkey_Adapter D dashboardJSON) = valkey_GVK"
  "a_TargetName (valkey_Adapter D dashboardJSON) = valkey_TargetName"
  "a_ObjectKind (valkey_Adapter D dashboardJSON) = ''Valkey ValkeyCluster''"
  "a_FieldManager (valkey_Adapter D dashboardJSON) = valkey_FieldManager"
  "a_BuildManifest (valkey_Adapter D dashboardJSON) = valkey_BuildManifest D"
  "a_ExtractStatus (valkey_Adapter D dashboardJSON) = valkey_ExtractStatus D"
  "a_ApplyStatus (valkey_Adapter D dashboardJSON) = valkey_ApplyStatus D"
  "a_ExtraResources (valkey_Adapter D dashboardJSON) = Some (valkey_ExtraResources dashboardJSON)"
  "a_PVCLabelSelector (valkey_Adapter D dashboardJSON) = None"
  "a_IngressClass (valkey_Adapter D dashboardJSON) = None"
  by (simp_all add: valkey_Adapter_def)

definition valkey_view :: "ValkeyClusterStatus \<Rightarrow> status_view" where
  "valkey_view st = \<lparr>v_Ready = vks_Ready st, v_Phase = vks_Phase st,
     v_Message = vks_Message st, v_Conditions = vks_Conditions st\<rparr>"

lemma valkey_BuildManifest_meta [simp]:
  "u_gvk (valkey_BuildManifest D c n ns ow) = valkey_GVK"
  "u_name (valkey_BuildManifest D c n ns ow) = n"
  "u_namespace (valkey_BuildManifest D c n ns ow) = ns"
  "u_labels (valkey_BuildManifest D c n ns ow) = commonLabels valkey_FieldManager ow"
  by (simp_all add: valkey_BuildManifest_def Let_def)

lemma valkey_extras_meta [simp]:
  "u_gvk (valkey_podMonitor n t ns ow) = podMonitor_GVK" "u_name (valkey_podMonitor n t ns ow) = n"
  "u_namespace (valkey_podMonitor n t ns ow) = ns"
  "u_labels (valkey_podMonitor n t ns ow) = commonLabels valkey_FieldManager ow"
  "u_gvk (valkey_service e n t ns ow) = service_GVK" "u_name (valkey_service e n t ns ow) = n"
  "u_namespace (valkey_service e n t ns ow) = ns"
  "u_labels (valkey_service e n t ns ow) = commonLabels valkey_FieldManager ow"
  by (simp_all add: valkey_podMonitor_def valkey_service_def)

interpretation valkey: counted_readiness "valkey_Adapter D dashboardJSON" valkey_view D
  "''ClusterNotReady''" "''ClusterReady''"
  by unfold_locales
     (auto simp: valkey_Adapter_def valkey_view_def extras_def object_id_def
        valkey_ExtraResources_def adapter_defs
        valkey_ApplyStatus_def valkey_ExtractStatus_def Let_def 
      split: option.splits prod.splits if_splits)

end
