(* ===== verification/PsmdbAdapter.thy ===== *)
theory PsmdbAdapter
  imports ValkeyAdapter
begin

section \<open>MongoDBCluster onto a PerconaServerMongoDB\<close>

text \<open>
  \<open>internal/psmdb/psmdb.go\<close>: one replica set, its exporter sidecar and PodMonitor when
  monitored, the credentials Secret the two share, and readiness from the member counts.
\<close>

definition psmdb_GVK :: gvk where
  [adapter_defs]: "psmdb_GVK = GVK ''psmdb.percona.com'' ''v1'' ''PerconaServerMongoDB''"
definition psmdb_FieldManager :: string where
  [adapter_defs]: "psmdb_FieldManager = ''mongodbcluster-operator''"
definition replsetName :: string where "replsetName = ''rs0''"
definition psmdb_exporterPort :: "64 word" where "psmdb_exporterPort = 9216"
definition instanceLabelKey :: string where "instanceLabelKey = ''app.kubernetes.io/instance''"
definition componentLabel :: string where "componentLabel = ''app.kubernetes.io/component''"
definition secretsUsersSuffix :: string where "secretsUsersSuffix = ''-psmdb-secrets''"
definition clusterMonitorUserKey :: string where
  "clusterMonitorUserKey = ''MONGODB_CLUSTER_MONITOR_USER''"
definition clusterMonitorPasswordKey :: string where
  "clusterMonitorPasswordKey = ''MONGODB_CLUSTER_MONITOR_PASSWORD''"

definition psmdb_TargetName :: "string \<Rightarrow> string" where
  [adapter_defs]: "psmdb_TargetName crName = crName"

definition psmdb_env :: "string \<Rightarrow> string \<Rightarrow> string \<Rightarrow> json" where
  "psmdb_env variable secretsName key =
     JObj [(''name'', JStr variable),
           (''valueFrom'', JObj [(''secretKeyRef'', JObj
             [(''name'', JStr secretsName), (''key'', JStr key)])])]"

definition psmdb_sidecar :: "string \<Rightarrow> json" where
  "psmdb_sidecar secretsName =
     JObj [(''name'', JStr ''mongodb-exporter''),
           (''image'', JStr ''percona/mongodb_exporter:0.53.0''),
           (''args'', JArr [JStr ''--mongodb.uri=mongodb://localhost:27017/admin?ssl=false'',
              JStr ''--collect-all'', JStr ''--compatible-mode'']),
           (''ports'', JArr [JObj
              [(''name'', JStr ''metrics''), (''containerPort'', JInt psmdb_exporterPort)]]),
           (''env'', JArr
              [psmdb_env ''MONGODB_USER'' secretsName clusterMonitorUserKey,
               psmdb_env ''MONGODB_PASSWORD'' secretsName clusterMonitorPasswordKey])]"

definition psmdb_expose :: "ServiceExposeSpec \<Rightarrow> json" where
  "psmdb_expose expose =
     JObj (put_annotations ''serviceAnnotations'' (exp_Annotations expose)
       [(''enabled'', JBool True), (''type'', JStr (exp_Type expose))])"

definition psmdb_replset :: "deps \<Rightarrow> MongoDBClusterSpec \<Rightarrow> string \<Rightarrow> doc" where
  "psmdb_replset D spec secretsName =
     (let pvcSpec = put_if (sto_StorageClass (mgo_Storage spec) \<noteq> '''') ''storageClassName''
            (JStr (sto_StorageClass (mgo_Storage spec)))
            [(''accessModes'', JArr [JStr ''ReadWriteOnce'']),
             (''resources'', JObj [(''requests'', JObj
               [(''storage'', JStr (sto_Size (mgo_Storage spec)))])])];
          replset =
            [(''name'', JStr replsetName),
             (''size'', JInt (int64 (mgo_Replicas spec))),
             (''volumeSpec'', JObj [(''persistentVolumeClaim'', JObj pvcSpec)])];
          replset = put_resources D (mgo_Resources spec) replset;
          replset = put_some (mgo_Expose spec) ''expose'' psmdb_expose replset
      in put_if (EnablePodMonitor (mgo_Monitoring spec)) ''sidecars''
           (JArr [psmdb_sidecar secretsName]) replset)"

definition psmdb_BuildManifest ::
    "deps \<Rightarrow> MongoDBCluster \<Rightarrow> string \<Rightarrow> string \<Rightarrow> string \<Rightarrow> unstructured" where
  "psmdb_BuildManifest D c name namespace ownerName =
     (let spec = cr_spec c;
          secretsName = name @ secretsUsersSuffix;
          replset = psmdb_replset D spec secretsName;
          clusterSpec =
            [(''image'', JStr (mgo_Image spec)),
             (''replsets'', JArr [JObj replset]),
             (''secrets'', JObj [(''users'', JStr secretsName)]),
             (''storageScaling'', JObj [(''enableVolumeScaling'', JBool True)])]
      in set_entry ''spec'' (JObj clusterSpec)
           ((new_object psmdb_GVK name namespace (commonLabels psmdb_FieldManager ownerName))
             \<lparr>u_finalizers := [''percona.com/delete-psmdb-pvc'']\<rparr>))"

definition psmdb_podMonitor :: "string \<Rightarrow> string \<Rightarrow> string \<Rightarrow> string \<Rightarrow> unstructured" where
  "psmdb_podMonitor podMonitorName targetName namespace owner =
     set_entry ''spec'' (JObj
        [(''selector'', JObj [(''matchLabels'', JObj
           [(instanceLabelKey, JStr targetName), (componentLabel, JStr ''mongod'')])]),
         (''podMetricsEndpoints'', JArr [JObj [(''targetPort'', JInt psmdb_exporterPort)]])])
       (new_object podMonitor_GVK podMonitorName namespace (commonLabels psmdb_FieldManager owner))"

definition psmdb_ExtraResources ::
    "string \<Rightarrow> MongoDBCluster \<Rightarrow> string \<Rightarrow> string \<Rightarrow> string \<Rightarrow> ExtraResource list" where
  "psmdb_ExtraResources dashboardJSON c targetName namespace owner =
     (let podMonitorName = targetName @ ''-podmonitor'';
          dashboardName = targetName @ ''-dashboard''
      in if \<not> EnablePodMonitor (mgo_Monitoring (cr_spec c))
         then [extra_resource podMonitor_GVK podMonitorName None,
               extra_resource dashboard_GVK dashboardName None]
         else
           (let podMonitor = psmdb_podMonitor podMonitorName targetName namespace owner;
                dashboard = dashboard_object dashboardName namespace
                  (commonLabels psmdb_FieldManager owner) ''MongoDB'' ''DS_PROMETHEUS'' dashboardJSON
            in [extra_resource podMonitor_GVK podMonitorName (Some podMonitor),
                extra_resource dashboard_GVK dashboardName (Some dashboard)]))"

definition psmdb_ExtractStatus :: "deps \<Rightarrow> unstructured option \<Rightarrow> TargetStatus" where
  "psmdb_ExtractStatus D target =
     (case target of
        None \<Rightarrow> unknown_status
      | Some u \<Rightarrow>
          (let obj = JObj (u_object u);
               phase = reported (nestedString D obj [''status'', ''state'']);
               observed = int32 (fst (nestedInt64 D obj [''status'', ''size'']));
               ready = int32 (fst (nestedInt64 D obj [''status'', ''ready'']))
           in \<lparr>ts_Phase = phase, ts_Ready = (0 < sint observed \<and> sint observed \<le> sint ready),
               ts_ObservedCount = observed, ts_ReadyCount = ready\<rparr>))"

definition psmdb_ApplyStatus ::
    "deps \<Rightarrow> MongoDBCluster \<Rightarrow> string \<Rightarrow> TargetStatus \<Rightarrow> MongoDBCluster \<times> string" where
  "psmdb_ApplyStatus D c targetName s =
     (let message = (if ts_Ready s
            then ''PerconaServerMongoDB '' @ quote targetName @ '' is ready ('' @ show_counts s @ '' members)''
            else ''Waiting for PerconaServerMongoDB '' @ quote targetName @ '' (state: '' @ ts_Phase s @ '')'');
          conditions = set_ready_condition D (om_Generation (cr_meta c))
            ''ClusterNotReady'' ''ClusterReady'' message (ts_Ready s) (mgos_Conditions (cr_status c))
      in (c\<lparr>cr_status := (cr_status c)\<lparr>mgos_Conditions := conditions, mgos_Ready := ts_Ready s, mgos_Phase := ts_Phase s, mgos_Replicas := ts_ObservedCount s, 
              mgos_ReadyReplicas := ts_ReadyCount s, mgos_Message := message\<rparr>\<rparr>, message))"

subsection \<open>The adapter\<close>

definition psmdb_Adapter :: "deps \<Rightarrow> string \<Rightarrow> (MongoDBClusterSpec, MongoDBClusterStatus) adapter" where
  "psmdb_Adapter D dashboardJSON =
     \<lparr>a_GVK = psmdb_GVK, a_TargetName = psmdb_TargetName, a_ObjectKind = ''PerconaServerMongoDB'',
      a_FieldManager = psmdb_FieldManager, a_BuildManifest = psmdb_BuildManifest D,
      a_ExtractStatus = psmdb_ExtractStatus D, a_ApplyStatus = psmdb_ApplyStatus D,
      a_ExtraResources = Some (psmdb_ExtraResources dashboardJSON), a_PVCLabelSelector = None,
      a_IngressClass = None\<rparr>"

lemma psmdb_Adapter_fields [simp]:
  "a_GVK (psmdb_Adapter D dashboardJSON) = psmdb_GVK"
  "a_TargetName (psmdb_Adapter D dashboardJSON) = psmdb_TargetName"
  "a_ObjectKind (psmdb_Adapter D dashboardJSON) = ''PerconaServerMongoDB''"
  "a_FieldManager (psmdb_Adapter D dashboardJSON) = psmdb_FieldManager"
  "a_BuildManifest (psmdb_Adapter D dashboardJSON) = psmdb_BuildManifest D"
  "a_ExtractStatus (psmdb_Adapter D dashboardJSON) = psmdb_ExtractStatus D"
  "a_ApplyStatus (psmdb_Adapter D dashboardJSON) = psmdb_ApplyStatus D"
  "a_ExtraResources (psmdb_Adapter D dashboardJSON) = Some (psmdb_ExtraResources dashboardJSON)"
  "a_PVCLabelSelector (psmdb_Adapter D dashboardJSON) = None"
  "a_IngressClass (psmdb_Adapter D dashboardJSON) = None"
  by (simp_all add: psmdb_Adapter_def)

definition psmdb_view :: "MongoDBClusterStatus \<Rightarrow> status_view" where
  "psmdb_view st = \<lparr>v_Ready = mgos_Ready st, v_Phase = mgos_Phase st,
     v_Message = mgos_Message st, v_Conditions = mgos_Conditions st\<rparr>"

lemma psmdb_BuildManifest_meta [simp]:
  "u_gvk (psmdb_BuildManifest D c n ns ow) = psmdb_GVK"
  "u_name (psmdb_BuildManifest D c n ns ow) = n"
  "u_namespace (psmdb_BuildManifest D c n ns ow) = ns"
  "u_labels (psmdb_BuildManifest D c n ns ow) = commonLabels psmdb_FieldManager ow"
  by (simp_all add: psmdb_BuildManifest_def Let_def)

lemma psmdb_podMonitor_meta [simp]:
  "u_gvk (psmdb_podMonitor n t ns ow) = podMonitor_GVK" "u_name (psmdb_podMonitor n t ns ow) = n"
  "u_namespace (psmdb_podMonitor n t ns ow) = ns"
  "u_labels (psmdb_podMonitor n t ns ow) = commonLabels psmdb_FieldManager ow"
  by (simp_all add: psmdb_podMonitor_def)

interpretation psmdb: counted_readiness "psmdb_Adapter D dashboardJSON" psmdb_view D
  "''ClusterNotReady''" "''ClusterReady''"
  by unfold_locales
     (auto simp: psmdb_Adapter_def psmdb_view_def extras_def object_id_def
        psmdb_ExtraResources_def adapter_defs
        psmdb_ApplyStatus_def psmdb_ExtractStatus_def Let_def 
      split: option.splits prod.splits if_splits)

end
