(* ===== verification/RabbitmqAdapter.thy ===== *)
theory RabbitmqAdapter
  imports GrafanaAdapter
begin

section \<open>RabbitMQCluster onto a RabbitmqCluster\<close>

text \<open>
  \<open>internal/rabbitmq/rabbitmq.go\<close>: the manifest, the management Ingress, the ServiceMonitor
  and dashboard, and readiness from the AllReplicasReady condition.
\<close>

definition rabbitmq_GVK :: gvk where
  [adapter_defs]: "rabbitmq_GVK = GVK ''rabbitmq.com'' ''v1beta1'' ''RabbitmqCluster''"
definition rabbitmq_FieldManager :: string where
  [adapter_defs]: "rabbitmq_FieldManager = ''rabbitmqcluster-operator''"
definition serviceMonitor_GVK :: gvk where
  [adapter_defs]: "serviceMonitor_GVK = GVK ''monitoring.coreos.com'' ''v1'' ''ServiceMonitor''"
definition managementPort :: "32 word" where "managementPort = 15672"
definition rabbitmq_metricsPort :: "64 word" where "rabbitmq_metricsPort = 15692"

definition rabbitmq_TargetName :: "string \<Rightarrow> string" where
  [adapter_defs]: "rabbitmq_TargetName crName = crName"

definition rabbitmq_RequestedIngressClassName :: "RabbitMQCluster \<Rightarrow> string \<times> bool" where
  "rabbitmq_RequestedIngressClassName c =
     (case rmq_Ingress (cr_spec c) of None \<Rightarrow> ('''', False) | Some i \<Rightarrow> (ing_IngressClassName i, True))"

definition rabbitmq_SetIngressClassName :: "RabbitMQCluster \<Rightarrow> string \<Rightarrow> RabbitMQCluster option" where
  "rabbitmq_SetIngressClassName c className =
     (case rmq_Ingress (cr_spec c) of
        None \<Rightarrow> None
      | Some i \<Rightarrow>
          Some (c\<lparr>cr_spec := (cr_spec c)\<lparr>rmq_Ingress := Some (i\<lparr>ing_IngressClassName := className\<rparr>)\<rparr>\<rparr>))"

definition rabbitmq_service :: "ServiceExposeSpec \<Rightarrow> json" where
  "rabbitmq_service expose =
     JObj (put_annotations ''annotations'' (exp_Annotations expose)
       (put_if (exp_Type expose \<noteq> '''') ''type'' (JStr (exp_Type expose)) []))"

definition rabbitmq_BuildManifest ::
    "deps \<Rightarrow> RabbitMQCluster \<Rightarrow> string \<Rightarrow> string \<Rightarrow> string \<Rightarrow> unstructured" where
  "rabbitmq_BuildManifest D c name namespace ownerName =
     (let spec = cr_spec c;
          persistence = put_if (sto_StorageClass (rmq_Storage spec) \<noteq> '''') ''storageClassName''
            (JStr (sto_StorageClass (rmq_Storage spec))) [(''storage'', JStr (sto_Size (rmq_Storage spec)))];
          clusterSpec =
            [(''replicas'', JInt (int64 (rmq_Replicas spec))), (''persistence'', JObj persistence)];
          clusterSpec = put_if (rmq_Image spec \<noteq> '''') ''image'' (JStr (rmq_Image spec)) clusterSpec;
          clusterSpec = put_resources D (rmq_Resources spec) clusterSpec;
          clusterSpec = put_some (rmq_Expose spec) ''service'' rabbitmq_service clusterSpec
      in set_entry ''spec'' (JObj clusterSpec)
           (new_object rabbitmq_GVK name namespace (commonLabels rabbitmq_FieldManager ownerName)))"

definition rabbitmq_serviceMonitor :: "string \<Rightarrow> string \<Rightarrow> string \<Rightarrow> string \<Rightarrow> unstructured" where
  "rabbitmq_serviceMonitor serviceMonitorName targetName namespace owner =
     set_entry ''spec'' (JObj
        [(''selector'', JObj [(''matchLabels'', JObj [(''app.kubernetes.io/name'', JStr targetName)])]),
         (''endpoints'', JArr [JObj [(''targetPort'', JInt rabbitmq_metricsPort)]])])
       (new_object serviceMonitor_GVK serviceMonitorName namespace
         (commonLabels rabbitmq_FieldManager owner))"

definition rabbitmq_ExtraResources ::
    "string \<Rightarrow> RabbitMQCluster \<Rightarrow> string \<Rightarrow> string \<Rightarrow> string \<Rightarrow> ExtraResource list" where
  "rabbitmq_ExtraResources dashboardJSON c targetName namespace owner =
     (let ingressName = targetName @ ''-rabbitmq-ingress'';
          serviceMonitorName = targetName @ ''-servicemonitor'';
          dashboardName = targetName @ ''-dashboard'';
          desiredIngress = map_option (\<lambda>i. ingress_Build i ingressName namespace owner
            rabbitmq_FieldManager targetName managementPort) (rmq_Ingress (cr_spec c));
          extras = [extra_resource ingress_GVK ingressName desiredIngress]
      in if \<not> EnablePodMonitor (rmq_Monitoring (cr_spec c))
         then extras @ [extra_resource serviceMonitor_GVK serviceMonitorName None,
                        extra_resource dashboard_GVK dashboardName None]
         else
           (let serviceMonitor = rabbitmq_serviceMonitor serviceMonitorName targetName namespace owner;
                dashboard = dashboard_object dashboardName namespace
                  (commonLabels rabbitmq_FieldManager owner) ''RabbitMQ'' ''DS_PROMETHEUS'' dashboardJSON
            in extras @ [extra_resource serviceMonitor_GVK serviceMonitorName (Some serviceMonitor),
                         extra_resource dashboard_GVK dashboardName (Some dashboard)]))"

definition rabbitmq_ExtractStatus :: "deps \<Rightarrow> unstructured option \<Rightarrow> TargetStatus" where
  "rabbitmq_ExtractStatus D target =
     (case target of
        None \<Rightarrow> unknown_status
      | Some u \<Rightarrow>
          (let obj = JObj (u_object u);
               observed = int32 (fst (nestedInt64 D obj [''spec'', ''replicas'']));
               conditions = fst (nestedSlice D obj [''status'', ''conditions'']);
               (ready, phase) = condition_reason ''AllReplicasReady'' conditions;
               readyCount = (if ready then observed else 0)
           in \<lparr>ts_Phase = phase, ts_Ready = (ready \<and> 0 < sint observed),
               ts_ObservedCount = observed, ts_ReadyCount = readyCount\<rparr>))"

definition rabbitmq_ApplyStatus ::
    "deps \<Rightarrow> RabbitMQCluster \<Rightarrow> string \<Rightarrow> TargetStatus \<Rightarrow> RabbitMQCluster \<times> string" where
  "rabbitmq_ApplyStatus D c targetName s =
     (let message = (if ts_Ready s
            then ''RabbitmqCluster '' @ quote targetName @ '' is ready ('' @ show_counts s @ '' replicas)''
            else ''Waiting for RabbitmqCluster '' @ quote targetName @ '' (phase: '' @ ts_Phase s @ '')'');
          conditions = set_ready_condition D (om_Generation (cr_meta c))
            ''ClusterNotReady'' ''ClusterReady'' message (ts_Ready s) (rmqs_Conditions (cr_status c))
      in (c\<lparr>cr_status := (cr_status c)\<lparr>rmqs_Conditions := conditions, rmqs_Ready := ts_Ready s, rmqs_Phase := ts_Phase s, rmqs_Replicas := ts_ObservedCount s, 
              rmqs_ReadyReplicas := ts_ReadyCount s, rmqs_Message := message\<rparr>\<rparr>, message))"

subsection \<open>The adapter\<close>

definition rabbitmq_Adapter :: "deps \<Rightarrow> string \<Rightarrow> (RabbitMQClusterSpec, RabbitMQClusterStatus) adapter" where
  "rabbitmq_Adapter D dashboardJSON =
     \<lparr>a_GVK = rabbitmq_GVK, a_TargetName = rabbitmq_TargetName, a_ObjectKind = ''RabbitmqCluster'',
      a_FieldManager = rabbitmq_FieldManager, a_BuildManifest = rabbitmq_BuildManifest D,
      a_ExtractStatus = rabbitmq_ExtractStatus D, a_ApplyStatus = rabbitmq_ApplyStatus D,
      a_ExtraResources = Some (rabbitmq_ExtraResources dashboardJSON), a_PVCLabelSelector = None,
      a_IngressClass = Some (rabbitmq_RequestedIngressClassName, rabbitmq_SetIngressClassName)\<rparr>"

lemma rabbitmq_Adapter_fields [simp]:
  "a_GVK (rabbitmq_Adapter D dashboardJSON) = rabbitmq_GVK"
  "a_TargetName (rabbitmq_Adapter D dashboardJSON) = rabbitmq_TargetName"
  "a_ObjectKind (rabbitmq_Adapter D dashboardJSON) = ''RabbitmqCluster''"
  "a_FieldManager (rabbitmq_Adapter D dashboardJSON) = rabbitmq_FieldManager"
  "a_BuildManifest (rabbitmq_Adapter D dashboardJSON) = rabbitmq_BuildManifest D"
  "a_ExtractStatus (rabbitmq_Adapter D dashboardJSON) = rabbitmq_ExtractStatus D"
  "a_ApplyStatus (rabbitmq_Adapter D dashboardJSON) = rabbitmq_ApplyStatus D"
  "a_ExtraResources (rabbitmq_Adapter D dashboardJSON) = Some (rabbitmq_ExtraResources dashboardJSON)"
  "a_PVCLabelSelector (rabbitmq_Adapter D dashboardJSON) = None"
  "a_IngressClass (rabbitmq_Adapter D dashboardJSON) = Some (rabbitmq_RequestedIngressClassName, rabbitmq_SetIngressClassName)"
  by (simp_all add: rabbitmq_Adapter_def)

definition rabbitmq_view :: "RabbitMQClusterStatus \<Rightarrow> status_view" where
  "rabbitmq_view st = \<lparr>v_Ready = rmqs_Ready st, v_Phase = rmqs_Phase st,
     v_Message = rmqs_Message st, v_Conditions = rmqs_Conditions st\<rparr>"

lemma rabbitmq_BuildManifest_meta [simp]:
  "u_gvk (rabbitmq_BuildManifest D c n ns ow) = rabbitmq_GVK"
  "u_name (rabbitmq_BuildManifest D c n ns ow) = n"
  "u_namespace (rabbitmq_BuildManifest D c n ns ow) = ns"
  "u_labels (rabbitmq_BuildManifest D c n ns ow) = commonLabels rabbitmq_FieldManager ow"
  by (simp_all add: rabbitmq_BuildManifest_def Let_def)

lemma rabbitmq_serviceMonitor_meta [simp]:
  "u_gvk (rabbitmq_serviceMonitor n t ns ow) = serviceMonitor_GVK"
  "u_name (rabbitmq_serviceMonitor n t ns ow) = n"
  "u_namespace (rabbitmq_serviceMonitor n t ns ow) = ns"
  "u_labels (rabbitmq_serviceMonitor n t ns ow) = commonLabels rabbitmq_FieldManager ow"
  by (simp_all add: rabbitmq_serviceMonitor_def)

interpretation rabbitmq: counted_readiness "rabbitmq_Adapter D dashboardJSON" rabbitmq_view D
  "''ClusterNotReady''" "''ClusterReady''"
  by unfold_locales
     (auto simp: rabbitmq_Adapter_def rabbitmq_view_def extras_def object_id_def
        rabbitmq_ExtraResources_def adapter_defs
        rabbitmq_ApplyStatus_def rabbitmq_ExtractStatus_def Let_def 
        rabbitmq_RequestedIngressClassName_def rabbitmq_SetIngressClassName_def
      split: option.splits prod.splits if_splits)

end
