(* ===== verification/StrimziAdapter.thy ===== *)
theory StrimziAdapter
  imports ValkeyAdapter
begin

section \<open>KafkaCluster onto a Kafka and a KafkaNodePool\<close>

text \<open>
  \<open>internal/strimzi/strimzi.go\<close>: the Kafka manifest with its listeners, the node pool that is
  always there, PodMonitor and dashboard, and readiness from the Ready condition.
\<close>

definition strimzi_GVK :: gvk where
  [adapter_defs]: "strimzi_GVK = GVK ''kafka.strimzi.io'' ''v1'' ''Kafka''"
definition strimzi_FieldManager :: string where
  [adapter_defs]: "strimzi_FieldManager = ''kafkacluster-operator''"
definition nodePool_GVK :: gvk where
  [adapter_defs]: "nodePool_GVK = GVK ''kafka.strimzi.io'' ''v1'' ''KafkaNodePool''"
definition nodePoolSuffix :: string where
  [adapter_defs]: "nodePoolSuffix = ''-dual-role''"
definition clusterLabelKey :: string where
  [adapter_defs]: "clusterLabelKey = ''strimzi.io/cluster''"
definition nameLabelKey :: string where "nameLabelKey = ''strimzi.io/name''"
definition strimzi_metricsPort :: "64 word" where "strimzi_metricsPort = 9404"

definition strimzi_TargetName :: "string \<Rightarrow> string" where
  [adapter_defs]: "strimzi_TargetName crName = crName"

definition strimzi_listener :: "string \<Rightarrow> 64 word \<Rightarrow> string \<Rightarrow> bool \<Rightarrow> json" where
  "strimzi_listener name port ty tls =
     JObj [(''name'', JStr name), (''port'', JInt port), (''type'', JStr ty), (''tls'', JBool tls)]"

definition strimzi_BuildManifest :: "KafkaCluster \<Rightarrow> string \<Rightarrow> string \<Rightarrow> string \<Rightarrow> unstructured" where
  "strimzi_BuildManifest c name namespace ownerName =
     (let spec = cr_spec c;
          listeners = [strimzi_listener ''plain'' 9092 ''internal'' False];
          listeners = (case kfk_Expose spec of
              None \<Rightarrow> listeners
            | Some e \<Rightarrow> listeners @ [strimzi_listener ''external'' 9093 (ToLower (exp_Type e)) True]);
          kafkaSpec = [(''listeners'', JArr listeners)];
          kafkaSpec = put_if (kfk_Version spec \<noteq> '''') ''version'' (JStr (kfk_Version spec)) kafkaSpec;
          kafkaSpec = put_if (EnablePodMonitor (kfk_Monitoring spec)) ''metricsConfig''
            (JObj [(''type'', JStr ''strimziMetricsReporter'')]) kafkaSpec
      in set_entry ''spec'' (JObj [(''kafka'', JObj kafkaSpec)])
           (new_object strimzi_GVK name namespace (commonLabels strimzi_FieldManager ownerName)))"

definition strimzi_nodePool ::
    "deps \<Rightarrow> KafkaClusterSpec \<Rightarrow> string \<Rightarrow> string \<Rightarrow> string \<Rightarrow> string \<Rightarrow> unstructured" where
  "strimzi_nodePool D spec nodePoolName targetName namespace owner =
     (let volume = put_if (sto_StorageClass (kfk_Storage spec) \<noteq> '''') ''class''
            (JStr (sto_StorageClass (kfk_Storage spec)))
            [(''id'', JInt 0), (''type'', JStr ''persistent-claim''),
             (''size'', JStr (sto_Size (kfk_Storage spec))), (''kraftMetadata'', JStr ''shared''),
             (''deleteClaim'', JBool True)];
          nodePoolSpec =
            [(''replicas'', JInt (int64 (kfk_Replicas spec))),
             (''roles'', JArr [JStr ''controller'', JStr ''broker'']),
             (''storage'', JObj [(''type'', JStr ''jbod''), (''volumes'', JArr [JObj volume])])];
          nodePoolSpec = put_resources D (kfk_Resources spec) nodePoolSpec;
          labels = put clusterLabelKey targetName (commonLabels strimzi_FieldManager owner)
      in set_entry ''spec'' (JObj nodePoolSpec) (new_object nodePool_GVK nodePoolName namespace labels))"

definition strimzi_podMonitor :: "string \<Rightarrow> string \<Rightarrow> string \<Rightarrow> string \<Rightarrow> unstructured" where
  "strimzi_podMonitor podMonitorName targetName namespace owner =
     set_entry ''spec'' (JObj
        [(''selector'', JObj [(''matchLabels'', JObj [(clusterLabelKey, JStr targetName)])]),
         (''podTargetLabels'', JArr [JStr clusterLabelKey, JStr nameLabelKey]),
         (''podMetricsEndpoints'', JArr [JObj [(''targetPort'', JInt strimzi_metricsPort)]])])
       (new_object podMonitor_GVK podMonitorName namespace (commonLabels strimzi_FieldManager owner))"

definition strimzi_ExtraResources ::
    "deps \<Rightarrow> string \<Rightarrow> KafkaCluster \<Rightarrow> string \<Rightarrow> string \<Rightarrow> string \<Rightarrow> ExtraResource list" where
  "strimzi_ExtraResources D dashboardJSON c targetName namespace owner =
     (let spec = cr_spec c;
          nodePoolName = targetName @ nodePoolSuffix;
          nodePool = strimzi_nodePool D spec nodePoolName targetName namespace owner;
          podMonitorName = targetName @ ''-podmonitor'';
          dashboardName = targetName @ ''-dashboard''
      in if \<not> EnablePodMonitor (kfk_Monitoring spec)
         then [extra_resource nodePool_GVK nodePoolName (Some nodePool),
               extra_resource podMonitor_GVK podMonitorName None,
               extra_resource dashboard_GVK dashboardName None]
         else
           (let podMonitor = strimzi_podMonitor podMonitorName targetName namespace owner;
                dashboard = dashboard_object dashboardName namespace
                  (commonLabels strimzi_FieldManager owner) ''Kafka'' ''DS_PROMETHEUS'' dashboardJSON
            in [extra_resource nodePool_GVK nodePoolName (Some nodePool),
                extra_resource podMonitor_GVK podMonitorName (Some podMonitor),
                extra_resource dashboard_GVK dashboardName (Some dashboard)]))"

definition strimzi_ExtractStatus :: "deps \<Rightarrow> unstructured option \<Rightarrow> TargetStatus" where
  "strimzi_ExtractStatus D target =
     (case target of
        None \<Rightarrow> unknown_status
      | Some u \<Rightarrow>
          condition_status D ''Ready''
            (fst (nestedSlice D (JObj (u_object u)) [''status'', ''conditions''])))"

definition strimzi_ApplyStatus ::
    "deps \<Rightarrow> KafkaCluster \<Rightarrow> string \<Rightarrow> TargetStatus \<Rightarrow> KafkaCluster \<times> string" where
  "strimzi_ApplyStatus D c targetName s =
     (let message = (if ts_Ready s
            then ''Kafka '' @ quote targetName @ '' is ready''
            else ''Waiting for Kafka '' @ quote targetName @ '' (phase: '' @ ts_Phase s @ '')'');
          conditions = set_ready_condition D (om_Generation (cr_meta c))
            ''ClusterNotReady'' ''ClusterReady'' message (ts_Ready s) (kfks_Conditions (cr_status c))
      in (c\<lparr>cr_status := (cr_status c)\<lparr>kfks_Conditions := conditions, kfks_Ready := ts_Ready s, kfks_Phase := ts_Phase s, kfks_Message := message\<rparr>\<rparr>, message))"

subsection \<open>The adapter\<close>

definition strimzi_Adapter :: "deps \<Rightarrow> string \<Rightarrow> (KafkaClusterSpec, KafkaClusterStatus) adapter" where
  "strimzi_Adapter D dashboardJSON =
     \<lparr>a_GVK = strimzi_GVK, a_TargetName = strimzi_TargetName, a_ObjectKind = ''Kafka'',
      a_FieldManager = strimzi_FieldManager, a_BuildManifest = strimzi_BuildManifest,
      a_ExtractStatus = strimzi_ExtractStatus D, a_ApplyStatus = strimzi_ApplyStatus D,
      a_ExtraResources = Some (strimzi_ExtraResources D dashboardJSON), a_PVCLabelSelector = None,
      a_IngressClass = None\<rparr>"

lemma strimzi_Adapter_fields [simp]:
  "a_GVK (strimzi_Adapter D dashboardJSON) = strimzi_GVK"
  "a_TargetName (strimzi_Adapter D dashboardJSON) = strimzi_TargetName"
  "a_ObjectKind (strimzi_Adapter D dashboardJSON) = ''Kafka''"
  "a_FieldManager (strimzi_Adapter D dashboardJSON) = strimzi_FieldManager"
  "a_BuildManifest (strimzi_Adapter D dashboardJSON) = strimzi_BuildManifest"
  "a_ExtractStatus (strimzi_Adapter D dashboardJSON) = strimzi_ExtractStatus D"
  "a_ApplyStatus (strimzi_Adapter D dashboardJSON) = strimzi_ApplyStatus D"
  "a_ExtraResources (strimzi_Adapter D dashboardJSON) = Some (strimzi_ExtraResources D dashboardJSON)"
  "a_PVCLabelSelector (strimzi_Adapter D dashboardJSON) = None"
  "a_IngressClass (strimzi_Adapter D dashboardJSON) = None"
  by (simp_all add: strimzi_Adapter_def)

definition strimzi_view :: "KafkaClusterStatus \<Rightarrow> status_view" where
  "strimzi_view st = \<lparr>v_Ready = kfks_Ready st, v_Phase = kfks_Phase st,
     v_Message = kfks_Message st, v_Conditions = kfks_Conditions st\<rparr>"

lemma strimzi_BuildManifest_meta [simp]:
  "u_gvk (strimzi_BuildManifest c n ns ow) = strimzi_GVK"
  "u_name (strimzi_BuildManifest c n ns ow) = n"
  "u_namespace (strimzi_BuildManifest c n ns ow) = ns"
  "u_labels (strimzi_BuildManifest c n ns ow) = commonLabels strimzi_FieldManager ow"
  by (simp_all add: strimzi_BuildManifest_def Let_def)

lemma strimzi_extras_meta [simp]:
  "u_gvk (strimzi_podMonitor n t ns ow) = podMonitor_GVK" "u_name (strimzi_podMonitor n t ns ow) = n"
  "u_namespace (strimzi_podMonitor n t ns ow) = ns"
  "u_labels (strimzi_podMonitor n t ns ow) = commonLabels strimzi_FieldManager ow"
  "u_gvk (strimzi_nodePool D spec n t ns ow) = nodePool_GVK"
  "u_name (strimzi_nodePool D spec n t ns ow) = n"
  "u_namespace (strimzi_nodePool D spec n t ns ow) = ns"
  "u_labels (strimzi_nodePool D spec n t ns ow) =
     put clusterLabelKey t (commonLabels strimzi_FieldManager ow)"
  by (simp_all add: strimzi_podMonitor_def strimzi_nodePool_def Let_def)

interpretation strimzi: status_mirror "strimzi_Adapter D dashboardJSON" strimzi_view D
  "''ClusterNotReady''" "''ClusterReady''"
  by unfold_locales
     (auto simp: strimzi_Adapter_def strimzi_view_def extras_def object_id_def
        strimzi_ExtraResources_def adapter_defs
        strimzi_ApplyStatus_def strimzi_ExtractStatus_def Let_def 
      split: option.splits prod.splits if_splits)

end
