(* ===== verification/AdapterProps.thy ===== *)
theory AdapterProps
  imports Cluster MariadbAdapter PsmdbAdapter ValkeyAdapter RabbitmqAdapter StrimziAdapter AlloyAdapter
begin

section \<open>Properties of the vendor adapters\<close>

text \<open>
  What the ten integrations promise: the contract the engine relies on, the status mirror, the
  arithmetic of readiness, the two readers of condition lists, and the consistency of the
  objects a vendor writes next to its target.
\<close>

subsection \<open>The contract\<close>


subsection \<open>The status mirror\<close>

text \<open>
  A status mirrors an observation: ready flag and phase are copied, the Ready condition says
  the same as the flag, with the reason of its kind, the message and the generation the status
  was computed for, and conditions of other types are left as they were.
\<close>

definition mirrors_readiness ::
    "('s, 't) adapter \<Rightarrow> ('t \<Rightarrow> status_view) \<Rightarrow> string \<Rightarrow> string \<Rightarrow> bool" where
  "mirrors_readiness A view_of notReady isReady \<longleftrightarrow>
     (\<forall>c t s. let v = view_of (cr_status (fst (a_ApplyStatus A c t s))) in
        v_Ready v = ts_Ready s \<and> v_Phase v = ts_Phase s \<and>
        (\<exists>cnd. ready_condition (v_Conditions v) = Some cnd \<and>
           cond_Status cnd = (if ts_Ready s then ConditionTrue else ConditionFalse) \<and>
           cond_Reason cnd = (if ts_Ready s then isReady else notReady) \<and>
           cond_Message cnd = v_Message v \<and> cond_ObservedGeneration cnd = om_Generation (cr_meta c)) \<and>
        other_conditions (v_Conditions v) = other_conditions (v_Conditions (view_of (cr_status c))))"

context status_mirror
begin

lemma mirrors:
  assumes "conditions_ok D"
  shows "mirrors_readiness A view_of notReady isReady"
  unfolding mirrors_readiness_def Let_def
proof (intro allI)
  fix c t s
  from mirrored [OF assms, of c t s] obtain cnd where
    "ready_condition (v_Conditions (view_of (cr_status (fst (a_ApplyStatus A c t s))))) = Some cnd"
    and "cond_Status cnd = (if ts_Ready s then ConditionTrue else ConditionFalse)"
    and "cond_Reason cnd = (if ts_Ready s then isReady else notReady)"
    and "cond_Message cnd = v_Message (view_of (cr_status (fst (a_ApplyStatus A c t s))))"
    and "cond_ObservedGeneration cnd = om_Generation (cr_meta c)" by auto
  then show "v_Ready (view_of (cr_status (fst (a_ApplyStatus A c t s)))) = ts_Ready s \<and>
      v_Phase (view_of (cr_status (fst (a_ApplyStatus A c t s)))) = ts_Phase s \<and>
      (\<exists>cnd. ready_condition (v_Conditions (view_of (cr_status (fst (a_ApplyStatus A c t s))))) = Some cnd \<and>
         cond_Status cnd = (if ts_Ready s then ConditionTrue else ConditionFalse) \<and>
         cond_Reason cnd = (if ts_Ready s then isReady else notReady) \<and>
         cond_Message cnd = v_Message (view_of (cr_status (fst (a_ApplyStatus A c t s)))) \<and>
         cond_ObservedGeneration cnd = om_Generation (cr_meta c)) \<and>
      other_conditions (v_Conditions (view_of (cr_status (fst (a_ApplyStatus A c t s))))) =
      other_conditions (v_Conditions (view_of (cr_status c)))"
    by (simp add: apply_status_ready apply_phase other_conditions_kept [OF assms])
qed

end

text \<open>
  C23: for all ten kinds the mirrored status agrees with itself: ready flag and phase are
  those observed, the Ready condition says the same as the flag with the kind's reason, the
  message and the generation the status was computed for, and conditions of other types are
  untouched.
\<close>

theorem ready_condition_mirrors_status:
  assumes "conditions_ok D"
  shows "mirrors_readiness (cnpg_Adapter D dashboard) cnpg_view ''ClusterNotReady'' ''ClusterReady'' \<and>
   mirrors_readiness (mariadb_Adapter D dashboard) mariadb_view ''ClusterNotReady'' ''ClusterReady'' \<and>
   mirrors_readiness (psmdb_Adapter D dashboard) psmdb_view ''ClusterNotReady'' ''ClusterReady'' \<and>
   mirrors_readiness (valkey_Adapter D dashboard) valkey_view ''ClusterNotReady'' ''ClusterReady'' \<and>
   mirrors_readiness (rabbitmq_Adapter D dashboard) rabbitmq_view ''ClusterNotReady'' ''ClusterReady'' \<and>
   mirrors_readiness (strimzi_Adapter D dashboard) strimzi_view ''ClusterNotReady'' ''ClusterReady'' \<and>
   mirrors_readiness (grafana_Adapter D) grafana_view ''GrafanaNotReady'' ''GrafanaReady'' \<and>
   mirrors_readiness (prometheus_Adapter D) prometheus_view ''PrometheusNotReady'' ''PrometheusReady'' \<and>
   mirrors_readiness (loki_Adapter D) loki_view ''LokiStackNotReady'' ''LokiStackReady'' \<and>
   mirrors_readiness (alloy_Adapter D) alloy_view ''AlloyNotReady'' ''AlloyReady''"
  using assms by (intro conjI cnpg.mirrors mariadb.mirrors psmdb.mirrors valkey.mirrors rabbitmq.mirrors
      strimzi.mirrors grafana.mirrors prometheus.mirrors loki.mirrors alloy.mirrors)

theorem ready_condition_mirrors_status_witness:
  "mirrors_readiness (cnpg_Adapter doc_deps ''{}'') cnpg_view ''ClusterNotReady'' ''ClusterReady''"
  using ready_condition_mirrors_status [OF conditions_ok_doc, of "''{}''"] by blast

subsection \<open>Readiness from counts\<close>

text \<open>
  The number a target reports at a path, 0 where it reports none, and what is left of it after
  the conversion \<open>int32(x)\<close> of an \<open>int64\<close>.
\<close>

definition count_at :: "unstructured \<Rightarrow> string list \<Rightarrow> int" where
  "count_at u path = (case at_path u path of Some (JInt i) \<Rightarrow> sint i | _ \<Rightarrow> 0)"

definition wrap32 :: "int \<Rightarrow> int" where
  "wrap32 i = (i + 2 ^ 31) mod 2 ^ 32 - 2 ^ 31"

lemma wrap32_id: "- (2 ^ 31) \<le> i \<Longrightarrow> i < 2 ^ 31 \<Longrightarrow> wrap32 i = i"
  by (simp add: wrap32_def)

lemma sint_int32_wrap: "sint (int32 i) = wrap32 (sint i)"
proof -
  have "sint (int32 i) = signed_take_bit 31 (sint i)"
    by (simp add: int32_def sint_uint unsigned_ucast_eq signed_take_bit_take_bit)
  also have "\<dots> = wrap32 (sint i)"
    by (simp add: wrap32_def signed_take_bit_eq_take_bit_shift take_bit_eq_mod)
  finally show ?thesis .
qed

lemma count_read:
  assumes "nested_ok D"
  shows "sint (int32 (fst (nestedInt64 D (JObj (u_object u)) p))) = wrap32 (count_at u p)"
proof -
  have "sint (fst (nestedInt64 D (JObj (u_object u)) p)) = count_at u p"
    using assms by (auto simp: nested_ok_def count_at_def at_path_def split: option.split json.split)
  then show ?thesis by (simp add: sint_int32_wrap)
qed

text \<open>
  C24: readiness from counts is decided on the 64-bit counts the target reports wrapped to 32
  bits: ready exactly when the wrapped number of units is positive and not above the wrapped
  number of ready ones; wrapping is the identity on what fits.
\<close>

theorem readiness_is_computed_on_wrapped_counts:
  assumes "nested_ok D"
  shows "(\<forall>i. - (2 ^ 31) \<le> i \<and> i < 2 ^ 31 \<longrightarrow> wrap32 i = i) \<and>
    (\<forall>u. let n = wrap32 (count_at u [''status'', ''instances'']); k = wrap32 (count_at u [''status'', ''readyInstances''])
         in ts_Ready (cnpg_ExtractStatus D (Some u)) = (0 < n \<and> n \<le> k)) \<and>
    (\<forall>u. let n = wrap32 (count_at u [''status'', ''size'']); k = wrap32 (count_at u [''status'', ''ready''])
         in ts_Ready (psmdb_ExtractStatus D (Some u)) = (0 < n \<and> n \<le> k)) \<and>
    (\<forall>u. let n = wrap32 (count_at u [''status'', ''shards'']); k = wrap32 (count_at u [''status'', ''readyShards''])
         in ts_Ready (valkey_ExtractStatus D (Some u)) = (0 < n \<and> n \<le> k)) \<and>
    (\<forall>u. let n = wrap32 (count_at u [''status'', ''replicas'']); k = wrap32 (count_at u [''status'', ''availableReplicas''])
         in ts_Ready (prometheus_ExtractStatus D (Some u)) = (0 < n \<and> n \<le> k))"
  by (simp add: wrap32_id Let_def cnpg_ExtractStatus_def psmdb_ExtractStatus_def valkey_ExtractStatus_def
      prometheus_ExtractStatus_def count_read [OF assms] split: prod.split)

text \<open>A target that claims one instance more than the 32 bits can tell from one counts as ready.\<close>

theorem readiness_is_computed_on_wrapped_counts_witness:
  "ts_Ready (cnpg_ExtractStatus doc_deps (Some (set_entry ''status''
     (JObj [(''instances'', JInt 4294967297), (''readyInstances'', JInt 1)]) (new_object cnpg_GVK ''db'' ''team-a'' []))))"
proof -
  let ?u = "set_entry ''status'' (JObj [(''instances'', JInt 4294967297), (''readyInstances'', JInt 1)])
    (new_object cnpg_GVK ''db'' ''team-a'' [])"
  have "wrap32 (count_at ?u [''status'', ''instances'']) = 1"
    and "wrap32 (count_at ?u [''status'', ''readyInstances'']) = 1"
    by (simp_all add: count_at_def at_path_def wrap32_def)
  with readiness_is_computed_on_wrapped_counts [OF nested_ok_doc] show ?thesis
    by (simp add: Let_def)
qed

subsection \<open>Readiness from conditions\<close>

text \<open>
  C25: the two ways the packages read a list of conditions agree: the loop that goes through
  NestedString and the loop that asserts types yield the same readiness and phase on every
  list.
\<close>

theorem condition_readers_agree:
  assumes "nested_ok D"
  shows "(ts_Ready (condition_status D ty cs), ts_Phase (condition_status D ty cs)) = condition_reason ty cs"
  using condition_status_first [OF assms, of ty cs] condition_reason_first [of ty cs]
  by (auto split: option.splits)

theorem condition_readers_agree_witness:
  "condition_reason ''Ready'' [JNull, JObj [(''type'', JStr ''Ready''), (''status'', JStr ''True'')]] = (True, ''Unknown'')"
proof -
  let ?cs = "[JNull, JObj [(''type'', JStr ''Ready''), (''status'', JStr ''True'')]]"
  have "ts_Ready (condition_status doc_deps ''Ready'' ?cs) \<and> ts_Phase (condition_status doc_deps ''Ready'' ?cs) = ''Unknown''"
    by (simp add: Let_def)
  with condition_readers_agree [OF nested_ok_doc, of "''Ready''" ?cs] show ?thesis by simp
qed

end
