(* ===== verification/Wiring.thy ===== *)
theory Wiring
  imports AdapterProps
begin

section \<open>Wiring between the objects of the adapters\<close>

text \<open>
  A vendor operator finds its way from one object to the next by name, label, port or Secret
  key. This theory states, over the documents the adapters build, that both ends of each such
  reference agree: the monitoring switch of a target and the objects that go with it, the
  exporter sidecar and what scrapes it, the Prometheus identity and its rights, the Grafana
  datasources and the Services they name, the dashboards and the Grafana that picks them up.
\<close>

text \<open>An auxiliary object that is listed as wanted, and one that is listed to be pruned.\<close>

definition wanted :: "ExtraResource list \<Rightarrow> gvk \<Rightarrow> string \<Rightarrow> bool" where
  "wanted xs g n \<longleftrightarrow> (\<exists>x \<in> set xs. extra_id x = (g, n) \<and> x_Desired x \<noteq> None)"

definition pruned :: "ExtraResource list \<Rightarrow> gvk \<Rightarrow> string \<Rightarrow> bool" where
  "pruned xs g n \<longleftrightarrow> (\<exists>x \<in> set xs. extra_id x = (g, n) \<and> x_Desired x = None)"

text \<open>The desired form of an auxiliary object.\<close>

definition desired_object :: "ExtraResource list \<Rightarrow> gvk \<Rightarrow> string \<Rightarrow> unstructured option" where
  "desired_object xs g n = Option.bind (find (\<lambda>x. extra_id x = (g, n)) xs) x_Desired"

subsection \<open>The monitoring switch\<close>

text \<open>What a target's manifest says about being monitored, per vendor.\<close>

definition exports_metrics :: "unstructured \<Rightarrow> string list \<Rightarrow> bool" where
  "exports_metrics u path \<longleftrightarrow> at_path u path \<noteq> None \<and> at_path u path \<noteq> Some (JBool False)"

lemma all_less_two: "(\<forall>i < 2. P i) \<longleftrightarrow> P (0::nat) \<and> P 1"
  by (auto simp: less_2_cases_iff)

lemmas wiring_simps = exports_metrics_def at_path_def wanted_def pruned_def desired_object_def extra_id_def
  dashboard_GVK_def podMonitor_GVK_def serviceMonitor_GVK_def service_GVK_def grafana_Group_def grafana_Version_def
  nodePool_GVK_def nodePoolSuffix_def ingress_GVK_def


subsection \<open>The MongoDB exporter\<close>

text \<open>
  With monitoring on, the exporter sidecar of a MongoDB target, the Secret its
  credentials come from and the PodMonitor agree on port, Secret and label; with monitoring
  off there is no sidecar and monitor and dashboard are pruned.
\<close>

lemma mongodb_exporter_is_scraped:
  "let target = JObj (u_object (psmdb_BuildManifest D c n ns ow));
       sidecar = [Key ''spec'', Key ''replsets'', Idx 0, Key ''sidecars'', Idx 0];
       extras = psmdb_ExtraResources dash c n ns ow
   in if EnablePodMonitor (mgo_Monitoring (cr_spec c))
      then \<exists>pm port secret.
        desired_object extras podMonitor_GVK (n @ ''-podmonitor'') = Some pm \<and>
        json_at (JObj (u_object pm)) [Key ''spec'', Key ''podMetricsEndpoints'', Idx 0, Key ''targetPort''] = Some (JInt port) \<and>
        json_at target (sidecar @ [Key ''ports'', Idx 0, Key ''containerPort'']) = Some (JInt port) \<and>
        json_at target [Key ''spec'', Key ''secrets'', Key ''users''] = Some (JStr secret) \<and>
        json_at target (sidecar @ [Key ''env'', Idx 0, Key ''valueFrom'', Key ''secretKeyRef'', Key ''name'']) = Some (JStr secret) \<and>
        json_at target (sidecar @ [Key ''env'', Idx 1, Key ''valueFrom'', Key ''secretKeyRef'', Key ''name'']) = Some (JStr secret) \<and>
        json_at (JObj (u_object pm)) [Key ''spec'', Key ''selector'', Key ''matchLabels'', Key instanceLabelKey] = Some (JStr n) \<and>
        wanted extras dashboard_GVK (n @ ''-dashboard'')
      else json_at target sidecar = None \<and>
        pruned extras podMonitor_GVK (n @ ''-podmonitor'') \<and> pruned extras dashboard_GVK (n @ ''-dashboard'')"
  by (simp add: wiring_simps psmdb_BuildManifest_def psmdb_replset_def Let_def
      psmdb_ExtraResources_def psmdb_podMonitor_def psmdb_sidecar_def psmdb_env_def
      instanceLabelKey_def componentLabel_def)

subsection \<open>Prometheus and what it may read\<close>

lemmas prometheus_simps = wiring_simps prometheus_ExtraResources_def scrapeRBACExtras_def Let_def
  serviceAccount_GVK_def role_GVK_def roleBinding_GVK_def rbacGroup_def

lemma role_GVK_parts: "gvk_group role_GVK = rbacGroup" "gvk_kind role_GVK = ''Role''"
  by (simp_all add: role_GVK_def)

lemma prometheus_service_account:
  "json_at (JObj (u_object (prometheus_BuildManifest D c n ns ow))) [Key ''spec'', Key ''serviceAccountName''] = Some (JStr n)"
  by (simp add: prometheus_BuildManifest_def Let_def)

lemma prometheus_rbac_desired:
  "desired_object (prometheus_ExtraResources c n ns ow) serviceAccount_GVK n = x_Desired (scrapeRBACExtras n ns ow ! 0)"
  "desired_object (prometheus_ExtraResources c n ns ow) role_GVK n = x_Desired (scrapeRBACExtras n ns ow ! 1)"
  "desired_object (prometheus_ExtraResources c n ns ow) roleBinding_GVK n = x_Desired (scrapeRBACExtras n ns ow ! 2)"
  by (cases "pro_Ingress (cr_spec c)"; simp add: prometheus_simps)+

text \<open>
  A Prometheus runs under the service account created next to it, in its namespace, and
  the role binding grants exactly that account a role whose only rule is read-only.
\<close>

lemma prometheus_runs_as_its_own_reader:
  "let target = JObj (u_object (prometheus_BuildManifest D c n ns ow));
       extras = prometheus_ExtraResources c n ns ow
   in \<exists>sa role rb.
        desired_object extras serviceAccount_GVK n = Some sa \<and> desired_object extras role_GVK n = Some role \<and>
        desired_object extras roleBinding_GVK n = Some rb \<and>
        u_namespace sa = ns \<and> u_namespace role = ns \<and> u_namespace rb = ns \<and>
        json_at target [Key ''spec'', Key ''serviceAccountName''] = Some (JStr (u_name sa)) \<and>
        json_at (JObj (u_object rb)) [Key ''subjects''] = Some (JArr [JObj
          [(''kind'', JStr ''ServiceAccount''), (''name'', JStr (u_name sa)), (''namespace'', JStr ns)]]) \<and>
        json_at (JObj (u_object rb)) [Key ''roleRef''] = Some (JObj
          [(''apiGroup'', JStr (gvk_group (u_gvk role))), (''kind'', JStr (gvk_kind (u_gvk role))), (''name'', JStr (u_name role))]) \<and>
        json_at (JObj (u_object role)) [Key ''rules'', Idx 0, Key ''verbs''] =
          Some (JArr [JStr ''get'', JStr ''list'', JStr ''watch'']) \<and>
        json_at (JObj (u_object role)) [Key ''rules'', Idx 1] = None"
  by (simp add: Let_def prometheus_service_account [simplified] prometheus_rbac_desired scrapeRBACExtras_def role_GVK_parts)

subsection \<open>Grafana\<close>

lemma grafana_prometheus_desired:
  "desired_object (grafana_ExtraResources g gn ns ow) datasource_GVK (gn @ ''-prometheus'') =
     Some (set_entry ''spec'' (grafana_prometheus_datasource (gra_PrometheusRef (cr_spec g)) gn ns)
       (new_object datasource_GVK (gn @ ''-prometheus'') ns (commonLabels grafana_FieldManager ow)))"
  by (cases "gra_LokiRef (cr_spec g) = ''''"; simp add: wiring_simps grafana_ExtraResources_def Let_def)

lemma prometheus_service_desired:
  "desired_object (prometheus_ExtraResources p n ns ow) service_GVK (prometheus_ServiceName n) =
     Some (prometheus_service (pro_Expose (cr_spec p)) n ns ow)"
  by (cases "pro_Ingress (cr_spec p)"; simp add: prometheus_simps)

lemma prometheus_service_spec:
  "map_of (u_object (prometheus_service e n ns ow)) ''spec'' = Some (JObj
       [(''type'', JStr (case e of None \<Rightarrow> ''ClusterIP'' | Some e \<Rightarrow> if exp_Type e \<noteq> '''' then exp_Type e else ''ClusterIP'')),
        (''selector'', JObj [(podSelectorLabel, JStr n)]),
        (''ports'', JArr [JObj
          [(''name'', JStr ''web''), (''port'', JInt (int64 prometheus_WebPort)), (''targetPort'', JStr ''web'')]])])"
  by (simp add: prometheus_service_def Let_def split: option.split)

text \<open>
  C38: the datasource of a GrafanaInstance that names a PrometheusInstance points at the
  Service that instance creates, by name, namespace and port, and that Service selects the
  instance's pods.
\<close>

theorem grafana_datasources_name_existing_services:
  assumes "gra_PrometheusRef (cr_spec g) = om_Name (cr_meta p)"
  shows "\<exists>ds svc port.
     desired_object (grafana_ExtraResources g gn ns ow) datasource_GVK (gn @ ''-prometheus'') = Some ds \<and>
     desired_object (prometheus_ExtraResources p (om_Name (cr_meta p)) ns ow') service_GVK
       (prometheus_ServiceName (om_Name (cr_meta p))) = Some svc \<and>
     json_at (JObj (u_object svc)) [Key ''spec'', Key ''ports'', Idx 0, Key ''port''] = Some (JInt port) \<and>
     json_at (JObj (u_object ds)) [Key ''spec'', Key ''datasource'', Key ''url''] =
       Some (JStr (service_url (u_name svc) (u_namespace svc) (unat port))) \<and>
     json_at (JObj (u_object ds)) [Key ''spec'', Key ''uid''] = Some (JStr grafana_DatasourceUID) \<and>
     json_at (JObj (u_object svc)) [Key ''spec'', Key ''selector'', Key podSelectorLabel] = Some (JStr (om_Name (cr_meta p)))"
proof -
  have port: "unat (int64 prometheus_WebPort) = unat prometheus_WebPort"
    by (simp add: int64_def prometheus_WebPort_def)
  show ?thesis
    unfolding grafana_prometheus_desired prometheus_service_desired assms
    by (simp add: prometheus_service_spec port grafana_prometheus_datasource_def podSelectorLabel_def)
qed

definition sample_grafana :: GrafanaInstance where
  "sample_grafana =
     \<lparr>cr_meta = sample_meta ''graf'' None [],
      cr_spec = \<lparr>gra_Version = '''', gra_Replicas = 1, gra_Persistence = None, gra_Ingress = None,
                 gra_Expose = None, gra_PrometheusRef = ''prom'', gra_LokiRef = ''''\<rparr>,
      cr_status = \<lparr>gras_Ready = False, gras_Phase = '''', gras_Replicas = 0, gras_Message = '''', gras_Conditions = []\<rparr>\<rparr>"

theorem grafana_datasources_name_existing_services_witness:
  "\<exists>ds svc (port :: 64 word).
     desired_object (grafana_ExtraResources sample_grafana ''graf'' ''team-a'' ''graf'') datasource_GVK (''graf'' @ ''-prometheus'') = Some ds \<and>
     desired_object (prometheus_ExtraResources (sample_prometheus [] '''') ''prom'' ''team-a'' ''prom'') service_GVK
       (prometheus_ServiceName ''prom'') = Some svc \<and>
     json_at (JObj (u_object ds)) [Key ''spec'', Key ''datasource'', Key ''url''] =
       Some (JStr (service_url (u_name svc) (u_namespace svc) (unat port)))"
proof -
  have ref: "gra_PrometheusRef (cr_spec sample_grafana) = om_Name (cr_meta (sample_prometheus [] ''''))"
    and name: "om_Name (cr_meta (sample_prometheus [] '''')) = ''prom''"
    by (simp_all add: sample_grafana_def)
  from grafana_datasources_name_existing_services [OF ref, of "''graf''" "''team-a''" "''graf''" "''prom''", unfolded name]
  show ?thesis by blast
qed

text \<open>Every dashboard of the six packages that have one is built by \<open>dashboard_object\<close>.\<close>

definition is_dashboard :: "string \<Rightarrow> string \<Rightarrow> unstructured \<Rightarrow> bool" where
  "is_dashboard ns dash d \<longleftrightarrow> (\<exists>name ls f i. d = dashboard_object name ns ls f i dash)"

lemma is_dashboard_object [simp]: "is_dashboard ns dash (dashboard_object name ns ls f i dash)"
  by (auto simp: is_dashboard_def)

lemma cnpg_dashboard:
  "x \<in> set (cnpg_ExtraResources dash c n ns ow) \<Longrightarrow> x_GVK x = dashboard_GVK \<Longrightarrow> x_Desired x = Some d \<Longrightarrow>
   is_dashboard ns dash d"
  by (cases "EnablePodMonitor (pg_Monitoring (cr_spec c))")
     (auto simp: wiring_simps cnpg_ExtraResources_def Let_def split: option.splits)

lemma mariadb_dashboard:
  "x \<in> set (mariadb_ExtraResources dash c n ns ow) \<Longrightarrow> x_GVK x = dashboard_GVK \<Longrightarrow> x_Desired x = Some d \<Longrightarrow>
   is_dashboard ns dash d"
  by (cases "EnablePodMonitor (mdb_Monitoring (cr_spec c))")
     (auto simp: wiring_simps mariadb_ExtraResources_def Let_def split: option.splits)

lemma psmdb_dashboard:
  "x \<in> set (psmdb_ExtraResources dash c n ns ow) \<Longrightarrow> x_GVK x = dashboard_GVK \<Longrightarrow> x_Desired x = Some d \<Longrightarrow>
   is_dashboard ns dash d"
  by (cases "EnablePodMonitor (mgo_Monitoring (cr_spec c))")
     (auto simp: wiring_simps psmdb_ExtraResources_def Let_def split: option.splits)

lemma valkey_dashboard:
  "x \<in> set (valkey_ExtraResources dash c n ns ow) \<Longrightarrow> x_GVK x = dashboard_GVK \<Longrightarrow> x_Desired x = Some d \<Longrightarrow>
   is_dashboard ns dash d"
  by (cases "EnablePodMonitor (vk_Monitoring (cr_spec c))")
     (auto simp: wiring_simps valkey_ExtraResources_def Let_def split: option.splits)

lemma rabbitmq_dashboard:
  "x \<in> set (rabbitmq_ExtraResources dash c n ns ow) \<Longrightarrow> x_GVK x = dashboard_GVK \<Longrightarrow> x_Desired x = Some d \<Longrightarrow>
   is_dashboard ns dash d"
  by (cases "EnablePodMonitor (rmq_Monitoring (cr_spec c))")
     (auto simp: wiring_simps rabbitmq_ExtraResources_def Let_def split: option.splits)

lemma strimzi_dashboard:
  "x \<in> set (strimzi_ExtraResources D dash c n ns ow) \<Longrightarrow> x_GVK x = dashboard_GVK \<Longrightarrow> x_Desired x = Some d \<Longrightarrow>
   is_dashboard ns dash d"
  by (cases "EnablePodMonitor (kfk_Monitoring (cr_spec c))")
     (auto simp: wiring_simps strimzi_ExtraResources_def Let_def split: option.splits)

text \<open>
  C39: every dashboard of the six kinds that have one selects the Grafanas of its own
  namespace and no others, and uses the datasource they are given.
\<close>

theorem dashboards_reach_the_grafana_of_their_namespace:
  assumes "x \<in> set (cnpg_ExtraResources dash pg n ns ow) \<union> set (mariadb_ExtraResources dash mdb n ns ow) \<union>
      set (psmdb_ExtraResources dash mgo n ns ow) \<union> set (valkey_ExtraResources dash vk n ns ow) \<union>
      set (rabbitmq_ExtraResources dash rmq n ns ow) \<union> set (strimzi_ExtraResources D dash kfk n ns ow)"
    and "x_GVK x = dashboard_GVK" and "x_Desired x = Some d"
  shows "\<exists>sel. json_at (JObj (u_object d)) [Key ''spec'', Key ''instanceSelector'', Key ''matchLabels''] = Some (JObj (strings sel)) \<and>
     (\<forall>g gn gns gow. selects sel (u_labels (grafana_BuildManifest g gn gns gow)) \<longleftrightarrow> gns = ns) \<and>
     json_at (JObj (u_object d)) [Key ''spec'', Key ''datasources'', Idx 0, Key ''datasourceName''] = Some (JStr grafana_DatasourceUID)"
proof -
  have "is_dashboard ns dash d"
    using assms cnpg_dashboard mariadb_dashboard psmdb_dashboard valkey_dashboard rabbitmq_dashboard
      strimzi_dashboard by (elim UnE) blast+
  then show ?thesis
    by (auto simp: is_dashboard_def dashboard_object_def dashboard_spec_def grafana_InstanceSelector_def strings_def
        grafana_ScopeLabel_def commonLabels_def intro!: exI [of _ "[(grafana_ScopeLabel, ns)]"])
qed

theorem dashboards_reach_the_grafana_of_their_namespace_witness:
  "\<exists>sel. json_at (JObj (u_object (dashboard_object ''db-dashboard'' ''team-a'' (commonLabels cnpg_FieldManager ''db'')
          ''CloudNativePG'' ''DS_PROMETHEUS'' ''{}''))) [Key ''spec'', Key ''instanceSelector'', Key ''matchLabels''] =
        Some (JObj (strings sel)) \<and>
      \<not> selects sel (u_labels (grafana_BuildManifest sample_grafana ''graf'' ''team-b'' ''graf''))"
proof -
  let ?d = "dashboard_object ''db-dashboard'' ''team-a'' (commonLabels cnpg_FieldManager ''db'') ''CloudNativePG'' ''DS_PROMETHEUS'' ''{}''"
  have "extra_resource dashboard_GVK ''db-dashboard'' (Some ?d) \<in> set (cnpg_ExtraResources ''{}'' pg_live ''db'' ''team-a'' ''db'')"
    by (simp add: cnpg_ExtraResources_def sample_pg_def Let_def)
  from dashboards_reach_the_grafana_of_their_namespace [OF UnI1 [OF UnI1 [OF UnI1 [OF UnI1 [OF UnI1 [OF this]]]]], of ?d]
  obtain sel where "json_at (JObj (u_object ?d)) [Key ''spec'', Key ''instanceSelector'', Key ''matchLabels''] = Some (JObj (strings sel))"
    and sel: "\<forall>g gn gns gow. selects sel (u_labels (grafana_BuildManifest g gn gns gow)) \<longleftrightarrow> gns = ''team-a''"
    by auto
  moreover have "\<not> selects sel (u_labels (grafana_BuildManifest sample_grafana ''graf'' ''team-b'' ''graf''))"
    unfolding sel [rule_format] by simp
  ultimately show ?thesis by blast
qed

subsection \<open>Kafka\<close>

text \<open>The node pool is wanted whatever the monitoring switch says.\<close>

lemma kafka_nodes_are_always_wanted:
  "let extras = strimzi_ExtraResources D dash c n ns ow in
   \<exists>pool. desired_object extras nodePool_GVK (n @ nodePoolSuffix) = Some pool \<and>
     \<not> pruned extras nodePool_GVK (n @ nodePoolSuffix) \<and>
     map_of (u_labels pool) clusterLabelKey = Some n \<and> u_namespace pool = ns \<and>
     json_at (JObj (u_object pool)) [Key ''spec'', Key ''replicas''] = Some (JInt (int64 (kfk_Replicas (cr_spec c)))) \<and>
     json_at (JObj (u_object pool)) [Key ''spec'', Key ''storage'', Key ''volumes'', Idx 0, Key ''deleteClaim''] = Some (JBool True) \<and>
     (EnablePodMonitor (kfk_Monitoring (cr_spec c)) =
        (\<exists>pm. desired_object extras podMonitor_GVK (n @ ''-podmonitor'') = Some pm \<and>
          json_at (JObj (u_object pm)) [Key ''spec'', Key ''selector'', Key ''matchLabels'', Key clusterLabelKey] = Some (JStr n)))"
  by (cases "EnablePodMonitor (kfk_Monitoring (cr_spec c))")
     (simp_all add: strimzi_ExtraResources_def strimzi_nodePool_def strimzi_podMonitor_def Let_def wiring_simps)

end
