(* ===== verification/Ownership.thy ===== *)
theory Ownership
  imports EngineProps Wiring
begin

section \<open>Who owns which object\<close>

text \<open>
  Every object the operator writes is named after a resource: the target bears the resource's
  name, an auxiliary object the name and a suffix. This theory lists kinds and suffixes for
  the ten kinds of resource, shows that the adapters keep to the list, decides which objects
  two resources can both lay claim to, and lifts that to whole runs of the engine.
\<close>

subsection \<open>The objects of a resource\<close>

text \<open>The objects a run of a resource may write: kind, namespace and name.\<close>

definition managed_objects :: "('s, 't) adapter \<Rightarrow> ('s, 't) cr \<Rightarrow> (gvk \<times> string \<times> string) set" where
  "managed_objects A c =
     (\<lambda>(g, k). (g, om_Namespace (cr_meta c), k)) `
       insert (a_GVK A, om_Name (cr_meta c)) (extra_id ` set (extras A c (om_Name (cr_meta c))))"

fun written_object :: "'c call \<Rightarrow> (gvk \<times> string \<times> string) option" where
  "written_object (Patch u fm force) = Some (object_key u)"
| "written_object (Delete g ns n) = Some (g, ns, n)"
| "written_object _ = None"

context adapter
begin

lemma run_writes:
  assumes f: "fetched r ns n w c" and run: "run (Reconcile D r ns n) w = (res, evs)" and A: "r_Adapter r = A"
    and ev: "(call, o') \<in> set evs" and k: "written_object call = Some k" "fst k \<noteq> podGVK"
  shows "k \<in> managed_objects A c"
  using k(1)
proof (cases call)
  case (Patch d fm force)
  note patch = run_patches [OF f run A ev [unfolded Patch]]
  have "object_id d \<in> insert (a_GVK A, om_Name (cr_meta c)) (extra_id ` set (extras A c (om_Name (cr_meta c))))"
    and "u_namespace d = om_Namespace (cr_meta c)"
    using normal_patch_identity [OF patch(2)] by simp_all
  moreover have "k = (\<lambda>(g, k). (g, om_Namespace (cr_meta c), k)) (object_id d)"
    using k(1) Patch calculation(2) by (simp add: object_key_def object_id_def)
  ultimately show ?thesis
    unfolding managed_objects_def by blast
next
  case (Delete g m n)
  then have "g \<noteq> podGVK" using k by auto
  with run_deletes [OF f run A ev [unfolded Delete]]
  have "m = om_Namespace (cr_meta c)" and
    "(g, n) \<in> insert (a_GVK A, om_Name (cr_meta c)) (extra_id ` set (owned_extras A c (om_Name (cr_meta c))))"
    by auto
  then show ?thesis
    using k(1) Delete by (auto simp: managed_objects_def owned_extras_def)
qed simp_all

end

subsection \<open>Kinds and suffixes\<close>

datatype paas_kind =
    PostgresKind | MariaDBKind | MongoDBKind | ValkeyKind | RabbitMQKind | KafkaKind
  | GrafanaKind | PrometheusKind | LokiKind | AlloyKind

fun kind_suffixes :: "paas_kind \<Rightarrow> (gvk \<times> string) list" where
  "kind_suffixes PostgresKind = [(cnpg_GVK, ''''), (dashboard_GVK, ''-dashboard'')]"
| "kind_suffixes MariaDBKind = [(mariadb_GVK, ''''), (dashboard_GVK, ''-dashboard'')]"
| "kind_suffixes MongoDBKind =
     [(psmdb_GVK, ''''), (podMonitor_GVK, ''-podmonitor''), (dashboard_GVK, ''-dashboard'')]"
| "kind_suffixes ValkeyKind =
     [(valkey_GVK, ''''), (service_GVK, ''-external''), (podMonitor_GVK, ''-podmonitor''),
      (dashboard_GVK, ''-dashboard'')]"
| "kind_suffixes RabbitMQKind =
     [(rabbitmq_GVK, ''''), (ingress_GVK, ''-rabbitmq-ingress''), (serviceMonitor_GVK, ''-servicemonitor''),
      (dashboard_GVK, ''-dashboard'')]"
| "kind_suffixes KafkaKind =
     [(strimzi_GVK, ''''), (nodePool_GVK, ''-dual-role''), (podMonitor_GVK, ''-podmonitor''),
      (dashboard_GVK, ''-dashboard'')]"
| "kind_suffixes GrafanaKind =
     [(grafana_GVK, ''''), (datasource_GVK, ''-prometheus''), (datasource_GVK, ''-loki'')]"
| "kind_suffixes PrometheusKind =
     [(prometheus_GVK, ''''), (service_GVK, ''-web''), (ingress_GVK, ''-prometheus-ingress''),
      (serviceAccount_GVK, ''''), (role_GVK, ''''), (roleBinding_GVK, '''')]"
| "kind_suffixes LokiKind =
     [(loki_GVK, ''''), (statefulSetGVK, ''-ingester''), (statefulSetGVK, ''-compactor''),
      (statefulSetGVK, ''-index-gateway'')]"
| "kind_suffixes AlloyKind = [(alloy_GVK, '''')]"

definition kind_ids :: "paas_kind \<Rightarrow> string \<Rightarrow> (gvk \<times> string) set" where
  "kind_ids K n = (\<lambda>(g, s). (g, n @ s)) ` set (kind_suffixes K)"

text \<open>
  An adapter keeps to a kind's list when that is what every resource of it may write, and when
  StatefulSets are the only objects it leaves to a vendor operator.
\<close>

definition keeps_to :: "('s, 't) adapter \<Rightarrow> paas_kind \<Rightarrow> bool" where
  "keeps_to A K \<longleftrightarrow>
     (\<forall>c. managed_objects A c = (\<lambda>(g, k). (g, om_Namespace (cr_meta c), k)) ` kind_ids K (om_Name (cr_meta c))) \<and>
     (\<forall>c n. \<forall>x \<in> set (extras A c n). x_PatchOnly x \<longleftrightarrow> x_GVK x = statefulSetGVK)"

lemma keeps_toI:
  assumes "\<And>c n. insert (a_GVK A, n) (extra_id ` set (extras A c n)) = kind_ids K n"
    and "\<And>c n. \<forall>x \<in> set (extras A c n). x_PatchOnly x \<longleftrightarrow> x_GVK x = statefulSetGVK"
  shows "keeps_to A K"
  using assms(2) by (simp add: keeps_to_def managed_objects_def assms(1))

context adapter
begin

lemma managed_id:
  assumes "keeps_to A K"
  shows "(a_GVK A, om_Name (cr_meta c)) \<in> kind_ids K (om_Name (cr_meta c))"
    and "x \<in> set (extras A c (om_Name (cr_meta c))) \<Longrightarrow> extra_id x \<in> kind_ids K (om_Name (cr_meta c))"
proof -
  let ?tag = "\<lambda>(g :: gvk, k :: string). (g, om_Namespace (cr_meta c), k)"
  let ?S = "insert (a_GVK A, om_Name (cr_meta c)) (extra_id ` set (extras A c (om_Name (cr_meta c))))"
  have "inj ?tag" by (auto simp: inj_on_def)
  moreover have "?tag ` ?S = ?tag ` kind_ids K (om_Name (cr_meta c))"
    using assms unfolding keeps_to_def managed_objects_def by blast
  ultimately have eq: "?S = kind_ids K (om_Name (cr_meta c))" by (rule inj_image_eq_iff [THEN iffD1])
  then show "(a_GVK A, om_Name (cr_meta c)) \<in> kind_ids K (om_Name (cr_meta c))" by blast
  show "extra_id x \<in> kind_ids K (om_Name (cr_meta c))" if "x \<in> set (extras A c (om_Name (cr_meta c)))"
    using that eq by blast
qed

end

lemma adapters_keep_to_names:
  "keeps_to (cnpg_Adapter D dash) PostgresKind"
  "keeps_to (mariadb_Adapter D dash) MariaDBKind"
  "keeps_to (psmdb_Adapter D dash) MongoDBKind"
  "keeps_to (valkey_Adapter D dash) ValkeyKind"
  "keeps_to (rabbitmq_Adapter D dash) RabbitMQKind"
  "keeps_to (strimzi_Adapter D dash) KafkaKind"
  "keeps_to (grafana_Adapter D) GrafanaKind"
  "keeps_to (prometheus_Adapter D) PrometheusKind"
  "keeps_to (loki_Adapter D) LokiKind"
  "keeps_to (alloy_Adapter D) AlloyKind"
  by (rule keeps_toI;
      auto simp: kind_ids_def extras_def extra_id_def Let_def image_def
        cnpg_ExtraResources_def mariadb_ExtraResources_def psmdb_ExtraResources_def valkey_ExtraResources_def
        rabbitmq_ExtraResources_def strimzi_ExtraResources_def nodePoolSuffix_def grafana_ExtraResources_def
        prometheus_ExtraResources_def scrapeRBACExtras_def prometheus_ServiceName_def prometheus_TargetName_def
        loki_ExtraResources_def loki_component_patch_def pvcBackedComponents_def statefulSetGVK_def
        dashboard_GVK_def podMonitor_GVK_def serviceMonitor_GVK_def service_GVK_def ingress_GVK_def nodePool_GVK_def
        datasource_GVK_def grafana_Group_def grafana_Version_def
        serviceAccount_GVK_def role_GVK_def roleBinding_GVK_def rbacGroup_def
      split: option.split)+

text \<open>
  C33: the objects a resource may write are, for each kind and whatever the spec, exactly the
  target and a fixed list of kinds and name suffixes, and the only ones left to a vendor
  operator are StatefulSets.
\<close>

theorem every_adapter_keeps_to_its_names:
  "keeps_to (cnpg_Adapter D dash) PostgresKind \<and> keeps_to (mariadb_Adapter D dash) MariaDBKind \<and>
   keeps_to (psmdb_Adapter D dash) MongoDBKind \<and> keeps_to (valkey_Adapter D dash) ValkeyKind \<and>
   keeps_to (rabbitmq_Adapter D dash) RabbitMQKind \<and> keeps_to (strimzi_Adapter D dash) KafkaKind \<and>
   keeps_to (grafana_Adapter D) GrafanaKind \<and> keeps_to (prometheus_Adapter D) PrometheusKind \<and>
   keeps_to (loki_Adapter D) LokiKind \<and> keeps_to (alloy_Adapter D) AlloyKind"
  by (simp add: adapters_keep_to_names)

subsection \<open>Which resources can clash\<close>

text \<open>
  Names of equal kind under different suffixes never agree, whatever the two resources are
  called, because no suffix of a kind ends another; the kinds two different integrations both
  write under the same suffix are the dashboards and the PodMonitors.
\<close>

definition shared_GVKs :: "gvk set" where
  "shared_GVKs = {dashboard_GVK, podMonitor_GVK}"

definition ends_with :: "string \<Rightarrow> string \<Rightarrow> bool" where
  "ends_with s t \<longleftrightarrow> take (length s) (rev t) = rev s"

lemma suffix_ends_with: "suffix s t \<Longrightarrow> ends_with s t"
  by (auto simp: ends_with_def suffix_def)

definition all_kinds :: "paas_kind list" where
  "all_kinds = [PostgresKind, MariaDBKind, MongoDBKind, ValkeyKind, RabbitMQKind, KafkaKind,
     GrafanaKind, PrometheusKind, LokiKind, AlloyKind]"

definition separate :: "paas_kind \<Rightarrow> gvk \<times> string \<Rightarrow> paas_kind \<Rightarrow> gvk \<times> string \<Rightarrow> bool" where
  "separate K p K' q \<longleftrightarrow>
     fst p = fst q \<longrightarrow>
       snd p = snd q \<and> (K = K' \<or> fst p = dashboard_GVK \<or> fst p = podMonitor_GVK) \<or>
       \<not> ends_with (snd p) (snd q) \<and> \<not> ends_with (snd q) (snd p)"

lemma all_separate:
  "list_all (\<lambda>K. list_all (\<lambda>K'. list_all (\<lambda>p. list_all (separate K p K') (kind_suffixes K')) (kind_suffixes K))
     all_kinds) all_kinds"
  by code_simp

lemma suffixes_separate:
  assumes "(g, s) \<in> set (kind_suffixes K)" and "(g, s') \<in> set (kind_suffixes K')"
  shows "s = s' \<and> (K = K' \<or> g \<in> shared_GVKs) \<or> \<not> suffix s s' \<and> \<not> suffix s' s"
proof -
  have "K \<in> set all_kinds" and "K' \<in> set all_kinds"
    by (cases K; simp add: all_kinds_def) (cases K'; simp add: all_kinds_def)
  with all_separate assms have "separate K (g, s) K' (g, s')"
    unfolding list_all_iff by blast
  then show ?thesis
    by (auto simp: separate_def shared_GVKs_def dest: suffix_ends_with)
qed

lemma kind_ids_clash:
  assumes "(g, k) \<in> kind_ids K n" and "(g, k) \<in> kind_ids K' n'"
  shows "n = n' \<and> (K = K' \<or> g \<in> shared_GVKs)"
proof -
  from assms obtain s s' where "(g, s) \<in> set (kind_suffixes K)" "(g, s') \<in> set (kind_suffixes K')"
    and k: "k = n @ s" "k = n' @ s'" by (auto simp: kind_ids_def)
  then have "s = s' \<and> (K = K' \<or> g \<in> shared_GVKs) \<or> \<not> suffix s s' \<and> \<not> suffix s' s"
    by (intro suffixes_separate)
  then show ?thesis
    using k append_suffix_neq [of s s' n n'] by auto
qed

text \<open>
  C7: two resources only ever write a common object if they have the same name and namespace,
  and then only if they are of the same kind or the object is a GrafanaDashboard or a
  PodMonitor: an object a run of one resource patches or deletes (pods aside) is never among
  those another resource manages otherwise.
\<close>

theorem runs_stay_apart:
  assumes "adapter A ready_of" and "keeps_to A K" and "keeps_to B K'"
    and "r_Adapter r = A" and "fetched r ns n w c" and "run (Reconcile D r ns n) w = (res, evs)"
    and "(call, o') \<in> set evs" and "written_object call = Some k" and "fst k \<noteq> podGVK"
    and "k \<in> managed_objects B d"
  shows "om_Namespace (cr_meta c) = om_Namespace (cr_meta d) \<and> om_Name (cr_meta c) = om_Name (cr_meta d) \<and>
         (K = K' \<or> fst k \<in> shared_GVKs)"
proof -
  have "k \<in> managed_objects A c"
    by (rule adapter.run_writes [OF assms(1,5,6,4,7,8,9)])
  then obtain g x where k: "k = (g, om_Namespace (cr_meta c), x)" "(g, x) \<in> kind_ids K (om_Name (cr_meta c))"
    using assms(2) by (auto simp: keeps_to_def)
  moreover from assms(3,10) k(1) have "om_Namespace (cr_meta c) = om_Namespace (cr_meta d)"
    and "(g, x) \<in> kind_ids K' (om_Name (cr_meta d))"
    by (auto simp: keeps_to_def)
  ultimately show ?thesis
    using kind_ids_clash [of g x K _ K'] by auto
qed

subsection \<open>A sample of a clash\<close>

text \<open>A ValkeyCluster that bears the name of the sample PostgresCluster, and is not monitored.\<close>

definition sample_valkey :: ValkeyCluster where
  "sample_valkey =
     \<lparr>cr_meta = sample_meta ''db'' None [FinalizerName],
      cr_spec = \<lparr>vk_Shards = 1, vk_Replicas = 0, vk_Image = '''',
                 vk_Persistence = \<lparr>per_Size = ''1Gi'', per_StorageClass = ''''\<rparr>,
                 vk_Resources = \<lparr>rr_Limits = [], rr_Requests = []\<rparr>, vk_Expose = None,
                 vk_Monitoring = \<lparr>EnablePodMonitor = False\<rparr>\<rparr>,
      cr_status = \<lparr>vks_Ready = False, vks_Phase = '''', vks_Shards = 0, vks_ReadyShards = 0,
                   vks_Message = '''', vks_Conditions = []\<rparr>\<rparr>"

definition valkey_reconciler ::
    "(ValkeyClusterSpec, ValkeyClusterStatus, (ValkeyClusterSpec, ValkeyClusterStatus) cluster) reconciler" where
  "valkey_reconciler = memory_reconciler (valkey_Adapter doc_deps ''{}'') ''valkeycluster''"

lemma valkey_reconciler_simps [simp]:
  "r_Client valkey_reconciler = memory_client" "r_Adapter valkey_reconciler = valkey_Adapter doc_deps ''{}''"
  by (simp_all add: valkey_reconciler_def)

lemma sample_valkey_simps [simp]:
  "cr_meta sample_valkey = sample_meta ''db'' None [FinalizerName]"
  "vk_Monitoring (cr_spec sample_valkey) = \<lparr>EnablePodMonitor = False\<rparr>" "vk_Expose (cr_spec sample_valkey) = None"
  by (simp_all add: sample_valkey_def)

lemma fetched_valkey [simp]: "fetched valkey_reconciler ''team-a'' ''db'' (cluster_of sample_valkey) sample_valkey"
  by (simp add: valkey_reconciler_def)

lemma valkey_frame [simp]:
  "cr_meta (fst (valkey_ApplyStatus D c t s)) = cr_meta c"
  by (simp add: valkey_ApplyStatus_def Let_def)

lemma valkey_run_succeeds:
  "\<exists>x. fst (run (Reconcile doc_deps valkey_reconciler ''team-a'' ''db'') (cluster_of sample_valkey)) = Inr x"
  by (simp add: reconcile_simps memory_simps valkey_TargetName_def valkey_ExtraResources_def adapter_defs)

theorem runs_stay_apart_witness:
  "om_Namespace (cr_meta pg_live) = om_Namespace (cr_meta sample_valkey) \<and>
   om_Name (cr_meta pg_live) = om_Name (cr_meta sample_valkey) \<and>
   (PostgresKind = ValkeyKind \<or> dashboard_GVK \<in> shared_GVKs)"
proof -
  let ?board = "dashboard_object ''db-dashboard'' ''team-a'' (commonLabels cnpg_FieldManager ''db'') ''CloudNativePG'' ''DS_PROMETHEUS'' ''{}''"
  have keep: "keeps_to sample_cnpg PostgresKind" "keeps_to (valkey_Adapter doc_deps ''{}'') ValkeyKind"
    by (simp_all add: adapters_keep_to_names)
  have patch: "(Patch ?board cnpg_FieldManager True, None) \<in> set (snd (pg_run None [FinalizerName] True))"
    using pg_live_run by auto
  have mine: "(dashboard_GVK, ''team-a'', ''db-dashboard'') \<in> managed_objects (valkey_Adapter doc_deps ''{}'') sample_valkey"
    using keep(2) by (auto simp: keeps_to_def kind_ids_def)
  from runs_stay_apart [OF sample_contract keep _ fetched_pg pg_run_pair patch _ _ mine] show ?thesis
    by (auto simp: object_key_def adapter_defs podGVK_def)
qed

text \<open>
  The shared kinds are not only shared by name: what one resource wants, another of the same
  name and namespace but of another kind prunes.
\<close>

lemma run_prunes:
  assumes "adapter A ready_of" and "r_Adapter r = A" and "finalizers_ok D" and "fetched r ns n w c"
    and "om_DeletionTimestamp (cr_meta c) = None" and "FinalizerName \<in> set (om_Finalizers (cr_meta c))"
    and "a_IngressClass A = None" and "run (Reconcile D r ns n) w = (Inr x, evs)"
    and "pruned (extras A c (om_Name (cr_meta c))) g k"
  shows "Delete g (om_Namespace (cr_meta c)) k \<in> fst ` set evs"
proof -
  have fin: "containsFinalizer D (om_Finalizers (cr_meta c)) FinalizerName"
    using assms(3,6) by (simp add: finalizers_ok_def)
  from adapter.normal_run [OF assms(1,4,5) fin assms(8,2) adapter.reconcileNormal_settles [OF assms(1) fin assms(2)]]
  obtain evs' c1 where evs: "evs = (GetCR ns n, None) # evs'" and c1: "class_defaulted A c c1"
    and settled: "all_settled A c1 (om_Name (cr_meta c)) evs'" by auto
  have "c1 = c" using c1 assms(7) by (simp add: class_defaulted_def)
  with settled assms(9) show ?thesis
    by (force simp: pruned_def all_settled_def settled_def extra_id_def evs)
qed

text \<open>
  C22: what is shared is fought over. A successful run of an unmonitored ValkeyCluster deletes
  the dashboard that a monitored PostgresCluster of the same name and namespace wants.
\<close>

theorem same_name_of_another_kind_loses_its_dashboard:
  assumes "om_Name (cr_meta v) = om_Name (cr_meta p)" and "om_Namespace (cr_meta v) = om_Namespace (cr_meta p)"
    and "EnablePodMonitor (pg_Monitoring (cr_spec p))" and "\<not> EnablePodMonitor (vk_Monitoring (cr_spec v))"
    and "finalizers_ok D" and "r_Adapter r = valkey_Adapter D dash" and "fetched r ns n w v"
    and "om_DeletionTimestamp (cr_meta v) = None" and "FinalizerName \<in> set (om_Finalizers (cr_meta v))"
    and "run (Reconcile D r ns n) w = (Inr x, evs)"
  shows "\<exists>board. desired_object (extras (cnpg_Adapter D dash) p (om_Name (cr_meta p)))
             dashboard_GVK (om_Name (cr_meta p) @ ''-dashboard'') = Some board \<and>
           Delete (u_gvk board) (u_namespace board) (u_name board) \<in> fst ` set evs"
proof -
  let ?k = "om_Name (cr_meta v) @ ''-dashboard''"
  have "pruned (extras (valkey_Adapter D dash) v (om_Name (cr_meta v))) dashboard_GVK ?k"
    using assms(4) by (auto simp: pruned_def extras_def valkey_ExtraResources_def Let_def extra_id_def)
  from run_prunes [OF valkey.adapter_axioms assms(6,5,7-9) _ assms(10) this]
  have "Delete dashboard_GVK (om_Namespace (cr_meta v)) ?k \<in> fst ` set evs" by simp
  with assms(1-3) show ?thesis
    by (simp add: extras_def cnpg_ExtraResources_def Let_def desired_object_def extra_id_def)
qed

theorem same_name_of_another_kind_loses_its_dashboard_witness:
  "\<exists>board. desired_object (extras sample_cnpg pg_live ''db'') dashboard_GVK (''db'' @ ''-dashboard'') = Some board \<and>
     Delete (u_gvk board) (u_namespace board) (u_name board)
       \<in> fst ` set (snd (run (Reconcile doc_deps valkey_reconciler ''team-a'' ''db'') (cluster_of sample_valkey)))"
proof -
  from valkey_run_succeeds obtain x where
    "run (Reconcile doc_deps valkey_reconciler ''team-a'' ''db'') (cluster_of sample_valkey) =
     (Inr x, snd (run (Reconcile doc_deps valkey_reconciler ''team-a'' ''db'') (cluster_of sample_valkey)))"
    by (metis prod.collapse)
  from same_name_of_another_kind_loses_its_dashboard [OF _ _ _ _ finalizers_ok_doc _ fetched_valkey _ _ this, of pg_live "''{}''"]
  show ?thesis by (simp add: sample_pg_def)
qed

end
