(* ===== verification/Controllers.thy ===== *)
theory Controllers
  imports Ownership AlloyProps
begin

section \<open>The controllers and what they are allowed to do\<close>

text \<open>
  \<open>internal/controller\<close>: one file per custom resource, which binds the engine to an adapter,
  names the controller, and declares in \<open>+kubebuilder:rbac\<close> markers the permissions the
  operator's role is generated from. A permission is a list of API groups, of resources (a
  subresource as \<open>resource/subresource\<close>) and of verbs.
\<close>

type_synonym permission = "string list \<times> string list \<times> string list"

abbreviation all_verbs :: "string list" where
  "all_verbs \<equiv> [''get'', ''list'', ''watch'', ''create'', ''update'', ''patch'', ''delete'']"

subsection \<open>PostgresCluster\<close>

definition PostgresClusterControllerName :: string where
  "PostgresClusterControllerName = ''postgrescluster''"

definition NewPostgresClusterReconciler ::
    "deps \<Rightarrow> string \<Rightarrow> ((PostgresClusterSpec, PostgresClusterStatus) cr, 'w) client \<Rightarrow> (PostgresClusterSpec, PostgresClusterStatus, 'w) reconciler" where
  "NewPostgresClusterReconciler D dashboardJSON c =
     \<lparr>r_Client = c, r_Adapter = cnpg_Adapter D dashboardJSON, r_Name = PostgresClusterControllerName\<rparr>"

definition PostgresCluster_rbac :: "permission list" where
  "PostgresCluster_rbac =
     [([''paas.cncp.nl''], [''postgresclusters''], all_verbs),
      ([''paas.cncp.nl''], [''postgresclusters/status''], [''get'', ''update'', ''patch'']),
      ([''paas.cncp.nl''], [''postgresclusters/finalizers''], [''update'']),
      ([''postgresql.cnpg.io''], [''clusters''], all_verbs),
      ([''grafana.integreatly.org''], [''grafanadashboards''], all_verbs),
      ([''events.k8s.io''], [''events''], [''create'', ''patch''])]"

subsection \<open>MariaDBCluster\<close>

definition MariaDBClusterControllerName :: string where
  "MariaDBClusterControllerName = ''mariadbcluster''"

definition NewMariaDBClusterReconciler ::
    "deps \<Rightarrow> string \<Rightarrow> ((MariaDBClusterSpec, MariaDBClusterStatus) cr, 'w) client \<Rightarrow> (MariaDBClusterSpec, MariaDBClusterStatus, 'w) reconciler" where
  "NewMariaDBClusterReconciler D dashboardJSON c =
     \<lparr>r_Client = c, r_Adapter = mariadb_Adapter D dashboardJSON, r_Name = MariaDBClusterControllerName\<rparr>"

definition MariaDBCluster_rbac :: "permission list" where
  "MariaDBCluster_rbac =
     [([''paas.cncp.nl''], [''mariadbclusters''], all_verbs),
      ([''paas.cncp.nl''], [''mariadbclusters/status''], [''get'', ''update'', ''patch'']),
      ([''paas.cncp.nl''], [''mariadbclusters/finalizers''], [''update'']),
      ([''k8s.mariadb.com''], [''mariadbs''], all_verbs),
      ([''grafana.integreatly.org''], [''grafanadashboards''], all_verbs),
      ([''events.k8s.io''], [''events''], [''create'', ''patch''])]"

subsection \<open>MongoDBCluster\<close>

definition MongoDBClusterControllerName :: string where
  "MongoDBClusterControllerName = ''mongodbcluster''"

definition NewMongoDBClusterReconciler ::
    "deps \<Rightarrow> string \<Rightarrow> ((MongoDBClusterSpec, MongoDBClusterStatus) cr, 'w) client \<Rightarrow> (MongoDBClusterSpec, MongoDBClusterStatus, 'w) reconciler" where
  "NewMongoDBClusterReconciler D dashboardJSON c =
     \<lparr>r_Client = c, r_Adapter = psmdb_Adapter D dashboardJSON, r_Name = MongoDBClusterControllerName\<rparr>"

definition MongoDBCluster_rbac :: "permission list" where
  "MongoDBCluster_rbac =
     [([''paas.cncp.nl''], [''mongodbclusters''], all_verbs),
      ([''paas.cncp.nl''], [''mongodbclusters/status''], [''get'', ''update'', ''patch'']),
      ([''paas.cncp.nl''], [''mongodbclusters/finalizers''], [''update'']),
      ([''psmdb.percona.com''], [''perconaservermongodbs''], all_verbs),
      ([''monitoring.coreos.com''], [''podmonitors''], all_verbs),
      ([''grafana.integreatly.org''], [''grafanadashboards''], all_verbs),
      ([''events.k8s.io''], [''events''], [''create'', ''patch''])]"

subsection \<open>ValkeyCluster\<close>

definition ValkeyClusterControllerName :: string where
  "ValkeyClusterControllerName = ''valkeycluster''"

definition NewValkeyClusterReconciler ::
    "deps \<Rightarrow> string \<Rightarrow> ((ValkeyClusterSpec, ValkeyClusterStatus) cr, 'w) client \<Rightarrow> (ValkeyClusterSpec, ValkeyClusterStatus, 'w) reconciler" where
  "NewValkeyClusterReconciler D dashboardJSON c =
     \<lparr>r_Client = c, r_Adapter = valkey_Adapter D dashboardJSON, r_Name = ValkeyClusterControllerName\<rparr>"

definition ValkeyCluster_rbac :: "permission list" where
  "ValkeyCluster_rbac =
     [([''paas.cncp.nl''], [''valkeyclusters''], all_verbs),
      ([''paas.cncp.nl''], [''valkeyclusters/status''], [''get'', ''update'', ''patch'']),
      ([''paas.cncp.nl''], [''valkeyclusters/finalizers''], [''update'']),
      ([''valkey.io''], [''valkeyclusters''], all_verbs),
      ([''''], [''services''], all_verbs),
      ([''monitoring.coreos.com''], [''podmonitors''], all_verbs),
      ([''grafana.integreatly.org''], [''grafanadashboards''], all_verbs),
      ([''events.k8s.io''], [''events''], [''create'', ''patch''])]"

subsection \<open>RabbitMQCluster\<close>

definition RabbitMQClusterControllerName :: string where
  "RabbitMQClusterControllerName = ''rabbitmqcluster''"

definition NewRabbitMQClusterReconciler ::
    "deps \<Rightarrow> string \<Rightarrow> ((RabbitMQClusterSpec, RabbitMQClusterStatus) cr, 'w) client \<Rightarrow> (RabbitMQClusterSpec, RabbitMQClusterStatus, 'w) reconciler" where
  "NewRabbitMQClusterReconciler D dashboardJSON c =
     \<lparr>r_Client = c, r_Adapter = rabbitmq_Adapter D dashboardJSON, r_Name = RabbitMQClusterControllerName\<rparr>"

definition RabbitMQCluster_rbac :: "permission list" where
  "RabbitMQCluster_rbac =
     [([''paas.cncp.nl''], [''rabbitmqclusters''], all_verbs),
      ([''paas.cncp.nl''], [''rabbitmqclusters/status''], [''get'', ''update'', ''patch'']),
      ([''paas.cncp.nl''], [''rabbitmqclusters/finalizers''], [''update'']),
      ([''rabbitmq.com''], [''rabbitmqclusters''], all_verbs),
      ([''networking.k8s.io''], [''ingresses''], all_verbs),
      ([''monitoring.coreos.com''], [''servicemonitors''], all_verbs),
      ([''grafana.integreatly.org''], [''grafanadashboards''], all_verbs),
      ([''events.k8s.io''], [''events''], [''create'', ''patch''])]"

subsection \<open>KafkaCluster\<close>

definition KafkaClusterControllerName :: string where
  "KafkaClusterControllerName = ''kafkacluster''"

definition NewKafkaClusterReconciler ::
    "deps \<Rightarrow> string \<Rightarrow> ((KafkaClusterSpec, KafkaClusterStatus) cr, 'w) client \<Rightarrow> (KafkaClusterSpec, KafkaClusterStatus, 'w) reconciler" where
  "NewKafkaClusterReconciler D dashboardJSON c =
     \<lparr>r_Client = c, r_Adapter = strimzi_Adapter D dashboardJSON, r_Name = KafkaClusterControllerName\<rparr>"

definition KafkaCluster_rbac :: "permission list" where
  "KafkaCluster_rbac =
     [([''paas.cncp.nl''], [''kafkaclusters''], all_verbs),
      ([''paas.cncp.nl''], [''kafkaclusters/status''], [''get'', ''update'', ''patch'']),
      ([''paas.cncp.nl''], [''kafkaclusters/finalizers''], [''update'']),
      ([''kafka.strimzi.io''], [''kafkas''], all_verbs),
      ([''kafka.strimzi.io''], [''kafkanodepools''], all_verbs),
      ([''monitoring.coreos.com''], [''podmonitors''], all_verbs),
      ([''grafana.integreatly.org''], [''grafanadashboards''], all_verbs),
      ([''events.k8s.io''], [''events''], [''create'', ''patch''])]"

subsection \<open>GrafanaInstance\<close>

definition GrafanaInstanceControllerName :: string where
  "GrafanaInstanceControllerName = ''grafanainstance''"

definition NewGrafanaInstanceReconciler ::
    "deps \<Rightarrow> ((GrafanaInstanceSpec, GrafanaInstanceStatus) cr, 'w) client \<Rightarrow> (GrafanaInstanceSpec, GrafanaInstanceStatus, 'w) reconciler" where
  "NewGrafanaInstanceReconciler D c =
     \<lparr>r_Client = c, r_Adapter = grafana_Adapter D, r_Name = GrafanaInstanceControllerName\<rparr>"

definition GrafanaInstance_rbac :: "permission list" where
  "GrafanaInstance_rbac =
     [([''paas.cncp.nl''], [''grafanainstances''], all_verbs),
      ([''paas.cncp.nl''], [''grafanainstances/status''], [''get'', ''update'', ''patch'']),
      ([''paas.cncp.nl''], [''grafanainstances/finalizers''], [''update'']),
      ([''grafana.integreatly.org''], [''grafanas''], all_verbs),
      ([''grafana.integreatly.org''], [''grafanadatasources''], all_verbs),
      ([''events.k8s.io''], [''events''], [''create'', ''patch''])]"

subsection \<open>PrometheusInstance\<close>

definition PrometheusInstanceControllerName :: string where
  "PrometheusInstanceControllerName = ''prometheusinstance''"

definition NewPrometheusInstanceReconciler ::
    "deps \<Rightarrow> ((PrometheusInstanceSpec, PrometheusInstanceStatus) cr, 'w) client \<Rightarrow> (PrometheusInstanceSpec, PrometheusInstanceStatus, 'w) reconciler" where
  "NewPrometheusInstanceReconciler D c =
     \<lparr>r_Client = c, r_Adapter = prometheus_Adapter D, r_Name = PrometheusInstanceControllerName\<rparr>"

definition PrometheusInstance_rbac :: "permission list" where
  "PrometheusInstance_rbac =
     [([''paas.cncp.nl''], [''prometheusinstances''], all_verbs),
      ([''paas.cncp.nl''], [''prometheusinstances/status''], [''get'', ''update'', ''patch'']),
      ([''paas.cncp.nl''], [''prometheusinstances/finalizers''], [''update'']),
      ([''monitoring.coreos.com''], [''prometheuses''], all_verbs),
      ([''''], [''services''], all_verbs),
      ([''''], [''serviceaccounts''], all_verbs),
      ([''''], [''pods'', ''endpoints''], [''get'', ''list'', ''watch'']),
      ([''rbac.authorization.k8s.io''], [''roles'', ''rolebindings''], all_verbs),
      ([''networking.k8s.io''], [''ingresses''], all_verbs),
      ([''events.k8s.io''], [''events''], [''create'', ''patch''])]"

subsection \<open>LokiInstance\<close>

definition LokiInstanceControllerName :: string where
  "LokiInstanceControllerName = ''lokiinstance''"

definition NewLokiInstanceReconciler ::
    "deps \<Rightarrow> ((LokiInstanceSpec, LokiInstanceStatus) cr, 'w) client \<Rightarrow> (LokiInstanceSpec, LokiInstanceStatus, 'w) reconciler" where
  "NewLokiInstanceReconciler D c =
     \<lparr>r_Client = c, r_Adapter = loki_Adapter D, r_Name = LokiInstanceControllerName\<rparr>"

definition LokiInstance_rbac :: "permission list" where
  "LokiInstance_rbac =
     [([''paas.cncp.nl''], [''lokiinstances''], all_verbs),
      ([''paas.cncp.nl''], [''lokiinstances/status''], [''get'', ''update'', ''patch'']),
      ([''paas.cncp.nl''], [''lokiinstances/finalizers''], [''update'']),
      ([''loki.grafana.com''], [''lokistacks''], all_verbs),
      ([''apps''], [''statefulsets''], [''get'', ''list'', ''watch'', ''patch'']),
      ([''events.k8s.io''], [''events''], [''create'', ''patch''])]"

subsection \<open>AlloyInstance\<close>

definition AlloyInstanceControllerName :: string where
  "AlloyInstanceControllerName = ''alloyinstance''"

definition NewAlloyInstanceReconciler ::
    "deps \<Rightarrow> ((AlloyInstanceSpec, AlloyInstanceStatus) cr, 'w) client \<Rightarrow> (AlloyInstanceSpec, AlloyInstanceStatus, 'w) reconciler" where
  "NewAlloyInstanceReconciler D c =
     \<lparr>r_Client = c, r_Adapter = alloy_Adapter D, r_Name = AlloyInstanceControllerName\<rparr>"

definition AlloyInstance_rbac :: "permission list" where
  "AlloyInstance_rbac =
     [([''paas.cncp.nl''], [''alloyinstances''], all_verbs),
      ([''paas.cncp.nl''], [''alloyinstances/status''], [''get'', ''update'', ''patch'']),
      ([''paas.cncp.nl''], [''alloyinstances/finalizers''], [''update'']),
      ([''collectors.grafana.com''], [''alloys''], all_verbs),
      ([''events.k8s.io''], [''events''], [''create'', ''patch''])]"

subsection \<open>All of them\<close>

fun controller_name :: "paas_kind \<Rightarrow> string" where
  "controller_name PostgresKind = PostgresClusterControllerName"
| "controller_name MariaDBKind = MariaDBClusterControllerName"
| "controller_name MongoDBKind = MongoDBClusterControllerName"
| "controller_name ValkeyKind = ValkeyClusterControllerName"
| "controller_name RabbitMQKind = RabbitMQClusterControllerName"
| "controller_name KafkaKind = KafkaClusterControllerName"
| "controller_name GrafanaKind = GrafanaInstanceControllerName"
| "controller_name PrometheusKind = PrometheusInstanceControllerName"
| "controller_name LokiKind = LokiInstanceControllerName"
| "controller_name AlloyKind = AlloyInstanceControllerName"

fun controller_rbac :: "paas_kind \<Rightarrow> permission list" where
  "controller_rbac PostgresKind = PostgresCluster_rbac"
| "controller_rbac MariaDBKind = MariaDBCluster_rbac"
| "controller_rbac MongoDBKind = MongoDBCluster_rbac"
| "controller_rbac ValkeyKind = ValkeyCluster_rbac"
| "controller_rbac RabbitMQKind = RabbitMQCluster_rbac"
| "controller_rbac KafkaKind = KafkaCluster_rbac"
| "controller_rbac GrafanaKind = GrafanaInstance_rbac"
| "controller_rbac PrometheusKind = PrometheusInstance_rbac"
| "controller_rbac LokiKind = LokiInstance_rbac"
| "controller_rbac AlloyKind = AlloyInstance_rbac"

text \<open>The role of the manager: the union of the markers of all controllers.\<close>

definition manager_role :: "permission list" where
  "manager_role = concat (map controller_rbac all_kinds)"

end
