(* ===== verification/FirstUpdate.thy ===== *)
theory FirstUpdate
  imports SpecCodecs Controllers
begin

section \<open>What a typed update does to a spec\<close>

text \<open>
  The finalizer is added with a typed update: the engine sends the Go struct it decoded, and the
  API server defaults what it receives. Whatever was zero is omitted on the way, so a field that
  was explicitly set to its zero comes back as its default. For each of the ten kinds: which
  specs an update leaves alone, and what the first run of the kind's own reconciler makes of the
  others.
\<close>

subsection \<open>One update\<close>

definition updates_as ::
    "('s \<Rightarrow> doc) \<Rightarrow> (doc \<Rightarrow> doc) \<Rightarrow> (doc \<Rightarrow> 's) \<Rightarrow> ('s \<Rightarrow> 's) \<Rightarrow> ('s \<Rightarrow> bool) \<Rightarrow> ('s \<Rightarrow> bool) \<Rightarrow> bool" where
  "updates_as enc dflt dec filled admits kept \<longleftrightarrow>
     (\<forall>s. dec (enc s) = s \<and> dec (dflt (enc s)) = filled s \<and> dec (dflt (enc (filled s))) = filled s \<and>
          (admits s \<longrightarrow> (filled s = s \<longleftrightarrow> kept s)))"

context wire
begin

lemma updates_as_I:
  assumes "\<And>s. admits s \<Longrightarrow> filled s = s \<longleftrightarrow> kept s"
  shows "updates_as encode dflt decode filled admits kept"
  using assms by (simp add: updates_as_def roundtrip update filled_idem)

end

lemma at_least_one: "1 \<le> sint (i :: 32 word) \<Longrightarrow> i \<noteq> 0"
  by auto

lemmas update_kept = filled_kept admits_defs filled_Expose_admitted at_least_one

text \<open>
  C15: what a typed update does to a spec, for all ten kinds: encoding and decoding give the
  spec back; encoding, the defaulting of the API server and decoding replace every zero of a
  field that has a default by that default, and a second update changes nothing more. So a
  spec the validation markers admit survives exactly if its monitoring is on (six kinds; for
  MongoDB also the image must be set), exactly if it asks for at least one replica (Grafana
  and Prometheus, which admit zero), and always for Loki and Alloy.
\<close>

theorem typed_update_fills_in_defaults:
  "updates_as encode_PostgresClusterSpec default_PostgresClusterSpec decode_PostgresClusterSpec
     filled_PostgresClusterSpec admits_PostgresClusterSpec (\<lambda>s. EnablePodMonitor (pg_Monitoring s)) \<and>
   updates_as encode_MariaDBClusterSpec default_MariaDBClusterSpec decode_MariaDBClusterSpec
     filled_MariaDBClusterSpec admits_MariaDBClusterSpec (\<lambda>s. EnablePodMonitor (mdb_Monitoring s)) \<and>
   updates_as encode_MongoDBClusterSpec default_MongoDBClusterSpec decode_MongoDBClusterSpec
     filled_MongoDBClusterSpec admits_MongoDBClusterSpec
     (\<lambda>s. EnablePodMonitor (mgo_Monitoring s) \<and> mgo_Image s \<noteq> '''') \<and>
   updates_as encode_ValkeyClusterSpec default_ValkeyClusterSpec decode_ValkeyClusterSpec
     filled_ValkeyClusterSpec admits_ValkeyClusterSpec (\<lambda>s. EnablePodMonitor (vk_Monitoring s)) \<and>
   updates_as encode_RabbitMQClusterSpec default_RabbitMQClusterSpec decode_RabbitMQClusterSpec
     filled_RabbitMQClusterSpec admits_RabbitMQClusterSpec (\<lambda>s. EnablePodMonitor (rmq_Monitoring s)) \<and>
   updates_as encode_KafkaClusterSpec default_KafkaClusterSpec decode_KafkaClusterSpec
     filled_KafkaClusterSpec admits_KafkaClusterSpec (\<lambda>s. EnablePodMonitor (kfk_Monitoring s)) \<and>
   updates_as encode_GrafanaInstanceSpec default_GrafanaInstanceSpec decode_GrafanaInstanceSpec
     filled_GrafanaInstanceSpec admits_GrafanaInstanceSpec (\<lambda>s. gra_Replicas s \<noteq> 0) \<and>
   updates_as encode_PrometheusInstanceSpec default_PrometheusInstanceSpec decode_PrometheusInstanceSpec
     filled_PrometheusInstanceSpec admits_PrometheusInstanceSpec (\<lambda>s. pro_Replicas s \<noteq> 0) \<and>
   updates_as encode_LokiInstanceSpec default_LokiInstanceSpec decode_LokiInstanceSpec
     filled_LokiInstanceSpec admits_LokiInstanceSpec (\<lambda>s. True) \<and>
   updates_as encode_AlloyInstanceSpec default_AlloyInstanceSpec decode_AlloyInstanceSpec
     filled_AlloyInstanceSpec admits_AlloyInstanceSpec (\<lambda>s. True)"
  by (intro conjI pg_wire.updates_as_I mdb_wire.updates_as_I mgo_wire.updates_as_I vk_wire.updates_as_I
      rmq_wire.updates_as_I kfk_wire.updates_as_I gra_wire.updates_as_I pro_wire.updates_as_I
      lok_wire.updates_as_I aly_wire.updates_as_I)
    (auto simp: update_kept)

text \<open>An admitted Prometheus asks for no replicas, and an update makes that one.\<close>

definition scaled_to_zero :: PrometheusInstanceSpec where
  "scaled_to_zero = (cr_spec (sample_prometheus [] []))\<lparr>pro_Replicas := 0\<rparr>"

theorem typed_update_fills_in_defaults_witness:
  "admits_PrometheusInstanceSpec scaled_to_zero \<and>
   decode_PrometheusInstanceSpec (encode_PrometheusInstanceSpec scaled_to_zero) = scaled_to_zero \<and>
   decode_PrometheusInstanceSpec (default_PrometheusInstanceSpec (encode_PrometheusInstanceSpec scaled_to_zero)) =
     scaled_to_zero\<lparr>pro_Replicas := 1\<rparr>"
  using typed_update_fills_in_defaults
  by (simp add: updates_as_def admits_PrometheusInstanceSpec_def filled_PrometheusInstanceSpec_def
      scaled_to_zero_def sample_prometheus_def admits_Expose_def or_default_def)

subsection \<open>The first run\<close>

definition first_run_fills ::
    "deps \<Rightarrow> ('s \<Rightarrow> doc) \<Rightarrow> (doc \<Rightarrow> doc) \<Rightarrow> (doc \<Rightarrow> 's) \<Rightarrow> ('s \<Rightarrow> 's) \<Rightarrow>
     ((('s, 't) cr, 't doc_store) client \<Rightarrow> ('s, 't, 't doc_store) reconciler) \<Rightarrow> bool" where
  "first_run_fills D enc dflt dec filled new \<longleftrightarrow>
     (\<forall>cl w. stores_documents enc dflt dec cl \<longrightarrow> unguarded w \<longrightarrow>
        FinalizerName \<in> set (om_Finalizers (ds_meta (first_run D (new cl) w))) \<and>
        cr_spec (read_back dec (first_run D (new cl) w)) = filled (cr_spec (read_back dec w)))"

context wire
begin

lemma first_run_fills_I:
  assumes "finalizers_ok D" and "\<And>cl. r_Client (new cl) = cl"
  shows "first_run_fills D encode dflt decode filled new"
  unfolding first_run_fills_def using assms first_run_fills by metis

end

lemmas reconciler_defs = NewPostgresClusterReconciler_def NewMariaDBClusterReconciler_def
  NewMongoDBClusterReconciler_def NewValkeyClusterReconciler_def NewRabbitMQClusterReconciler_def
  NewKafkaClusterReconciler_def NewGrafanaInstanceReconciler_def NewPrometheusInstanceReconciler_def
  NewLokiInstanceReconciler_def NewAlloyInstanceReconciler_def

text \<open>
  C16: the update that adds the finalizer is such a typed update: on a server that stores and
  defaults documents the first run of the controller of any of the ten kinds puts the
  finalizer on and leaves the spec as that update makes it. Monitoring that was turned off is
  on again, and a Prometheus or Grafana scaled to zero has one replica again.
\<close>

theorem first_reconcile_fills_in_defaults:
  assumes "finalizers_ok D"
  shows "first_run_fills D encode_PostgresClusterSpec default_PostgresClusterSpec decode_PostgresClusterSpec
           filled_PostgresClusterSpec (NewPostgresClusterReconciler D j) \<and>
         first_run_fills D encode_MariaDBClusterSpec default_MariaDBClusterSpec decode_MariaDBClusterSpec
           filled_MariaDBClusterSpec (NewMariaDBClusterReconciler D j) \<and>
         first_run_fills D encode_MongoDBClusterSpec default_MongoDBClusterSpec decode_MongoDBClusterSpec
           filled_MongoDBClusterSpec (NewMongoDBClusterReconciler D j) \<and>
         first_run_fills D encode_ValkeyClusterSpec default_ValkeyClusterSpec decode_ValkeyClusterSpec
           filled_ValkeyClusterSpec (NewValkeyClusterReconciler D j) \<and>
         first_run_fills D encode_RabbitMQClusterSpec default_RabbitMQClusterSpec decode_RabbitMQClusterSpec
           filled_RabbitMQClusterSpec (NewRabbitMQClusterReconciler D j) \<and>
         first_run_fills D encode_KafkaClusterSpec default_KafkaClusterSpec decode_KafkaClusterSpec
           filled_KafkaClusterSpec (NewKafkaClusterReconciler D j) \<and>
         first_run_fills D encode_GrafanaInstanceSpec default_GrafanaInstanceSpec decode_GrafanaInstanceSpec
           filled_GrafanaInstanceSpec (NewGrafanaInstanceReconciler D) \<and>
         first_run_fills D encode_PrometheusInstanceSpec default_PrometheusInstanceSpec decode_PrometheusInstanceSpec
           filled_PrometheusInstanceSpec (NewPrometheusInstanceReconciler D) \<and>
         first_run_fills D encode_LokiInstanceSpec default_LokiInstanceSpec decode_LokiInstanceSpec
           filled_LokiInstanceSpec (NewLokiInstanceReconciler D) \<and>
         first_run_fills D encode_AlloyInstanceSpec default_AlloyInstanceSpec decode_AlloyInstanceSpec
           filled_AlloyInstanceSpec (NewAlloyInstanceReconciler D)"
  by (intro conjI pg_wire.first_run_fills_I mdb_wire.first_run_fills_I mgo_wire.first_run_fills_I
      vk_wire.first_run_fills_I rmq_wire.first_run_fills_I kfk_wire.first_run_fills_I gra_wire.first_run_fills_I
      pro_wire.first_run_fills_I lok_wire.first_run_fills_I aly_wire.first_run_fills_I assms)
    (simp_all add: reconciler_defs)

definition document_client ::
    "('s \<Rightarrow> doc) \<Rightarrow> (doc \<Rightarrow> doc) \<Rightarrow> (doc \<Rightarrow> 's) \<Rightarrow> (('s, 't) cr, 't doc_store) client" where
  "document_client enc dflt dec =
     \<lparr>api_GetCR = (\<lambda>ns n w. (if ns = om_Namespace (ds_meta w) \<and> n = om_Name (ds_meta w) then Inr (read_back dec w) else Inl NotFound, w)),
      api_Get = (\<lambda>g ns n w. (Inl NotFound, w)),
      api_Update = (\<lambda>c w. (let w' = w\<lparr>ds_meta := cr_meta c, ds_spec := dflt (enc (cr_spec c))\<rparr> in (Inr (read_back dec w'), w'))),
      api_StatusUpdate = (\<lambda>c w. (Inr c, w\<lparr>ds_status := cr_status c\<rparr>)),
      api_Patch = (\<lambda>u fm force w. (Inr u, w)), api_Delete = (\<lambda>g ns n w. (Inl NotFound, w)),
      api_DeleteAllPVCs = (\<lambda>ns sel w. (Inr (), w)),
      api_ListIngressClasses = (\<lambda>w. (Inr [], w)), api_ListPods = (\<lambda>ns sel w. (Inr [], w))\<rparr>"

lemma document_client_stores: "stores_documents enc dflt dec (document_client enc dflt dec)"
  by (simp add: stores_documents_def document_client_def)

text \<open>A Prometheus scaled to zero, as the user wrote it, with its size back at one after the first run.\<close>

definition sample_store :: "PrometheusInstanceStatus doc_store" where
  "sample_store = \<lparr>ds_meta = sample_meta ''prom'' None [], ds_spec = [(''replicas'', JInt 0)],
     ds_status = cr_status (sample_prometheus [] '''')\<rparr>"

abbreviation "prometheus_documents \<equiv>
  document_client encode_PrometheusInstanceSpec default_PrometheusInstanceSpec decode_PrometheusInstanceSpec"

theorem first_reconcile_fills_in_defaults_witness:
  "pro_Replicas (cr_spec (read_back decode_PrometheusInstanceSpec sample_store)) = 0 \<and>
   pro_Replicas (cr_spec (read_back decode_PrometheusInstanceSpec
     (first_run doc_deps (NewPrometheusInstanceReconciler doc_deps prometheus_documents) sample_store))) = 1"
proof
  show zero: "pro_Replicas (cr_spec (read_back decode_PrometheusInstanceSpec sample_store)) = 0"
    by (simp add: read_back_def sample_store_def decode_PrometheusInstanceSpec_def)
  have "unguarded sample_store" by (simp add: unguarded_def sample_store_def)
  with first_reconcile_fills_in_defaults [OF finalizers_ok_doc, of "''{}''"] zero
  show "pro_Replicas (cr_spec (read_back decode_PrometheusInstanceSpec
     (first_run doc_deps (NewPrometheusInstanceReconciler doc_deps prometheus_documents) sample_store))) = 1"
    by (simp add: first_run_fills_def document_client_stores filled_PrometheusInstanceSpec_def or_default_def)
qed

text \<open>Monitoring that was turned off is on again, and nothing else in an admitted spec changes.\<close>

lemma first_reconcile_turns_monitoring_on:
  assumes "stores_documents encode_PostgresClusterSpec default_PostgresClusterSpec decode_PostgresClusterSpec cl"
    and "finalizers_ok D" and "unguarded w"
    and "admits_PostgresClusterSpec (cr_spec (read_back decode_PostgresClusterSpec w))"
  shows "cr_spec (read_back decode_PostgresClusterSpec (first_run D (NewPostgresClusterReconciler D j cl) w)) =
         (cr_spec (read_back decode_PostgresClusterSpec w))\<lparr>pg_Monitoring := \<lparr>EnablePodMonitor = True\<rparr>\<rparr>"
proof -
  let ?s = "cr_spec (read_back decode_PostgresClusterSpec w)"
  have "filled_PostgresClusterSpec ?s = ?s\<lparr>pg_Monitoring := \<lparr>EnablePodMonitor = True\<rparr>\<rparr>"
    using assms(4) by (cases "pg_Monitoring ?s")
      (simp add: filled_PostgresClusterSpec_def admits_PostgresClusterSpec_def filled_Expose_admitted at_least_one
        filled_Monitoring_def or_default_def)
  with assms(1-3) show ?thesis
    using pg_wire.first_run_fills [of "NewPostgresClusterReconciler D j cl" D w]
    by (simp add: NewPostgresClusterReconciler_def)
qed

end
