(* ===== verification/SpecDetermined.thy ===== *)
theory SpecDetermined
  imports AdapterProps AlloyProps SpecCodecs
begin

section \<open>What is built determines what was asked for\<close>

text \<open>
  Every setting of a spec is to reach the cluster: two specs of a resource that differ should not
  lead to the same objects. Here is, for each of the ten adapters, exactly what of an admitted
  spec the built objects depend on. The lemmas invert the combinators the manifests are written
  with, so that an equation between two manifests falls apart into equations between settings.
\<close>

subsection \<open>Inverting the combinators\<close>

lemma put_absent: "map_of m k = None \<Longrightarrow> put k v m = m @ [(k, v)]"
  by (induction m) (auto simp: put_def split: if_splits)

lemma append_entry_neq: "map_of m' k = None \<Longrightarrow> m @ [(k, v)] \<noteq> m'" "map_of m' k = None \<Longrightarrow> m' \<noteq> m @ [(k, v)]"
  by (auto simp: map_of_eq_None_iff)

lemma put_eq_put:
  assumes "map_of m k = None" and "map_of m' k = None"
  shows "put k v m = put k v' m' \<longleftrightarrow> v = v' \<and> m = m'"
  using assms by (auto simp: put_absent)

lemma put_if_eq_put_if:
  assumes "map_of m k = None" and "map_of m' k = None"
  shows "put_if b k v m = put_if b' k v' m' \<longleftrightarrow> b = b' \<and> (b \<longrightarrow> v = v') \<and> m = m'"
  using assms by (cases b; cases b') (auto simp: put_absent append_entry_neq)

lemma put_some_eq_put_some:
  assumes "map_of m k = None" and "map_of m' k = None"
  shows "put_some p k f m = put_some p' k f' m' \<longleftrightarrow> map_option f p = map_option f' p' \<and> m = m'"
  using assms by (cases p; cases p') (auto simp: put_absent append_entry_neq)

lemma strings_inj [simp]: "strings a = strings b \<longleftrightarrow> a = b"
  by (metis option.inject string_entries_strings)

lemma put_annotations_eq:
  assumes "map_of m k = None" and "map_of m' k = None"
  shows "put_annotations k a m = put_annotations k a' m' \<longleftrightarrow> a = a' \<and> m = m'"
  using assms by (auto simp: put_annotations_def put_if_eq_put_if)

lemma put_metadata_annotations_eq:
  assumes "map_of m ''metadata'' = None" and "map_of m' ''metadata'' = None"
  shows "put_metadata_annotations a m = put_metadata_annotations a' m' \<longleftrightarrow> a = a' \<and> m = m'"
  using assms by (auto simp: put_metadata_annotations_def put_if_eq_put_if)

lemma set_entry_eq:
  assumes "map_of (u_object u) k = None" and "map_of (u_object u') k = None"
  shows "set_entry k v u = set_entry k v' u' \<longleftrightarrow> v = v' \<and> u = u'"
  using assms by (cases u; cases u') (auto simp: set_entry_def put_eq_put)

lemma set_annotations_eq:
  assumes "u_annotations u = []"
  shows "set_annotations a u = set_annotations a' u \<longleftrightarrow> a = a'"
  using assms by (cases u) (auto simp: set_annotations_def)

text \<open>Of a resource list, what \<open>resourceListJSON\<close> renders: cpu and memory.\<close>

definition rendered :: "deps \<Rightarrow> (string \<times> string) list \<Rightarrow> string option \<times> string option" where
  "rendered D lst = (map_option (quantity_String D) (map_of lst ''cpu''), map_option (quantity_String D) (map_of lst ''memory''))"

definition rendered_resources ::
    "deps \<Rightarrow> ResourceRequirements \<Rightarrow> (string option \<times> string option) \<times> (string option \<times> string option)" where
  "rendered_resources D r = (rendered D (rr_Requests r), rendered D (rr_Limits r))"

lemma resourceListJSON_eq: "resourceListJSON D l = resourceListJSON D l' \<longleftrightarrow> rendered D l = rendered D l'"
  by (auto simp: resourceListJSON_def rendered_def Let_def put_some_def split: option.splits if_splits)

lemma resources_json_eq: "resources_json D r = resources_json D r' \<longleftrightarrow> rendered_resources D r = rendered_resources D r'"
  by (auto simp: resources_json_def put_some_eq_put_some rendered_resources_def simp flip: resourceListJSON_eq)
    (auto dest!: option.inj_map_strong [rotated])

lemma put_resources_eq:
  assumes "map_of m ''resources'' = None" and "map_of m' ''resources'' = None"
  shows "put_resources D r m = put_resources D r' m' \<longleftrightarrow> rendered_resources D r = rendered_resources D r' \<and> m = m'"
  using assms by (auto simp: put_resources_def Let_def put_if_eq_put_if simp flip: resources_json_eq)

lemmas built_eqs = put_eq_put put_if_eq_put_if put_some_eq_put_some put_annotations_eq put_metadata_annotations_eq
  set_entry_eq set_annotations_eq put_resources_eq

lemma map_option_eq_iff: "(\<And>x y. f x = f y \<longleftrightarrow> x = y) \<Longrightarrow> map_option f p = map_option f p' \<longleftrightarrow> p = p'"
  by (cases p; cases p') auto

subsection \<open>The parts of the manifests\<close>

lemma expose_eqI: "e = (e' :: ServiceExposeSpec) \<longleftrightarrow> exp_Type e = exp_Type e' \<and> exp_Annotations e = exp_Annotations e'"
  by (cases e; cases e') auto

lemma storage_eqI: "e = (e' :: StorageSpec) \<longleftrightarrow> sto_Size e = sto_Size e' \<and> sto_StorageClass e = sto_StorageClass e'"
  by (cases e; cases e') auto

lemma persistence_eqI: "e = (e' :: PersistenceSpec) \<longleftrightarrow> per_Size e = per_Size e' \<and> per_StorageClass e = per_StorageClass e'"
  by (cases e; cases e') auto

lemma ingress_eqI: "e = (e' :: IngressSpec) \<longleftrightarrow> ing_Host e = ing_Host e' \<and> ing_IngressClassName e = ing_IngressClassName e' \<and>
    ing_TLSSecretName e = ing_TLSSecretName e' \<and> ing_Annotations e = ing_Annotations e'"
  by (cases e; cases e') auto

lemma database_eqI: "e = (e' :: DatabaseSpec) \<longleftrightarrow> db_Name e = db_Name e' \<and> db_Owner e = db_Owner e'"
  by (cases e; cases e') auto

lemma monitoring_eqI: "e = (e' :: MonitoringSpec) \<longleftrightarrow> EnablePodMonitor e = EnablePodMonitor e'"
  by (cases e; cases e') auto

lemma ingress_spec_eq [simp]:
  "ingress_spec i s p = ingress_spec i' s p \<longleftrightarrow> ing_Host i = ing_Host i' \<and>
     ing_IngressClassName i = ing_IngressClassName i' \<and> ing_TLSSecretName i = ing_TLSSecretName i'"
  by (auto simp: ingress_spec_def built_eqs ingress_rules_def ingress_tls_def)

lemma ingress_Build_eq [simp]: "ingress_Build i n ns ow fm b p = ingress_Build i' n ns ow fm b p \<longleftrightarrow> i = i'"
  by (auto simp: ingress_Build_def Let_def built_eqs ingress_eqI)

lemma vendor_parts_eq [simp]:
  "cnpg_managed n e = cnpg_managed n e' \<longleftrightarrow> e = e'"
  "mariadb_service e = mariadb_service e' \<longleftrightarrow> e = e'"
  "psmdb_expose e = psmdb_expose e' \<longleftrightarrow> e = e'"
  "valkey_service e n t ns ow = valkey_service e' n t ns ow \<longleftrightarrow> e = e'"
  "rabbitmq_service e = rabbitmq_service e' \<longleftrightarrow> e = e'"
  "grafana_service e = grafana_service e' \<longleftrightarrow> e = e'"
  by (auto simp: cnpg_managed_def mariadb_service_def psmdb_expose_def valkey_service_def rabbitmq_service_def
      grafana_service_def Let_def built_eqs expose_eqI)

lemma prometheus_service_eq:
  assumes "admits_Expose p" and "admits_Expose p'"
  shows "prometheus_service p t ns ow = prometheus_service p' t ns ow \<longleftrightarrow> p = p'"
  using assms by (cases p; cases p')
    (auto simp: prometheus_service_def Let_def built_eqs admits_Expose_def expose_eqI)

lemma vendor_volumes_eq [simp]:
  "grafana_pvc q = grafana_pvc q' \<longleftrightarrow> q = q'"
  "prometheus_storage s = prometheus_storage s' \<longleftrightarrow> s = s'"
  by (auto simp: grafana_pvc_def prometheus_storage_def Let_def built_eqs storage_eqI persistence_eqI)

lemma grafana_ingress_eq [simp]: "grafana_ingress n i = grafana_ingress n i' \<longleftrightarrow> i = i'"
  by (auto simp: grafana_ingress_def built_eqs ingress_eqI)

lemma int64_eq [simp]: "int64 x = int64 y \<longleftrightarrow> x = y"
  by (metis int32_int64)

lemma alloyConfig_eq [simp]: "alloyConfig url = alloyConfig url' \<longleftrightarrow> url = url'"
proof
  assume "alloyConfig url = alloyConfig url'"
  then have "alloyConfigLines url ! 36 = alloyConfigLines url' ! 36" by (metis alloyConfig_lines)
  then have "quote url = quote url'" by (simp add: alloyConfigLines_def)
  then show "url = url'" by (metis option.inject unquote_quote)
qed simp

lemma names_eq [simp]:
  "alloy_writeURL r ns = alloy_writeURL r' ns \<longleftrightarrow> r = r'"
  "grafana_prometheus_datasource p t ns = grafana_prometheus_datasource p' t ns \<longleftrightarrow> p = p'"
  "grafana_loki_datasource l t ns = grafana_loki_datasource l' t ns \<longleftrightarrow> l = l'"
  by (auto simp: alloy_writeURL_def loki_WriteServiceName_def grafana_prometheus_datasource_def service_url_def
      prometheus_ServiceName_def prometheus_TargetName_def grafana_loki_datasource_def loki_QueryServiceName_def)

subsection \<open>What is built\<close>

definition built :: "('s, 't) adapter \<Rightarrow> ('s, 't) cr \<Rightarrow> unstructured \<times> ExtraResource list" where
  "built A c =
     (let t = a_TargetName A (om_Name (cr_meta c))
      in (a_BuildManifest A c t (om_Namespace (cr_meta c)) (om_Name (cr_meta c)), extras A c t))"

text \<open>A change of an admitted spec to another changes what is built exactly if it changes \<open>what\<close> the spec asks for.\<close>

definition determined_by :: "('s, 't) adapter \<Rightarrow> ('s \<Rightarrow> bool) \<Rightarrow> ('s \<Rightarrow> 'a) \<Rightarrow> bool" where
  "determined_by A admits what \<longleftrightarrow>
     (\<forall>c s. admits (cr_spec c) \<and> admits s \<longrightarrow>
        (built A c = built A (c\<lparr>cr_spec := s\<rparr>) \<longleftrightarrow> what (cr_spec c) = what s))"

lemma determined_byI:
  assumes "\<And>c s. admits (cr_spec c) \<Longrightarrow> admits s \<Longrightarrow>
    built A c = built A (c\<lparr>cr_spec := s\<rparr>) \<longleftrightarrow> what (cr_spec c) = what s"
  shows "determined_by A admits what"
  using assms by (simp add: determined_by_def)

lemma determined_byD:
  "determined_by A admits what \<Longrightarrow> admits (cr_spec c) \<Longrightarrow> admits s \<Longrightarrow>
   built A c = built A (c\<lparr>cr_spec := s\<rparr>) \<longleftrightarrow> what (cr_spec c) = what s"
  by (simp add: determined_by_def)

lemma extra_resource_eq [simp]: "extra_resource g n d = extra_resource g' n' d' \<longleftrightarrow> g = g' \<and> n = n' \<and> d = d'"
  by (auto simp: extra_resource_def)

lemmas built_simps = built_def extras_def Let_def built_eqs map_option_eq_iff
  storage_eqI persistence_eqI database_eqI monitoring_eqI

lemma cnpg_determined:
  "determined_by (cnpg_Adapter D j) admits_PostgresClusterSpec
     (\<lambda>s. (s\<lparr>pg_Resources := zero_Resources\<rparr>, rendered_resources D (pg_Resources s)))"
proof (rule determined_byI)
  fix c :: PostgresCluster and s :: PostgresClusterSpec
  show "built (cnpg_Adapter D j) c = built (cnpg_Adapter D j) (c\<lparr>cr_spec := s\<rparr>) \<longleftrightarrow>
      ((cr_spec c)\<lparr>pg_Resources := zero_Resources\<rparr>, rendered_resources D (pg_Resources (cr_spec c))) =
      (s\<lparr>pg_Resources := zero_Resources\<rparr>, rendered_resources D (pg_Resources s))"
    by (cases "cr_spec c"; cases s) (auto simp: built_simps cnpg_BuildManifest_def cnpg_ExtraResources_def)
qed

lemma mariadb_determined:
  "determined_by (mariadb_Adapter D j) admits_MariaDBClusterSpec
     (\<lambda>s. (s\<lparr>mdb_Resources := zero_Resources\<rparr>, rendered_resources D (mdb_Resources s)))"
proof (rule determined_byI)
  fix c :: MariaDBCluster and s :: MariaDBClusterSpec
  show "built (mariadb_Adapter D j) c = built (mariadb_Adapter D j) (c\<lparr>cr_spec := s\<rparr>) \<longleftrightarrow>
      ((cr_spec c)\<lparr>mdb_Resources := zero_Resources\<rparr>, rendered_resources D (mdb_Resources (cr_spec c))) =
      (s\<lparr>mdb_Resources := zero_Resources\<rparr>, rendered_resources D (mdb_Resources s))"
    by (cases "cr_spec c"; cases s) (auto simp: built_simps mariadb_BuildManifest_def mariadb_ExtraResources_def)
qed

lemma psmdb_determined:
  "determined_by (psmdb_Adapter D j) admits_MongoDBClusterSpec
     (\<lambda>s. (s\<lparr>mgo_Resources := zero_Resources\<rparr>, rendered_resources D (mgo_Resources s)))"
proof (rule determined_byI)
  fix c :: MongoDBCluster and s :: MongoDBClusterSpec
  assume "admits_MongoDBClusterSpec (cr_spec c)" and "admits_MongoDBClusterSpec s"
  then show "built (psmdb_Adapter D j) c = built (psmdb_Adapter D j) (c\<lparr>cr_spec := s\<rparr>) \<longleftrightarrow>
      ((cr_spec c)\<lparr>mgo_Resources := zero_Resources\<rparr>, rendered_resources D (mgo_Resources (cr_spec c))) =
      (s\<lparr>mgo_Resources := zero_Resources\<rparr>, rendered_resources D (mgo_Resources s))"
    by (cases "cr_spec c"; cases s) (auto simp: built_simps psmdb_BuildManifest_def psmdb_replset_def psmdb_ExtraResources_def split: option.splits)
qed

lemma valkey_determined:
  "determined_by (valkey_Adapter D j) admits_ValkeyClusterSpec
     (\<lambda>s. (s\<lparr>vk_Resources := zero_Resources\<rparr>, rendered_resources D (vk_Resources s)))"
proof (rule determined_byI)
  fix c :: ValkeyCluster and s :: ValkeyClusterSpec
  assume "admits_ValkeyClusterSpec (cr_spec c)" and "admits_ValkeyClusterSpec s"
  then show "built (valkey_Adapter D j) c = built (valkey_Adapter D j) (c\<lparr>cr_spec := s\<rparr>) \<longleftrightarrow>
      ((cr_spec c)\<lparr>vk_Resources := zero_Resources\<rparr>, rendered_resources D (vk_Resources (cr_spec c))) =
      (s\<lparr>vk_Resources := zero_Resources\<rparr>, rendered_resources D (vk_Resources s))"
    by (cases "cr_spec c"; cases s) (auto simp: built_simps valkey_BuildManifest_def valkey_ExtraResources_def split: option.splits)
qed

lemma rabbitmq_determined:
  "determined_by (rabbitmq_Adapter D j) admits_RabbitMQClusterSpec
     (\<lambda>s. (s\<lparr>rmq_Resources := zero_Resources\<rparr>, rendered_resources D (rmq_Resources s)))"
proof (rule determined_byI)
  fix c :: RabbitMQCluster and s :: RabbitMQClusterSpec
  assume "admits_RabbitMQClusterSpec (cr_spec c)" and "admits_RabbitMQClusterSpec s"
  then show "built (rabbitmq_Adapter D j) c = built (rabbitmq_Adapter D j) (c\<lparr>cr_spec := s\<rparr>) \<longleftrightarrow>
      ((cr_spec c)\<lparr>rmq_Resources := zero_Resources\<rparr>, rendered_resources D (rmq_Resources (cr_spec c))) =
      (s\<lparr>rmq_Resources := zero_Resources\<rparr>, rendered_resources D (rmq_Resources s))"
    by (cases "cr_spec c"; cases s) (auto simp: built_simps rabbitmq_BuildManifest_def rabbitmq_ExtraResources_def split: option.splits)
qed

lemma prometheus_determined:
  "determined_by (prometheus_Adapter D) admits_PrometheusInstanceSpec
     (\<lambda>s. (s\<lparr>pro_Resources := zero_Resources\<rparr>, rendered_resources D (pro_Resources s)))"
proof (rule determined_byI)
  fix c :: PrometheusInstance and s :: PrometheusInstanceSpec
  assume "admits_PrometheusInstanceSpec (cr_spec c)" and "admits_PrometheusInstanceSpec s"
  then show "built (prometheus_Adapter D) c = built (prometheus_Adapter D) (c\<lparr>cr_spec := s\<rparr>) \<longleftrightarrow>
      ((cr_spec c)\<lparr>pro_Resources := zero_Resources\<rparr>, rendered_resources D (pro_Resources (cr_spec c))) =
      (s\<lparr>pro_Resources := zero_Resources\<rparr>, rendered_resources D (pro_Resources s))"
    by (cases "cr_spec c"; cases s) (auto simp: built_simps prometheus_BuildManifest_def prometheus_ExtraResources_def
      admits_PrometheusInstanceSpec_def prometheus_service_eq split: option.splits)
qed

text \<open>
  Kafka is the exception: of its \<open>expose\<close> section only the presence and the type get through, not
  the annotations.
\<close>

lemma strimzi_nodePool_eq [simp]:
  "strimzi_nodePool D s n t ns ow = strimzi_nodePool D s' n t ns ow \<longleftrightarrow>
     kfk_Replicas s = kfk_Replicas s' \<and> kfk_Storage s = kfk_Storage s' \<and>
     rendered_resources D (kfk_Resources s) = rendered_resources D (kfk_Resources s')"
  by (auto simp: strimzi_nodePool_def Let_def built_eqs storage_eqI)

lemma strimzi_BuildManifest_eq:
  assumes "admits_Expose (kfk_Expose (cr_spec c))" and "admits_Expose (kfk_Expose s)"
  shows "strimzi_BuildManifest c n ns ow = strimzi_BuildManifest (c\<lparr>cr_spec := s\<rparr>) n ns ow \<longleftrightarrow>
     kfk_Version (cr_spec c) = kfk_Version s \<and> kfk_Monitoring (cr_spec c) = kfk_Monitoring s \<and>
     (kfk_Expose (cr_spec c) = None \<longleftrightarrow> kfk_Expose s = None)"
  using assms by (cases "kfk_Expose (cr_spec c)"; cases "kfk_Expose s")
    (auto simp: strimzi_BuildManifest_def Let_def built_eqs monitoring_eqI admits_Expose_def)

definition without_annotations :: "ServiceExposeSpec \<Rightarrow> ServiceExposeSpec" where
  "without_annotations e = e\<lparr>exp_Annotations := []\<rparr>"

lemma without_annotations_eq:
  assumes "admits_Expose p" and "admits_Expose p'"
  shows "map_option without_annotations p = map_option without_annotations p' \<longleftrightarrow> (p = None \<longleftrightarrow> p' = None)"
  using assms by (cases p; cases p') (auto simp: admits_Expose_def without_annotations_def)

lemma strimzi_extras_eq:
  "strimzi_ExtraResources D j c t ns ow = strimzi_ExtraResources D j (c\<lparr>cr_spec := s\<rparr>) t ns ow \<longleftrightarrow>
     kfk_Monitoring (cr_spec c) = kfk_Monitoring s \<and>
     kfk_Replicas (cr_spec c) = kfk_Replicas s \<and> kfk_Storage (cr_spec c) = kfk_Storage s \<and>
     rendered_resources D (kfk_Resources (cr_spec c)) = rendered_resources D (kfk_Resources s)"
  by (auto simp: strimzi_ExtraResources_def Let_def monitoring_eqI)

lemma strimzi_determined:
  "determined_by (strimzi_Adapter D j) admits_KafkaClusterSpec
     (\<lambda>s. (s\<lparr>kfk_Resources := zero_Resources, kfk_Expose := map_option without_annotations (kfk_Expose s)\<rparr>,
          rendered_resources D (kfk_Resources s)))"
proof (rule determined_byI)
  fix c :: KafkaCluster and s :: KafkaClusterSpec
  assume "admits_KafkaClusterSpec (cr_spec c)" and "admits_KafkaClusterSpec s"
  then have e: "admits_Expose (kfk_Expose (cr_spec c))" "admits_Expose (kfk_Expose s)"
    by (simp_all add: admits_KafkaClusterSpec_def)
  show "built (strimzi_Adapter D j) c = built (strimzi_Adapter D j) (c\<lparr>cr_spec := s\<rparr>) \<longleftrightarrow>
      ((cr_spec c)\<lparr>kfk_Resources := zero_Resources, kfk_Expose := map_option without_annotations (kfk_Expose (cr_spec c))\<rparr>,
        rendered_resources D (kfk_Resources (cr_spec c))) =
      (s\<lparr>kfk_Resources := zero_Resources, kfk_Expose := map_option without_annotations (kfk_Expose s)\<rparr>,
        rendered_resources D (kfk_Resources s))"
    using without_annotations_eq [OF e] strimzi_BuildManifest_eq [OF e]
    by (cases "cr_spec c"; cases s) (auto simp: built_def extras_def Let_def strimzi_extras_eq)
qed

lemma grafana_determined: "determined_by (grafana_Adapter D) admits_GrafanaInstanceSpec (\<lambda>s. s)"
proof (rule determined_byI)
  fix c :: GrafanaInstance and s :: GrafanaInstanceSpec
  assume "admits_GrafanaInstanceSpec (cr_spec c)" and "admits_GrafanaInstanceSpec s"
  then show "built (grafana_Adapter D) c = built (grafana_Adapter D) (c\<lparr>cr_spec := s\<rparr>) \<longleftrightarrow> cr_spec c = s"
    by (cases "cr_spec c"; cases s) (auto simp: built_simps grafana_BuildManifest_def grafana_ExtraResources_def split: if_splits)
qed

lemma loki_determined: "determined_by (loki_Adapter D) admits_LokiInstanceSpec (\<lambda>s. s)"
proof (rule determined_byI)
  fix c :: LokiInstance and s :: LokiInstanceSpec
  assume "admits_LokiInstanceSpec (cr_spec c)" and "admits_LokiInstanceSpec s"
  then show "built (loki_Adapter D) c = built (loki_Adapter D) (c\<lparr>cr_spec := s\<rparr>) \<longleftrightarrow> cr_spec c = s"
    by (cases "cr_spec c"; cases s) (auto simp: built_simps loki_BuildManifest_def loki_ExtraResources_def split: if_splits)
qed

lemma alloy_determined: "determined_by (alloy_Adapter D) admits_AlloyInstanceSpec (\<lambda>s. s)"
proof (rule determined_byI)
  fix c :: AlloyInstance and s :: AlloyInstanceSpec
  assume "admits_AlloyInstanceSpec (cr_spec c)" and "admits_AlloyInstanceSpec s"
  then show "built (alloy_Adapter D) c = built (alloy_Adapter D) (c\<lparr>cr_spec := s\<rparr>) \<longleftrightarrow> cr_spec c = s"
    by (cases "cr_spec c"; cases s) (auto simp: built_simps alloy_BuildManifest_def admits_AlloyInstanceSpec_def split: if_splits)
qed

subsection \<open>No setting is lost\<close>

text \<open>
  C17: no setting is lost on the way to the cluster: for each of the ten kinds a change of an
  admitted spec to another changes the target or its auxiliary objects exactly if it changes
  something the spec asks for. That is any field of Grafana, Loki and Alloy; of the others any
  field, where of the resources only the rendered cpu and memory count, and for Kafka not the
  annotations of the expose section, which nothing built depends on.
\<close>

theorem built_objects_determine_the_spec:
  "determined_by (cnpg_Adapter D j) admits_PostgresClusterSpec
     (\<lambda>s. (s\<lparr>pg_Resources := zero_Resources\<rparr>, rendered_resources D (pg_Resources s))) \<and>
   determined_by (mariadb_Adapter D j) admits_MariaDBClusterSpec
     (\<lambda>s. (s\<lparr>mdb_Resources := zero_Resources\<rparr>, rendered_resources D (mdb_Resources s))) \<and>
   determined_by (psmdb_Adapter D j) admits_MongoDBClusterSpec
     (\<lambda>s. (s\<lparr>mgo_Resources := zero_Resources\<rparr>, rendered_resources D (mgo_Resources s))) \<and>
   determined_by (valkey_Adapter D j) admits_ValkeyClusterSpec
     (\<lambda>s. (s\<lparr>vk_Resources := zero_Resources\<rparr>, rendered_resources D (vk_Resources s))) \<and>
   determined_by (rabbitmq_Adapter D j) admits_RabbitMQClusterSpec
     (\<lambda>s. (s\<lparr>rmq_Resources := zero_Resources\<rparr>, rendered_resources D (rmq_Resources s))) \<and>
   determined_by (strimzi_Adapter D j) admits_KafkaClusterSpec
     (\<lambda>s. (s\<lparr>kfk_Resources := zero_Resources, kfk_Expose := map_option without_annotations (kfk_Expose s)\<rparr>,
          rendered_resources D (kfk_Resources s))) \<and>
   determined_by (grafana_Adapter D) admits_GrafanaInstanceSpec (\<lambda>s. s) \<and>
   determined_by (prometheus_Adapter D) admits_PrometheusInstanceSpec
     (\<lambda>s. (s\<lparr>pro_Resources := zero_Resources\<rparr>, rendered_resources D (pro_Resources s))) \<and>
   determined_by (loki_Adapter D) admits_LokiInstanceSpec (\<lambda>s. s) \<and>
   determined_by (alloy_Adapter D) admits_AlloyInstanceSpec (\<lambda>s. s)"
  by (intro conjI cnpg_determined mariadb_determined psmdb_determined valkey_determined rabbitmq_determined
      strimzi_determined grafana_determined prometheus_determined loki_determined alloy_determined)

text \<open>A custom image changes what is built for a PostgresCluster.\<close>

theorem built_objects_determine_the_spec_witness:
  "let c = sample_pg None [] True; s = (cr_spec c)\<lparr>pg_Image := ''postgres:17''\<rparr>
   in admits_PostgresClusterSpec (cr_spec c) \<and> admits_PostgresClusterSpec s \<and>
      built sample_cnpg c \<noteq> built sample_cnpg (c\<lparr>cr_spec := s\<rparr>)"
proof -
  let ?c = "sample_pg None [] True"
  let ?s = "(cr_spec ?c)\<lparr>pg_Image := ''postgres:17''\<rparr>"
  have admits: "admits_PostgresClusterSpec (cr_spec ?c)" "admits_PostgresClusterSpec ?s"
    by (simp_all add: sample_pg_def admits_PostgresClusterSpec_def admits_Expose_def)
  have "(cr_spec ?c)\<lparr>pg_Resources := zero_Resources\<rparr> \<noteq> ?s\<lparr>pg_Resources := zero_Resources\<rparr>"
    by (simp add: sample_pg_def)
  with built_objects_determine_the_spec [of doc_deps "''{}''", THEN conjunct1] admits show ?thesis
    by (simp add: Let_def determined_by_def)
qed

text \<open>So annotations for the external listener of a Kafka, unlike those of every other kind, have no effect.\<close>

lemma kafka_expose_annotations_have_no_effect:
  assumes "admits_KafkaClusterSpec (cr_spec c)" and "kfk_Expose (cr_spec c) = Some e"
  shows "built (strimzi_Adapter D j) (c\<lparr>cr_spec := (cr_spec c)\<lparr>kfk_Expose := Some (e\<lparr>exp_Annotations := anns\<rparr>)\<rparr>\<rparr>) =
         built (strimzi_Adapter D j) c"
proof -
  let ?s = "(cr_spec c)\<lparr>kfk_Expose := Some (e\<lparr>exp_Annotations := anns\<rparr>)\<rparr>"
  have "admits_KafkaClusterSpec ?s"
    using assms by (simp add: admits_KafkaClusterSpec_def admits_Expose_def)
  then have "built (strimzi_Adapter D j) c = built (strimzi_Adapter D j) (c\<lparr>cr_spec := ?s\<rparr>)"
    using assms by (subst determined_byD [OF strimzi_determined]) (cases "cr_spec c", auto simp: without_annotations_def)
  then show ?thesis by (rule sym)
qed

end
