(* ===== verification/Lifecycle.thy ===== *)
theory Lifecycle
  imports Ownership
begin

section \<open>What a run promises, and that it keeps it\<close>

text \<open>
  The engine's documentation describes it declaratively: the target and the wanted auxiliary
  objects exist, the unwanted ones do not, a deleted resource takes its objects and claims with
  it. This theory states that as a relation between abstract states of a platform - which
  resources there are, which objects exist, which claims - and shows that on the server in
  memory a run of the engine always succeeds and is a step of that relation, whatever the
  server held before.
\<close>

subsection \<open>Total correctness of effectful computations\<close>

text \<open>From world \<open>w\<close>, \<open>m\<close> succeeds, and its result and the world it leaves satisfy \<open>Q\<close>.\<close>

definition ends :: "('c, 'w, 'a) io \<Rightarrow> 'w \<Rightarrow> ('a \<Rightarrow> 'w \<Rightarrow> bool) \<Rightarrow> bool" where
  "ends m w Q \<longleftrightarrow>
     (\<forall>tr. \<exists>x w' tr'. m \<lparr>st_world = w, st_trace = tr\<rparr> = (Inr x, \<lparr>st_world = w', st_trace = tr'\<rparr>) \<and> Q x w')"

lemma ends_mono: "ends m w Q \<Longrightarrow> (\<And>x w'. Q x w' \<Longrightarrow> R x w') \<Longrightarrow> ends m w R"
  unfolding ends_def by meson

lemma ends_returnE: "Q x w \<Longrightarrow> ends (returnE x) w Q"
  by (simp add: ends_def returnE_def)

lemma ends_perform: "f w = (Inr x, w') \<Longrightarrow> Q x w' \<Longrightarrow> ends (perform c f) w Q"
  by (simp add: ends_def perform_def)

lemma ends_bindE:
  assumes "ends m w P" and "\<And>x w'. P x w' \<Longrightarrow> ends (f x) w' Q"
  shows "ends (bindE m f) w Q"
  unfolding ends_def
proof
  fix tr
  obtain x w' tr' where "m \<lparr>st_world = w, st_trace = tr\<rparr> = (Inr x, \<lparr>st_world = w', st_trace = tr'\<rparr>)" "P x w'"
    using assms(1) unfolding ends_def by blast
  with assms(2) [of x w'] show "\<exists>x w' tr'. bindE m f \<lparr>st_world = w, st_trace = tr\<rparr> = (Inr x, \<lparr>st_world = w', st_trace = tr'\<rparr>) \<and> Q x w'"
    by (simp add: bindE_def ends_def)
qed

lemma ends_try_perform: "f w = (res, w') \<Longrightarrow> ends (h res) w' Q \<Longrightarrow> ends (tryE (perform c f) h) w Q"
  by (simp add: ends_def tryE_def perform_def)

subsection \<open>The platform\<close>

record ('s, 't) platform =
  pf_Resources :: "string \<times> string \<Rightarrow> ('s, 't) cr option"
  pf_Objects :: "(gvk \<times> string \<times> string) set"
  pf_Claims :: "(string \<times> labels) set"
  pf_Classes :: "IngressClass list"

definition platform_of :: "('s, 't) cluster \<Rightarrow> ('s, 't) platform" where
  "platform_of w =
     \<lparr>pf_Resources = map_of (cl_Resources w), pf_Objects = {k \<in> fst ` set (cl_Objects w). fst k \<noteq> podGVK},
      pf_Claims = set (cl_Claims w), pf_Classes = cl_Classes w\<rparr>"

lemma platform_resources: "pf_Resources (platform_of w) = map_of (cl_Resources w)"
  by (simp add: platform_of_def)

text \<open>What an API server guarantees of its own state.\<close>

definition well_kept :: "('s, 't) cluster \<Rightarrow> bool" where
  "well_kept w \<longleftrightarrow>
     (\<forall>k c. map_of (cl_Resources w) k = Some c \<longrightarrow> cr_key c = k) \<and> (\<forall>ic \<in> set (cl_Classes w). ic_Name ic \<noteq> '''')"

subsection \<open>The promise\<close>

definition placed :: "string \<Rightarrow> gvk \<times> string \<Rightarrow> gvk \<times> string \<times> string" where
  "placed ns = (\<lambda>(g, k). (g, ns, k))"

text \<open>The resource with the cluster's only default ingress class where it names none.\<close>

definition defaulted :: "('s, 't) adapter \<Rightarrow> IngressClass list \<Rightarrow> ('s, 't) cr \<Rightarrow> ('s, 't) cr" where
  "defaulted A ics c =
     (case a_IngressClass A of
        None \<Rightarrow> c
      | Some (rq, setc) \<Rightarrow>
          if rq c = ('''', True) \<and> unique_default ics \<noteq> '''' then the (setc c (unique_default ics)) else c)"

text \<open>The objects there are once a live resource is settled.\<close>

definition settled_objects :: "ExtraResource list \<Rightarrow> string \<Rightarrow> (gvk \<times> string \<times> string) set \<Rightarrow> (gvk \<times> string \<times> string) set" where
  "settled_objects xs ns objs =
     objs \<union> (\<lambda>x. placed ns (extra_id x)) ` {x \<in> set xs. x_Desired x \<noteq> None \<and> \<not> x_PatchOnly x}
       - (\<lambda>x. placed ns (extra_id x)) ` {x \<in> set xs. x_Desired x = None}"

definition target_key :: "('s, 't) adapter \<Rightarrow> ('s, 't) cr \<Rightarrow> gvk \<times> string \<times> string" where
  "target_key A c = placed (om_Namespace (cr_meta c)) (a_GVK A, om_Name (cr_meta c))"

text \<open>The objects and claims a deleted resource takes with it.\<close>

definition owned_keys :: "('s, 't) adapter \<Rightarrow> ('s, 't) cr \<Rightarrow> (gvk \<times> string \<times> string) set" where
  "owned_keys A c = insert (target_key A c)
     ((\<lambda>x. placed (om_Namespace (cr_meta c)) (extra_id x)) ` set (owned_extras A c (om_Name (cr_meta c))))"

definition owned_claims :: "('s, 't) adapter \<Rightarrow> ('s, 't) cr \<Rightarrow> (string \<times> labels) set" where
  "owned_claims A c =
     (case a_PVCLabelSelector A of
        None \<Rightarrow> {}
      | Some sel \<Rightarrow>
          if sel c (om_Name (cr_meta c)) = [] then {}
          else {om_Namespace (cr_meta c)} \<times> Collect (selects (sel c (om_Name (cr_meta c)))))"

text \<open>
  The promise of a run for the resource at a key: one step per stage of the resource's life.
\<close>

inductive promise :: "('s, 't) adapter \<Rightarrow> string \<times> string \<Rightarrow> ('s, 't) platform \<Rightarrow> ('s, 't) platform \<Rightarrow> bool"
  for A :: "('s, 't) adapter" and k :: "string \<times> string" and p :: "('s, 't) platform" where
  gone: "pf_Resources p k = None \<Longrightarrow> promise A k p p"
| released: "pf_Resources p k = Some c \<Longrightarrow> om_DeletionTimestamp (cr_meta c) \<noteq> None \<Longrightarrow>
    FinalizerName \<notin> set (om_Finalizers (cr_meta c)) \<Longrightarrow> promise A k p p"
| deleted: "pf_Resources p k = Some c \<Longrightarrow> om_DeletionTimestamp (cr_meta c) \<noteq> None \<Longrightarrow>
    FinalizerName \<in> set (om_Finalizers (cr_meta c)) \<Longrightarrow>
    set fs = set (om_Finalizers (cr_meta c)) - {FinalizerName} \<Longrightarrow>
    promise A k p (p\<lparr>pf_Resources := (pf_Resources p)(k := if fs = [] then None else Some (with_finalizers fs c)),
                     pf_Objects := pf_Objects p - owned_keys A c, pf_Claims := pf_Claims p - owned_claims A c\<rparr>)"
| registered: "pf_Resources p k = Some c \<Longrightarrow> om_DeletionTimestamp (cr_meta c) = None \<Longrightarrow>
    FinalizerName \<notin> set (om_Finalizers (cr_meta c)) \<Longrightarrow>
    set fs = insert FinalizerName (set (om_Finalizers (cr_meta c))) \<Longrightarrow>
    promise A k p (p\<lparr>pf_Resources := (pf_Resources p)(k \<mapsto> with_finalizers fs c)\<rparr>)"
| settled: "pf_Resources p k = Some c \<Longrightarrow> om_DeletionTimestamp (cr_meta c) = None \<Longrightarrow>
    FinalizerName \<in> set (om_Finalizers (cr_meta c)) \<Longrightarrow> c1 = defaulted A (pf_Classes p) c \<Longrightarrow>
    promise A k p (p\<lparr>pf_Resources := (pf_Resources p)(k \<mapsto> c\<lparr>cr_status := t\<rparr>),
                     pf_Objects := settled_objects (extras A c1 (om_Name (cr_meta c))) (om_Namespace (cr_meta c))
                       (insert (target_key A c) (pf_Objects p))\<rparr>)"

subsection \<open>The server in memory, call by call\<close>

abbreviation objects :: "('s, 't) cluster \<Rightarrow> (gvk \<times> string \<times> string) set" where
  "objects w \<equiv> pf_Objects (platform_of w)"

text \<open>A step that touches no more than which objects exist, and leaves \<open>objs\<close>.\<close>

definition moves_to :: "('s, 't) cluster \<Rightarrow> (gvk \<times> string \<times> string) set \<Rightarrow> ('s, 't) cluster \<Rightarrow> bool" where
  "moves_to w objs w' \<longleftrightarrow> objects w' = objs \<and> cl_Resources w' = cl_Resources w \<and>
     cl_Claims w' = cl_Claims w \<and> cl_Classes w' = cl_Classes w"

lemma moves_to_refl [simp]: "moves_to w (objects w) w"
  by (simp add: moves_to_def)

lemma moves_to_trans:
  "moves_to w objs w1 \<Longrightarrow> moves_to w1 objs' w2 \<Longrightarrow> moves_to w objs' w2"
  by (simp add: moves_to_def)

lemma dom_delete: "fst ` set (AList.delete k al) = fst ` set al - {k}"
  using arg_cong [OF AList.delete_keys [of k al], of set] by simp

lemma moves_to_delete:
  "moves_to w (objects w - {k}) (w\<lparr>cl_Objects := AList.delete k (cl_Objects w)\<rparr>)"
  by (auto simp: moves_to_def platform_of_def dom_delete)

lemma moves_to_update:
  "fst k \<noteq> podGVK \<Longrightarrow> moves_to w (insert k (objects w)) (w\<lparr>cl_Objects := AList.update k u (cl_Objects w)\<rparr>)"
  by (auto simp: moves_to_def platform_of_def AList.dom_update)

lemma delete_call:
  obtains res w' where "api_Delete memory_client g ns n w = (res, w')" "res = Inl NotFound \<or> res = Inr ()"
    "moves_to w (objects w - {(g, ns, n)}) w'"
proof (cases "map_of (cl_Objects w) (g, ns, n)")
  case None
  then have "objects w - {(g, ns, n)} = objects w"
    by (force simp: platform_of_def map_of_eq_None_iff)
  then show ?thesis
    using that [of "Inl NotFound" w] None by (simp add: memory_client_def)
next
  case (Some u)
  show ?thesis
    by (rule that [of "Inr ()", OF _ _ moves_to_delete]) (simp_all add: memory_client_def Some)
qed

lemma ends_delete:
  assumes "\<And>w'. moves_to w (objects w - {(g, ns, n)}) w' \<Longrightarrow> ends (h (Inl NotFound)) w' Q"
    and "\<And>w'. moves_to w (objects w - {(g, ns, n)}) w' \<Longrightarrow> ends (h (Inr ())) w' Q"
  shows "ends (tryE (perform (Delete g ns n) (api_Delete memory_client g ns n)) h) w Q"
  by (rule delete_call [of g ns n w]) (auto intro: ends_try_perform assms)

lemma ends_deleteTarget:
  "r_Client r = memory_client \<Longrightarrow>
   ends (deleteTarget r ns n) w (\<lambda>_. moves_to w (objects w - {(a_GVK (r_Adapter r), ns, n)}))"
  by (auto simp: deleteTarget_def Let_def IsNotFound_def intro!: ends_delete ends_returnE)

lemma ends_deleteExtra:
  "r_Client r = memory_client \<Longrightarrow> ends (deleteExtra r g ns n) w (\<lambda>_. moves_to w (objects w - {(g, ns, n)}))"
  by (auto simp: deleteExtra_def IsNotFound_def intro!: ends_delete ends_returnE)

lemma ends_GetTarget:
  "ends (GetTarget memory_client g ns n) w
     (\<lambda>u w'. w' = w \<and> (u = None \<longleftrightarrow> (g, ns, n) \<notin> fst ` set (cl_Objects w)))"
proof (cases "map_of (cl_Objects w) (g, ns, n)")
  case None
  then have "api_Get memory_client g ns n w = (Inl NotFound, w)" by (simp add: memory_client_def)
  with None show ?thesis
    by (auto simp: GetTarget_def IsNotFound_def map_of_eq_None_iff intro!: ends_try_perform ends_returnE)
next
  case (Some u)
  then have "api_Get memory_client g ns n w = (Inr u, w)" by (simp add: memory_client_def)
  moreover have "(g, ns, n) \<in> fst ` set (cl_Objects w)"
    using Some by (auto dest: map_of_SomeD intro: rev_image_eqI)
  ultimately show ?thesis
    by (auto simp: GetTarget_def intro!: ends_try_perform ends_returnE)
qed

lemma ends_applyTarget:
  assumes "r_Client r = memory_client" and "u_gvk d \<noteq> podGVK"
  shows "ends (applyTarget r d) w (\<lambda>_. moves_to w (insert (object_key d) (objects w)))"
  unfolding applyTarget_def Let_def assms(1)
  by (rule ends_perform, simp add: memory_client_def Let_def)
     (rule moves_to_update, simp add: object_key_def assms(2))

lemma objects_minus_pod [simp]: "objects w - {(podGVK, ns, n)} = objects w"
  by (auto simp: platform_of_def)

lemma ends_deleteStalePods:
  "r_Client r = memory_client \<Longrightarrow> ends (deleteStalePods r rv pods) w (\<lambda>_. moves_to w (objects w))"
proof (induction pods arbitrary: w)
  case (Cons pod pods)
  have "ends (deleteStalePods r rv pods) w' (\<lambda>_. moves_to w (objects w))" if "moves_to w (objects w) w'" for w'
    using that by (intro ends_mono [OF Cons.IH [OF Cons.prems, of w']]) (simp add: moves_to_def)
  then show ?case
    by (auto simp: Cons.prems IsNotFound_def intro!: ends_delete)
qed (simp add: ends_returnE)

lemma ends_unstick:
  assumes "r_Client r = memory_client"
  shows "ends (unstickStatefulSetRollout D r ns n) w (\<lambda>_. moves_to w (objects w))"
  unfolding unstickStatefulSetRollout_def assms
  by (rule ends_bindE [OF ends_GetTarget])
     (auto simp: Let_def memory_client_def intro!: ends_returnE ends_bindE [OF ends_perform, where P = "\<lambda>_ w'. w' = w"]
        ends_deleteStalePods [OF assms] split: option.split)

subsection \<open>Auxiliary objects\<close>

lemma placed_simps [simp]: "placed ns (g, k) = (g, ns, k)" "placed ns (extra_id x) = (x_GVK x, ns, x_Name x)"
  by (simp_all add: placed_def extra_id_def)

lemma ends_deleteExtras:
  assumes "r_Client r = memory_client"
  shows "ends (deleteExtras r ns xs) w
    (\<lambda>_. moves_to w (objects w - (\<lambda>x. placed ns (extra_id x)) ` set (filter (\<lambda>x. \<not> x_PatchOnly x) xs)))"
proof (induction xs arbitrary: w)
  case Nil
  show ?case by (simp add: ends_returnE)
next
  case (Cons x xs)
  show ?case
  proof (cases "x_PatchOnly x")
    case True
    with Cons.IH show ?thesis by simp
  next
    case False
    have "ends (deleteExtras r ns xs) w' (\<lambda>_. moves_to w (objects w -
        (\<lambda>x. placed ns (extra_id x)) ` set (filter (\<lambda>x. \<not> x_PatchOnly x) (x # xs))))"
      if "moves_to w (objects w - {(x_GVK x, ns, x_Name x)}) w'" for w'
      using that False by (intro ends_mono [OF Cons.IH]) (auto simp: moves_to_def)
    with False show ?thesis
      by (simp add: ends_bindE [OF ends_deleteExtra [OF assms]])
  qed
qed

text \<open>What the engine relies on for a list of auxiliary objects to be applied.\<close>

definition listable :: "string \<Rightarrow> ExtraResource list \<Rightarrow> bool" where
  "listable ns xs \<longleftrightarrow> distinct (map extra_id xs) \<and>
     (\<forall>x \<in> set xs. x_GVK x \<noteq> podGVK \<and> (\<forall>d. x_Desired x = Some d \<longrightarrow> object_key d = placed ns (extra_id x)))"

lemma listable_Cons:
  "listable ns (x # xs) \<longleftrightarrow> extra_id x \<notin> extra_id ` set xs \<and> x_GVK x \<noteq> podGVK \<and>
     (\<forall>d. x_Desired x = Some d \<longrightarrow> object_key d = placed ns (extra_id x)) \<and> listable ns xs"
  by (auto simp: listable_def)

lemma settled_objects_Nil [simp]: "settled_objects [] ns objs = objs"
  by (simp add: settled_objects_def)

lemma settled_objects_wanted:
  "x_Desired x = Some d \<Longrightarrow> \<not> x_PatchOnly x \<Longrightarrow>
   settled_objects (x # xs) ns objs = settled_objects xs ns (insert (placed ns (extra_id x)) objs)"
  by (auto simp: settled_objects_def)

lemma settled_objects_patched:
  "x_Desired x = Some d \<Longrightarrow> x_PatchOnly x \<Longrightarrow> settled_objects (x # xs) ns objs = settled_objects xs ns objs"
  by (auto simp: settled_objects_def)

lemma settled_objects_unwanted:
  assumes "x_Desired x = None" and "extra_id x \<notin> extra_id ` set xs"
  shows "settled_objects (x # xs) ns objs = settled_objects xs ns (objs - {placed ns (extra_id x)})"
  using assms by (auto simp: settled_objects_def extra_id_def)

lemma ends_applyExtras:
  assumes "r_Client r = memory_client" and "listable ns xs"
  shows "ends (applyExtras D r ns xs) w (\<lambda>_. moves_to w (settled_objects xs ns (objects w)))"
  using assms(2)
proof (induction xs arbitrary: w)
  case Nil
  show ?case by (simp add: ends_returnE)
next
  case (Cons x xs)
  note ok = Cons.prems [unfolded listable_Cons]
  have rest: "ends (applyExtras D r ns xs) w' (\<lambda>_. moves_to w (settled_objects xs ns objs))" if "moves_to w objs w'" for objs w'
    using that ok by (intro ends_mono [OF Cons.IH]) (auto simp: moves_to_def)
  show ?case
  proof (cases "x_Desired x")
    case None
    then show ?thesis
      using ok by (simp add: settled_objects_unwanted ends_bindE [OF ends_deleteExtra [OF assms(1)] rest])
  next
    case (Some d)
    have key: "object_key d = placed ns (extra_id x)" "u_gvk d \<noteq> podGVK"
      using ok Some by (auto simp: object_key_def)
    define after where "after = (\<lambda>_ :: unstructured. if x_PatchOnly x \<and> x_GVK x = statefulSetGVK
               then bindE (unstickStatefulSetRollout D r ns (x_Name x)) (\<lambda>_. applyExtras D r ns xs)
               else applyExtras D r ns xs)"
    have after: "ends (after u) w' (\<lambda>_. moves_to w (settled_objects xs ns objs))" if "moves_to w objs w'" for objs w' u
    proof -
      have "ends (bindE (unstickStatefulSetRollout D r ns (x_Name x)) (\<lambda>_. applyExtras D r ns xs)) w'
          (\<lambda>_. moves_to w (settled_objects xs ns objs))"
        by (rule ends_bindE [OF ends_unstick [OF assms(1)]], rule rest) (use that in \<open>simp add: moves_to_def\<close>)
      then show ?thesis
        unfolding after_def using rest [OF that] by auto
    qed
    have patch: "ends (bindE (applyTarget r d) after) w
        (\<lambda>_. moves_to w (settled_objects xs ns (insert (placed ns (extra_id x)) (objects w))))"
      by (rule ends_bindE [OF ends_applyTarget [OF assms(1) key(2)]]) (simp only: key(1) after)
    show ?thesis
    proof (cases "x_PatchOnly x")
      case False
      with Some patch show ?thesis
        by (simp add: after_def settled_objects_wanted)
    next
      case True
      have found: "ends (bindE (applyTarget r d) after) w (\<lambda>_. moves_to w (settled_objects xs ns (objects w)))"
        if "placed ns (extra_id x) \<in> fst ` set (cl_Objects w)"
      proof -
        have "insert (placed ns (extra_id x)) (objects w) = objects w"
          using that ok by (simp add: platform_of_def insert_absorb)
        with patch show ?thesis by simp
      qed
      have get: "ends (bindE (GetTarget memory_client (x_GVK x) ns (x_Name x))
          (\<lambda>existing. case existing of None \<Rightarrow> applyExtras D r ns xs | Some _ \<Rightarrow> bindE (applyTarget r d) after)) w
          (\<lambda>_. moves_to w (settled_objects xs ns (objects w)))"
        by (rule ends_bindE [OF ends_GetTarget]) (auto intro!: rest found intro: rev_image_eqI split: option.split)
      moreover have "applyExtras D r ns (x # xs) = bindE (GetTarget memory_client (x_GVK x) ns (x_Name x))
          (\<lambda>existing. case existing of None \<Rightarrow> applyExtras D r ns xs | Some _ \<Rightarrow> bindE (applyTarget r d) after)"
        by (simp only: applyExtras.simps Some True option.case Let_def if_True after_def assms(1))
      ultimately show ?thesis
        using Some True by (simp only: settled_objects_patched)
    qed
  qed
qed

subsection \<open>The two paths\<close>

lemma ends_deletePVCs:
  fixes r :: "('s, 't, ('s, 't) cluster) reconciler"
  assumes "r_Client r = memory_client" and "r_Adapter r = A"
  shows "ends (deletePVCs r c (om_Name (cr_meta c))) w
     (\<lambda>_ w'. objects w' = objects w \<and> cl_Resources w' = cl_Resources w \<and> cl_Classes w' = cl_Classes w \<and>
              set (cl_Claims w') = set (cl_Claims w) - owned_claims A c)"
proof -
  have del: "ends (perform (DeleteAllPVCs ns sel :: ('s, 't) cr call) (api_DeleteAllPVCs memory_client ns sel)) w
     (\<lambda>_ w'. objects w' = objects w \<and> cl_Resources w' = cl_Resources w \<and> cl_Classes w' = cl_Classes w \<and>
              set (cl_Claims w') = set (cl_Claims w) - {ns} \<times> Collect (selects sel))" for ns sel
    by (rule ends_perform, simp add: memory_client_def) (auto simp: platform_of_def)
  show ?thesis
    using del by (cases "a_PVCLabelSelector A")
      (simp_all add: deletePVCs_def assms owned_claims_def Let_def ends_returnE)
qed

lemma update_call:
  assumes "map_of (cl_Resources w) (cr_key c) = Some c"
  shows "api_Update memory_client (with_finalizers fs c) w =
    (Inr (with_finalizers fs c), w\<lparr>cl_Resources :=
       if om_DeletionTimestamp (cr_meta c) \<noteq> None \<and> fs = [] then AList.delete (cr_key c) (cl_Resources w)
       else AList.update (cr_key c) (with_finalizers fs c) (cl_Resources w)\<rparr>)"
  using assms by (simp add: memory_client_def with_finalizers_def cr_key_def Let_def)

lemma kind_not_pod: "(g, k) \<in> kind_ids K n \<Longrightarrow> g \<noteq> podGVK"
  by (cases K) (auto simp: kind_ids_def podGVK_def statefulSetGVK_def adapter_defs)

lemma status_update_call:
  assumes "map_of (cl_Resources w) (cr_key c) = Some c" and "cr_key c2 = cr_key c"
  shows "api_StatusUpdate memory_client c2 w =
    (Inr (c\<lparr>cr_status := cr_status c2\<rparr>),
     w\<lparr>cl_Resources := AList.update (cr_key c) (c\<lparr>cr_status := cr_status c2\<rparr>) (cl_Resources w)\<rparr>)"
  using assms by (simp add: memory_client_def Let_def)

context adapter
begin

lemma listable_extras:
  assumes "keeps_to A K"
  shows "listable (om_Namespace (cr_meta c)) (extras A c (om_Name (cr_meta c)))"
proof -
  have "x_GVK x \<noteq> podGVK" if "x \<in> set (extras A c (om_Name (cr_meta c)))" for x
    using managed_id(2) [OF assms that] kind_not_pod by (simp add: extra_id_def)
  then show ?thesis
    using extras_distinct extras_desired_id extras_namespace
    by (fastforce simp: listable_def object_key_def object_id_def extra_id_def)
qed

lemma ends_deleteExtraResources:
  assumes "r_Client r = memory_client" and "r_Adapter r = A"
  shows "ends (deleteExtraResources r c t) w (\<lambda>_. moves_to w (objects w -
    (\<lambda>x. placed (om_Namespace (cr_meta c)) (extra_id x)) ` set (owned_extras A c t)))"
  using ends_deleteExtras [OF assms(1), of "om_Namespace (cr_meta c)" "extras A c t" w]
  by (simp add: deleteExtraResources_def assms(2) extras_def owned_extras_def Let_def ends_returnE split: option.splits)

lemma ends_reconcileDelete:
  assumes m: "r_Client r = memory_client" and A: "r_Adapter r = A" and D: "finalizers_ok D"
    and c: "map_of (cl_Resources w) (cr_key c) = Some c" and del: "om_DeletionTimestamp (cr_meta c) \<noteq> None"
    and fin: "FinalizerName \<in> set (om_Finalizers (cr_meta c))"
  shows "ends (reconcileDelete D r c (om_Name (cr_meta c))) w
    (\<lambda>res w'. res = emptyResult \<and> promise A (cr_key c) (platform_of w) (platform_of w') \<and> (well_kept w \<longrightarrow> well_kept w'))"
proof -
  let ?n = "om_Name (cr_meta c)" and ?ns = "om_Namespace (cr_meta c)"
  let ?fs = "removeFinalizer D (om_Finalizers (cr_meta c)) FinalizerName"
  have fs: "set ?fs = set (om_Finalizers (cr_meta c)) - {FinalizerName}"
    and has: "containsFinalizer D (om_Finalizers (cr_meta c)) FinalizerName"
    using D fin by (simp_all add: finalizers_ok_def)
  have last: "ends (bindE (perform (Update (with_finalizers ?fs c)) (api_Update memory_client (with_finalizers ?fs c)))
        (\<lambda>_. returnE emptyResult)) w3
      (\<lambda>res w'. res = emptyResult \<and> promise A (cr_key c) (platform_of w) (platform_of w') \<and> (well_kept w \<longrightarrow> well_kept w'))"
    if 1: "moves_to w (objects w - {target_key A c}) w1"
      and 2: "moves_to w1 (objects w1 - (\<lambda>x. placed ?ns (extra_id x)) ` set (owned_extras A c ?n)) w2"
      and 3: "objects w3 = objects w2 \<and> cl_Resources w3 = cl_Resources w2 \<and> cl_Classes w3 = cl_Classes w2 \<and>
              set (cl_Claims w3) = set (cl_Claims w2) - owned_claims A c" for w1 w2 w3
  proof -
    let ?d = "with_finalizers ?fs c" and ?gone = "om_DeletionTimestamp (cr_meta c) \<noteq> None \<and> ?fs = []"
    let ?w4 = "w3\<lparr>cl_Resources := if ?gone then AList.delete (cr_key c) (cl_Resources w3)
       else AList.update (cr_key c) ?d (cl_Resources w3)\<rparr>"
    have same: "cl_Resources w3 = cl_Resources w" "cl_Classes w3 = cl_Classes w" "set (cl_Claims w3) = set (cl_Claims w) - owned_claims A c"
      and objs: "objects w3 = objects w - owned_keys A c"
      using 1 2 3 by (auto simp: moves_to_def owned_keys_def)
    have res: "map_of (cl_Resources ?w4) = (map_of (cl_Resources w))(cr_key c := if ?fs = [] then None else Some ?d)"
      using del by (simp add: same AList.update_conv' AList.delete_conv')
    have "platform_of ?w4 = (platform_of w)
        \<lparr>pf_Resources := (pf_Resources (platform_of w))(cr_key c := if ?fs = [] then None else Some ?d),
         pf_Objects := pf_Objects (platform_of w) - owned_keys A c, pf_Claims := pf_Claims (platform_of w) - owned_claims A c\<rparr>"
      using res objs same by (simp add: platform_of_def)
    moreover have "promise A (cr_key c) (platform_of w) \<dots>"
      by (rule promise.deleted [OF _ del fin fs]) (simp add: platform_of_def c)
    ultimately have "promise A (cr_key c) (platform_of w) (platform_of ?w4)" by simp
    moreover have "well_kept ?w4" if "well_kept w"
      using that res same(2) by (auto simp: well_kept_def with_finalizers_def cr_key_def split: if_splits)
    moreover have "api_Update memory_client ?d w3 = (Inr ?d, ?w4)"
      using c same(1) by (intro update_call) simp
    ultimately show ?thesis
      by (intro ends_bindE [OF ends_perform [where Q = "\<lambda>_ w'. w' = ?w4"]] ends_returnE) simp_all
  qed
  have "ends (bindE (deleteTarget r ?ns ?n) (\<lambda>deleted. bindE (deleteExtraResources r c ?n) (\<lambda>_. bindE (deletePVCs r c ?n) (\<lambda>_.
      bindE (perform (Update (with_finalizers ?fs c)) (api_Update memory_client (with_finalizers ?fs c)))
        (\<lambda>_. returnE emptyResult))))) w
      (\<lambda>res w'. res = emptyResult \<and> promise A (cr_key c) (platform_of w) (platform_of w') \<and> (well_kept w \<longrightarrow> well_kept w'))"
    by (intro ends_bindE [OF ends_deleteTarget [OF m]] ends_bindE [OF ends_deleteExtraResources [OF m A]]
        ends_bindE [OF ends_deletePVCs [OF m A]] last) (simp_all add: A target_key_def)
  then show ?thesis
    using has by (simp add: reconcileDelete_def with_finalizers_def m Let_def)
qed

lemma defaulted_class: "class_defaulted A c (defaulted A ics c)"
proof (cases "\<exists>rq setc. a_IngressClass A = Some (rq, setc) \<and> rq c = ([], True) \<and> unique_default ics \<noteq> []")
  case True
  then obtain rq setc where h: "a_IngressClass A = Some (rq, setc)" "rq c = ([], True)" "unique_default ics \<noteq> []"
    by blast
  with ingress_set [OF h(1), of c "unique_default ics"] obtain c' where "setc c (unique_default ics) = Some c'" by auto
  with h show ?thesis
    by (simp add: class_defaulted_def defaulted_def) blast
next
  case False
  then have "defaulted A ics c = c" by (auto simp: defaulted_def split: option.split)
  then show ?thesis by (simp add: class_defaulted_def)
qed

lemma ends_defaultIngressClass:
  assumes m: "r_Client r = memory_client" and A: "r_Adapter r = A" and w: "well_kept w"
  shows "ends (defaultIngressClass r c) w (\<lambda>c1 w'. w' = w \<and> c1 = defaulted A (cl_Classes w) c)"
proof (cases "a_IngressClass A")
  case None
  then show ?thesis by (simp add: defaultIngressClass_def A defaulted_def ends_returnE)
next
  case (Some p)
  obtain rq setc where p: "p = (rq, setc)" by (cases p)
  obtain cls req where rq: "rq c = (cls, req)" by (cases "rq c")
  have pick: "pickDefaultClass [] (cl_Classes w) = unique_default (cl_Classes w)"
    using w by (intro pickDefaultClass_unique) (simp add: well_kept_def)
  have resolve: "ends (resolveDefaultIngressClass r) w (\<lambda>cls w'. w' = w \<and> cls = unique_default (cl_Classes w))"
    unfolding resolveDefaultIngressClass_def m
    by (rule ends_bindE [OF ends_perform [where Q = "\<lambda>ics w'. w' = w \<and> ics = cl_Classes w"]])
       (auto simp: memory_client_def pick intro: ends_returnE)
  have set: "\<exists>c'. setc c (unique_default (cl_Classes w)) = Some c'" if "rq c = ([], True)"
    using ingress_set [OF Some [unfolded p], of c "unique_default (cl_Classes w)"] that by auto
  show ?thesis
    using set rq by (auto simp: defaultIngressClass_def A Some p defaulted_def
        intro!: ends_returnE ends_bindE [OF resolve])
qed

lemma ends_applyAndMirror:
  assumes m: "r_Client r = memory_client" and A: "r_Adapter r = A" and K: "keeps_to A K"
    and c: "map_of (cl_Resources w) (cr_key c) = Some c" and c1: "class_defaulted A c c1"
  shows "ends (applyAndMirror D r c1 (om_Name (cr_meta c)) ex) w
    (\<lambda>res w'. \<not> Requeue res \<and> cl_Claims w' = cl_Claims w \<and> cl_Classes w' = cl_Classes w \<and>
       objects w' = settled_objects (extras A c1 (om_Name (cr_meta c))) (om_Namespace (cr_meta c))
         (insert (target_key A c) (objects w)) \<and>
       (\<exists>t. map_of (cl_Resources w') = (map_of (cl_Resources w))(cr_key c \<mapsto> c\<lparr>cr_status := t\<rparr>)))"
proof -
  let ?n = "om_Name (cr_meta c)" and ?ns = "om_Namespace (cr_meta c)"
  note meta = class_defaulted_frame(1) [OF c1]
  let ?d = "a_BuildManifest A c1 ?n ?ns ?n"
  have id: "object_id ?d = (a_GVK A, ?n)" "u_namespace ?d = ?ns"
    by (simp_all add: manifest_id manifest_namespace)
  then have key: "object_key ?d = target_key A c" and pod: "u_gvk ?d \<noteq> podGVK"
    using kind_not_pod [OF managed_id(1) [OF K, of c]] by (auto simp: object_key_def object_id_def target_key_def)
  have extras: "ends (applyExtraResources D r c1 ?n) w' (\<lambda>_. moves_to w' (settled_objects (extras A c1 ?n) ?ns (objects w')))" for w'
    using ends_applyExtras [OF m, of ?ns "extras A c1 ?n" D w'] listable_extras [OF K, of c1]
    by (simp add: applyExtraResources_eq A meta)
  let ?Q = "\<lambda>res w'. \<not> Requeue res \<and> cl_Claims w' = cl_Claims w \<and> cl_Classes w' = cl_Classes w \<and>
       objects w' = settled_objects (extras A c1 ?n) ?ns (insert (target_key A c) (objects w)) \<and>
       (\<exists>t. map_of (cl_Resources w') = (map_of (cl_Resources w))(cr_key c \<mapsto> c\<lparr>cr_status := t\<rparr>))"
  have last: "ends (bindE (perform (StatusUpdate c2) (api_StatusUpdate memory_client c2)) (\<lambda>_. returnE res)) w3 ?Q"
    if 3: "moves_to w (settled_objects (extras A c1 ?n) ?ns (insert (target_key A c) (objects w))) w3"
      and "c2 = fst (a_ApplyStatus A c1 ?n s)" and "\<not> Requeue res" for w3 c2 s and res :: Result
  proof -
    let ?w4 = "w3\<lparr>cl_Resources := AList.update (cr_key c) (c\<lparr>cr_status := cr_status c2\<rparr>) (cl_Resources w3)\<rparr>"
    have "cr_key c2 = cr_key c" using that(2) meta by (simp add: cr_key_def apply_status_frame)
    with c 3 have "api_StatusUpdate memory_client c2 w3 = (Inr (c\<lparr>cr_status := cr_status c2\<rparr>), ?w4)"
      by (intro status_update_call) (simp_all add: moves_to_def)
    moreover have "?Q res ?w4"
      using 3 that(3) by (auto simp: moves_to_def platform_of_def AList.update_conv')
    ultimately show ?thesis
      by (intro ends_bindE [OF ends_perform [where Q = "\<lambda>_ w'. w' = ?w4"]] ends_returnE) simp_all
  qed
  let ?rest = "\<lambda>desired. bindE (applyExtraResources D r c1 ?n) (\<lambda>_.
      let status = a_ExtractStatus A (Some desired); c2 = fst (a_ApplyStatus A c1 ?n status)
      in bindE (perform (StatusUpdate c2) (api_StatusUpdate memory_client c2)) (\<lambda>_.
           returnE \<lparr>Requeue = False, RequeueAfter = (if ts_Ready status then 5 * Minute else 15 * Second)\<rparr>))"
  have rest: "ends (?rest desired) w1 ?Q" if "moves_to w (insert (target_key A c) (objects w)) w1" for desired w1
    unfolding Let_def
    by (rule ends_bindE [OF extras], rule last) (use that in \<open>auto simp: moves_to_def\<close>)
  have event: "ends (bindE (if ex = None then perform ev (\<lambda>w. (Inr (), w)) else returnE ()) (\<lambda>_. ?rest desired)) w1 ?Q"
    if "moves_to w (insert (target_key A c) (objects w)) w1" for desired w1 ev
    by (rule ends_bindE [where P = "\<lambda>_ w'. w' = w1"]) (auto intro: ends_perform ends_returnE rest [OF that])
  show ?thesis
    unfolding applyAndMirror_def A m meta Let_def
    by (rule ends_bindE [OF ends_applyTarget [OF m pod]], rule event [unfolded Let_def]) (simp only: key)
qed

lemma ends_register:
  assumes m: "r_Client r = memory_client" and D: "finalizers_ok D"
    and c: "map_of (cl_Resources w) (cr_key c) = Some c" and del: "om_DeletionTimestamp (cr_meta c) = None"
    and fin: "FinalizerName \<notin> set (om_Finalizers (cr_meta c))" and w: "well_kept w"
  shows "ends (reconcileNormal D r c t) w
    (\<lambda>res w'. Requeue res \<and> promise A (cr_key c) (platform_of w) (platform_of w') \<and> well_kept w')"
proof -
  let ?fs = "addFinalizer D (om_Finalizers (cr_meta c)) FinalizerName"
  let ?d = "with_finalizers ?fs c"
  let ?w' = "w\<lparr>cl_Resources := AList.update (cr_key c) ?d (cl_Resources w)\<rparr>"
  have fs: "set ?fs = insert FinalizerName (set (om_Finalizers (cr_meta c)))"
    and has: "\<not> containsFinalizer D (om_Finalizers (cr_meta c)) FinalizerName"
    using D fin by (simp_all add: finalizers_ok_def)
  have "platform_of ?w' = (platform_of w)\<lparr>pf_Resources := (pf_Resources (platform_of w))(cr_key c \<mapsto> ?d)\<rparr>"
    by (simp add: platform_of_def AList.update_conv')
  then have "promise A (cr_key c) (platform_of w) (platform_of ?w')"
    using promise.registered [of "platform_of w" "cr_key c" c ?fs A] c del fin fs by (simp add: platform_of_def)
  moreover have "well_kept ?w'"
    using w by (auto simp: well_kept_def AList.update_conv' with_finalizers_def cr_key_def)
  moreover have "api_Update memory_client ?d w = (Inr ?d, ?w')"
    using update_call [OF c, of ?fs] del by simp
  ultimately have "ends (bindE (perform (Update ?d) (api_Update memory_client ?d)) (\<lambda>_. returnE \<lparr>Requeue = True, RequeueAfter = 0\<rparr>)) w
      (\<lambda>res w'. Requeue res \<and> promise A (cr_key c) (platform_of w) (platform_of w') \<and> well_kept w')"
    by (intro ends_bindE [OF ends_perform [where Q = "\<lambda>_ w'. w' = ?w'"]] ends_returnE) simp_all
  then show ?thesis
    using has by (simp add: reconcileNormal_def with_finalizers_def m Let_def)
qed

lemma ends_settle:
  assumes m: "r_Client r = memory_client" and A: "r_Adapter r = A" and D: "finalizers_ok D" and K: "keeps_to A K"
    and c: "map_of (cl_Resources w) (cr_key c) = Some c" and del: "om_DeletionTimestamp (cr_meta c) = None"
    and fin: "FinalizerName \<in> set (om_Finalizers (cr_meta c))" and w: "well_kept w"
  shows "ends (reconcileNormal D r c (om_Name (cr_meta c))) w
    (\<lambda>res w'. \<not> Requeue res \<and> promise A (cr_key c) (platform_of w) (platform_of w') \<and> well_kept w')"
proof -
  let ?c1 = "defaulted A (cl_Classes w) c" and ?n = "om_Name (cr_meta c)" and ?ns = "om_Namespace (cr_meta c)"
  let ?Q = "\<lambda>res w'. \<not> Requeue res \<and> promise A (cr_key c) (platform_of w) (platform_of w') \<and> well_kept w'"
  have has: "containsFinalizer D (om_Finalizers (cr_meta c)) FinalizerName"
    using D fin by (simp add: finalizers_ok_def)
  have get: "ends (getTarget r ?ns ?n) w (\<lambda>_ w'. w' = w)"
    unfolding getTarget_def m by (rule ends_mono [OF ends_GetTarget]) simp
  have mirror: "ends (applyAndMirror D r ?c1 ?n ex) w ?Q" for ex
  proof (rule ends_mono [OF ends_applyAndMirror [OF m A K c defaulted_class]], elim conjE exE, intro conjI)
    fix res w' t
    assume eq: "cl_Claims w' = cl_Claims w" "cl_Classes w' = cl_Classes w"
      "objects w' = settled_objects (extras A ?c1 ?n) ?ns (insert (target_key A c) (objects w))"
      "map_of (cl_Resources w') = (map_of (cl_Resources w))(cr_key c \<mapsto> c\<lparr>cr_status := t\<rparr>)"
    then have "platform_of w' = (platform_of w)\<lparr>pf_Resources := (pf_Resources (platform_of w))(cr_key c \<mapsto> c\<lparr>cr_status := t\<rparr>),
        pf_Objects := settled_objects (extras A ?c1 ?n) ?ns (insert (target_key A c) (pf_Objects (platform_of w)))\<rparr>"
      by (simp add: platform_of_def)
    then show "promise A (cr_key c) (platform_of w) (platform_of w')"
      using promise.settled [of "platform_of w" "cr_key c" c ?c1 A t] c del fin by (simp add: platform_of_def)
    show "well_kept w'"
      using w eq(2,4) by (auto simp: well_kept_def cr_key_def)
  qed
  have "ends (bindE (defaultIngressClass r c) (\<lambda>c1. applyAndMirror D r c1 ?n ex)) w ?Q" for ex
    by (rule ends_bindE [OF ends_defaultIngressClass [OF m A w]]) (use mirror in auto)
  then have "ends (bindE (getTarget r ?ns ?n) (\<lambda>ex. bindE (defaultIngressClass r c) (\<lambda>c1. applyAndMirror D r c1 ?n ex))) w ?Q"
    by (intro ends_bindE [OF get]) simp
  then show ?thesis
    using has by (simp add: reconcileNormal_def)
qed

text \<open>Any run, whatever is stored under the key.\<close>

lemma ends_Reconcile:
  assumes m: "r_Client r = memory_client" and A: "r_Adapter r = A" and D: "finalizers_ok D" and K: "keeps_to A K"
    and w: "well_kept w"
  shows "ends (Reconcile D r ns n) w
    (\<lambda>res w'. promise A (ns, n) (platform_of w) (platform_of w') \<and> well_kept w' \<and>
       (Requeue res = (\<exists>c. map_of (cl_Resources w) (ns, n) = Some c \<and> om_DeletionTimestamp (cr_meta c) = None \<and>
           FinalizerName \<notin> set (om_Finalizers (cr_meta c)))))"
proof (cases "map_of (cl_Resources w) (ns, n)")
  case None
  then have "api_GetCR memory_client ns n w = (Inl NotFound, w)" by (simp add: memory_client_def)
  moreover have "promise A (ns, n) (platform_of w) (platform_of w)"
    by (rule promise.gone) (simp add: platform_of_def None)
  ultimately show ?thesis
    unfolding Reconcile_def m
    by (intro ends_try_perform) (auto simp: IsNotFound_def None w emptyResult_def intro!: ends_returnE)
next
  case (Some c)
  have key: "cr_key c = (ns, n)" using w Some by (simp add: well_kept_def)
  then have c: "map_of (cl_Resources w) (cr_key c) = Some c" and n: "om_Name (cr_meta c) = n"
    using Some by (simp_all add: cr_key_def)
  have get: "api_GetCR memory_client ns n w = (Inr c, w)" using Some by (simp add: memory_client_def)
  let ?Q = "\<lambda>res w'. promise A (ns, n) (platform_of w) (platform_of w') \<and> well_kept w' \<and>
       (Requeue res = (\<exists>c. map_of (cl_Resources w) (ns, n) = Some c \<and> om_DeletionTimestamp (cr_meta c) = None \<and>
           FinalizerName \<notin> set (om_Finalizers (cr_meta c))))"
  have path: "ends (if om_DeletionTimestamp (cr_meta c) \<noteq> None then reconcileDelete D r c n else reconcileNormal D r c n) w ?Q"
  proof (cases "om_DeletionTimestamp (cr_meta c)")
    case None
    with c key n Some show ?thesis
      by (cases "FinalizerName \<in> set (om_Finalizers (cr_meta c))")
         (auto intro: ends_mono [OF ends_settle [OF m A D K c None _ w]] ends_mono [OF ends_register [OF m D c None _ w]])
  next
    case (Some d)
    then have del: "om_DeletionTimestamp (cr_meta c) \<noteq> None" by simp
    show ?thesis
    proof (cases "FinalizerName \<in> set (om_Finalizers (cr_meta c))")
      case True
      from ends_reconcileDelete [OF m A D c del True] del key n w show ?thesis
        by (auto simp: \<open>map_of (cl_Resources w) (ns, n) = Some c\<close> emptyResult_def elim: ends_mono)
    next
      case False
      have "promise A (ns, n) (platform_of w) (platform_of w)"
        by (rule promise.released [OF _ del False]) (simp add: platform_of_def \<open>map_of (cl_Resources w) (ns, n) = Some c\<close>)
      with False D del w show ?thesis
        by (auto simp: reconcileDelete_def finalizers_ok_def \<open>map_of (cl_Resources w) (ns, n) = Some c\<close> emptyResult_def intro!: ends_returnE)
    qed
  qed
  show ?thesis
    unfolding Reconcile_def m
    by (rule ends_try_perform, rule get) (simp only: sum.case Let_def A target_name n path)
qed

end

subsection \<open>Refinement\<close>


text \<open>A deleted LokiInstance on a server that holds its LokiStack, and a claim of the ingester.\<close>

definition loki_leaving :: "(LokiInstanceSpec, LokiInstanceStatus) cluster" where
  "loki_leaving = (cluster_of (sample_loki (Some ''now'') [FinalizerName]))
     \<lparr>cl_Objects := [((loki_GVK, ''team-a'', ''logs''), new_object loki_GVK ''logs'' ''team-a'' [])]\<rparr>"


subsection \<open>Requeueing ends\<close>

text \<open>
  A result that asks for it is served again at once. The fuel bounds how often; no result is
  the outcome of running out of it.
\<close>

fun requeued :: "nat \<Rightarrow> ('w \<Rightarrow> (error + Result) \<times> 'w) \<Rightarrow> 'w \<Rightarrow> ((error + Result) \<times> 'w) option" where
  "requeued 0 serve w = None"
| "requeued (Suc fuel) serve w =
     (case serve w of
        (Inr res, w') \<Rightarrow> if Requeue res then requeued fuel serve w' else Some (Inr res, w')
      | (Inl e, w') \<Rightarrow> Some (Inl e, w'))"

definition serve_once ::
    "deps \<Rightarrow> ('s, 't, 'w) reconciler \<Rightarrow> string \<Rightarrow> string \<Rightarrow> 'w \<Rightarrow> (error + Result) \<times> 'w" where
  "serve_once D r ns n w = (case Reconcile D r ns n \<lparr>st_world = w, st_trace = []\<rparr> of (res, s) \<Rightarrow> (res, st_world s))"

context adapter
begin

lemma serve_once_step:
  assumes "keeps_to A K" and "finalizers_ok D" and "well_kept w"
  obtains res w' where "serve_once D (memory_reconciler A name) ns n w = (Inr res, w')"
    "promise A (ns, n) (platform_of w) (platform_of w')" "well_kept w'"
    "Requeue res = (\<exists>c. map_of (cl_Resources w) (ns, n) = Some c \<and> om_DeletionTimestamp (cr_meta c) = None \<and>
       FinalizerName \<notin> set (om_Finalizers (cr_meta c)))"
  using ends_Reconcile [of "memory_reconciler A name" D K w ns n] assms
  unfolding ends_def serve_once_def by (fastforce elim: allE [of _ "[]"])

lemma settled_target:
  assumes "promise A k (platform_of w) (platform_of w')" and "map_of (cl_Resources w) k = Some c"
    and "om_DeletionTimestamp (cr_meta c) = None" and "FinalizerName \<in> set (om_Finalizers (cr_meta c))"
  shows "target_key A c \<in> objects w'"
  using assms(1)
proof (cases rule: promise.cases)
  case (settled c' c1 t)
  then have "c' = c" using assms(2) by (simp add: platform_of_def)
  moreover have "om_Name (cr_meta c) = om_Name (cr_meta c)" ..
  moreover have "target_key A c \<notin> (\<lambda>x. placed (om_Namespace (cr_meta c)) (extra_id x)) ` set (extras A c1 (om_Name (cr_meta c)))"
    using extras_not_target [where c = c1 and t = "om_Name (cr_meta c)"] by (auto simp: target_key_def extra_id_def)
  ultimately show ?thesis
    using settled by (auto simp: settled_objects_def)
qed (use assms(2-4) in \<open>auto simp: platform_of_def\<close>)

end



end
