(* ===== verification/SteadyState.thy ===== *)
theory SteadyState
  imports Lifecycle AlloyProps
begin

section \<open>The steady state\<close>

text \<open>
  \<open>Lifecycle\<close> says which objects there are after a run; this theory says what is in them, and that
  reconciling again changes nothing: a run brings the target and every wanted auxiliary object
  back to what the spec asks for, whatever had drifted, and the run after it leaves every object
  as it is. The pods a self-heal deletes are not among these objects, they are the vendor's.
\<close>

subsection \<open>Applying twice\<close>

text \<open>A Go map holds no key twice.\<close>

fun no_repeats :: "json \<Rightarrow> bool" where
  "no_repeats (JObj m) \<longleftrightarrow> distinct (map fst m) \<and> (\<forall>p \<in> set m. no_repeats (snd p))"
| "no_repeats _ \<longleftrightarrow> True"

lemma put_same: "map_of m k = Some v \<Longrightarrow> put k v m = m"
  by (induction m) (auto simp: put_def split: if_splits)

lemma merge_entries_fixed:
  assumes "\<And>k v. (k, v) \<in> set new \<Longrightarrow> \<exists>x. map_of m k = Some x \<and> merge_json v x = x"
  shows "merge_entries new m = m"
  using assms
proof (induction new)
  case (Cons p new)
  obtain k v where p: "p = (k, v)" by (cases p)
  from Cons.prems [of k v] obtain x where "map_of m k = Some x" "merge_json v x = x" by (auto simp: p)
  with Cons show ?case by (simp add: p put_same)
qed simp

lemma map_of_merge_entries:
  "distinct (map fst new) \<Longrightarrow> map_of (merge_entries new m) k =
     (case map_of new k of
        None \<Rightarrow> map_of m k
      | Some v \<Rightarrow> Some (case map_of m k of None \<Rightarrow> v | Some v' \<Rightarrow> merge_json v v'))"
proof (induction new arbitrary: m)
  case (Cons p new)
  obtain k' v where p: "p = (k', v)" by (cases p)
  from Cons.prems have "map_of new k' = None" by (simp add: p map_of_eq_None_iff)
  with Cons show ?case by (auto simp: p split: option.split)
qed simp

lemma merge_idem:
  "no_repeats j \<Longrightarrow> merge_json j j = j \<and> merge_json j (merge_json j s) = merge_json j s"
proof (induction j arbitrary: s)
  case (JObj m)
  have IH: "merge_json v v = v" "merge_json v (merge_json v x) = merge_json v x" if "(k, v) \<in> set m" for k v x
    using JObj.IH [of "(k, v)" v] JObj.prems that by auto
  have get: "map_of m k = Some v" if "(k, v) \<in> set m" for k v
    using JObj.prems that by simp
  have "merge_entries m m = m"
    by (rule merge_entries_fixed) (use IH get in blast)
  moreover have "merge_entries m (merge_entries m s') = merge_entries m s'" for s'
    by (rule merge_entries_fixed) (use JObj.prems IH get in \<open>auto simp: map_of_merge_entries split: option.split\<close>)
  ultimately show ?case by (cases s) simp_all
qed simp_all

lemma server_apply_idem:
  "no_repeats (JObj (u_object d)) \<Longrightarrow> server_apply d (Some (server_apply d v)) = server_apply d v"
  using merge_idem [of "JObj (u_object d)" "JObj (u_object (the v))"]
  by (cases v) (auto simp: server_apply_def)

subsection \<open>Contents\<close>

definition contents :: "('s, 't) cluster \<Rightarrow> gvk \<times> string \<times> string \<Rightarrow> unstructured option" where
  "contents w k = (if fst k = podGVK then None else map_of (cl_Objects w) k)"

text \<open>A step that leaves the contents \<open>m\<close> and changes nothing but objects.\<close>

definition leaves ::
    "('s, 't) cluster \<Rightarrow> (gvk \<times> string \<times> string \<Rightarrow> unstructured option) \<Rightarrow> ('s, 't) cluster \<Rightarrow> bool" where
  "leaves w m w' \<longleftrightarrow> contents w' = m \<and> cl_Resources w' = cl_Resources w \<and>
     cl_Claims w' = cl_Claims w \<and> cl_Classes w' = cl_Classes w"

lemma contents_resources [simp]: "contents (w\<lparr>cl_Resources := x\<rparr>) = contents w"
  by (simp add: contents_def fun_eq_iff)

lemma leaves_refl [simp]: "leaves w (contents w) w"
  by (simp add: leaves_def)

lemma leaves_trans: "leaves w m w1 \<Longrightarrow> leaves w1 m' w2 \<Longrightarrow> leaves w m' w2"
  by (simp add: leaves_def)

lemma leaves_delete: "leaves w ((contents w)(k := None)) (w\<lparr>cl_Objects := AList.delete k (cl_Objects w)\<rparr>)"
  by (auto simp: leaves_def contents_def delete_conv')

lemma leaves_update:
  "fst k \<noteq> podGVK \<Longrightarrow> leaves w ((contents w)(k \<mapsto> u)) (w\<lparr>cl_Objects := AList.update k u (cl_Objects w)\<rparr>)"
  by (auto simp: leaves_def contents_def fun_eq_iff update_conv')

lemma delete_leaves:
  obtains res w' where "api_Delete memory_client g ns n w = (res, w')" "res = Inl NotFound \<or> res = Inr ()"
    "leaves w ((contents w)((g, ns, n) := None)) w'"
proof (cases "map_of (cl_Objects w) (g, ns, n)")
  case None
  then have "(contents w)((g, ns, n) := None) = contents w" by (auto simp: contents_def)
  then show ?thesis
    using that [of "Inl NotFound" w] None by (simp add: memory_client_def)
next
  case (Some u)
  show ?thesis
    by (rule that [of "Inr ()", OF _ _ leaves_delete]) (simp_all add: memory_client_def Some)
qed

lemma ends_delete_leaves:
  assumes "\<And>res w'. res = Inl NotFound \<or> res = Inr () \<Longrightarrow> leaves w ((contents w)((g, ns, n) := None)) w' \<Longrightarrow> ends (h res) w' Q"
  shows "ends (tryE (perform (Delete g ns n) (api_Delete memory_client g ns n)) h) w Q"
  by (rule delete_leaves [of g ns n w]) (auto intro: ends_try_perform assms)

lemma deleteExtra_leaves:
  "r_Client r = memory_client \<Longrightarrow> ends (deleteExtra r g ns n) w (\<lambda>_. leaves w ((contents w)((g, ns, n) := None)))"
  by (auto simp: deleteExtra_def IsNotFound_def intro!: ends_delete_leaves ends_returnE)

lemma applyTarget_leaves:
  assumes "r_Client r = memory_client" and "u_gvk d \<noteq> podGVK"
  shows "ends (applyTarget r d) w
    (\<lambda>u w'. u = server_apply d (contents w (object_key d)) \<and> leaves w ((contents w)(object_key d \<mapsto> u)) w')"
  unfolding applyTarget_def Let_def assms(1)
  by (rule ends_perform, simp add: memory_client_def Let_def)
     (use assms(2) in \<open>simp add: leaves_update object_key_def contents_def\<close>)

lemma contents_minus_pod [simp]: "(contents w)((podGVK, ns, n) := None) = contents w"
  by (auto simp: contents_def)

lemma deleteStalePods_leaves:
  "r_Client r = memory_client \<Longrightarrow> ends (deleteStalePods r rv pods) w (\<lambda>_. leaves w (contents w))"
proof (induction pods arbitrary: w)
  case (Cons pod pods)
  have "ends (deleteStalePods r rv pods) w' (\<lambda>_. leaves w (contents w))" if "leaves w (contents w) w'" for w'
    using that by (intro ends_mono [OF Cons.IH [OF Cons.prems, of w']]) (simp add: leaves_def)
  then show ?case
    by (auto simp: Cons.prems IsNotFound_def intro!: ends_delete_leaves)
qed (simp add: ends_returnE)

lemma unstick_leaves:
  assumes "r_Client r = memory_client"
  shows "ends (unstickStatefulSetRollout D r ns n) w (\<lambda>_. leaves w (contents w))"
  unfolding unstickStatefulSetRollout_def assms
  by (rule ends_bindE [OF ends_GetTarget])
     (auto simp: Let_def memory_client_def intro!: ends_returnE ends_bindE [OF ends_perform, where P = "\<lambda>_ w'. w' = w"]
        deleteStalePods_leaves [OF assms] split: option.split)

subsection \<open>Auxiliary objects\<close>

text \<open>What becomes of the object of one auxiliary resource: pruned, left to the vendor, or brought to its desired form.\<close>

definition settle_one :: "ExtraResource \<Rightarrow> unstructured option \<Rightarrow> unstructured option" where
  "settle_one x v =
     (case x_Desired x of
        None \<Rightarrow> None
      | Some d \<Rightarrow> if x_PatchOnly x \<and> v = None then None else Some (server_apply d v))"

fun settle_all :: "string \<Rightarrow> ExtraResource list \<Rightarrow> (gvk \<times> string \<times> string \<Rightarrow> unstructured option) \<Rightarrow>
    (gvk \<times> string \<times> string \<Rightarrow> unstructured option)" where
  "settle_all ns [] m = m"
| "settle_all ns (x # xs) m =
     settle_all ns xs (m(placed ns (extra_id x) := settle_one x (m (placed ns (extra_id x)))))"

lemma settle_all_other: "k \<notin> (\<lambda>x. placed ns (extra_id x)) ` set xs \<Longrightarrow> settle_all ns xs m k = m k"
  by (induction xs arbitrary: m) auto

lemma placed_inj: "placed ns a = placed ns b \<longleftrightarrow> a = b"
  by (cases a; cases b) auto

lemma settle_all_at:
  "distinct (map extra_id xs) \<Longrightarrow> x \<in> set xs \<Longrightarrow>
   settle_all ns xs m (placed ns (extra_id x)) = settle_one x (m (placed ns (extra_id x)))"
proof (induction xs arbitrary: m)
  case (Cons y ys)
  show ?case
  proof (cases "x = y")
    case True
    with Cons.prems(1) have "placed ns (extra_id x) \<notin> (\<lambda>x. placed ns (extra_id x)) ` set ys"
      by (auto simp: placed_inj simp del: placed_simps)
    with True show ?thesis by (simp add: settle_all_other del: placed_simps)
  next
    case False
    with Cons.prems have x: "x \<in> set ys" by auto
    then have "extra_id x \<in> extra_id ` set ys" by (rule imageI)
    with Cons.prems(1) have "extra_id x \<noteq> extra_id y" by auto
    note x this
    with Cons show ?thesis by (simp add: placed_inj del: placed_simps)
  qed
qed simp

lemma settle_one_idem:
  "(\<And>d. x_Desired x = Some d \<Longrightarrow> no_repeats (JObj (u_object d))) \<Longrightarrow> settle_one x (settle_one x v) = settle_one x v"
  by (auto simp: settle_one_def server_apply_idem split: option.split)

lemma settle_all_idem:
  assumes "distinct (map extra_id xs)"
    and "\<And>x d. x \<in> set xs \<Longrightarrow> x_Desired x = Some d \<Longrightarrow> no_repeats (JObj (u_object d))"
  shows "settle_all ns xs (settle_all ns xs m) = settle_all ns xs m"
proof
  fix k
  show "settle_all ns xs (settle_all ns xs m) k = settle_all ns xs m k"
  proof (cases "k \<in> (\<lambda>x. placed ns (extra_id x)) ` set xs")
    case True
    then obtain x where "x \<in> set xs" "k = placed ns (extra_id x)" by blast
    with assms show ?thesis by (simp add: settle_all_at settle_one_idem del: placed_simps)
  qed (simp add: settle_all_other)
qed

lemma applyExtras_leaves:
  assumes "r_Client r = memory_client" and "listable ns xs"
  shows "ends (applyExtras D r ns xs) w (\<lambda>_. leaves w (settle_all ns xs (contents w)))"
  using assms(2)
proof (induction xs arbitrary: w)
  case Nil
  show ?case by (simp add: ends_returnE)
next
  case (Cons x xs)
  let ?k = "placed ns (extra_id x)"
  note ok = Cons.prems [unfolded listable_Cons]
  have rest: "ends (applyExtras D r ns xs) w' (\<lambda>_. leaves w (settle_all ns xs m))" if "leaves w m w'" for m w'
    using that ok by (intro ends_mono [OF Cons.IH]) (auto simp: leaves_def)
  have pod: "fst ?k \<noteq> podGVK" using ok by simp
  show ?case
  proof (cases "x_Desired x")
    case None
    have "ends (bindE (deleteExtra r (x_GVK x) ns (x_Name x)) (\<lambda>_. applyExtras D r ns xs)) w
        (\<lambda>_. leaves w (settle_all ns xs ((contents w)(?k := None))))"
      by (rule ends_bindE [OF deleteExtra_leaves [OF assms(1)] rest]) simp
    with None show ?thesis by (simp add: settle_one_def)
  next
    case (Some d)
    have key: "object_key d = ?k" "u_gvk d \<noteq> podGVK"
      using ok Some by (auto simp: object_key_def)
    define after where "after = (\<lambda>_ :: unstructured. if x_PatchOnly x \<and> x_GVK x = statefulSetGVK
               then bindE (unstickStatefulSetRollout D r ns (x_Name x)) (\<lambda>_. applyExtras D r ns xs)
               else applyExtras D r ns xs)"
    have after: "ends (after u) w' (\<lambda>_. leaves w (settle_all ns xs m))" if "leaves w m w'" for m w' u
    proof -
      have "ends (bindE (unstickStatefulSetRollout D r ns (x_Name x)) (\<lambda>_. applyExtras D r ns xs)) w'
          (\<lambda>_. leaves w (settle_all ns xs m))"
        by (rule ends_bindE [OF unstick_leaves [OF assms(1)]], rule rest) (use that in \<open>simp add: leaves_def\<close>)
      then show ?thesis
        unfolding after_def using rest [OF that] by auto
    qed
    have patch: "ends (bindE (applyTarget r d) after) w
        (\<lambda>_. leaves w (settle_all ns xs ((contents w)(?k \<mapsto> server_apply d (contents w ?k)))))"
      by (rule ends_bindE [OF applyTarget_leaves [OF assms(1) key(2)]], elim conjE, rule after) (simp only: key(1))
    have wanted: "settle_all ns (x # xs) (contents w) =
        settle_all ns xs ((contents w)(?k \<mapsto> server_apply d (contents w ?k)))"
      if "\<not> x_PatchOnly x \<or> contents w ?k \<noteq> None"
      using that Some by (auto simp: settle_one_def)
    show ?thesis
    proof (cases "x_PatchOnly x")
      case False
      then have "applyExtras D r ns (x # xs) = bindE (applyTarget r d) after"
        using Some by (simp add: after_def)
      with patch False show ?thesis by (simp only: wanted simp_thms)
    next
      case True
      have missing: "settle_all ns (x # xs) (contents w) = settle_all ns xs (contents w)" if "contents w ?k = None"
        using that True Some fun_upd_triv [of "contents w" ?k] by (simp add: settle_one_def del: placed_simps)
      have found: "contents w ?k = None \<longleftrightarrow> ?k \<notin> fst ` set (cl_Objects w)"
        using pod by (simp add: contents_def map_of_eq_None_iff)
      let ?Q = "\<lambda>_. leaves w (settle_all ns (x # xs) (contents w))"
      have absent: "ends (applyExtras D r ns xs) w ?Q" if "?k \<notin> fst ` set (cl_Objects w)"
        using rest [OF leaves_refl] missing found that by (simp only: simp_thms)
      have there: "ends (bindE (applyTarget r d) after) w ?Q" if "?k \<in> fst ` set (cl_Objects w)"
        using patch wanted found that by (simp only: simp_thms)
      have get: "ends (bindE (GetTarget memory_client (x_GVK x) ns (x_Name x))
          (\<lambda>existing. case existing of None \<Rightarrow> applyExtras D r ns xs | Some _ \<Rightarrow> bindE (applyTarget r d) after)) w ?Q"
        by (rule ends_bindE [OF ends_GetTarget], elim conjE)
           (use absent there in \<open>auto split: option.split simp del: settle_all.simps\<close>)
      moreover have "applyExtras D r ns (x # xs) = bindE (GetTarget memory_client (x_GVK x) ns (x_Name x))
          (\<lambda>existing. case existing of None \<Rightarrow> applyExtras D r ns xs | Some _ \<Rightarrow> bindE (applyTarget r d) after)"
        by (simp only: applyExtras.simps Some True option.case Let_def if_True after_def assms(1))
      ultimately show ?thesis by simp
    qed
  qed
qed

subsection \<open>One run\<close>

text \<open>
  What a settled resource leaves in its objects: the target and the auxiliary objects in the form
  the spec asks for, merged into what was there.
\<close>

definition settled_contents ::
    "('s, 't) adapter \<Rightarrow> ('s, 't) cr \<Rightarrow> (gvk \<times> string \<times> string \<Rightarrow> unstructured option) \<Rightarrow>
     (gvk \<times> string \<times> string \<Rightarrow> unstructured option)" where
  "settled_contents A c m =
     (let n = om_Name (cr_meta c); ns = om_Namespace (cr_meta c); d = a_BuildManifest A c n ns n
      in settle_all ns (extras A c n) (m(target_key A c \<mapsto> server_apply d (m (target_key A c)))))"

definition settled_status :: "('s, 't) adapter \<Rightarrow> ('s, 't) cr \<Rightarrow> (gvk \<times> string \<times> string \<Rightarrow> unstructured option) \<Rightarrow> 't" where
  "settled_status A c m =
     (let n = om_Name (cr_meta c); ns = om_Namespace (cr_meta c); d = a_BuildManifest A c n ns n
      in cr_status (fst (a_ApplyStatus A c n (a_ExtractStatus A (Some (server_apply d (m (target_key A c))))))))"

definition live :: "('s, 't) cr \<Rightarrow> bool" where
  "live c \<longleftrightarrow> om_DeletionTimestamp (cr_meta c) = None \<and> FinalizerName \<in> set (om_Finalizers (cr_meta c))"

text \<open>A run of \<open>c\<close>, made up to \<open>c1\<close>, has settled it.\<close>

definition settles ::
    "('s, 't) adapter \<Rightarrow> ('s, 't) cr \<Rightarrow> ('s, 't) cr \<Rightarrow> ('s, 't) cluster \<Rightarrow> ('s, 't) cluster \<Rightarrow> bool" where
  "settles A c c1 w w' \<longleftrightarrow>
     contents w' = settled_contents A c1 (contents w) \<and> cl_Claims w' = cl_Claims w \<and> cl_Classes w' = cl_Classes w \<and>
     map_of (cl_Resources w') = (map_of (cl_Resources w))(cr_key c \<mapsto> c\<lparr>cr_status := settled_status A c1 (contents w)\<rparr>)"

lemma settles_well_kept:
  assumes "settles A c c1 w w'" and "well_kept w"
  shows "well_kept w'"
  using assms by (auto simp: settles_def well_kept_def cr_key_def split: if_splits)

context adapter
begin

lemma ends_applyAndMirror_settles:
  assumes m: "r_Client r = memory_client" and A: "r_Adapter r = A" and K: "keeps_to A K"
    and c: "map_of (cl_Resources w) (cr_key c) = Some c" and c1: "class_defaulted A c c1"
  shows "ends (applyAndMirror D r c1 (om_Name (cr_meta c)) ex) w (\<lambda>_. settles A c c1 w)"
proof -
  let ?n = "om_Name (cr_meta c)" and ?ns = "om_Namespace (cr_meta c)"
  note meta = class_defaulted_frame(1) [OF c1]
  let ?d = "a_BuildManifest A c1 ?n ?ns ?n"
  let ?u = "server_apply ?d (contents w (target_key A c))"
  let ?m = "(contents w)(target_key A c \<mapsto> ?u)" and ?c2 = "fst (a_ApplyStatus A c1 ?n (a_ExtractStatus A (Some ?u)))"
  have id: "object_id ?d = (a_GVK A, ?n)" "u_namespace ?d = ?ns"
    by (simp_all add: manifest_id manifest_namespace)
  then have key: "object_key ?d = target_key A c" and pod: "u_gvk ?d \<noteq> podGVK"
    using kind_not_pod [OF managed_id(1) [OF K, of c]] by (auto simp: object_key_def object_id_def target_key_def)
  have target: "target_key A c1 = target_key A c" by (simp add: target_key_def meta)
  have extras: "ends (applyExtraResources D r c1 ?n) w' (\<lambda>_. leaves w' (settle_all ?ns (extras A c1 ?n) (contents w')))" for w'
    using applyExtras_leaves [OF m, of ?ns "extras A c1 ?n" D w'] listable_extras [OF K, of c1]
    by (simp add: applyExtraResources_eq A meta)
  have last: "ends (bindE (perform (StatusUpdate ?c2) (api_StatusUpdate memory_client ?c2)) (\<lambda>_. returnE res)) w3 (\<lambda>_. settles A c c1 w)"
    if 3: "leaves w (settle_all ?ns (extras A c1 ?n) ?m) w3" for w3 and res :: Result
  proof -
    let ?w4 = "w3\<lparr>cl_Resources := AList.update (cr_key c) (c\<lparr>cr_status := cr_status ?c2\<rparr>) (cl_Resources w3)\<rparr>"
    have "cr_key ?c2 = cr_key c" using meta by (simp add: cr_key_def apply_status_frame)
    with c 3 have "api_StatusUpdate memory_client ?c2 w3 = (Inr (c\<lparr>cr_status := cr_status ?c2\<rparr>), ?w4)"
      by (intro status_update_call) (simp_all add: leaves_def)
    moreover have "settles A c c1 w ?w4"
      using 3 by (simp add: settles_def settled_contents_def settled_status_def leaves_def Let_def meta target AList.update_conv')
    ultimately show ?thesis
      by (intro ends_bindE [OF ends_perform [where Q = "\<lambda>_ w'. w' = ?w4"]] ends_returnE) simp_all
  qed
  let ?rest = "bindE (applyExtraResources D r c1 ?n) (\<lambda>_.
      let status = a_ExtractStatus A (Some ?u); c2 = fst (a_ApplyStatus A c1 ?n status)
      in bindE (perform (StatusUpdate c2) (api_StatusUpdate memory_client c2)) (\<lambda>_.
           returnE \<lparr>Requeue = False, RequeueAfter = (if ts_Ready status then 5 * Minute else 15 * Second)\<rparr>))"
  have rest: "ends ?rest w1 (\<lambda>_. settles A c c1 w)" if "leaves w ?m w1" for w1
    unfolding Let_def
    by (rule ends_bindE [OF extras], rule last) (use that in \<open>auto simp: leaves_def\<close>)
  have event: "ends (bindE (if ex = None then perform ev (\<lambda>w. (Inr (), w)) else returnE ()) (\<lambda>_. ?rest)) w1 (\<lambda>_. settles A c c1 w)"
    if "leaves w ?m w1" for w1 ev
    by (rule ends_bindE [where P = "\<lambda>_ w'. w' = w1"]) (auto intro: ends_perform ends_returnE rest [OF that])
  show ?thesis
    unfolding applyAndMirror_def A m meta Let_def
    by (rule ends_bindE [OF applyTarget_leaves [OF m pod]], elim conjE, simp only: key, rule event [unfolded Let_def])
qed

lemma Reconcile_settles:
  assumes m: "r_Client r = memory_client" and A: "r_Adapter r = A" and D: "finalizers_ok D" and K: "keeps_to A K"
    and w: "well_kept w" and c: "map_of (cl_Resources w) (ns, n) = Some c" and "live c"
  shows "ends (Reconcile D r ns n) w (\<lambda>_ w'. settles A c (defaulted A (cl_Classes w) c) w w' \<and> well_kept w')"
proof -
  have key: "cr_key c = (ns, n)" using w c by (simp add: well_kept_def)
  then have n: "om_Name (cr_meta c) = n" and ns: "om_Namespace (cr_meta c) = ns" by (simp_all add: cr_key_def)
  have c': "map_of (cl_Resources w) (cr_key c) = Some c" using c key by simp
  let ?Q = "\<lambda>_ w'. settles A c (defaulted A (cl_Classes w) c) w w' \<and> well_kept w'"
  have mirror: "ends (applyAndMirror D r (defaulted A (cl_Classes w) c) n ex) w ?Q" for ex
    by (rule ends_mono [OF ends_applyAndMirror_settles [OF m A K c' defaulted_class, unfolded n]])
       (rule conjI, assumption, rule settles_well_kept [OF _ w])
  have "ends (bindE (defaultIngressClass r c) (\<lambda>c1. applyAndMirror D r c1 n ex)) w ?Q" for ex
    by (rule ends_bindE [OF ends_defaultIngressClass [OF m A w]]) (elim conjE, simp only: mirror)
  then have "ends (bindE (getTarget r ns n) (\<lambda>ex. bindE (defaultIngressClass r c) (\<lambda>c1. applyAndMirror D r c1 n ex))) w ?Q"
    unfolding getTarget_def m by (intro ends_bindE [OF ends_GetTarget]) simp
  moreover have "containsFinalizer D (om_Finalizers (cr_meta c)) FinalizerName"
    using D \<open>live c\<close> by (simp add: finalizers_ok_def live_def)
  ultimately have "ends (reconcileNormal D r c n) w ?Q"
    by (simp add: reconcileNormal_def ns)
  then have path: "ends (if om_DeletionTimestamp (cr_meta c) \<noteq> None then reconcileDelete D r c n else reconcileNormal D r c n) w ?Q"
    using \<open>live c\<close> by (simp add: live_def)
  have get: "api_GetCR memory_client ns n w = (Inr c, w)" using c by (simp add: memory_client_def)
  show ?thesis
    unfolding Reconcile_def m
    by (rule ends_try_perform, rule get) (simp only: sum.case Let_def A target_name n path)
qed

end

subsection \<open>The next run\<close>

text \<open>
  Setting a condition that is set already changes nothing, not even the time of its last
  transition: documented behaviour of \<open>meta.SetStatusCondition\<close>.
\<close>

definition conditions_settle :: "deps \<Rightarrow> bool" where
  "conditions_settle D \<longleftrightarrow>
     (\<forall>cs c. setStatusCondition D (setStatusCondition D cs c) c = setStatusCondition D cs c)"

lemma conditions_settle_doc: "conditions_settle doc_deps"
proof -
  have "doc_setStatusCondition (doc_setStatusCondition cs c) c = doc_setStatusCondition cs c" for cs c
  proof (cases "find (\<lambda>d. cond_Type d = cond_Type c) cs")
    case None
    then have "\<forall>d \<in> set cs. cond_Type d \<noteq> cond_Type c" by (auto simp: find_None_iff)
    then have "map (\<lambda>d. if cond_Type d = cond_Type c then c else d) cs = cs" by (simp add: map_idI)
    moreover have "find (\<lambda>d. cond_Type d = cond_Type c) (cs @ [c]) \<noteq> None" by (auto simp: find_None_iff)
    ultimately show ?thesis using None by (simp add: doc_setStatusCondition_def)
  next
    case (Some d)
    then show ?thesis
      using find_map_replace [of c cs] by (simp add: doc_setStatusCondition_def)
  qed
  then show ?thesis by (simp add: conditions_settle_def doc_deps_def)
qed

text \<open>No map in what is built holds a key twice.\<close>

definition builds_maps :: "('s, 't) adapter \<Rightarrow> ('s, 't) cr \<Rightarrow> bool" where
  "builds_maps A c \<longleftrightarrow>
     no_repeats (JObj (u_object (a_BuildManifest A c (om_Name (cr_meta c)) (om_Namespace (cr_meta c)) (om_Name (cr_meta c))))) \<and>
     (\<forall>x \<in> set (extras A c (om_Name (cr_meta c))). \<forall>d. x_Desired x = Some d \<longrightarrow> no_repeats (JObj (u_object d)))"

text \<open>
  What the steady state needs of an adapter beyond its contract: what it builds does not depend on
  the status it writes, and writing the same status again changes nothing.
\<close>

locale steady = adapter A ready_of for A :: "('s, 't) adapter" and ready_of +
  fixes D :: deps
  assumes manifest_blind: "a_BuildManifest A (c\<lparr>cr_status := t\<rparr>) n ns ow = a_BuildManifest A c n ns ow"
    and extras_blind: "extras A (c\<lparr>cr_status := t\<rparr>) n = extras A c n"
    and class_blind: "a_IngressClass A = Some (rq, setc) \<Longrightarrow> rq (c\<lparr>cr_status := t\<rparr>) = rq c"
      "a_IngressClass A = Some (rq, setc) \<Longrightarrow>
       setc (c\<lparr>cr_status := t\<rparr>) cls = map_option (\<lambda>d. d\<lparr>cr_status := t\<rparr>) (setc c cls)"
    and status_settles: "conditions_settle D \<Longrightarrow>
      fst (a_ApplyStatus A (fst (a_ApplyStatus A c n s)) n s) = fst (a_ApplyStatus A c n s)"
begin

lemma defaulted_blind: "defaulted A ics (c\<lparr>cr_status := t\<rparr>) = (defaulted A ics c)\<lparr>cr_status := t\<rparr>"
proof (cases "a_IngressClass A")
  case (Some p)
  obtain rq setc where p: "p = (rq, setc)" by (cases p)
  show ?thesis
  proof (cases "rq c = ('''', True)")
    case True
    then obtain c' where "setc c (unique_default ics) = Some c'"
      using ingress_set [OF Some [unfolded p], of c "unique_default ics"] by auto
    then show ?thesis
      using class_blind [OF Some [unfolded p]] by (simp add: defaulted_def Some p)
  qed (simp add: defaulted_def Some p class_blind [OF Some [unfolded p]])
qed (simp add: defaulted_def)

lemma settled_blind: "settled_contents A (c\<lparr>cr_status := t\<rparr>) m = settled_contents A c m"
  by (simp add: settled_contents_def manifest_blind extras_blind target_key_def)

lemma settled_contents_target: "settled_contents A c m (target_key A c) =
    Some (server_apply (a_BuildManifest A c (om_Name (cr_meta c)) (om_Namespace (cr_meta c)) (om_Name (cr_meta c))) (m (target_key A c)))"
proof -
  have "target_key A c \<notin> (\<lambda>x. placed (om_Namespace (cr_meta c)) (extra_id x)) ` set (extras A c (om_Name (cr_meta c)))"
    using extras_not_target [where c = c and t = "om_Name (cr_meta c)"] by (auto simp: target_key_def extra_id_def)
  then show ?thesis by (simp add: settled_contents_def Let_def settle_all_other)
qed

lemma settled_idem:
  assumes "builds_maps A c"
  shows "settled_contents A c (settled_contents A c m) = settled_contents A c m"
proof -
  let ?n = "om_Name (cr_meta c)" and ?ns = "om_Namespace (cr_meta c)" and ?k = "target_key A c"
  let ?d = "a_BuildManifest A c ?n ?ns ?n" and ?m' = "settled_contents A c m"
  have "?m'(?k \<mapsto> server_apply ?d (?m' ?k)) = ?m'"
    using assms by (simp add: settled_contents_target builds_maps_def server_apply_idem fun_upd_idem)
  then have "settled_contents A c ?m' = settle_all ?ns (extras A c ?n) ?m'"
    by (simp add: settled_contents_def [of A c ?m'] Let_def)
  also have "\<dots> = ?m'"
    unfolding settled_contents_def Let_def
    using assms extras_distinct by (intro settle_all_idem) (auto simp: builds_maps_def)
  finally show ?thesis .
qed

lemma settled_status_idem:
  assumes "builds_maps A c" and "conditions_settle D"
  shows "settled_status A (c\<lparr>cr_status := settled_status A c m\<rparr>) (settled_contents A c m) = settled_status A c m"
proof -
  let ?n = "om_Name (cr_meta c)" and ?ns = "om_Namespace (cr_meta c)" and ?k = "target_key A c"
  let ?d = "a_BuildManifest A c ?n ?ns ?n"
  let ?s = "a_ExtractStatus A (Some (server_apply ?d (m ?k)))"
  have blind: "settled_status A (c\<lparr>cr_status := t\<rparr>) m' =
      cr_status (fst (a_ApplyStatus A (c\<lparr>cr_status := t\<rparr>) ?n (a_ExtractStatus A (Some (server_apply ?d (m' ?k))))))" for t m'
    by (simp add: settled_status_def manifest_blind target_key_def Let_def)
  have same: "server_apply ?d (settled_contents A c m ?k) = server_apply ?d (m ?k)"
    using assms(1) by (simp add: settled_contents_target builds_maps_def server_apply_idem)
  have applied: "c\<lparr>cr_status := settled_status A c m\<rparr> = fst (a_ApplyStatus A c ?n ?s)"
    by (simp add: settled_status_def Let_def apply_status_frame)
  have "settled_status A (c\<lparr>cr_status := settled_status A c m\<rparr>) (settled_contents A c m) =
      cr_status (fst (a_ApplyStatus A (c\<lparr>cr_status := settled_status A c m\<rparr>) ?n ?s))"
    by (simp only: blind same)
  also have "\<dots> = cr_status (fst (a_ApplyStatus A (fst (a_ApplyStatus A c ?n ?s)) ?n ?s))"
    by (simp only: applied)
  also have "\<dots> = settled_status A c m"
    by (simp only: status_settles [OF assms(2)]) (simp add: settled_status_def Let_def)
  finally show ?thesis .
qed

lemma settles_twice:
  assumes c: "map_of (cl_Resources w) k = Some c" and k: "cr_key c = k" and "conditions_settle D"
    and maps: "builds_maps A (defaulted A (cl_Classes w) c)"
    and 1: "settles A c (defaulted A (cl_Classes w) c) w w1"
    and 2: "settles A c1 (defaulted A (cl_Classes w1) c1) w1 w2"
    and c1: "map_of (cl_Resources w1) k = Some c1"
  shows "contents w2 = contents w1 \<and> map_of (cl_Resources w2) = map_of (cl_Resources w1) \<and>
         cl_Claims w2 = cl_Claims w1 \<and> cl_Classes w2 = cl_Classes w1"
proof -
  let ?d = "defaulted A (cl_Classes w) c" and ?t = "settled_status A (defaulted A (cl_Classes w) c) (contents w)"
  have c1: "c1 = c\<lparr>cr_status := ?t\<rparr>" and classes: "cl_Classes w1 = cl_Classes w"
    and w1: "contents w1 = settled_contents A ?d (contents w)"
    using 1 c1 k by (simp_all add: settles_def)
  have d1: "defaulted A (cl_Classes w1) c1 = ?d\<lparr>cr_status := ?t\<rparr>"
    by (simp add: c1 classes defaulted_blind)
  have "contents w2 = contents w1"
    using 2 maps by (simp add: settles_def d1 settled_blind w1 settled_idem)
  moreover have "settled_status A (?d\<lparr>cr_status := ?t\<rparr>) (settled_contents A ?d (contents w)) = ?t"
    using maps assms(3) by (simp add: settled_status_idem)
  then have "map_of (cl_Resources w2) = map_of (cl_Resources w1)"
    using 1 2 k by (simp add: settles_def c1 classes defaulted_blind cr_key_def)
  ultimately show ?thesis using 2 by (simp add: settles_def)
qed

end

subsection \<open>The ten integrations\<close>

lemma steadyI:
  assumes "adapter A ready_of"
    and "\<And>c t n ns ow. a_BuildManifest A (c\<lparr>cr_status := t\<rparr>) n ns ow = a_BuildManifest A c n ns ow"
    and "\<And>c t n. extras A (c\<lparr>cr_status := t\<rparr>) n = extras A c n"
    and "\<And>rq setc c t. a_IngressClass A = Some (rq, setc) \<Longrightarrow> rq (c\<lparr>cr_status := t\<rparr>) = rq c"
    and "\<And>rq setc c t cls. a_IngressClass A = Some (rq, setc) \<Longrightarrow>
       setc (c\<lparr>cr_status := t\<rparr>) cls = map_option (\<lambda>d. d\<lparr>cr_status := t\<rparr>) (setc c cls)"
    and "\<And>c n s. conditions_settle D \<Longrightarrow>
      fst (a_ApplyStatus A (fst (a_ApplyStatus A c n s)) n s) = fst (a_ApplyStatus A c n s)"
  shows "steady A ready_of D"
  using assms by (simp add: steady_def steady_axioms_def)

lemmas steady_simps = extras_def Let_def conditions_settle_def set_ready_condition_def

interpretation cnpg_steady: steady "cnpg_Adapter D j" pgs_Ready D
  by (rule steadyI)
    (use cnpg.adapter_axioms [of D j] in \<open>auto simp: steady_simps cnpg_view_def cnpg_BuildManifest_def cnpg_ExtraResources_def
      cnpg_ApplyStatus_def split: option.split\<close>)

interpretation mariadb_steady: steady "mariadb_Adapter D j" mdbs_Ready D
  by (rule steadyI)
    (use mariadb.adapter_axioms [of D j] in \<open>auto simp: steady_simps mariadb_view_def mariadb_BuildManifest_def mariadb_ExtraResources_def
      mariadb_ApplyStatus_def split: option.split\<close>)

interpretation psmdb_steady: steady "psmdb_Adapter D j" mgos_Ready D
  by (rule steadyI)
    (use psmdb.adapter_axioms [of D j] in \<open>auto simp: steady_simps psmdb_view_def psmdb_BuildManifest_def psmdb_ExtraResources_def
      psmdb_ApplyStatus_def split: option.split\<close>)

interpretation valkey_steady: steady "valkey_Adapter D j" vks_Ready D
  by (rule steadyI)
    (use valkey.adapter_axioms [of D j] in \<open>auto simp: steady_simps valkey_view_def valkey_BuildManifest_def valkey_ExtraResources_def
      valkey_ApplyStatus_def split: option.split\<close>)

interpretation rabbitmq_steady: steady "rabbitmq_Adapter D j" rmqs_Ready D
  by (rule steadyI)
    (use rabbitmq.adapter_axioms [of D j] in \<open>auto simp: steady_simps rabbitmq_view_def rabbitmq_BuildManifest_def rabbitmq_ExtraResources_def rabbitmq_RequestedIngressClassName_def rabbitmq_SetIngressClassName_def
      rabbitmq_ApplyStatus_def split: option.split\<close>)

interpretation strimzi_steady: steady "strimzi_Adapter D j" kfks_Ready D
  by (rule steadyI)
    (use strimzi.adapter_axioms [of D j] in \<open>auto simp: steady_simps strimzi_view_def strimzi_BuildManifest_def strimzi_ExtraResources_def
      strimzi_ApplyStatus_def split: option.split\<close>)

interpretation grafana_steady: steady "grafana_Adapter D" gras_Ready D
  by (rule steadyI)
    (use grafana.adapter_axioms [of D] in \<open>auto simp: steady_simps grafana_view_def grafana_BuildManifest_def grafana_ExtraResources_def grafana_RequestedIngressClassName_def grafana_SetIngressClassName_def
      grafana_ApplyStatus_def split: option.split\<close>)

interpretation prometheus_steady: steady "prometheus_Adapter D" pros_Ready D
  by (rule steadyI)
    (use prometheus.adapter_axioms [of D] in \<open>auto simp: steady_simps prometheus_view_def prometheus_BuildManifest_def prometheus_ExtraResources_def prometheus_RequestedIngressClassName_def prometheus_SetIngressClassName_def
      prometheus_ApplyStatus_def split: option.split\<close>)

interpretation loki_steady: steady "loki_Adapter D" loks_Ready D
  by (rule steadyI)
    (use loki.adapter_axioms [of D] in \<open>auto simp: steady_simps loki_view_def loki_BuildManifest_def loki_ExtraResources_def
      loki_ApplyStatus_def split: option.split\<close>)

interpretation alloy_steady: steady "alloy_Adapter D" alys_Ready D
  by (rule steadyI)
    (use alloy.adapter_axioms [of D] in \<open>auto simp: steady_simps alloy_view_def alloy_BuildManifest_def
      alloy_ApplyStatus_def split: option.split\<close>)

subsection \<open>Reconciling again\<close>


text \<open>A target whose size was edited by hand gets it back, and keeps it.\<close>

definition drifted :: "(PostgresClusterSpec, PostgresClusterStatus) cluster" where
  "drifted = (cluster_of (sample_pg None [FinalizerName] True))
     \<lparr>cl_Objects := [((cnpg_GVK, ''team-a'', ''db''),
        set_entry ''spec'' (JObj [(''instances'', JInt 9)]) (new_object cnpg_GVK ''db'' ''team-a'' []))]\<rparr>"


end
