(* ===== verification/Permissions.thy ===== *)
theory Permissions
  imports Controllers
begin

section \<open>What the operator asks for and what it may\<close>

text \<open>
  The API server authorizes every request by API group, resource and verb. This theory says
  which permission each call of the engine needs, compares that with the role the controllers'
  markers add up to, and follows the three calls the role does not cover through a run.
\<close>

subsection \<open>Authorization\<close>

definition allows :: "permission list \<Rightarrow> string \<Rightarrow> string \<Rightarrow> string \<Rightarrow> bool" where
  "allows role g r v \<longleftrightarrow>
     list_ex (\<lambda>(gs, rs, vs). List.member gs g \<and> List.member rs r \<and> List.member vs v) role"

text \<open>The resource a kind is served under: the plural names of the CRDs and of the built-in kinds.\<close>

definition plural_of :: "string \<Rightarrow> string" where
  "plural_of kind = (\<lambda>p. case p of None \<Rightarrow> '''' | Some r \<Rightarrow> r) (map_of
     [(''Cluster'', ''clusters''), (''MariaDB'', ''mariadbs''), (''PerconaServerMongoDB'', ''perconaservermongodbs''),
      (''ValkeyCluster'', ''valkeyclusters''), (''RabbitmqCluster'', ''rabbitmqclusters''), (''Kafka'', ''kafkas''),
      (''KafkaNodePool'', ''kafkanodepools''), (''Grafana'', ''grafanas''), (''GrafanaDatasource'', ''grafanadatasources''),
      (''GrafanaDashboard'', ''grafanadashboards''), (''Prometheus'', ''prometheuses''), (''PodMonitor'', ''podmonitors''),
      (''ServiceMonitor'', ''servicemonitors''), (''LokiStack'', ''lokistacks''), (''Alloy'', ''alloys''),
      (''Service'', ''services''), (''ServiceAccount'', ''serviceaccounts''), (''Role'', ''roles''),
      (''RoleBinding'', ''rolebindings''), (''Ingress'', ''ingresses''), (''StatefulSet'', ''statefulsets''),
      (''Pod'', ''pods'')] kind)"

fun paas_resource :: "paas_kind \<Rightarrow> string" where
  "paas_resource PostgresKind = ''postgresclusters''"
| "paas_resource MariaDBKind = ''mariadbclusters''"
| "paas_resource MongoDBKind = ''mongodbclusters''"
| "paas_resource ValkeyKind = ''valkeyclusters''"
| "paas_resource RabbitMQKind = ''rabbitmqclusters''"
| "paas_resource KafkaKind = ''kafkaclusters''"
| "paas_resource GrafanaKind = ''grafanainstances''"
| "paas_resource PrometheusKind = ''prometheusinstances''"
| "paas_resource LokiKind = ''lokiinstances''"
| "paas_resource AlloyKind = ''alloyinstances''"

abbreviation paas_group :: string where
  "paas_group \<equiv> ''paas.cncp.nl''"

definition allows_on :: "permission list \<Rightarrow> gvk \<Rightarrow> string \<Rightarrow> bool" where
  "allows_on role g v \<longleftrightarrow> allows role (gvk_group g) (plural_of (gvk_kind g)) v"

text \<open>
  A server-side apply needs the verb patch, and create where it makes the object: everywhere but
  on StatefulSets, which the engine patches only after it found them.
\<close>

fun permitted :: "permission list \<Rightarrow> paas_kind \<Rightarrow> 'c call \<Rightarrow> bool" where
  "permitted role K (GetCR ns n) = allows role paas_group (paas_resource K) ''get''"
| "permitted role K (Update c) = allows role paas_group (paas_resource K) ''update''"
| "permitted role K (StatusUpdate c) = allows role paas_group (paas_resource K @ ''/status'') ''update''"
| "permitted role K (Get g ns n) = allows_on role g ''get''"
| "permitted role K (Patch u fm force) =
     (allows_on role (u_gvk u) ''patch'' \<and> (u_gvk u = statefulSetGVK \<or> allows_on role (u_gvk u) ''create''))"
| "permitted role K (Delete g ns n) = allows_on role g ''delete''"
| "permitted role K (DeleteAllPVCs ns ls) = allows role '''' ''persistentvolumeclaims'' ''deletecollection''"
| "permitted role K ListIngressClasses = allows role ''networking.k8s.io'' ''ingressclasses'' ''list''"
| "permitted role K (ListPods ns ls) = allows role '''' ''pods'' ''list''"
| "permitted role K (Eventf ty reason action note) = allows role ''events.k8s.io'' ''events'' ''create''"

subsection \<open>What the role covers\<close>

definition role_covers :: "permission list \<Rightarrow> paas_kind \<Rightarrow> bool" where
  "role_covers role K \<longleftrightarrow>
     (\<forall>(g, s) \<in> set (kind_suffixes K). allows_on role g ''get'' \<and> allows_on role g ''patch'' \<and>
       (g = statefulSetGVK \<and> s \<noteq> '''' \<or> allows_on role g ''create'' \<and> allows_on role g ''delete'')) \<and>
     allows role paas_group (paas_resource K) ''get'' \<and> allows role paas_group (paas_resource K) ''update'' \<and>
     allows role paas_group (paas_resource K @ ''/status'') ''update'' \<and> allows role ''events.k8s.io'' ''events'' ''create''"

lemmas rbac_defs = PostgresCluster_rbac_def MariaDBCluster_rbac_def MongoDBCluster_rbac_def ValkeyCluster_rbac_def
  RabbitMQCluster_rbac_def KafkaCluster_rbac_def GrafanaInstance_rbac_def PrometheusInstance_rbac_def
  LokiInstance_rbac_def AlloyInstance_rbac_def

text \<open>Each controller's own markers cover the objects it writes.\<close>

lemma controllers_cover: "list_all (\<lambda>K. role_covers (controller_rbac K) K) all_kinds"
  by code_simp

lemma controller_covers: "role_covers (controller_rbac K) K"
  using controllers_cover by (cases K) (simp_all add: all_kinds_def)

lemma allows_mono: "allows role g r v \<Longrightarrow> set role \<subseteq> set role' \<Longrightarrow> allows role' g r v"
  by (auto simp: allows_def list_ex_iff)

lemma role_covers_mono: "role_covers role K \<Longrightarrow> set role \<subseteq> set role' \<Longrightarrow> role_covers role' K"
  unfolding role_covers_def allows_on_def by (fast intro: allows_mono)

lemma in_all_kinds [simp]: "K \<in> set all_kinds"
  by (cases K) (simp_all add: all_kinds_def)

lemma manager_covers: "role_covers manager_role K"
  by (rule role_covers_mono [OF controller_covers [of K]]) (auto simp: manager_role_def intro: in_all_kinds)

lemma manager_lists_pods: "allows manager_role '''' ''pods'' ''list''"
proof (rule allows_mono)
  show "allows PrometheusInstance_rbac '''' ''pods'' ''list''"
    by (simp add: allows_def PrometheusInstance_rbac_def)
  show "set PrometheusInstance_rbac \<subseteq> set manager_role"
    by (auto simp: manager_role_def all_kinds_def)
qed

text \<open>Three things no marker grants.\<close>

lemma role_gaps:
  "\<not> allows manager_role '''' ''persistentvolumeclaims'' ''deletecollection''"
  "\<not> allows manager_role ''networking.k8s.io'' ''ingressclasses'' ''list''"
  "\<not> allows_on manager_role podGVK ''delete''"
  by (simp_all add: allows_on_def allows_def manager_role_def all_kinds_def rbac_defs podGVK_def plural_of_def)

subsection \<open>What a run asks for\<close>

text \<open>The calls no marker covers.\<close>

fun beyond_role :: "'c call \<Rightarrow> bool" where
  "beyond_role (DeleteAllPVCs ns ls) = True"
| "beyond_role ListIngressClasses = True"
| "beyond_role (Delete g ns n) = (g = podGVK)"
| "beyond_role _ = False"

lemma kind_covered:
  assumes "(g, k) \<in> kind_ids K n"
  shows "allows_on manager_role g ''get''" and "allows_on manager_role g ''patch''"
    and "g = statefulSetGVK \<or> allows_on manager_role g ''create'' \<and> allows_on manager_role g ''delete''"
  using assms manager_covers [of K] by (auto simp: kind_ids_def role_covers_def)

context adapter
begin

lemma target_not_StatefulSet:
  assumes "keeps_to A K"
  shows "a_GVK A \<noteq> statefulSetGVK"
proof -
  obtain c :: "('s, 't) cr" where True by simp
  from managed_id(1) [OF assms, of c] have "(a_GVK A, '''') \<in> set (kind_suffixes K)"
    by (auto simp: kind_ids_def)
  then show ?thesis
    by (cases K) (auto simp: adapter_defs statefulSetGVK_def ingress_GVK_def)
qed

lemma normal_call_permitted:
  assumes keeps: "keeps_to A K" and call: "normal_call A c (om_Name (cr_meta c)) call"
  shows "permitted manager_role K call \<or> beyond_role call"
proof (cases call)
  case (Get g ns n)
  with call consider "g = a_GVK A" | c1 x where "class_defaulted A c c1" "x_GVK x = g"
    "x \<in> set (extras A c1 (om_Name (cr_meta c)))" by auto
  then have "\<exists>k. (g, k) \<in> kind_ids K (om_Name (cr_meta c))"
  proof cases
    case 1
    then show ?thesis using managed_id(1) [OF keeps, of c] by auto
  next
    case 2
    then show ?thesis
      using managed_id(2) [OF keeps, where x = x and c = c1] class_defaulted_frame(1) [of c c1] by (auto simp: extra_id_def)
  qed
  with Get show ?thesis using kind_covered(1) by auto
next
  case (Patch u fm force)
  with call obtain c1 where c1: "class_defaulted A c c1"
    and "u = a_BuildManifest A c1 (om_Name (cr_meta c)) (om_Namespace (cr_meta c)) (om_Name (cr_meta c)) \<or>
         (\<exists>x \<in> set (extras A c1 (om_Name (cr_meta c))). x_Desired x = Some u)" by auto
  then have "object_id u \<in> kind_ids K (om_Name (cr_meta c))"
    using managed_id(1) [OF keeps, of c1] managed_id(2) [OF keeps, where c = c1] class_defaulted_frame(1) [OF c1]
      manifest_id extras_desired_id by metis
  with Patch show ?thesis
    using kind_covered(2,3) [of "u_gvk u" "u_name u"] by (auto simp: object_id_def)
next
  case (Delete g ns n)
  with call consider "g = podGVK" | c1 x where "class_defaulted A c c1" "extra_id x = (g, n)" "x_Desired x = None"
    "x \<in> set (extras A c1 (om_Name (cr_meta c)))" by auto
  then show ?thesis
  proof cases
    case 2
    then have "(g, n) \<in> kind_ids K (om_Name (cr_meta c))"
      using managed_id(2) [OF keeps, where x = x and c = c1] class_defaulted_frame(1) [of c c1] by simp
    moreover have "g \<noteq> statefulSetGVK"
      using keeps 2 patch_only_desired [where x = x and c = c1] by (auto simp: keeps_to_def extra_id_def)
    ultimately show ?thesis using Delete kind_covered(3) by auto
  qed (use Delete in simp)
qed (use call manager_covers [of K] manager_lists_pods in \<open>auto simp: role_covers_def\<close>)

lemma cleanup_call_permitted:
  assumes keeps: "keeps_to A K" and call: "call \<in> set (cleanup_calls A c (om_Name (cr_meta c)))"
  shows "permitted manager_role K call \<or> beyond_role call"
proof -
  from call consider "call = Delete (a_GVK A) (om_Namespace (cr_meta c)) (om_Name (cr_meta c))"
    | x where "x \<in> set (extras A c (om_Name (cr_meta c)))" "\<not> x_PatchOnly x"
        "call = Delete (x_GVK x) (om_Namespace (cr_meta c)) (x_Name x)"
    | ns ls where "call = DeleteAllPVCs ns ls"
    by (auto simp: cleanup_calls_def owned_extras_def pvc_calls_def Let_def split: option.splits if_splits)
  then show ?thesis
  proof cases
    case 1
    then show ?thesis
      using kind_covered(3) [OF managed_id(1) [OF keeps, of c]] target_not_StatefulSet [OF keeps] by simp
  next
    case 2
    then have "x_GVK x \<noteq> statefulSetGVK" using keeps by (auto simp: keeps_to_def)
    with 2 show ?thesis
      using kind_covered(3) [of "x_GVK x" "x_Name x" K "om_Name (cr_meta c)"] managed_id(2) [OF keeps 2(1)]
      by (simp add: extra_id_def)
  qed simp
qed

end



end
