(* ===== verification/Forbidden.thy ===== *)
theory Forbidden
  imports Permissions
begin

section \<open>What the missing permissions do to a run\<close>

text \<open>
  Under an API server that enforces the manager's role, a call the role does not permit is
  answered with a Forbidden error. The engine treats any error but NotFound as the end of the
  run, so each of the three calls beyond the role stops a path of the engine for good.
\<close>

definition denies :: "('w \<Rightarrow> (error + 'a) \<times> 'w) \<Rightarrow> bool" where
  "denies f \<longleftrightarrow> (\<forall>w. \<exists>m. fst (f w) = Inl (ApiError m))"

text \<open>The authorizer, on the calls of the engine that need a permission of their own.\<close>

definition enforces :: "permission list \<Rightarrow> paas_kind \<Rightarrow> ('c, 'w) client \<Rightarrow> bool" where
  "enforces role K cl \<longleftrightarrow>
     (\<forall>g ns n. \<not> permitted role K (Get g ns n :: 'c call) \<longrightarrow> denies (api_Get cl g ns n)) \<and>
     (\<forall>u fm force. \<not> permitted role K (Patch u fm force :: 'c call) \<longrightarrow> denies (api_Patch cl u fm force)) \<and>
     (\<forall>g ns n. \<not> permitted role K (Delete g ns n :: 'c call) \<longrightarrow> denies (api_Delete cl g ns n)) \<and>
     (\<forall>ns ls. \<not> permitted role K (DeleteAllPVCs ns ls :: 'c call) \<longrightarrow> denies (api_DeleteAllPVCs cl ns ls)) \<and>
     (\<not> permitted role K (ListIngressClasses :: 'c call) \<longrightarrow> denies (api_ListIngressClasses cl)) \<and>
     (\<forall>ns ls. \<not> permitted role K (ListPods ns ls :: 'c call) \<longrightarrow> denies (api_ListPods cl ns ls)) \<and>
     (\<forall>u. \<not> permitted role K (Update u) \<longrightarrow> denies (api_Update cl u)) \<and>
     (\<forall>u. \<not> permitted role K (StatusUpdate u) \<longrightarrow> denies (api_StatusUpdate cl u))"

lemma enforced_gaps:
  assumes "enforces manager_role K cl"
  shows "denies (api_DeleteAllPVCs cl ns ls)" and "denies (api_ListIngressClasses cl)"
    and "denies (api_Delete cl podGVK ns n)"
  using assms role_gaps by (simp_all add: enforces_def)

subsection \<open>A denied call ends a computation\<close>

text \<open>The computation ends in an error and never made a call of the given sort.\<close>

definition without :: "('c call \<Rightarrow> bool) \<Rightarrow> 'c event list \<Rightarrow> bool" where
  "without \<phi> evs \<longleftrightarrow> (\<forall>ev \<in> set evs. \<not> \<phi> (fst ev))"

definition fails :: "('c call \<Rightarrow> bool) \<Rightarrow> error + 'a \<Rightarrow> 'c event list \<Rightarrow> bool" where
  "fails \<phi> res evs \<longleftrightarrow> (\<exists>e. res = Inl e) \<and> without \<phi> evs"

lemma fails_perform:
  fixes f :: "'w \<Rightarrow> (error + 'a) \<times> 'w" and cl :: "'c call"
  assumes "denies f" and "\<not> \<phi> cl"
  shows "emits (perform cl f) (fails \<phi>)"
proof (rule emitsI)
  fix s :: "('c, 'w) st"
  obtain m where "fst (f (st_world s)) = Inl (ApiError m)"
    using assms(1) by (auto simp: denies_def)
  then show "\<exists>evs. st_trace (snd (perform cl f s)) = st_trace s @ evs \<and> fails \<phi> (fst (perform cl f s)) evs"
    using assms(2) by (auto simp: perform_def fails_def without_def split: prod.split)
qed

lemma fails_first: "emits m (fails \<phi>) \<Longrightarrow> emits (bindE m f) (fails \<phi>)"
  by (erule emits_bind) (auto simp: fails_def)

lemma fails_later:
  fixes f :: "'a \<Rightarrow> ('c, 'w, 'b) io"
  assumes "all_events (\<lambda>ev. \<not> \<phi> (fst ev)) m" and "\<And>x. emits (f x) (fails \<phi>)"
  shows "emits (bindE m f) (fails \<phi>)"
proof (rule emits_bind [OF assms(1) [unfolded all_events_def]])
  fix x and evs :: "'c event list"
  assume "\<forall>ev\<in>set evs. \<not> \<phi> (fst ev)"
  then show "emits (f x) (\<lambda>r' evs'. fails \<phi> r' (evs @ evs'))"
    by (intro emits_mono [OF assms(2)]) (auto simp: fails_def without_def)
qed (simp add: fails_def without_def)

lemma follows_without:
  assumes "follows m cs" and "\<And>cl. cl \<in> set cs \<Longrightarrow> \<not> \<phi> cl"
  shows "all_events (\<lambda>ev. \<not> \<phi> (fst ev)) m"
  by (rule all_events_mono [OF follows_calls [OF assms(1)]]) (rule assms(2))

fun updates :: "'c call \<Rightarrow> bool" where
  "updates (Update u) = True"
| "updates _ = False"

fun writes :: "'c call \<Rightarrow> bool" where
  "writes (Update u) = True"
| "writes (StatusUpdate u) = True"
| "writes (Patch u fm force) = True"
| "writes (Delete g ns n) = True"
| "writes (DeleteAllPVCs ns ls) = True"
| "writes _ = False"

subsection \<open>LokiInstance: deletion\<close>

lemma loki_deletion_fails:
  assumes "enforces manager_role K (r_Client r)" and "r_Adapter r = loki_Adapter D'"
    and "containsFinalizer D (om_Finalizers (cr_meta c)) FinalizerName"
  shows "emits (reconcileDelete D r c t) (fails updates)"
proof -
  have pvcs: "emits (deletePVCs r c t) (fails updates)"
    by (simp add: deletePVCs_def assms(2) loki_PVCLabelSelector_def Let_def fails_perform [OF enforced_gaps(1) [OF assms(1)]])
  have target: "all_events (\<lambda>ev. \<not> updates (fst ev)) (deleteTarget r ns t)" for ns
    by (rule follows_without [OF follows_deleteTarget]) auto
  have aux: "all_events (\<lambda>ev. \<not> updates (fst ev)) (deleteExtraResources r c t)"
    by (rule follows_without [OF follows_deleteExtraResources]) auto
  show ?thesis
    using assms(3) by (simp add: reconcileDelete_def fails_later [OF target] fails_later [OF aux] fails_first [OF pvcs])
qed

text \<open>
  C19: under an API server that enforces that role no run on a deleted LokiInstance succeeds
  and none releases the finalizer: the instance cannot be deleted.
\<close>

theorem loki_deletion_never_completes:
  assumes "enforces manager_role LokiKind (r_Client r)" and "r_Adapter r = loki_Adapter D'" and "finalizers_ok D"
    and "fetched r ns n w c" and "om_DeletionTimestamp (cr_meta c) \<noteq> None"
    and "FinalizerName \<in> set (om_Finalizers (cr_meta c))" and "run (Reconcile D r ns n) w = (res, evs)"
  shows "(\<exists>e. res = Inl e) \<and> (\<forall>u o'. (Update u, o') \<notin> set evs)"
proof -
  have "containsFinalizer D (om_Finalizers (cr_meta c)) FinalizerName"
    using assms(3,6) by (simp add: finalizers_ok_def)
  then have "emits (reconcilePath D r c) (fails updates)"
    using assms(5) loki_deletion_fails [OF assms(1,2)] by (simp add: reconcilePath_def Let_def)
  from run_Reconcile_fetched [OF assms(4,7) this] show ?thesis
    by (force simp: fails_def without_def)
qed

subsection \<open>Resources with an Ingress but no class\<close>

lemma defaulting_fails:
  assumes "enforces manager_role K (r_Client r)" and "a_IngressClass (r_Adapter r) = Some (rq, setc)"
    and "rq c = ('''', True)"
  shows "emits (defaultIngressClass r c) (fails writes)"
  using assms(2,3)
  by (simp add: defaultIngressClass_def resolveDefaultIngressClass_def fails_first fails_perform [OF enforced_gaps(2) [OF assms(1)]])

text \<open>
  C20: under the same role a live resource with an ingress but no ingress class never
  reconciles: every run fails before it writes anything.
\<close>

theorem ingress_without_class_never_reconciles:
  assumes "enforces manager_role K (r_Client r)" and "finalizers_ok D"
    and "a_IngressClass (r_Adapter r) = Some (rq, setc)" and "rq c = ('''', True)"
    and "fetched r ns n w c" and "om_DeletionTimestamp (cr_meta c) = None"
    and "FinalizerName \<in> set (om_Finalizers (cr_meta c))" and "run (Reconcile D r ns n) w = (res, evs)"
  shows "(\<exists>e. res = Inl e) \<and> (\<forall>ev \<in> set evs. \<not> writes (fst ev))"
proof -
  have fin: "containsFinalizer D (om_Finalizers (cr_meta c)) FinalizerName"
    using assms(2,7) by (simp add: finalizers_ok_def)
  have get: "all_events (\<lambda>ev. \<not> writes (fst ev)) (getTarget r ns t)" for ns t
    unfolding getTarget_def by (rule GetTarget_events) simp
  have default: "emits (defaultIngressClass r c) (fails writes)"
    by (rule defaulting_fails [where rq = rq and setc = setc, OF assms(1,3,4)])
  have "emits (reconcilePath D r c) (fails writes)"
    using fin assms(6)
    by (simp add: reconcilePath_def Let_def reconcileNormal_def fails_later [OF get] fails_first [OF default])
  from run_Reconcile_fetched [OF assms(5,8) this] show ?thesis
    by (auto simp: fails_def without_def)
qed

subsection \<open>A stuck rollout\<close>

lemma stuck_pod_fails:
  assumes "\<And>ns n. denies (api_Delete (r_Client r) podGVK ns n)" and "\<exists>pod \<in> set pods. stuck_pod rv pod"
  shows "\<exists>m w'. deleteStalePods r rv pods s =
    (Inl (ApiError m), \<lparr>st_world = w', st_trace = st_trace s @
       [(delete_pod (the (find (stuck_pod rv) pods)), Some (ApiError m))]\<rparr>)"
  using assms(2)
proof (induction pods)
  case (Cons pod pods)
  show ?case
  proof (cases "stuck_pod rv pod")
    case True
    from assms(1) [of "pod_Namespace pod" "pod_Name pod"] obtain m w' where
      "api_Delete (r_Client r) podGVK (pod_Namespace pod) (pod_Name pod) (st_world s) = (Inl (ApiError m), w')"
      unfolding denies_def by (metis prod.collapse)
    with True show ?thesis
      by (auto simp: stuck_pod_def delete_pod_def io_defs IsNotFound_def)
  next
    case False
    with Cons show ?thesis by (auto simp: stuck_pod_def)
  qed
qed simp

text \<open>
  C21: under the same role the self-heal of a stuck rollout fails at the first stuck pod: the
  one delete it tries is refused and ends it.
\<close>

theorem stuck_pods_are_never_deleted:
  assumes "enforces manager_role K (r_Client r)" and "\<exists>pod \<in> set pods. stuck_pod rv pod"
    and "run (deleteStalePods r rv pods) w = (res, evs)"
  shows "\<exists>m pod. res = Inl (ApiError m) \<and> pod \<in> set pods \<and> stuck_pod rv pod \<and>
           evs = [(Delete podGVK (pod_Namespace pod) (pod_Name pod), Some (ApiError m))]"
proof -
  from stuck_pod_fails [OF enforced_gaps(3) [OF assms(1)] assms(2), of "\<lparr>st_world = w, st_trace = []\<rparr>"]
  obtain m where "res = Inl (ApiError m)"
    and "evs = [(delete_pod (the (find (stuck_pod rv) pods)), Some (ApiError m))]"
    using assms(3) by (auto simp: run_def)
  moreover obtain pod where "find (stuck_pod rv) pods = Some pod"
    using assms(2) by (cases "find (stuck_pod rv) pods") (auto simp: find_None_iff)
  then have "find (stuck_pod rv) pods = Some pod \<and> pod \<in> set pods \<and> stuck_pod rv pod"
    by (auto simp: find_Some_iff)
  ultimately show ?thesis by (auto simp: delete_pod_def)
qed

subsection \<open>A server that enforces the role\<close>

text \<open>The server in memory, behind an authorizer.\<close>

definition authorized :: "bool \<Rightarrow> ('w \<Rightarrow> (error + 'a) \<times> 'w) \<Rightarrow> 'w \<Rightarrow> (error + 'a) \<times> 'w" where
  "authorized ok f = (if ok then f else (\<lambda>w. (Inl (ApiError ''forbidden''), w)))"

definition guarded_client :: "permission list \<Rightarrow> paas_kind \<Rightarrow> (('s, 't) cr, ('s, 't) cluster) client" where
  "guarded_client role K =
     (let ok = \<lambda>call :: ('s, 't) cr call. permitted role K call; m = memory_client in
      \<lparr>api_GetCR = \<lambda>ns n. authorized (ok (GetCR ns n)) (api_GetCR m ns n),
       api_Get = \<lambda>g ns n. authorized (ok (Get g ns n)) (api_Get m g ns n),
       api_Update = \<lambda>c. authorized (ok (Update c)) (api_Update m c),
       api_StatusUpdate = \<lambda>c. authorized (ok (StatusUpdate c)) (api_StatusUpdate m c),
       api_Patch = \<lambda>u fm force. authorized (ok (Patch u fm force)) (api_Patch m u fm force),
       api_Delete = \<lambda>g ns n. authorized (ok (Delete g ns n)) (api_Delete m g ns n),
       api_DeleteAllPVCs = \<lambda>ns ls. authorized (ok (DeleteAllPVCs ns ls)) (api_DeleteAllPVCs m ns ls),
       api_ListIngressClasses = authorized (ok ListIngressClasses) (api_ListIngressClasses m),
       api_ListPods = \<lambda>ns ls. authorized (ok (ListPods ns ls)) (api_ListPods m ns ls)\<rparr>)"

lemma guarded_client_enforces [simp]: "enforces role K (guarded_client role K)"
  by (auto simp: enforces_def guarded_client_def Let_def denies_def authorized_def simp del: permitted.simps)

lemma fetched_guarded:
  assumes "allows role paas_group (paas_resource K) ''get''" and "r_Client r = guarded_client role K"
    and "cr_key c = (ns, n)"
  shows "fetched r ns n (cluster_of c) c"
  using assms by (simp add: fetched_def guarded_client_def Let_def authorized_def memory_client_def cluster_of_def)

lemma manager_gets: "allows manager_role paas_group (paas_resource K) ''get''"
  using manager_covers [of K] by (simp add: role_covers_def)

theorem loki_deletion_never_completes_witness:
  "\<exists>e. fst (run (Reconcile doc_deps \<lparr>r_Client = guarded_client manager_role LokiKind, r_Adapter = loki_Adapter doc_deps,
      r_Name = LokiInstanceControllerName\<rparr> ''team-a'' ''logs'') (cluster_of (sample_loki (Some ''now'') [FinalizerName]))) = Inl e"
proof -
  let ?r = "\<lparr>r_Client = guarded_client manager_role LokiKind, r_Adapter = loki_Adapter doc_deps, r_Name = LokiInstanceControllerName\<rparr>"
  let ?c = "sample_loki (Some ''now'') [FinalizerName]"
  have "fetched ?r ''team-a'' ''logs'' (cluster_of ?c) ?c"
    by (rule fetched_guarded [OF manager_gets]) (simp_all add: cr_key_def)
  from loki_deletion_never_completes [OF _ _ finalizers_ok_doc this _ _ prod.collapse [symmetric]] show ?thesis
    by simp
qed

theorem ingress_without_class_never_reconciles_witness:
  "\<exists>e. fst (run (Reconcile doc_deps \<lparr>r_Client = guarded_client manager_role PrometheusKind, r_Adapter = prometheus_Adapter doc_deps,
      r_Name = PrometheusInstanceControllerName\<rparr> ''team-a'' ''prom'') (cluster_of (sample_prometheus [FinalizerName] ''''))) = Inl e"
proof -
  let ?r = "\<lparr>r_Client = guarded_client manager_role PrometheusKind, r_Adapter = prometheus_Adapter doc_deps, r_Name = PrometheusInstanceControllerName\<rparr>"
  let ?c = "sample_prometheus [FinalizerName] ''''"
  have "fetched ?r ''team-a'' ''prom'' (cluster_of ?c) ?c"
    by (rule fetched_guarded [OF manager_gets]) (simp_all add: cr_key_def)
  moreover have "prometheus_RequestedIngressClassName ?c = ('''', True)"
    by (simp add: prometheus_RequestedIngressClassName_def sample_prometheus_def)
  ultimately show ?thesis
    using ingress_without_class_never_reconciles [of PrometheusKind ?r doc_deps prometheus_RequestedIngressClassName
        prometheus_SetIngressClassName ?c, OF _ finalizers_ok_doc _ _ _ _ _ prod.collapse [symmetric]]
    by simp
qed

theorem stuck_pods_are_never_deleted_witness:
  "\<exists>m. fst (run (deleteStalePods \<lparr>r_Client = guarded_client manager_role LokiKind, r_Adapter = loki_Adapter doc_deps,
      r_Name = LokiInstanceControllerName\<rparr> ''r2'' [crashing_pod]) loki_cluster) = Inl (ApiError m)"
proof -
  have "\<exists>pod \<in> set [crashing_pod]. stuck_pod ''r2'' pod"
    by (simp add: stuck_pod_def crashing_pod_def lookup_str_def isPodReady_def)
  from stuck_pods_are_never_deleted [of LokiKind "\<lparr>r_Client = guarded_client manager_role LokiKind, r_Adapter = loki_Adapter doc_deps,
      r_Name = LokiInstanceControllerName\<rparr>", OF _ this prod.collapse [symmetric]]
  show ?thesis using guarded_client_enforces by fastforce
qed

end
