(* ===== verification/Manager.thy ===== *)
theory Manager
  imports Controllers
begin

section \<open>The manager binary\<close>

text \<open>
  \<open>cmd/main.go\<close>: from the values of the flags it works out the options of the webhook server,
  of the metrics server and of the manager, and then registers controllers, webhooks and health
  checks one after the other, exiting with status 1 at the first that fails. Parsing the
  command line is the library's business, so the model starts from the flags' values; what
  controller-runtime does in a step is a parameter that says whether the step succeeds.
\<close>

subsection \<open>Flags and server options\<close>

record Flags =
  metricsAddr :: string
  metricsCertPath :: string
  metricsCertName :: string
  metricsCertKey :: string
  webhookCertPath :: string
  webhookCertName :: string
  webhookCertKey :: string
  enableLeaderElection :: bool
  probeAddr :: string
  secureMetrics :: bool
  enableHTTP2 :: bool

definition default_flags :: Flags where
  "default_flags =
     \<lparr>metricsAddr = ''0'', metricsCertPath = '''', metricsCertName = ''tls.crt'', metricsCertKey = ''tls.key'',
      webhookCertPath = '''', webhookCertName = ''tls.crt'', webhookCertKey = ''tls.key'',
      enableLeaderElection = False, probeAddr = '':8081'', secureMetrics = True, enableHTTP2 = False\<rparr>"

text \<open>Of a TLS configuration the binary only touches the application protocols.\<close>

record tls_config =
  NextProtos :: "string list"

definition disableHTTP2 :: "tls_config \<Rightarrow> tls_config" where
  "disableHTTP2 c = c\<lparr>NextProtos := [''http/1.1'']\<rparr>"

definition tls_options :: "Flags \<Rightarrow> (tls_config \<Rightarrow> tls_config) list" where
  "tls_options fl = (if \<not> enableHTTP2 fl then [disableHTTP2] else [])"

record webhook_options =
  wo_TLSOpts :: "(tls_config \<Rightarrow> tls_config) list"
  wo_CertDir :: string
  wo_CertName :: string
  wo_KeyName :: string

definition webhookServerOptions :: "Flags \<Rightarrow> webhook_options" where
  "webhookServerOptions fl =
     (let wo = \<lparr>wo_TLSOpts = tls_options fl, wo_CertDir = '''', wo_CertName = '''', wo_KeyName = ''''\<rparr> in
      if length (webhookCertPath fl) > 0
      then wo\<lparr>wo_CertDir := webhookCertPath fl, wo_CertName := webhookCertName fl, wo_KeyName := webhookCertKey fl\<rparr>
      else wo)"

datatype filter_provider = WithAuthenticationAndAuthorization

record metrics_options =
  mo_BindAddress :: string
  mo_SecureServing :: bool
  mo_TLSOpts :: "(tls_config \<Rightarrow> tls_config) list"
  mo_FilterProvider :: "filter_provider option"
  mo_CertDir :: string
  mo_CertName :: string
  mo_KeyName :: string

definition metricsServerOptions :: "Flags \<Rightarrow> metrics_options" where
  "metricsServerOptions fl =
     (let mo = \<lparr>mo_BindAddress = metricsAddr fl, mo_SecureServing = secureMetrics fl, mo_TLSOpts = tls_options fl,
                mo_FilterProvider = None, mo_CertDir = '''', mo_CertName = '''', mo_KeyName = ''''\<rparr>;
          mo = (if secureMetrics fl then mo\<lparr>mo_FilterProvider := Some WithAuthenticationAndAuthorization\<rparr> else mo) in
      if length (metricsCertPath fl) > 0
      then mo\<lparr>mo_CertDir := metricsCertPath fl, mo_CertName := metricsCertName fl, mo_KeyName := metricsCertKey fl\<rparr>
      else mo)"

record manager_options =
  mgr_Metrics :: metrics_options
  mgr_WebhookServer :: webhook_options
  mgr_HealthProbeBindAddress :: string
  mgr_LeaderElection :: bool
  mgr_LeaderElectionID :: string

definition managerOptions :: "Flags \<Rightarrow> manager_options" where
  "managerOptions fl =
     \<lparr>mgr_Metrics = metricsServerOptions fl, mgr_WebhookServer = webhookServerOptions fl,
      mgr_HealthProbeBindAddress = probeAddr fl, mgr_LeaderElection = enableLeaderElection fl,
      mgr_LeaderElectionID = ''32cc4a18.cncp.nl''\<rparr>"

subsection \<open>Registration\<close>

datatype setup_step =
    NewManager manager_options
  | SetupController string string
  | SetupWebhook string
  | AddHealthzCheck
  | AddReadyzCheck
  | StartManager

text \<open>Controllers by controller name and the name of their event recorder, in the code's order.\<close>

definition controller_steps :: "setup_step list" where
  "controller_steps =
     [SetupController PostgresClusterControllerName ''postgrescluster-operator'',
      SetupController ValkeyClusterControllerName ''valkeycluster-operator'',
      SetupController GrafanaInstanceControllerName ''grafanainstance-operator'',
      SetupController MariaDBClusterControllerName ''mariadbcluster-operator'',
      SetupController RabbitMQClusterControllerName ''rabbitmqcluster-operator'',
      SetupController PrometheusInstanceControllerName ''prometheusinstance-operator'',
      SetupController MongoDBClusterControllerName ''mongodbcluster-operator'',
      SetupController KafkaClusterControllerName ''kafkacluster-operator'',
      SetupController LokiInstanceControllerName ''lokiinstance-operator'',
      SetupController AlloyInstanceControllerName ''alloyinstance-operator'']"

text \<open>\<open>os.Getenv\<close> of an unset variable is the empty string, which is not \<open>false\<close>.\<close>

definition webhook_steps :: "string option \<Rightarrow> setup_step list" where
  "webhook_steps enableWebhooks =
     (if (case enableWebhooks of None \<Rightarrow> '''' | Some v \<Rightarrow> v) \<noteq> ''false''
      then [SetupWebhook ''GrafanaInstance'', SetupWebhook ''PrometheusInstance'', SetupWebhook ''LokiInstance'']
      else [])"

definition setup_steps :: "Flags \<Rightarrow> string option \<Rightarrow> setup_step list" where
  "setup_steps fl enableWebhooks =
     NewManager (managerOptions fl) # controller_steps @ webhook_steps enableWebhooks @
     [AddHealthzCheck, AddReadyzCheck, StartManager]"

text \<open>The steps taken and the exit status.\<close>

fun take_steps :: "(setup_step \<Rightarrow> bool) \<Rightarrow> setup_step list \<Rightarrow> setup_step list \<times> nat" where
  "take_steps ok [] = ([], 0)"
| "take_steps ok (s # ss) =
     (if ok s then (case take_steps ok ss of (taken, status) \<Rightarrow> (s # taken, status)) else ([s], 1))"

definition main :: "Flags \<Rightarrow> string option \<Rightarrow> (setup_step \<Rightarrow> bool) \<Rightarrow> setup_step list \<times> nat" where
  "main fl enableWebhooks ok = take_steps ok (setup_steps fl enableWebhooks)"

lemma take_steps_prefix: "prefix (fst (take_steps ok ss)) ss"
  by (induction ss) (auto split: prod.split)

lemma take_steps_zero: "take_steps ok ss = (taken, status) \<Longrightarrow> status = 0 \<longleftrightarrow> taken = ss \<and> list_all ok taken"
  by (induction ss arbitrary: taken) (auto split: if_splits prod.splits)

lemma take_steps_failed:
  "take_steps ok ss = (taken, status) \<Longrightarrow> status \<noteq> 0 \<Longrightarrow>
   status = 1 \<and> (\<exists>before s. taken = before @ [s] \<and> list_all ok before \<and> \<not> ok s)"
proof (induction ss arbitrary: taken)
  case (Cons a ss)
  show ?case
  proof (cases "ok a")
    case True
    then obtain taken' where "take_steps ok ss = (taken', status)" and a: "taken = a # taken'"
      using Cons.prems(1) by (auto split: prod.splits)
    from Cons.IH [OF this(1) Cons.prems(2)] obtain before s
      where "status = 1" "taken' = before @ [s]" "list_all ok before" "\<not> ok s" by blast
    with a True show ?thesis by (intro conjI exI [of _ "a # before"] exI [of _ s]) simp_all
  next
    case False
    with Cons.prems(1) show ?thesis by (intro conjI exI [of _ "[]"] exI [of _ a]) simp_all
  qed
qed simp

subsection \<open>What the binary starts\<close>

text \<open>The name the events of a kind's controller carry: that of the adapter's field manager.\<close>

fun kind_manager :: "paas_kind \<Rightarrow> string" where
  "kind_manager PostgresKind = cnpg_FieldManager"
| "kind_manager MariaDBKind = mariadb_FieldManager"
| "kind_manager MongoDBKind = psmdb_FieldManager"
| "kind_manager ValkeyKind = valkey_FieldManager"
| "kind_manager RabbitMQKind = rabbitmq_FieldManager"
| "kind_manager KafkaKind = strimzi_FieldManager"
| "kind_manager GrafanaKind = grafana_FieldManager"
| "kind_manager PrometheusKind = prometheus_FieldManager"
| "kind_manager LokiKind = loki_FieldManager"
| "kind_manager AlloyKind = alloy_FieldManager"

lemmas controller_names = PostgresClusterControllerName_def ValkeyClusterControllerName_def
  GrafanaInstanceControllerName_def MariaDBClusterControllerName_def RabbitMQClusterControllerName_def
  PrometheusInstanceControllerName_def MongoDBClusterControllerName_def KafkaClusterControllerName_def
  LokiInstanceControllerName_def AlloyInstanceControllerName_def

lemma controllers_registered: "SetupController (controller_name K) (kind_manager K) \<in> set controller_steps"
  by (cases K) (simp_all add: controller_steps_def controller_names adapter_defs)

lemma controller_names_inj: "controller_name K = controller_name K' \<longleftrightarrow> K = K'"
  by (cases K; cases K'; simp add: controller_names)

lemma start_last: "take_steps ok (ss @ [s]) = (taken, status) \<Longrightarrow> s \<notin> set ss \<Longrightarrow> s \<in> set taken \<Longrightarrow> list_all ok ss"
  by (induction ss arbitrary: taken) (auto split: if_splits prod.splits)

lemma setup_steps_start: "\<exists>ss. setup_steps fl env = ss @ [StartManager] \<and> StartManager \<notin> set ss"
  by (rule exI [of _ "NewManager (managerOptions fl) # controller_steps @ webhook_steps env @ [AddHealthzCheck, AddReadyzCheck]"])
     (auto simp: setup_steps_def controller_steps_def webhook_steps_def)

text \<open>
  C40: the binary exits with status 0 only after every step succeeded, and otherwise with
  status 1 at the first step that failed, having taken only the steps before it; it starts the
  manager only after all ten controllers, under distinct names, the webhooks unless disabled,
  and both health checks are registered.
\<close>

theorem manager_starts_only_when_registered:
  assumes "main fl env ok = (taken, status)"
  shows "(status = 0 \<longleftrightarrow> taken = setup_steps fl env \<and> list_all ok taken) \<and>
    (status \<noteq> 0 \<longrightarrow> status = 1 \<and> prefix taken (setup_steps fl env) \<and>
       (\<exists>before s. taken = before @ [s] \<and> list_all ok before \<and> \<not> ok s)) \<and>
    (StartManager \<in> set taken \<longrightarrow>
       (\<forall>K. ok (SetupController (controller_name K) (kind_manager K))) \<and> ok AddHealthzCheck \<and> ok AddReadyzCheck \<and>
       (env \<noteq> Some ''false'' \<longrightarrow> (\<forall>k \<in> {''GrafanaInstance'', ''PrometheusInstance'', ''LokiInstance''}. ok (SetupWebhook k)))) \<and>
    (\<forall>K K'. controller_name K = controller_name K' \<longrightarrow> K = K')"
proof (intro conjI)
  let ?ss = "setup_steps fl env"
  from assms have t: "take_steps ok ?ss = (taken, status)" by (simp add: main_def)
  then show "status = 0 \<longleftrightarrow> taken = ?ss \<and> list_all ok taken"
    by (rule take_steps_zero)
  show "status \<noteq> 0 \<longrightarrow> status = 1 \<and> prefix taken ?ss \<and> (\<exists>before s. taken = before @ [s] \<and> list_all ok before \<and> \<not> ok s)"
    using t take_steps_prefix [of ok ?ss] take_steps_failed by auto
  show "StartManager \<in> set taken \<longrightarrow>
       (\<forall>K. ok (SetupController (controller_name K) (kind_manager K))) \<and> ok AddHealthzCheck \<and> ok AddReadyzCheck \<and>
       (env \<noteq> Some ''false'' \<longrightarrow> (\<forall>k \<in> {''GrafanaInstance'', ''PrometheusInstance'', ''LokiInstance''}. ok (SetupWebhook k)))"
  proof
    assume start: "StartManager \<in> set taken"
    obtain ss where ss: "?ss = ss @ [StartManager]" "StartManager \<notin> set ss"
      using setup_steps_start [of fl env] by blast
    with t start have ok: "ok s" if "s \<in> set ?ss" "s \<noteq> StartManager" for s
      using start_last [of ok ss StartManager taken status] that by (auto simp: list_all_iff)
    show "(\<forall>K. ok (SetupController (controller_name K) (kind_manager K))) \<and> ok AddHealthzCheck \<and> ok AddReadyzCheck \<and>
       (env \<noteq> Some ''false'' \<longrightarrow> (\<forall>k \<in> {''GrafanaInstance'', ''PrometheusInstance'', ''LokiInstance''}. ok (SetupWebhook k)))"
      by (intro conjI allI impI ballI; rule ok)
         (auto simp: setup_steps_def webhook_steps_def controllers_registered split: option.splits)
  qed
qed (use controller_names_inj in auto)

text \<open>A cluster without the Strimzi CRDs, say: the eighth controller cannot be set up.\<close>

theorem manager_starts_only_when_registered_witness:
  "let r = main default_flags None (\<lambda>s. s \<noteq> SetupController ''kafkacluster'' ''kafkacluster-operator'') in
     snd r = 1 \<and> last (fst r) = SetupController ''kafkacluster'' ''kafkacluster-operator'' \<and> StartManager \<notin> set (fst r)"
proof -
  let ?ok = "\<lambda>s. s \<noteq> SetupController ''kafkacluster'' ''kafkacluster-operator''"
  let ?r = "main default_flags None ?ok"
  note main = manager_starts_only_when_registered [OF prod.collapse [symmetric, of ?r]]
  have "StartManager \<notin> set (fst ?r)"
  proof
    assume "StartManager \<in> set (fst ?r)"
    then have "?ok (SetupController (controller_name KafkaKind) (kind_manager KafkaKind))"
      using main by blast
    then show False by (simp add: controller_names adapter_defs)
  qed
  moreover have "StartManager \<in> set (setup_steps default_flags None)" by (simp add: setup_steps_def)
  ultimately have "snd ?r \<noteq> 0" using main by metis
  with main obtain before s where "fst ?r = before @ [s]" "\<not> ?ok s" "snd ?r = 1" by blast
  with \<open>StartManager \<notin> set (fst ?r)\<close> show ?thesis by (simp add: Let_def)
qed

subsection \<open>What the servers expose\<close>

definition configure :: "(tls_config \<Rightarrow> tls_config) list \<Rightarrow> tls_config \<Rightarrow> tls_config" where
  "configure opts c = foldl (\<lambda>c f. f c) c opts"

text \<open>
  Without the flag both servers speak HTTP/1.1 only; the metrics endpoint is authenticated exactly
  when it is served over TLS; certificates are taken from the flags only where a path is given.
\<close>

lemma servers_expose_what_the_flags_ask_for:
  "let mo = metricsServerOptions fl; wo = webhookServerOptions fl in
   (NextProtos (configure (mo_TLSOpts mo) c) = (if enableHTTP2 fl then NextProtos c else [''http/1.1''])) \<and>
   (NextProtos (configure (wo_TLSOpts wo) c) = (if enableHTTP2 fl then NextProtos c else [''http/1.1''])) \<and>
   (mo_SecureServing mo = (mo_FilterProvider mo = Some WithAuthenticationAndAuthorization)) \<and>
   (mo_FilterProvider mo = None) = (\<not> secureMetrics fl) \<and>
   (mo_CertDir mo, mo_CertName mo, mo_KeyName mo) =
     (if metricsCertPath fl = '''' then ('''', '''', '''') else (metricsCertPath fl, metricsCertName fl, metricsCertKey fl)) \<and>
   (wo_CertDir wo, wo_CertName wo, wo_KeyName wo) =
     (if webhookCertPath fl = '''' then ('''', '''', '''') else (webhookCertPath fl, webhookCertName fl, webhookCertKey fl)) \<and>
   mo_BindAddress (metricsServerOptions default_flags) = ''0'' \<and> \<not> mgr_LeaderElection (managerOptions default_flags)"
  by (simp add: Let_def metricsServerOptions_def webhookServerOptions_def managerOptions_def tls_options_def
      configure_def disableHTTP2_def default_flags_def)

end
