(* ===== verification/GoHeap.thy ===== *)
theory GoHeap
  imports Main
begin

section \<open>Go values with pointers, slices and maps\<close>

text \<open>
  The adapters are modelled on values, where an assignment copies everything. In Go a pointer,
  a slice or a map is a reference, and a struct assignment copies the reference. This theory
  has the store that makes the difference: values that may hold references, cells they refer
  to, the content a value has in a store and the cells it reaches, and what it takes for a
  function to be a deep copy. \<open>'a\<close> are the scalars.
\<close>

named_theorems go_types \<open>type descriptions of structs\<close>
named_theorems copy_intros \<open>deep copies, by the form of the type\<close>

subsection \<open>Values and the store\<close>

datatype 'a gval =
    Scalar 'a
  | Struct "(string \<times> 'a gval) list"
  | Nil_ref
  | Ref nat

datatype 'a cell =
    Box "'a gval"
  | Array "'a gval list"
  | Table "(string \<times> 'a gval) list"

type_synonym 'a mem = "nat \<Rightarrow> 'a cell option"

record 'a heap =
  mem :: "'a mem"
  fresh :: nat

definition well_formed :: "'a heap \<Rightarrow> bool" where
  "well_formed h \<longleftrightarrow> (\<forall>a. fresh h \<le> a \<longrightarrow> mem h a = None)"

text \<open>\<open>new\<close> and \<open>make\<close>: a reference to a cell that was not in use.\<close>

definition alloc :: "'a cell \<Rightarrow> 'a heap \<Rightarrow> 'a gval \<times> 'a heap" where
  "alloc c h = (Ref (fresh h), \<lparr>mem = (mem h)(fresh h \<mapsto> c), fresh = Suc (fresh h)\<rparr>)"

subsection \<open>Types, content, reach\<close>

datatype ty =
    TScalar
  | TStruct "(string \<times> ty) list"
  | TPtr ty
  | TSlice ty
  | TMap ty

datatype 'a tree =
    CScalar 'a
  | CStruct "(string \<times> 'a tree) list"
  | CNil
  | CBox "'a tree"
  | CArray "'a tree list"
  | CTable "(string \<times> 'a tree) list"

text \<open>What a value of a type says, all references followed; \<open>None\<close> where it is not of the type.\<close>

fun all_some :: "'b option list \<Rightarrow> 'b list option" where
  "all_some [] = Some []"
| "all_some (x # xs) =
     (case x of None \<Rightarrow> None | Some y \<Rightarrow> (case all_some xs of None \<Rightarrow> None | Some ys \<Rightarrow> Some (y # ys)))"

fun content :: "ty \<Rightarrow> 'a mem \<Rightarrow> 'a gval \<Rightarrow> 'a tree option"
  and contents :: "(string \<times> ty) list \<Rightarrow> 'a mem \<Rightarrow> (string \<times> 'a gval) list \<Rightarrow> (string \<times> 'a tree) list option" where
  "content TScalar m (Scalar x) = Some (CScalar x)"
| "content (TStruct ts) m (Struct vs) = map_option CStruct (contents ts m vs)"
| "content (TPtr t) m Nil_ref = Some CNil"
| "content (TPtr t) m (Ref a) =
     (case m a of Some (Box v) \<Rightarrow> map_option CBox (content t m v) | _ \<Rightarrow> None)"
| "content (TSlice t) m Nil_ref = Some CNil"
| "content (TSlice t) m (Ref a) =
     (case m a of Some (Array vs) \<Rightarrow> map_option CArray (all_some (map (content t m) vs)) | _ \<Rightarrow> None)"
| "content (TMap t) m Nil_ref = Some CNil"
| "content (TMap t) m (Ref a) =
     (case m a of
        Some (Table es) \<Rightarrow>
          map_option (\<lambda>ds. CTable (zip (map fst es) ds)) (all_some (map (content t m) (map snd es)))
      | _ \<Rightarrow> None)"
| "content _ m _ = None"
| "contents [] m [] = Some []"
| "contents ((k, t) # ts) m ((k', v) # vs) =
     (case (content t m v, contents ts m vs) of
        (Some d, Some ds) \<Rightarrow> if k = k' then Some ((k, d) # ds) else None
      | _ \<Rightarrow> None)"
| "contents _ m _ = None"

text \<open>The cells a value reaches.\<close>

fun reach :: "ty \<Rightarrow> 'a mem \<Rightarrow> 'a gval \<Rightarrow> nat set"
  and reaches :: "(string \<times> ty) list \<Rightarrow> 'a mem \<Rightarrow> (string \<times> 'a gval) list \<Rightarrow> nat set" where
  "reach (TStruct ts) m (Struct vs) = reaches ts m vs"
| "reach (TPtr t) m (Ref a) = insert a (case m a of Some (Box v) \<Rightarrow> reach t m v | _ \<Rightarrow> {})"
| "reach (TSlice t) m (Ref a) =
     insert a (case m a of Some (Array vs) \<Rightarrow> \<Union> (set (map (reach t m) vs)) | _ \<Rightarrow> {})"
| "reach (TMap t) m (Ref a) =
     insert a (case m a of Some (Table es) \<Rightarrow> \<Union> (set (map (reach t m) (map snd es))) | _ \<Rightarrow> {})"
| "reach _ m _ = {}"
| "reaches ((k, t) # ts) m ((k', v) # vs) = reach t m v \<union> reaches ts m vs"
| "reaches _ m _ = {}"

lemma all_some_map [simp]: "all_some (map Some ys) = Some ys"
  by (induction ys) simp_all

lemma all_some_eq_Some: "all_some xs = Some ys \<longleftrightarrow> xs = map Some ys"
proof
  show "all_some xs = Some ys \<Longrightarrow> xs = map Some ys"
    by (induction xs arbitrary: ys) (auto split: option.splits)
qed simp

lemma all_some_member: "all_some xs \<noteq> None \<Longrightarrow> x \<in> set xs \<Longrightarrow> x \<noteq> None"
  by (auto simp: all_some_eq_Some)

lemma all_some_transfer:
  "all_some (map f xs) = Some ys \<Longrightarrow> (\<And>x y. f x = Some y \<Longrightarrow> g x = Some y) \<Longrightarrow> all_some (map g xs) = Some ys"
  by (induction xs arbitrary: ys) (auto split: option.splits)

lemma cell_cases:
  obtains (array) vs where "m a = Some (Array vs)" | (table) es where "m a = Some (Table es)"
  | (box) v where "m a = Some (Box v)" | (free) "m a = None"
  by (cases "m a"; simp; metis cell.exhaust)

text \<open>Content and reach depend on the cells reached only.\<close>

lemma agree:
  fixes m :: "'a mem"
  shows "(\<And>a. a \<in> reach t m v \<Longrightarrow> m' a = m a) \<Longrightarrow> content t m' v = content t m v \<and> reach t m' v = reach t m v"
    and "(\<And>a. a \<in> reaches ts m vs \<Longrightarrow> m' a = m a) \<Longrightarrow> contents ts m' vs = contents ts m vs \<and> reaches ts m' vs = reaches ts m vs"
proof (induction t m v and ts m vs rule: content_contents.induct)
  case (6 t m a)
  from "6.prems" have a: "m' a = m a" by simp
  show ?case
  proof (cases rule: cell_cases [of m a])
    case (array vs)
    have "content t m' v = content t m v \<and> reach t m' v = reach t m v" if "v \<in> set vs" for v
      using "6.IH" [OF array refl that] "6.prems" that array by fastforce
    then have "map (content t m') vs = map (content t m) vs" "map (reach t m') vs = map (reach t m) vs"
      by simp_all
    with a array show ?thesis by (simp only: content.simps reach.simps option.case cell.case)
  qed (simp_all add: a)
next
  case (8 t m a)
  from "8.prems" have a: "m' a = m a" by simp
  show ?case
  proof (cases rule: cell_cases [of m a])
    case (table es)
    have "content t m' v = content t m v \<and> reach t m' v = reach t m v" if "v \<in> set (map snd es)" for v
      using "8.IH" [OF table refl that] "8.prems" that table by fastforce
    then have "map (content t m') (map snd es) = map (content t m) (map snd es)" "map (reach t m') (map snd es) = map (reach t m) (map snd es)"
      by (metis (no_types, lifting) map_cong)+
    with a table show ?thesis by (simp only: content.simps reach.simps option.case cell.case)
  qed (simp_all add: a)
qed (auto split: option.splits cell.splits)

text \<open>A value of a type reaches allocated cells only.\<close>

lemma reach_allocated:
  "content t m v \<noteq> None \<Longrightarrow> reach t m v \<subseteq> dom m"
  "contents ts m vs \<noteq> None \<Longrightarrow> reaches ts m vs \<subseteq> dom m"
proof (induction t m v and ts m vs rule: content_contents.induct)
  case (6 t m a)
  then obtain vs where vs: "m a = Some (Array vs)" and "all_some (map (content t m) vs) \<noteq> None"
    by (cases rule: cell_cases [of m a]) auto
  then have "reach t m v \<subseteq> dom m" if "v \<in> set vs" for v
    using "6.IH" [OF vs refl that] all_some_member that by (metis image_eqI list.set_map)
  with vs show ?case by auto
next
  case (8 t m a)
  then obtain es where es: "m a = Some (Table es)" and "all_some (map (content t m) (map snd es)) \<noteq> None"
    by (cases rule: cell_cases [of m a]) auto
  then have "reach t m v \<subseteq> dom m" if "v \<in> set (map snd es)" for v
    using "8.IH" [OF es refl that] all_some_member that by (metis image_eqI list.set_map)
  with es show ?case by auto
qed (auto split: option.splits cell.splits if_splits)

lemma grown:
  assumes "mem h \<subseteq>\<^sub>m mem h'" and "content t (mem h) v = Some d"
  shows "content t (mem h') v = Some d" and "reach t (mem h') v = reach t (mem h) v"
proof -
  have "mem h' a = mem h a" if "a \<in> reach t (mem h) v" for a
    using that assms reach_allocated(1) [of t "mem h" v] by (metis map_le_def option.distinct(1) subsetD)
  from agree(1) [OF this] assms(2) show "content t (mem h') v = Some d" "reach t (mem h') v = reach t (mem h) v"
    by simp_all
qed

subsection \<open>Deep copies\<close>

text \<open>
  A function of the generated code takes a value and the store and leaves the copy in a store
  that has only grown. It is a deep copy of a type when the copy has the same content and
  reaches new cells only.
\<close>

type_synonym 'a copier = "'a gval \<Rightarrow> 'a heap \<Rightarrow> 'a gval \<times> 'a heap"

definition new_copy :: "ty \<Rightarrow> 'a heap \<Rightarrow> 'a gval \<Rightarrow> 'a tree \<Rightarrow> 'a gval \<Rightarrow> 'a heap \<Rightarrow> bool" where
  "new_copy t h v d v' h' \<longleftrightarrow>
     well_formed h' \<and> mem h \<subseteq>\<^sub>m mem h' \<and> content t (mem h') v' = Some d \<and> reach t (mem h') v' \<inter> dom (mem h) = {}"

definition copies :: "ty \<Rightarrow> 'a copier \<Rightarrow> bool" where
  "copies t f \<longleftrightarrow>
     (\<forall>h v d. well_formed h \<longrightarrow> content t (mem h) v = Some d \<longrightarrow> new_copy t h v d (fst (f v h)) (snd (f v h)))"

lemma copiesD:
  "copies t f \<Longrightarrow> well_formed h \<Longrightarrow> content t (mem h) v = Some d \<Longrightarrow> f v h = (v', h') \<Longrightarrow> new_copy t h v d v' h'"
  unfolding copies_def by (metis fst_conv snd_conv)

text \<open>\<open>*out = *in\<close>, where it is all there is to do.\<close>

definition assign :: "'a copier" where
  "assign v h = (v, h)"

text \<open>
  A struct: every field is first assigned; the fields listed are then overwritten by copies,
  in the order they are declared in.
\<close>

fun copy_fields :: "(string \<times> 'a copier) list \<Rightarrow> (string \<times> 'a gval) list \<Rightarrow> 'a heap \<Rightarrow> (string \<times> 'a gval) list \<times> 'a heap" where
  "copy_fields fs [] h = ([], h)"
| "copy_fields fs ((k, v) # vs) h =
     (let (v', h1) = (case map_of fs k of None \<Rightarrow> assign | Some f \<Rightarrow> f) v h;
          (vs', h2) = copy_fields fs vs h1
      in ((k, v') # vs', h2))"

definition copy_struct :: "(string \<times> 'a copier) list \<Rightarrow> 'a copier" where
  "copy_struct fs v h =
     (case v of Struct vs \<Rightarrow> (let (vs', h') = copy_fields fs vs h in (Struct vs', h')) | _ \<Rightarrow> (v, h))"

text \<open>\<open>if in != nil { *out = new(T); (*in).DeepCopyInto(*out) }\<close>\<close>

definition copy_ptr :: "'a copier \<Rightarrow> 'a copier" where
  "copy_ptr f v h =
     (case v of
        Ref a \<Rightarrow> (case mem h a of Some (Box x) \<Rightarrow> (let (x', h1) = f x h in alloc (Box x') h1) | _ \<Rightarrow> (v, h))
      | _ \<Rightarrow> (v, h))"

fun copy_list :: "'a copier \<Rightarrow> 'a gval list \<Rightarrow> 'a heap \<Rightarrow> 'a gval list \<times> 'a heap" where
  "copy_list f [] h = ([], h)"
| "copy_list f (v # vs) h =
     (let (v', h1) = f v h; (vs', h2) = copy_list f vs h1 in (v' # vs', h2))"

text \<open>\<open>*out = make([]T, len(*in)); for i := range *in { (*in)[i].DeepCopyInto(&(*out)[i]) }\<close>\<close>

definition copy_slice :: "'a copier \<Rightarrow> 'a copier" where
  "copy_slice f v h =
     (case v of
        Ref a \<Rightarrow> (case mem h a of Some (Array vs) \<Rightarrow> (let (vs', h1) = copy_list f vs h in alloc (Array vs') h1) | _ \<Rightarrow> (v, h))
      | _ \<Rightarrow> (v, h))"

text \<open>\<open>*out = make(map[string]T, len(*in)); for key, val := range *in { (*out)[key] = val }\<close>\<close>

definition copy_map :: "'a copier \<Rightarrow> 'a copier" where
  "copy_map f v h =
     (case v of
        Ref a \<Rightarrow>
          (case mem h a of
             Some (Table es) \<Rightarrow>
               (let (vs', h1) = copy_list f (map snd es) h in alloc (Table (zip (map fst es) vs')) h1)
           | _ \<Rightarrow> (v, h))
      | _ \<Rightarrow> (v, h))"

subsection \<open>The constructions are deep copies of their types\<close>

text \<open>A type without references.\<close>

fun flat :: "ty \<Rightarrow> bool" where
  "flat TScalar = True"
| "flat (TStruct ts) = list_all (\<lambda>(k, t). flat t) ts"
| "flat _ = False"

lemma flat_reach:
  "flat t \<Longrightarrow> reach t m v = {}"
  "list_all (\<lambda>(k, t). flat t) ts \<Longrightarrow> reaches ts m vs = {}"
  by (induction t m v and ts m vs rule: content_contents.induct) (auto)

lemma copies_assign: "flat t \<Longrightarrow> copies t assign"
  by (auto simp: copies_def new_copy_def assign_def flat_reach(1))

lemma well_formed_alloc: "well_formed h \<Longrightarrow> alloc c h = (r, h') \<Longrightarrow>
    well_formed h' \<and> mem h \<subseteq>\<^sub>m mem h' \<and> r = Ref (fresh h) \<and> mem h' (fresh h) = Some c \<and> mem h (fresh h) = None"
  by (auto simp: well_formed_def alloc_def map_le_def)

text \<open>The copies of several values, one after the other.\<close>

definition new_copies :: "ty \<Rightarrow> 'a heap \<Rightarrow> 'a tree list \<Rightarrow> 'a gval list \<Rightarrow> 'a heap \<Rightarrow> bool" where
  "new_copies t h ds vs' h' \<longleftrightarrow>
     well_formed h' \<and> mem h \<subseteq>\<^sub>m mem h' \<and> all_some (map (content t (mem h')) vs') = Some ds \<and>
     (\<forall>v \<in> set vs'. reach t (mem h') v \<inter> dom (mem h) = {})"

lemma grown_copy:
  assumes "new_copy t h v d v' h1" and "mem h1 \<subseteq>\<^sub>m mem h2" and "well_formed h2"
  shows "new_copy t h v d v' h2"
  using assms grown [of h1 h2 t v' d] by (auto simp: new_copy_def intro: map_le_trans)

lemma copy_list_copies:
  assumes "copies t f" and "well_formed h" and "all_some (map (content t (mem h)) vs) = Some ds"
    and "copy_list f vs h = (vs', h')"
  shows "new_copies t h ds vs' h' \<and> length vs' = length vs"
  using assms(2-)
proof (induction vs arbitrary: h ds vs' h')
  case (Cons v vs)
  obtain d ds1 where d: "content t (mem h) v = Some d" "all_some (map (content t (mem h)) vs) = Some ds1" "ds = d # ds1"
    using Cons.prems(2) by (auto split: option.splits)
  obtain v1 h1 where f: "f v h = (v1, h1)" by (cases "f v h")
  obtain vs2 where rest: "copy_list f vs h1 = (vs2, h')" and vs': "vs' = v1 # vs2"
    using Cons.prems(3) f by (auto split: prod.splits)
  have 1: "new_copy t h v d v1 h1"
    by (rule copiesD [OF assms(1) Cons.prems(1) d(1) f])
  then have grow: "mem h \<subseteq>\<^sub>m mem h1" and wf: "well_formed h1" by (simp_all add: new_copy_def)
  have "all_some (map (content t (mem h1)) vs) = Some ds1"
    by (rule all_some_transfer [OF d(2) grown(1) [OF grow]])
  from Cons.IH [OF wf this rest] have 2: "new_copies t h1 ds1 vs2 h'" and len: "length vs2 = length vs" by simp_all
  have 3: "new_copy t h v d v1 h'"
    using grown_copy [OF 1, of h'] 2 by (simp add: new_copies_def)
  have "\<forall>x \<in> set vs2. reach t (mem h') x \<inter> dom (mem h) = {}"
    using 2 map_le_implies_dom_le [OF grow] unfolding new_copies_def by blast
  with 2 3 len d(3) show ?case
    by (simp add: vs' new_copies_def new_copy_def)
qed (simp add: new_copies_def)

text \<open>A new cell around copies is a copy.\<close>

lemma new_cell:
  assumes wf: "well_formed h1" and grow: "mem h \<subseteq>\<^sub>m mem h1" and al: "alloc c h1 = (r, h2)"
    and content: "\<And>a. mem h2 a = Some c \<Longrightarrow> mem h1 \<subseteq>\<^sub>m mem h2 \<Longrightarrow> content t (mem h2) (Ref a) = Some d"
    and reach: "\<And>a. mem h2 a = Some c \<Longrightarrow> mem h1 \<subseteq>\<^sub>m mem h2 \<Longrightarrow> reach t (mem h2) (Ref a) \<subseteq> insert a (- dom (mem h))"
  shows "new_copy t h v d r h2"
proof -
  note al = well_formed_alloc [OF wf al]
  then have h2: "mem h2 (fresh h1) = Some c" "mem h1 \<subseteq>\<^sub>m mem h2" and r: "r = Ref (fresh h1)" by simp_all
  have "fresh h1 \<notin> dom (mem h)"
    using al map_le_implies_dom_le [OF grow] by auto
  then have "reach t (mem h2) r \<inter> dom (mem h) = {}"
    using reach [OF h2] r by auto
  moreover have "mem h \<subseteq>\<^sub>m mem h2" using grow h2(2) by (rule map_le_trans)
  ultimately show ?thesis
    using al content [OF h2] r by (simp add: new_copy_def)
qed

lemma nil_copy: "well_formed h \<Longrightarrow> content t (mem h) Nil_ref = Some d \<Longrightarrow> new_copy t h Nil_ref d Nil_ref h"
  by (cases t) (simp_all add: new_copy_def)

lemma copies_ptr:
  assumes f: "copies t f"
  shows "copies (TPtr t) (copy_ptr f)"
  unfolding copies_def
proof (intro allI impI)
  fix h :: "'a heap" and v d
  assume wf: "well_formed h" and d: "content (TPtr t) (mem h) v = Some d"
  show "new_copy (TPtr t) h v d (fst (copy_ptr f v h)) (snd (copy_ptr f v h))"
  proof (cases v)
    case (Ref a)
    with d obtain x e where x: "mem h a = Some (Box x)" "content t (mem h) x = Some e" "d = CBox e"
      by (cases rule: cell_cases [of "mem h" a]) auto
    obtain x' h1 where fx: "f x h = (x', h1)" by (cases "f x h")
    obtain r h2 where al: "alloc (Box x') h1 = (r, h2)" by (cases "alloc (Box x') h1")
    from copiesD [OF f wf x(2) fx] have 1: "well_formed h1" "mem h \<subseteq>\<^sub>m mem h1" "content t (mem h1) x' = Some e"
      "reach t (mem h1) x' \<inter> dom (mem h) = {}" by (simp_all add: new_copy_def)
    have "new_copy (TPtr t) h v d r h2"
    proof (rule new_cell [OF 1(1,2) al])
      fix a assume a: "mem h2 a = Some (Box x')" and le: "mem h1 \<subseteq>\<^sub>m mem h2"
      show "content (TPtr t) (mem h2) (Ref a) = Some d"
        using a grown(1) [OF le 1(3)] x(3) by simp
      show "reach (TPtr t) (mem h2) (Ref a) \<subseteq> insert a (- dom (mem h))"
        using a grown(2) [OF le 1(3)] 1(4) by auto
    qed
    with Ref x fx al show ?thesis by (simp add: copy_ptr_def)
  qed (use d wf in \<open>auto simp: copy_ptr_def intro: nil_copy\<close>)
qed

lemma new_copies_grown:
  assumes "new_copies t h ds vs h1" and "mem h1 \<subseteq>\<^sub>m mem h2"
  shows "all_some (map (content t (mem h2)) vs) = Some ds" and "\<Union> (set (map (reach t (mem h2)) vs)) \<subseteq> - dom (mem h)"
proof -
  from assms(1) have ds: "all_some (map (content t (mem h1)) vs) = Some ds"
    and apart: "\<forall>v \<in> set vs. reach t (mem h1) v \<inter> dom (mem h) = {}" by (simp_all add: new_copies_def)
  show "all_some (map (content t (mem h2)) vs) = Some ds"
    by (rule all_some_transfer [OF ds grown(1) [OF assms(2)]])
  have "reach t (mem h2) v \<inter> dom (mem h) = {}" if "v \<in> set vs" for v
    using that ds apart grown(2) [OF assms(2)] all_some_member [of "map (content t (mem h1)) vs"] by fastforce
  then show "\<Union> (set (map (reach t (mem h2)) vs)) \<subseteq> - dom (mem h)" by auto
qed

lemma copies_slice:
  assumes f: "copies t f"
  shows "copies (TSlice t) (copy_slice f)"
  unfolding copies_def
proof (intro allI impI)
  fix h :: "'a heap" and v d
  assume wf: "well_formed h" and d: "content (TSlice t) (mem h) v = Some d"
  show "new_copy (TSlice t) h v d (fst (copy_slice f v h)) (snd (copy_slice f v h))"
  proof (cases v)
    case (Ref a)
    with d obtain vs ds where x: "mem h a = Some (Array vs)" "all_some (map (content t (mem h)) vs) = Some ds" "d = CArray ds"
      by (cases rule: cell_cases [of "mem h" a]) auto
    obtain vs' h1 where fx: "copy_list f vs h = (vs', h1)" by (cases "copy_list f vs h")
    obtain r h2 where al: "alloc (Array vs') h1 = (r, h2)" by (cases "alloc (Array vs') h1")
    from copy_list_copies [OF f wf x(2) fx] have new: "new_copies t h ds vs' h1" by simp
    then have 1: "well_formed h1" "mem h \<subseteq>\<^sub>m mem h1" by (simp_all add: new_copies_def)
    have "new_copy (TSlice t) h v d r h2"
      by (rule new_cell [OF 1 al]; use new_copies_grown [OF new] x(3) in \<open>simp; blast\<close>)
    with Ref x fx al show ?thesis by (simp add: copy_slice_def)
  qed (use d wf in \<open>auto simp: copy_slice_def intro: nil_copy\<close>)
qed

lemma copies_map:
  assumes f: "copies t f"
  shows "copies (TMap t) (copy_map f)"
  unfolding copies_def
proof (intro allI impI)
  fix h :: "'a heap" and v d
  assume wf: "well_formed h" and d: "content (TMap t) (mem h) v = Some d"
  show "new_copy (TMap t) h v d (fst (copy_map f v h)) (snd (copy_map f v h))"
  proof (cases v)
    case (Ref a)
    with d obtain es ds where x: "mem h a = Some (Table es)" "all_some (map (content t (mem h)) (map snd es)) = Some ds"
      "d = CTable (zip (map fst es) ds)"
      by (cases rule: cell_cases [of "mem h" a]) auto
    obtain vs' h1 where fx: "copy_list f (map snd es) h = (vs', h1)" by (cases "copy_list f (map snd es) h")
    obtain r h2 where al: "alloc (Table (zip (map fst es) vs')) h1 = (r, h2)" by (cases "alloc (Table (zip (map fst es) vs')) h1")
    from copy_list_copies [OF f wf x(2) fx] have new: "new_copies t h ds vs' h1" and len: "length vs' = length es" by simp_all
    then have 1: "well_formed h1" "mem h \<subseteq>\<^sub>m mem h1" by (simp_all add: new_copies_def)
    have keys: "map fst (zip (map fst es) vs') = map fst es" "map snd (zip (map fst es) vs') = vs'"
      using len by simp_all
    have "new_copy (TMap t) h v d r h2"
      by (rule new_cell [OF 1 al]; simp only: content.simps reach.simps option.case cell.case keys;
          use new_copies_grown [OF new] x(3) in \<open>simp; blast\<close>)
    with Ref x fx al show ?thesis by (simp add: copy_map_def)
  qed (use d wf in \<open>auto simp: copy_map_def intro: nil_copy\<close>)
qed

lemma copy_fields_copies:
  assumes "list_all (\<lambda>(k, t). copies t (case map_of fs k of None \<Rightarrow> assign | Some f \<Rightarrow> f)) ts" and "well_formed h"
    and "contents ts (mem h) vs = Some ds" and "copy_fields fs vs h = (vs', h')"
  shows "well_formed h' \<and> mem h \<subseteq>\<^sub>m mem h' \<and> contents ts (mem h') vs' = Some ds \<and> reaches ts (mem h') vs' \<inter> dom (mem h) = {}"
  using assms
proof (induction ts arbitrary: h vs ds vs' h')
  case Nil
  then show ?case by (cases vs) auto
next
  case (Cons kt ts)
  obtain k t where kt: "kt = (k, t)" by (cases kt)
  let ?f = "case map_of fs k of None \<Rightarrow> assign | Some f \<Rightarrow> f"
  obtain v ws d es where vs: "vs = (k, v) # ws" "content t (mem h) v = Some d" "contents ts (mem h) ws = Some es" "ds = (k, d) # es"
    using Cons.prems(3) by (cases vs) (auto simp: kt split: option.splits if_splits)
  obtain v1 h1 where f: "?f v h = (v1, h1)" by (cases "?f v h")
  obtain ws' where rest: "copy_fields fs ws h1 = (ws', h')" and vs': "vs' = (k, v1) # ws'"
    using Cons.prems(4) f by (auto simp: vs(1) split: prod.splits)
  have "copies t ?f" using Cons.prems(1) by (simp add: kt)
  from copiesD [OF this Cons.prems(2) vs(2) f] have 1: "new_copy t h v d v1 h1" .
  then have grow: "mem h \<subseteq>\<^sub>m mem h1" and wf: "well_formed h1" by (simp_all add: new_copy_def)
  have "contents ts (mem h1) ws = Some es"
    using grown(1) [OF grow, of "TStruct ts" "Struct ws" "CStruct es"] vs(3) by simp
  moreover have "list_all (\<lambda>(k, t). copies t (case map_of fs k of None \<Rightarrow> assign | Some f \<Rightarrow> f)) ts"
    using Cons.prems(1) by simp
  ultimately have 2: "well_formed h'" "mem h1 \<subseteq>\<^sub>m mem h'" "contents ts (mem h') ws' = Some es" "reaches ts (mem h') ws' \<inter> dom (mem h1) = {}"
    using Cons.IH [OF _ wf _ rest] by auto
  have "new_copy t h v d v1 h'" by (rule grown_copy [OF 1 2(2,1)])
  moreover have "reaches ts (mem h') ws' \<inter> dom (mem h) = {}"
    using 2(4) map_le_implies_dom_le [OF grow] by blast
  ultimately show ?case
    using 2(1,3) by (auto simp: kt vs' vs(4) new_copy_def)
qed

lemma copies_struct:
  assumes "list_all (\<lambda>(k, t). copies t (case map_of fs k of None \<Rightarrow> assign | Some f \<Rightarrow> f)) ts"
  shows "copies (TStruct ts) (copy_struct fs)"
  unfolding copies_def
proof (intro allI impI)
  fix h :: "'a heap" and v d
  assume wf: "well_formed h" and d: "content (TStruct ts) (mem h) v = Some d"
  then obtain vs ds where v: "v = Struct vs" "contents ts (mem h) vs = Some ds" "d = CStruct ds"
    by (cases v) auto
  obtain vs' h' where c: "copy_fields fs vs h = (vs', h')" by (cases "copy_fields fs vs h")
  from copy_fields_copies [OF assms wf v(2) c] show "new_copy (TStruct ts) h v d (fst (copy_struct fs v h)) (snd (copy_struct fs v h))"
    by (simp add: new_copy_def copy_struct_def v c)
qed

subsection \<open>What a deep copy is good for\<close>

text \<open>
  Copy and original say the same, and whatever is written to a cell that one of them reaches,
  the other does not notice.
\<close>

definition isolates :: "ty \<Rightarrow> 'a copier \<Rightarrow> bool" where
  "isolates t f \<longleftrightarrow>
     (\<forall>h v d. well_formed h \<and> content t (mem h) v = Some d \<longrightarrow>
        (let (v', h') = f v h in
           content t (mem h') v = Some d \<and> content t (mem h') v' = Some d \<and>
           (\<forall>a \<in> reach t (mem h') v'. \<forall>c. content t ((mem h')(a := c)) v = Some d) \<and>
           (\<forall>a \<in> reach t (mem h') v. \<forall>c. content t ((mem h')(a := c)) v' = Some d)))"

lemma copies_isolates:
  assumes "copies t f"
  shows "isolates t f"
  unfolding isolates_def
proof (intro allI impI, elim conjE)
  fix h :: "'a heap" and v d
  assume wf: "well_formed h" and d: "content t (mem h) v = Some d"
  obtain v' h' where f: "f v h = (v', h')" by (cases "f v h")
  from copiesD [OF assms wf d f] have new: "mem h \<subseteq>\<^sub>m mem h'" "content t (mem h') v' = Some d"
    "reach t (mem h') v' \<inter> dom (mem h) = {}" by (simp_all add: new_copy_def)
  note old = grown [OF new(1) d]
  have apart: "reach t (mem h') v \<inter> reach t (mem h') v' = {}"
    using old(2) new(3) reach_allocated(1) [of t "mem h" v] d by auto
  have frame: "content t ((mem h')(a := c)) x = content t (mem h') x" if "a \<notin> reach t (mem h') x" for a c x
    using agree(1) [of t "mem h'" x "(mem h')(a := c)"] that by fastforce
  have "content t ((mem h')(a := c)) v = Some d" if "a \<in> reach t (mem h') v'" for a c
    using frame [of a v c] that apart old(1) by auto
  moreover have "content t ((mem h')(a := c)) v' = Some d" if "a \<in> reach t (mem h') v" for a c
    using frame [of a v' c] that apart new(2) by auto
  ultimately show "let (v', h') = f v h in
           content t (mem h') v = Some d \<and> content t (mem h') v' = Some d \<and>
           (\<forall>a \<in> reach t (mem h') v'. \<forall>c. content t ((mem h')(a := c)) v = Some d) \<and>
           (\<forall>a \<in> reach t (mem h') v. \<forall>c. content t ((mem h')(a := c)) v' = Some d)"
    by (simp add: f old(1) new(2) del: fun_upd_apply)
qed

end
