(* ===== verification/GoTypes.thy ===== *)
theory GoTypes
  imports GoHeap
begin

section \<open>The API types, with their references\<close>

text \<open>
  The structs of \<open>api/v1alpha1/*_types.go\<close> as type descriptions, field by field: which fields are
  scalars, which hold a pointer, a slice or a map. Structs of other packages are parameters,
  together with the deep copy those packages provide for them; \<open>foreign_ok\<close> says that it is one.
\<close>

record 'a foreign =
  t_ObjectMeta :: ty
  t_ListMeta :: ty
  t_Condition :: ty
  t_ResourceRequirements :: ty
  dc_ObjectMeta :: "'a copier"
  dc_ListMeta :: "'a copier"
  dc_Condition :: "'a copier"
  dc_ResourceRequirements :: "'a copier"

definition foreign_ok :: "'a foreign \<Rightarrow> bool" where
  "foreign_ok F \<longleftrightarrow>
     copies (t_ObjectMeta F) (dc_ObjectMeta F) \<and> copies (t_ListMeta F) (dc_ListMeta F) \<and>
     copies (t_Condition F) (dc_Condition F) \<and> copies (t_ResourceRequirements F) (dc_ResourceRequirements F)"

text \<open>\<open>metav1.TypeMeta\<close>: two strings, copied by assignment.\<close>

definition T_TypeMeta :: ty where
  [go_types]: "T_TypeMeta = TStruct [(''Kind'', TScalar), (''APIVersion'', TScalar)]"

subsection \<open>\<open>alloyinstance_types.go\<close>\<close>

definition T_AlloyInstanceSpec :: ty where
  [go_types]: "T_AlloyInstanceSpec = TStruct
     [(''LokiInstanceRef'', TScalar),
      (''Replicas'', TScalar)]"

definition T_AlloyInstanceStatus :: "'a foreign \<Rightarrow> ty" where
  [go_types]: "T_AlloyInstanceStatus F = TStruct
     [(''Ready'', TScalar),
      (''Phase'', TScalar),
      (''Message'', TScalar),
      (''Conditions'', TSlice (t_Condition F))]"

definition T_AlloyInstance :: "'a foreign \<Rightarrow> ty" where
  [go_types]: "T_AlloyInstance F = TStruct
     [(''TypeMeta'', T_TypeMeta),
      (''ObjectMeta'', t_ObjectMeta F),
      (''Spec'', T_AlloyInstanceSpec),
      (''Status'', T_AlloyInstanceStatus F)]"

definition T_AlloyInstanceList :: "'a foreign \<Rightarrow> ty" where
  [go_types]: "T_AlloyInstanceList F = TStruct
     [(''TypeMeta'', T_TypeMeta),
      (''ListMeta'', t_ListMeta F),
      (''Items'', TSlice (T_AlloyInstance F))]"

subsection \<open>\<open>expose_types.go\<close>\<close>

definition T_IngressSpec :: ty where
  [go_types]: "T_IngressSpec = TStruct
     [(''Host'', TScalar),
      (''IngressClassName'', TScalar),
      (''TLSSecretName'', TScalar),
      (''Annotations'', TMap TScalar)]"

definition T_ServiceExposeSpec :: ty where
  [go_types]: "T_ServiceExposeSpec = TStruct
     [(''Type'', TScalar),
      (''Annotations'', TMap TScalar)]"

subsection \<open>\<open>valkeycluster_types.go\<close>\<close>

definition T_PersistenceSpec :: ty where
  [go_types]: "T_PersistenceSpec = TStruct
     [(''Size'', TScalar),
      (''StorageClass'', TScalar)]"

subsection \<open>\<open>grafanainstance_types.go\<close>\<close>

definition T_GrafanaInstanceSpec :: ty where
  [go_types]: "T_GrafanaInstanceSpec = TStruct
     [(''Version'', TScalar),
      (''Replicas'', TScalar),
      (''Persistence'', TPtr T_PersistenceSpec),
      (''Ingress'', TPtr T_IngressSpec),
      (''Expose'', TPtr T_ServiceExposeSpec),
      (''PrometheusRef'', TScalar),
      (''LokiRef'', TScalar)]"

definition T_GrafanaInstanceStatus :: "'a foreign \<Rightarrow> ty" where
  [go_types]: "T_GrafanaInstanceStatus F = TStruct
     [(''Ready'', TScalar),
      (''Phase'', TScalar),
      (''Replicas'', TScalar),
      (''Message'', TScalar),
      (''Conditions'', TSlice (t_Condition F))]"

definition T_GrafanaInstance :: "'a foreign \<Rightarrow> ty" where
  [go_types]: "T_GrafanaInstance F = TStruct
     [(''TypeMeta'', T_TypeMeta),
      (''ObjectMeta'', t_ObjectMeta F),
      (''Spec'', T_GrafanaInstanceSpec),
      (''Status'', T_GrafanaInstanceStatus F)]"

definition T_GrafanaInstanceList :: "'a foreign \<Rightarrow> ty" where
  [go_types]: "T_GrafanaInstanceList F = TStruct
     [(''TypeMeta'', T_TypeMeta),
      (''ListMeta'', t_ListMeta F),
      (''Items'', TSlice (T_GrafanaInstance F))]"

subsection \<open>\<open>postgrescluster_types.go\<close>\<close>

definition T_StorageSpec :: ty where
  [go_types]: "T_StorageSpec = TStruct
     [(''Size'', TScalar),
      (''StorageClass'', TScalar)]"

definition T_MonitoringSpec :: ty where
  [go_types]: "T_MonitoringSpec = TStruct
     [(''EnablePodMonitor'', TScalar)]"

subsection \<open>\<open>kafkacluster_types.go\<close>\<close>

definition T_KafkaClusterSpec :: "'a foreign \<Rightarrow> ty" where
  [go_types]: "T_KafkaClusterSpec F = TStruct
     [(''Replicas'', TScalar),
      (''Version'', TScalar),
      (''Storage'', T_StorageSpec),
      (''Resources'', t_ResourceRequirements F),
      (''Monitoring'', T_MonitoringSpec),
      (''Expose'', TPtr T_ServiceExposeSpec)]"

definition T_KafkaClusterStatus :: "'a foreign \<Rightarrow> ty" where
  [go_types]: "T_KafkaClusterStatus F = TStruct
     [(''Ready'', TScalar),
      (''Phase'', TScalar),
      (''Message'', TScalar),
      (''Conditions'', TSlice (t_Condition F))]"

definition T_KafkaCluster :: "'a foreign \<Rightarrow> ty" where
  [go_types]: "T_KafkaCluster F = TStruct
     [(''TypeMeta'', T_TypeMeta),
      (''ObjectMeta'', t_ObjectMeta F),
      (''Spec'', T_KafkaClusterSpec F),
      (''Status'', T_KafkaClusterStatus F)]"

definition T_KafkaClusterList :: "'a foreign \<Rightarrow> ty" where
  [go_types]: "T_KafkaClusterList F = TStruct
     [(''TypeMeta'', T_TypeMeta),
      (''ListMeta'', t_ListMeta F),
      (''Items'', TSlice (T_KafkaCluster F))]"

subsection \<open>\<open>lokiinstance_types.go\<close>\<close>

definition T_LokiObjectStorageSpec :: ty where
  [go_types]: "T_LokiObjectStorageSpec = TStruct
     [(''SecretName'', TScalar)]"

definition T_LokiInstanceSpec :: ty where
  [go_types]: "T_LokiInstanceSpec = TStruct
     [(''Size'', TScalar),
      (''StorageClassName'', TScalar),
      (''ObjectStorage'', T_LokiObjectStorageSpec)]"

definition T_LokiInstanceStatus :: "'a foreign \<Rightarrow> ty" where
  [go_types]: "T_LokiInstanceStatus F = TStruct
     [(''Ready'', TScalar),
      (''Phase'', TScalar),
      (''Message'', TScalar),
      (''Conditions'', TSlice (t_Condition F))]"

definition T_LokiInstance :: "'a foreign \<Rightarrow> ty" where
  [go_types]: "T_LokiInstance F = TStruct
     [(''TypeMeta'', T_TypeMeta),
      (''ObjectMeta'', t_ObjectMeta F),
      (''Spec'', T_LokiInstanceSpec),
      (''Status'', T_LokiInstanceStatus F)]"

definition T_LokiInstanceList :: "'a foreign \<Rightarrow> ty" where
  [go_types]: "T_LokiInstanceList F = TStruct
     [(''TypeMeta'', T_TypeMeta),
      (''ListMeta'', t_ListMeta F),
      (''Items'', TSlice (T_LokiInstance F))]"

definition T_DatabaseSpec :: ty where
  [go_types]: "T_DatabaseSpec = TStruct
     [(''Name'', TScalar),
      (''Owner'', TScalar)]"

subsection \<open>\<open>mariadbcluster_types.go\<close>\<close>

definition T_MariaDBClusterSpec :: "'a foreign \<Rightarrow> ty" where
  [go_types]: "T_MariaDBClusterSpec F = TStruct
     [(''Replicas'', TScalar),
      (''Image'', TScalar),
      (''Storage'', T_StorageSpec),
      (''Database'', T_DatabaseSpec),
      (''Resources'', t_ResourceRequirements F),
      (''Monitoring'', T_MonitoringSpec),
      (''Expose'', TPtr T_ServiceExposeSpec)]"

definition T_MariaDBClusterStatus :: "'a foreign \<Rightarrow> ty" where
  [go_types]: "T_MariaDBClusterStatus F = TStruct
     [(''Ready'', TScalar),
      (''Phase'', TScalar),
      (''Replicas'', TScalar),
      (''ReadyReplicas'', TScalar),
      (''Message'', TScalar),
      (''Conditions'', TSlice (t_Condition F))]"

definition T_MariaDBCluster :: "'a foreign \<Rightarrow> ty" where
  [go_types]: "T_MariaDBCluster F = TStruct
     [(''TypeMeta'', T_TypeMeta),
      (''ObjectMeta'', t_ObjectMeta F),
      (''Spec'', T_MariaDBClusterSpec F),
      (''Status'', T_MariaDBClusterStatus F)]"

definition T_MariaDBClusterList :: "'a foreign \<Rightarrow> ty" where
  [go_types]: "T_MariaDBClusterList F = TStruct
     [(''TypeMeta'', T_TypeMeta),
      (''ListMeta'', t_ListMeta F),
      (''Items'', TSlice (T_MariaDBCluster F))]"

subsection \<open>\<open>mongodbcluster_types.go\<close>\<close>

definition T_MongoDBClusterSpec :: "'a foreign \<Rightarrow> ty" where
  [go_types]: "T_MongoDBClusterSpec F = TStruct
     [(''Replicas'', TScalar),
      (''Image'', TScalar),
      (''Storage'', T_StorageSpec),
      (''Resources'', t_ResourceRequirements F),
      (''Monitoring'', T_MonitoringSpec),
      (''Expose'', TPtr T_ServiceExposeSpec)]"

definition T_MongoDBClusterStatus :: "'a foreign \<Rightarrow> ty" where
  [go_types]: "T_MongoDBClusterStatus F = TStruct
     [(''Ready'', TScalar),
      (''Phase'', TScalar),
      (''Replicas'', TScalar),
      (''ReadyReplicas'', TScalar),
      (''Message'', TScalar),
      (''Conditions'', TSlice (t_Condition F))]"

definition T_MongoDBCluster :: "'a foreign \<Rightarrow> ty" where
  [go_types]: "T_MongoDBCluster F = TStruct
     [(''TypeMeta'', T_TypeMeta),
      (''ObjectMeta'', t_ObjectMeta F),
      (''Spec'', T_MongoDBClusterSpec F),
      (''Status'', T_MongoDBClusterStatus F)]"

definition T_MongoDBClusterList :: "'a foreign \<Rightarrow> ty" where
  [go_types]: "T_MongoDBClusterList F = TStruct
     [(''TypeMeta'', T_TypeMeta),
      (''ListMeta'', t_ListMeta F),
      (''Items'', TSlice (T_MongoDBCluster F))]"

definition T_PostgresClusterSpec :: "'a foreign \<Rightarrow> ty" where
  [go_types]: "T_PostgresClusterSpec F = TStruct
     [(''Instances'', TScalar),
      (''Image'', TScalar),
      (''Storage'', T_StorageSpec),
      (''Database'', T_DatabaseSpec),
      (''Resources'', t_ResourceRequirements F),
      (''Monitoring'', T_MonitoringSpec),
      (''Expose'', TPtr T_ServiceExposeSpec)]"

definition T_PostgresClusterStatus :: "'a foreign \<Rightarrow> ty" where
  [go_types]: "T_PostgresClusterStatus F = TStruct
     [(''Ready'', TScalar),
      (''Phase'', TScalar),
      (''Instances'', TScalar),
      (''ReadyInstances'', TScalar),
      (''Message'', TScalar),
      (''Conditions'', TSlice (t_Condition F))]"

definition T_PostgresCluster :: "'a foreign \<Rightarrow> ty" where
  [go_types]: "T_PostgresCluster F = TStruct
     [(''TypeMeta'', T_TypeMeta),
      (''ObjectMeta'', t_ObjectMeta F),
      (''Spec'', T_PostgresClusterSpec F),
      (''Status'', T_PostgresClusterStatus F)]"

definition T_PostgresClusterList :: "'a foreign \<Rightarrow> ty" where
  [go_types]: "T_PostgresClusterList F = TStruct
     [(''TypeMeta'', T_TypeMeta),
      (''ListMeta'', t_ListMeta F),
      (''Items'', TSlice (T_PostgresCluster F))]"

subsection \<open>\<open>prometheusinstance_types.go\<close>\<close>

definition T_PrometheusInstanceSpec :: "'a foreign \<Rightarrow> ty" where
  [go_types]: "T_PrometheusInstanceSpec F = TStruct
     [(''Version'', TScalar),
      (''Replicas'', TScalar),
      (''Retention'', TScalar),
      (''Storage'', TPtr T_StorageSpec),
      (''Resources'', t_ResourceRequirements F),
      (''Ingress'', TPtr T_IngressSpec),
      (''Expose'', TPtr T_ServiceExposeSpec)]"

definition T_PrometheusInstanceStatus :: "'a foreign \<Rightarrow> ty" where
  [go_types]: "T_PrometheusInstanceStatus F = TStruct
     [(''Ready'', TScalar),
      (''Phase'', TScalar),
      (''Replicas'', TScalar),
      (''ReadyReplicas'', TScalar),
      (''Message'', TScalar),
      (''Conditions'', TSlice (t_Condition F))]"

definition T_PrometheusInstance :: "'a foreign \<Rightarrow> ty" where
  [go_types]: "T_PrometheusInstance F = TStruct
     [(''TypeMeta'', T_TypeMeta),
      (''ObjectMeta'', t_ObjectMeta F),
      (''Spec'', T_PrometheusInstanceSpec F),
      (''Status'', T_PrometheusInstanceStatus F)]"

definition T_PrometheusInstanceList :: "'a foreign \<Rightarrow> ty" where
  [go_types]: "T_PrometheusInstanceList F = TStruct
     [(''TypeMeta'', T_TypeMeta),
      (''ListMeta'', t_ListMeta F),
      (''Items'', TSlice (T_PrometheusInstance F))]"

subsection \<open>\<open>rabbitmqcluster_types.go\<close>\<close>

definition T_RabbitMQClusterSpec :: "'a foreign \<Rightarrow> ty" where
  [go_types]: "T_RabbitMQClusterSpec F = TStruct
     [(''Replicas'', TScalar),
      (''Image'', TScalar),
      (''Storage'', T_StorageSpec),
      (''Resources'', t_ResourceRequirements F),
      (''Ingress'', TPtr T_IngressSpec),
      (''Expose'', TPtr T_ServiceExposeSpec),
      (''Monitoring'', T_MonitoringSpec)]"

definition T_RabbitMQClusterStatus :: "'a foreign \<Rightarrow> ty" where
  [go_types]: "T_RabbitMQClusterStatus F = TStruct
     [(''Ready'', TScalar),
      (''Phase'', TScalar),
      (''Replicas'', TScalar),
      (''ReadyReplicas'', TScalar),
      (''Message'', TScalar),
      (''Conditions'', TSlice (t_Condition F))]"

definition T_RabbitMQCluster :: "'a foreign \<Rightarrow> ty" where
  [go_types]: "T_RabbitMQCluster F = TStruct
     [(''TypeMeta'', T_TypeMeta),
      (''ObjectMeta'', t_ObjectMeta F),
      (''Spec'', T_RabbitMQClusterSpec F),
      (''Status'', T_RabbitMQClusterStatus F)]"

definition T_RabbitMQClusterList :: "'a foreign \<Rightarrow> ty" where
  [go_types]: "T_RabbitMQClusterList F = TStruct
     [(''TypeMeta'', T_TypeMeta),
      (''ListMeta'', t_ListMeta F),
      (''Items'', TSlice (T_RabbitMQCluster F))]"

definition T_ValkeyClusterSpec :: "'a foreign \<Rightarrow> ty" where
  [go_types]: "T_ValkeyClusterSpec F = TStruct
     [(''Shards'', TScalar),
      (''Replicas'', TScalar),
      (''Image'', TScalar),
      (''Persistence'', T_PersistenceSpec),
      (''Resources'', t_ResourceRequirements F),
      (''Expose'', TPtr T_ServiceExposeSpec),
      (''Monitoring'', T_MonitoringSpec)]"

definition T_ValkeyClusterStatus :: "'a foreign \<Rightarrow> ty" where
  [go_types]: "T_ValkeyClusterStatus F = TStruct
     [(''Ready'', TScalar),
      (''Phase'', TScalar),
      (''Shards'', TScalar),
      (''ReadyShards'', TScalar),
      (''Message'', TScalar),
      (''Conditions'', TSlice (t_Condition F))]"

definition T_ValkeyCluster :: "'a foreign \<Rightarrow> ty" where
  [go_types]: "T_ValkeyCluster F = TStruct
     [(''TypeMeta'', T_TypeMeta),
      (''ObjectMeta'', t_ObjectMeta F),
      (''Spec'', T_ValkeyClusterSpec F),
      (''Status'', T_ValkeyClusterStatus F)]"

definition T_ValkeyClusterList :: "'a foreign \<Rightarrow> ty" where
  [go_types]: "T_ValkeyClusterList F = TStruct
     [(''TypeMeta'', T_TypeMeta),
      (''ListMeta'', t_ListMeta F),
      (''Items'', TSlice (T_ValkeyCluster F))]"

end
