(* ===== verification/DeepCopies.thy ===== *)
theory DeepCopies
  imports GoTypes
begin

section \<open>The generated deep copies\<close>

text \<open>
  \<open>zz_generated.deepcopy.go\<close>, function by function, and that each is a deep copy of the struct it
  is for. The generated file is checked in next to the types it was generated from; were it
  stale - a reference field added to a struct and not to its copy - the lemma of that struct
  would not hold.
\<close>

named_theorems deep_copies \<open>the generated functions\<close>

text \<open>\<open>if c := in.DeepCopy(); c != nil { return c }; return nil\<close>\<close>

definition as_object :: "'a copier \<Rightarrow> 'a copier" where
  "as_object f v h = (let (c, h') = f v h in if c \<noteq> Nil_ref then (c, h') else (Nil_ref, h'))"

lemma as_object_eq: "as_object f = f"
  by (rule ext)+ (simp add: as_object_def split: prod.split)

lemma foreign_copies [copy_intros]:
  assumes "foreign_ok F"
  shows "copies (t_ObjectMeta F) (dc_ObjectMeta F)" and "copies (t_ListMeta F) (dc_ListMeta F)"
    and "copies (t_Condition F) (dc_Condition F)" and "copies (t_ResourceRequirements F) (dc_ResourceRequirements F)"
  using assms by (simp_all add: foreign_ok_def)

lemmas [copy_intros] = copies_assign copies_ptr copies_slice copies_map

lemma flat_TypeMeta [copy_intros]: "flat T_TypeMeta"
  by (simp add: T_TypeMeta_def)

definition AlloyInstanceSpec_DeepCopyInto :: "'a copier" where
  [deep_copies]: "AlloyInstanceSpec_DeepCopyInto = assign"

definition AlloyInstanceSpec_DeepCopy :: "'a copier" where
  "AlloyInstanceSpec_DeepCopy = copy_ptr AlloyInstanceSpec_DeepCopyInto"

lemma flat_AlloyInstanceSpec [copy_intros]: "flat T_AlloyInstanceSpec"
  by (simp add: T_AlloyInstanceSpec_def copy_intros)

lemma copies_AlloyInstanceSpec [copy_intros]: "copies T_AlloyInstanceSpec AlloyInstanceSpec_DeepCopyInto"
  by (simp add: AlloyInstanceSpec_DeepCopyInto_def copy_intros)

definition AlloyInstanceStatus_DeepCopyInto :: "'a foreign \<Rightarrow> 'a copier" where
  [deep_copies]: "AlloyInstanceStatus_DeepCopyInto F = copy_struct
     [(''Conditions'', copy_slice (dc_Condition F))]"

definition AlloyInstanceStatus_DeepCopy :: "'a foreign \<Rightarrow> 'a copier" where
  "AlloyInstanceStatus_DeepCopy F = copy_ptr (AlloyInstanceStatus_DeepCopyInto F)"

lemma copies_AlloyInstanceStatus [copy_intros]:
  "foreign_ok F \<Longrightarrow> copies (T_AlloyInstanceStatus F) (AlloyInstanceStatus_DeepCopyInto F)"
  unfolding T_AlloyInstanceStatus_def AlloyInstanceStatus_DeepCopyInto_def by (rule copies_struct) (simp add: copy_intros)

definition AlloyInstance_DeepCopyInto :: "'a foreign \<Rightarrow> 'a copier" where
  [deep_copies]: "AlloyInstance_DeepCopyInto F = copy_struct
     [(''TypeMeta'', assign),
      (''ObjectMeta'', dc_ObjectMeta F),
      (''Spec'', assign),
      (''Status'', AlloyInstanceStatus_DeepCopyInto F)]"

definition AlloyInstance_DeepCopy :: "'a foreign \<Rightarrow> 'a copier" where
  "AlloyInstance_DeepCopy F = copy_ptr (AlloyInstance_DeepCopyInto F)"

definition AlloyInstance_DeepCopyObject :: "'a foreign \<Rightarrow> 'a copier" where
  "AlloyInstance_DeepCopyObject F = as_object (AlloyInstance_DeepCopy F)"

lemma copies_AlloyInstance [copy_intros]:
  "foreign_ok F \<Longrightarrow> copies (T_AlloyInstance F) (AlloyInstance_DeepCopyInto F)"
  unfolding T_AlloyInstance_def AlloyInstance_DeepCopyInto_def by (rule copies_struct) (simp add: copy_intros)

definition AlloyInstanceList_DeepCopyInto :: "'a foreign \<Rightarrow> 'a copier" where
  [deep_copies]: "AlloyInstanceList_DeepCopyInto F = copy_struct
     [(''TypeMeta'', assign),
      (''ListMeta'', dc_ListMeta F),
      (''Items'', copy_slice (AlloyInstance_DeepCopyInto F))]"

definition AlloyInstanceList_DeepCopy :: "'a foreign \<Rightarrow> 'a copier" where
  "AlloyInstanceList_DeepCopy F = copy_ptr (AlloyInstanceList_DeepCopyInto F)"

definition AlloyInstanceList_DeepCopyObject :: "'a foreign \<Rightarrow> 'a copier" where
  "AlloyInstanceList_DeepCopyObject F = as_object (AlloyInstanceList_DeepCopy F)"

lemma copies_AlloyInstanceList [copy_intros]:
  "foreign_ok F \<Longrightarrow> copies (T_AlloyInstanceList F) (AlloyInstanceList_DeepCopyInto F)"
  unfolding T_AlloyInstanceList_def AlloyInstanceList_DeepCopyInto_def by (rule copies_struct) (simp add: copy_intros)

definition IngressSpec_DeepCopyInto :: "'a copier" where
  [deep_copies]: "IngressSpec_DeepCopyInto = copy_struct
     [(''Annotations'', copy_map assign)]"

definition IngressSpec_DeepCopy :: "'a copier" where
  "IngressSpec_DeepCopy = copy_ptr IngressSpec_DeepCopyInto"

lemma copies_IngressSpec [copy_intros]:
  "copies T_IngressSpec IngressSpec_DeepCopyInto"
  unfolding T_IngressSpec_def IngressSpec_DeepCopyInto_def by (rule copies_struct) (simp add: copy_intros)

definition ServiceExposeSpec_DeepCopyInto :: "'a copier" where
  [deep_copies]: "ServiceExposeSpec_DeepCopyInto = copy_struct
     [(''Annotations'', copy_map assign)]"

definition ServiceExposeSpec_DeepCopy :: "'a copier" where
  "ServiceExposeSpec_DeepCopy = copy_ptr ServiceExposeSpec_DeepCopyInto"

lemma copies_ServiceExposeSpec [copy_intros]:
  "copies T_ServiceExposeSpec ServiceExposeSpec_DeepCopyInto"
  unfolding T_ServiceExposeSpec_def ServiceExposeSpec_DeepCopyInto_def by (rule copies_struct) (simp add: copy_intros)

definition PersistenceSpec_DeepCopyInto :: "'a copier" where
  [deep_copies]: "PersistenceSpec_DeepCopyInto = assign"

definition PersistenceSpec_DeepCopy :: "'a copier" where
  "PersistenceSpec_DeepCopy = copy_ptr PersistenceSpec_DeepCopyInto"

lemma flat_PersistenceSpec [copy_intros]: "flat T_PersistenceSpec"
  by (simp add: T_PersistenceSpec_def copy_intros)

lemma copies_PersistenceSpec [copy_intros]: "copies T_PersistenceSpec PersistenceSpec_DeepCopyInto"
  by (simp add: PersistenceSpec_DeepCopyInto_def copy_intros)

definition GrafanaInstanceSpec_DeepCopyInto :: "'a copier" where
  [deep_copies]: "GrafanaInstanceSpec_DeepCopyInto = copy_struct
     [(''Persistence'', copy_ptr assign),
      (''Ingress'', copy_ptr IngressSpec_DeepCopyInto),
      (''Expose'', copy_ptr ServiceExposeSpec_DeepCopyInto)]"

definition GrafanaInstanceSpec_DeepCopy :: "'a copier" where
  "GrafanaInstanceSpec_DeepCopy = copy_ptr GrafanaInstanceSpec_DeepCopyInto"

lemma copies_GrafanaInstanceSpec [copy_intros]:
  "copies T_GrafanaInstanceSpec GrafanaInstanceSpec_DeepCopyInto"
  unfolding T_GrafanaInstanceSpec_def GrafanaInstanceSpec_DeepCopyInto_def by (rule copies_struct) (simp add: copy_intros)

definition GrafanaInstanceStatus_DeepCopyInto :: "'a foreign \<Rightarrow> 'a copier" where
  [deep_copies]: "GrafanaInstanceStatus_DeepCopyInto F = copy_struct
     [(''Conditions'', copy_slice (dc_Condition F))]"

definition GrafanaInstanceStatus_DeepCopy :: "'a foreign \<Rightarrow> 'a copier" where
  "GrafanaInstanceStatus_DeepCopy F = copy_ptr (GrafanaInstanceStatus_DeepCopyInto F)"

lemma copies_GrafanaInstanceStatus [copy_intros]:
  "foreign_ok F \<Longrightarrow> copies (T_GrafanaInstanceStatus F) (GrafanaInstanceStatus_DeepCopyInto F)"
  unfolding T_GrafanaInstanceStatus_def GrafanaInstanceStatus_DeepCopyInto_def by (rule copies_struct) (simp add: copy_intros)

definition GrafanaInstance_DeepCopyInto :: "'a foreign \<Rightarrow> 'a copier" where
  [deep_copies]: "GrafanaInstance_DeepCopyInto F = copy_struct
     [(''TypeMeta'', assign),
      (''ObjectMeta'', dc_ObjectMeta F),
      (''Spec'', GrafanaInstanceSpec_DeepCopyInto),
      (''Status'', GrafanaInstanceStatus_DeepCopyInto F)]"

definition GrafanaInstance_DeepCopy :: "'a foreign \<Rightarrow> 'a copier" where
  "GrafanaInstance_DeepCopy F = copy_ptr (GrafanaInstance_DeepCopyInto F)"

definition GrafanaInstance_DeepCopyObject :: "'a foreign \<Rightarrow> 'a copier" where
  "GrafanaInstance_DeepCopyObject F = as_object (GrafanaInstance_DeepCopy F)"

lemma copies_GrafanaInstance [copy_intros]:
  "foreign_ok F \<Longrightarrow> copies (T_GrafanaInstance F) (GrafanaInstance_DeepCopyInto F)"
  unfolding T_GrafanaInstance_def GrafanaInstance_DeepCopyInto_def by (rule copies_struct) (simp add: copy_intros)

definition GrafanaInstanceList_DeepCopyInto :: "'a foreign \<Rightarrow> 'a copier" where
  [deep_copies]: "GrafanaInstanceList_DeepCopyInto F = copy_struct
     [(''TypeMeta'', assign),
      (''ListMeta'', dc_ListMeta F),
      (''Items'', copy_slice (GrafanaInstance_DeepCopyInto F))]"

definition GrafanaInstanceList_DeepCopy :: "'a foreign \<Rightarrow> 'a copier" where
  "GrafanaInstanceList_DeepCopy F = copy_ptr (GrafanaInstanceList_DeepCopyInto F)"

definition GrafanaInstanceList_DeepCopyObject :: "'a foreign \<Rightarrow> 'a copier" where
  "GrafanaInstanceList_DeepCopyObject F = as_object (GrafanaInstanceList_DeepCopy F)"

lemma copies_GrafanaInstanceList [copy_intros]:
  "foreign_ok F \<Longrightarrow> copies (T_GrafanaInstanceList F) (GrafanaInstanceList_DeepCopyInto F)"
  unfolding T_GrafanaInstanceList_def GrafanaInstanceList_DeepCopyInto_def by (rule copies_struct) (simp add: copy_intros)

definition StorageSpec_DeepCopyInto :: "'a copier" where
  [deep_copies]: "StorageSpec_DeepCopyInto = assign"

definition StorageSpec_DeepCopy :: "'a copier" where
  "StorageSpec_DeepCopy = copy_ptr StorageSpec_DeepCopyInto"

lemma flat_StorageSpec [copy_intros]: "flat T_StorageSpec"
  by (simp add: T_StorageSpec_def copy_intros)

lemma copies_StorageSpec [copy_intros]: "copies T_StorageSpec StorageSpec_DeepCopyInto"
  by (simp add: StorageSpec_DeepCopyInto_def copy_intros)

definition MonitoringSpec_DeepCopyInto :: "'a copier" where
  [deep_copies]: "MonitoringSpec_DeepCopyInto = assign"

definition MonitoringSpec_DeepCopy :: "'a copier" where
  "MonitoringSpec_DeepCopy = copy_ptr MonitoringSpec_DeepCopyInto"

lemma flat_MonitoringSpec [copy_intros]: "flat T_MonitoringSpec"
  by (simp add: T_MonitoringSpec_def copy_intros)

lemma copies_MonitoringSpec [copy_intros]: "copies T_MonitoringSpec MonitoringSpec_DeepCopyInto"
  by (simp add: MonitoringSpec_DeepCopyInto_def copy_intros)

definition KafkaClusterSpec_DeepCopyInto :: "'a foreign \<Rightarrow> 'a copier" where
  [deep_copies]: "KafkaClusterSpec_DeepCopyInto F = copy_struct
     [(''Storage'', assign),
      (''Resources'', dc_ResourceRequirements F),
      (''Monitoring'', assign),
      (''Expose'', copy_ptr ServiceExposeSpec_DeepCopyInto)]"

definition KafkaClusterSpec_DeepCopy :: "'a foreign \<Rightarrow> 'a copier" where
  "KafkaClusterSpec_DeepCopy F = copy_ptr (KafkaClusterSpec_DeepCopyInto F)"

lemma copies_KafkaClusterSpec [copy_intros]:
  "foreign_ok F \<Longrightarrow> copies (T_KafkaClusterSpec F) (KafkaClusterSpec_DeepCopyInto F)"
  unfolding T_KafkaClusterSpec_def KafkaClusterSpec_DeepCopyInto_def by (rule copies_struct) (simp add: copy_intros)

definition KafkaClusterStatus_DeepCopyInto :: "'a foreign \<Rightarrow> 'a copier" where
  [deep_copies]: "KafkaClusterStatus_DeepCopyInto F = copy_struct
     [(''Conditions'', copy_slice (dc_Condition F))]"

definition KafkaClusterStatus_DeepCopy :: "'a foreign \<Rightarrow> 'a copier" where
  "KafkaClusterStatus_DeepCopy F = copy_ptr (KafkaClusterStatus_DeepCopyInto F)"

lemma copies_KafkaClusterStatus [copy_intros]:
  "foreign_ok F \<Longrightarrow> copies (T_KafkaClusterStatus F) (KafkaClusterStatus_DeepCopyInto F)"
  unfolding T_KafkaClusterStatus_def KafkaClusterStatus_DeepCopyInto_def by (rule copies_struct) (simp add: copy_intros)

definition KafkaCluster_DeepCopyInto :: "'a foreign \<Rightarrow> 'a copier" where
  [deep_copies]: "KafkaCluster_DeepCopyInto F = copy_struct
     [(''TypeMeta'', assign),
      (''ObjectMeta'', dc_ObjectMeta F),
      (''Spec'', KafkaClusterSpec_DeepCopyInto F),
      (''Status'', KafkaClusterStatus_DeepCopyInto F)]"

definition KafkaCluster_DeepCopy :: "'a foreign \<Rightarrow> 'a copier" where
  "KafkaCluster_DeepCopy F = copy_ptr (KafkaCluster_DeepCopyInto F)"

definition KafkaCluster_DeepCopyObject :: "'a foreign \<Rightarrow> 'a copier" where
  "KafkaCluster_DeepCopyObject F = as_object (KafkaCluster_DeepCopy F)"

lemma copies_KafkaCluster [copy_intros]:
  "foreign_ok F \<Longrightarrow> copies (T_KafkaCluster F) (KafkaCluster_DeepCopyInto F)"
  unfolding T_KafkaCluster_def KafkaCluster_DeepCopyInto_def by (rule copies_struct) (simp add: copy_intros)

definition KafkaClusterList_DeepCopyInto :: "'a foreign \<Rightarrow> 'a copier" where
  [deep_copies]: "KafkaClusterList_DeepCopyInto F = copy_struct
     [(''TypeMeta'', assign),
      (''ListMeta'', dc_ListMeta F),
      (''Items'', copy_slice (KafkaCluster_DeepCopyInto F))]"

definition KafkaClusterList_DeepCopy :: "'a foreign \<Rightarrow> 'a copier" where
  "KafkaClusterList_DeepCopy F = copy_ptr (KafkaClusterList_DeepCopyInto F)"

definition KafkaClusterList_DeepCopyObject :: "'a foreign \<Rightarrow> 'a copier" where
  "KafkaClusterList_DeepCopyObject F = as_object (KafkaClusterList_DeepCopy F)"

lemma copies_KafkaClusterList [copy_intros]:
  "foreign_ok F \<Longrightarrow> copies (T_KafkaClusterList F) (KafkaClusterList_DeepCopyInto F)"
  unfolding T_KafkaClusterList_def KafkaClusterList_DeepCopyInto_def by (rule copies_struct) (simp add: copy_intros)

definition LokiObjectStorageSpec_DeepCopyInto :: "'a copier" where
  [deep_copies]: "LokiObjectStorageSpec_DeepCopyInto = assign"

definition LokiObjectStorageSpec_DeepCopy :: "'a copier" where
  "LokiObjectStorageSpec_DeepCopy = copy_ptr LokiObjectStorageSpec_DeepCopyInto"

lemma flat_LokiObjectStorageSpec [copy_intros]: "flat T_LokiObjectStorageSpec"
  by (simp add: T_LokiObjectStorageSpec_def copy_intros)

lemma copies_LokiObjectStorageSpec [copy_intros]: "copies T_LokiObjectStorageSpec LokiObjectStorageSpec_DeepCopyInto"
  by (simp add: LokiObjectStorageSpec_DeepCopyInto_def copy_intros)

definition LokiInstanceSpec_DeepCopyInto :: "'a copier" where
  [deep_copies]: "LokiInstanceSpec_DeepCopyInto = copy_struct
     [(''ObjectStorage'', assign)]"

definition LokiInstanceSpec_DeepCopy :: "'a copier" where
  "LokiInstanceSpec_DeepCopy = copy_ptr LokiInstanceSpec_DeepCopyInto"

lemma flat_LokiInstanceSpec [copy_intros]: "flat T_LokiInstanceSpec"
  by (simp add: T_LokiInstanceSpec_def copy_intros)

lemma copies_LokiInstanceSpec [copy_intros]:
  "copies T_LokiInstanceSpec LokiInstanceSpec_DeepCopyInto"
  unfolding T_LokiInstanceSpec_def LokiInstanceSpec_DeepCopyInto_def by (rule copies_struct) (simp add: copy_intros)

definition LokiInstanceStatus_DeepCopyInto :: "'a foreign \<Rightarrow> 'a copier" where
  [deep_copies]: "LokiInstanceStatus_DeepCopyInto F = copy_struct
     [(''Conditions'', copy_slice (dc_Condition F))]"

definition LokiInstanceStatus_DeepCopy :: "'a foreign \<Rightarrow> 'a copier" where
  "LokiInstanceStatus_DeepCopy F = copy_ptr (LokiInstanceStatus_DeepCopyInto F)"

lemma copies_LokiInstanceStatus [copy_intros]:
  "foreign_ok F \<Longrightarrow> copies (T_LokiInstanceStatus F) (LokiInstanceStatus_DeepCopyInto F)"
  unfolding T_LokiInstanceStatus_def LokiInstanceStatus_DeepCopyInto_def by (rule copies_struct) (simp add: copy_intros)

definition LokiInstance_DeepCopyInto :: "'a foreign \<Rightarrow> 'a copier" where
  [deep_copies]: "LokiInstance_DeepCopyInto F = copy_struct
     [(''TypeMeta'', assign),
      (''ObjectMeta'', dc_ObjectMeta F),
      (''Spec'', assign),
      (''Status'', LokiInstanceStatus_DeepCopyInto F)]"

definition LokiInstance_DeepCopy :: "'a foreign \<Rightarrow> 'a copier" where
  "LokiInstance_DeepCopy F = copy_ptr (LokiInstance_DeepCopyInto F)"

definition LokiInstance_DeepCopyObject :: "'a foreign \<Rightarrow> 'a copier" where
  "LokiInstance_DeepCopyObject F = as_object (LokiInstance_DeepCopy F)"

lemma copies_LokiInstance [copy_intros]:
  "foreign_ok F \<Longrightarrow> copies (T_LokiInstance F) (LokiInstance_DeepCopyInto F)"
  unfolding T_LokiInstance_def LokiInstance_DeepCopyInto_def by (rule copies_struct) (simp add: copy_intros)

definition LokiInstanceList_DeepCopyInto :: "'a foreign \<Rightarrow> 'a copier" where
  [deep_copies]: "LokiInstanceList_DeepCopyInto F = copy_struct
     [(''TypeMeta'', assign),
      (''ListMeta'', dc_ListMeta F),
      (''Items'', copy_slice (LokiInstance_DeepCopyInto F))]"

definition LokiInstanceList_DeepCopy :: "'a foreign \<Rightarrow> 'a copier" where
  "LokiInstanceList_DeepCopy F = copy_ptr (LokiInstanceList_DeepCopyInto F)"

definition LokiInstanceList_DeepCopyObject :: "'a foreign \<Rightarrow> 'a copier" where
  "LokiInstanceList_DeepCopyObject F = as_object (LokiInstanceList_DeepCopy F)"

lemma copies_LokiInstanceList [copy_intros]:
  "foreign_ok F \<Longrightarrow> copies (T_LokiInstanceList F) (LokiInstanceList_DeepCopyInto F)"
  unfolding T_LokiInstanceList_def LokiInstanceList_DeepCopyInto_def by (rule copies_struct) (simp add: copy_intros)

definition DatabaseSpec_DeepCopyInto :: "'a copier" where
  [deep_copies]: "DatabaseSpec_DeepCopyInto = assign"

definition DatabaseSpec_DeepCopy :: "'a copier" where
  "DatabaseSpec_DeepCopy = copy_ptr DatabaseSpec_DeepCopyInto"

lemma flat_DatabaseSpec [copy_intros]: "flat T_DatabaseSpec"
  by (simp add: T_DatabaseSpec_def copy_intros)

lemma copies_DatabaseSpec [copy_intros]: "copies T_DatabaseSpec DatabaseSpec_DeepCopyInto"
  by (simp add: DatabaseSpec_DeepCopyInto_def copy_intros)

definition MariaDBClusterSpec_DeepCopyInto :: "'a foreign \<Rightarrow> 'a copier" where
  [deep_copies]: "MariaDBClusterSpec_DeepCopyInto F = copy_struct
     [(''Storage'', assign),
      (''Database'', assign),
      (''Resources'', dc_ResourceRequirements F),
      (''Monitoring'', assign),
      (''Expose'', copy_ptr ServiceExposeSpec_DeepCopyInto)]"

definition MariaDBClusterSpec_DeepCopy :: "'a foreign \<Rightarrow> 'a copier" where
  "MariaDBClusterSpec_DeepCopy F = copy_ptr (MariaDBClusterSpec_DeepCopyInto F)"

lemma copies_MariaDBClusterSpec [copy_intros]:
  "foreign_ok F \<Longrightarrow> copies (T_MariaDBClusterSpec F) (MariaDBClusterSpec_DeepCopyInto F)"
  unfolding T_MariaDBClusterSpec_def MariaDBClusterSpec_DeepCopyInto_def by (rule copies_struct) (simp add: copy_intros)

definition MariaDBClusterStatus_DeepCopyInto :: "'a foreign \<Rightarrow> 'a copier" where
  [deep_copies]: "MariaDBClusterStatus_DeepCopyInto F = copy_struct
     [(''Conditions'', copy_slice (dc_Condition F))]"

definition MariaDBClusterStatus_DeepCopy :: "'a foreign \<Rightarrow> 'a copier" where
  "MariaDBClusterStatus_DeepCopy F = copy_ptr (MariaDBClusterStatus_DeepCopyInto F)"

lemma copies_MariaDBClusterStatus [copy_intros]:
  "foreign_ok F \<Longrightarrow> copies (T_MariaDBClusterStatus F) (MariaDBClusterStatus_DeepCopyInto F)"
  unfolding T_MariaDBClusterStatus_def MariaDBClusterStatus_DeepCopyInto_def by (rule copies_struct) (simp add: copy_intros)

definition MariaDBCluster_DeepCopyInto :: "'a foreign \<Rightarrow> 'a copier" where
  [deep_copies]: "MariaDBCluster_DeepCopyInto F = copy_struct
     [(''TypeMeta'', assign),
      (''ObjectMeta'', dc_ObjectMeta F),
      (''Spec'', MariaDBClusterSpec_DeepCopyInto F),
      (''Status'', MariaDBClusterStatus_DeepCopyInto F)]"

definition MariaDBCluster_DeepCopy :: "'a foreign \<Rightarrow> 'a copier" where
  "MariaDBCluster_DeepCopy F = copy_ptr (MariaDBCluster_DeepCopyInto F)"

definition MariaDBCluster_DeepCopyObject :: "'a foreign \<Rightarrow> 'a copier" where
  "MariaDBCluster_DeepCopyObject F = as_object (MariaDBCluster_DeepCopy F)"

lemma copies_MariaDBCluster [copy_intros]:
  "foreign_ok F \<Longrightarrow> copies (T_MariaDBCluster F) (MariaDBCluster_DeepCopyInto F)"
  unfolding T_MariaDBCluster_def MariaDBCluster_DeepCopyInto_def by (rule copies_struct) (simp add: copy_intros)

definition MariaDBClusterList_DeepCopyInto :: "'a foreign \<Rightarrow> 'a copier" where
  [deep_copies]: "MariaDBClusterList_DeepCopyInto F = copy_struct
     [(''TypeMeta'', assign),
      (''ListMeta'', dc_ListMeta F),
      (''Items'', copy_slice (MariaDBCluster_DeepCopyInto F))]"

definition MariaDBClusterList_DeepCopy :: "'a foreign \<Rightarrow> 'a copier" where
  "MariaDBClusterList_DeepCopy F = copy_ptr (MariaDBClusterList_DeepCopyInto F)"

definition MariaDBClusterList_DeepCopyObject :: "'a foreign \<Rightarrow> 'a copier" where
  "MariaDBClusterList_DeepCopyObject F = as_object (MariaDBClusterList_DeepCopy F)"

lemma copies_MariaDBClusterList [copy_intros]:
  "foreign_ok F \<Longrightarrow> copies (T_MariaDBClusterList F) (MariaDBClusterList_DeepCopyInto F)"
  unfolding T_MariaDBClusterList_def MariaDBClusterList_DeepCopyInto_def by (rule copies_struct) (simp add: copy_intros)

definition MongoDBClusterSpec_DeepCopyInto :: "'a foreign \<Rightarrow> 'a copier" where
  [deep_copies]: "MongoDBClusterSpec_DeepCopyInto F = copy_struct
     [(''Storage'', assign),
      (''Resources'', dc_ResourceRequirements F),
      (''Monitoring'', assign),
      (''Expose'', copy_ptr ServiceExposeSpec_DeepCopyInto)]"

definition MongoDBClusterSpec_DeepCopy :: "'a foreign \<Rightarrow> 'a copier" where
  "MongoDBClusterSpec_DeepCopy F = copy_ptr (MongoDBClusterSpec_DeepCopyInto F)"

lemma copies_MongoDBClusterSpec [copy_intros]:
  "foreign_ok F \<Longrightarrow> copies (T_MongoDBClusterSpec F) (MongoDBClusterSpec_DeepCopyInto F)"
  unfolding T_MongoDBClusterSpec_def MongoDBClusterSpec_DeepCopyInto_def by (rule copies_struct) (simp add: copy_intros)

definition MongoDBClusterStatus_DeepCopyInto :: "'a foreign \<Rightarrow> 'a copier" where
  [deep_copies]: "MongoDBClusterStatus_DeepCopyInto F = copy_struct
     [(''Conditions'', copy_slice (dc_Condition F))]"

definition MongoDBClusterStatus_DeepCopy :: "'a foreign \<Rightarrow> 'a copier" where
  "MongoDBClusterStatus_DeepCopy F = copy_ptr (MongoDBClusterStatus_DeepCopyInto F)"

lemma copies_MongoDBClusterStatus [copy_intros]:
  "foreign_ok F \<Longrightarrow> copies (T_MongoDBClusterStatus F) (MongoDBClusterStatus_DeepCopyInto F)"
  unfolding T_MongoDBClusterStatus_def MongoDBClusterStatus_DeepCopyInto_def by (rule copies_struct) (simp add: copy_intros)

definition MongoDBCluster_DeepCopyInto :: "'a foreign \<Rightarrow> 'a copier" where
  [deep_copies]: "MongoDBCluster_DeepCopyInto F = copy_struct
     [(''TypeMeta'', assign),
      (''ObjectMeta'', dc_ObjectMeta F),
      (''Spec'', MongoDBClusterSpec_DeepCopyInto F),
      (''Status'', MongoDBClusterStatus_DeepCopyInto F)]"

definition MongoDBCluster_DeepCopy :: "'a foreign \<Rightarrow> 'a copier" where
  "MongoDBCluster_DeepCopy F = copy_ptr (MongoDBCluster_DeepCopyInto F)"

definition MongoDBCluster_DeepCopyObject :: "'a foreign \<Rightarrow> 'a copier" where
  "MongoDBCluster_DeepCopyObject F = as_object (MongoDBCluster_DeepCopy F)"

lemma copies_MongoDBCluster [copy_intros]:
  "foreign_ok F \<Longrightarrow> copies (T_MongoDBCluster F) (MongoDBCluster_DeepCopyInto F)"
  unfolding T_MongoDBCluster_def MongoDBCluster_DeepCopyInto_def by (rule copies_struct) (simp add: copy_intros)

definition MongoDBClusterList_DeepCopyInto :: "'a foreign \<Rightarrow> 'a copier" where
  [deep_copies]: "MongoDBClusterList_DeepCopyInto F = copy_struct
     [(''TypeMeta'', assign),
      (''ListMeta'', dc_ListMeta F),
      (''Items'', copy_slice (MongoDBCluster_DeepCopyInto F))]"

definition MongoDBClusterList_DeepCopy :: "'a foreign \<Rightarrow> 'a copier" where
  "MongoDBClusterList_DeepCopy F = copy_ptr (MongoDBClusterList_DeepCopyInto F)"

definition MongoDBClusterList_DeepCopyObject :: "'a foreign \<Rightarrow> 'a copier" where
  "MongoDBClusterList_DeepCopyObject F = as_object (MongoDBClusterList_DeepCopy F)"

lemma copies_MongoDBClusterList [copy_intros]:
  "foreign_ok F \<Longrightarrow> copies (T_MongoDBClusterList F) (MongoDBClusterList_DeepCopyInto F)"
  unfolding T_MongoDBClusterList_def MongoDBClusterList_DeepCopyInto_def by (rule copies_struct) (simp add: copy_intros)

definition PostgresClusterSpec_DeepCopyInto :: "'a foreign \<Rightarrow> 'a copier" where
  [deep_copies]: "PostgresClusterSpec_DeepCopyInto F = copy_struct
     [(''Storage'', assign),
      (''Database'', assign),
      (''Resources'', dc_ResourceRequirements F),
      (''Monitoring'', assign),
      (''Expose'', copy_ptr ServiceExposeSpec_DeepCopyInto)]"

definition PostgresClusterSpec_DeepCopy :: "'a foreign \<Rightarrow> 'a copier" where
  "PostgresClusterSpec_DeepCopy F = copy_ptr (PostgresClusterSpec_DeepCopyInto F)"

lemma copies_PostgresClusterSpec [copy_intros]:
  "foreign_ok F \<Longrightarrow> copies (T_PostgresClusterSpec F) (PostgresClusterSpec_DeepCopyInto F)"
  unfolding T_PostgresClusterSpec_def PostgresClusterSpec_DeepCopyInto_def by (rule copies_struct) (simp add: copy_intros)

definition PostgresClusterStatus_DeepCopyInto :: "'a foreign \<Rightarrow> 'a copier" where
  [deep_copies]: "PostgresClusterStatus_DeepCopyInto F = copy_struct
     [(''Conditions'', copy_slice (dc_Condition F))]"

definition PostgresClusterStatus_DeepCopy :: "'a foreign \<Rightarrow> 'a copier" where
  "PostgresClusterStatus_DeepCopy F = copy_ptr (PostgresClusterStatus_DeepCopyInto F)"

lemma copies_PostgresClusterStatus [copy_intros]:
  "foreign_ok F \<Longrightarrow> copies (T_PostgresClusterStatus F) (PostgresClusterStatus_DeepCopyInto F)"
  unfolding T_PostgresClusterStatus_def PostgresClusterStatus_DeepCopyInto_def by (rule copies_struct) (simp add: copy_intros)

definition PostgresCluster_DeepCopyInto :: "'a foreign \<Rightarrow> 'a copier" where
  [deep_copies]: "PostgresCluster_DeepCopyInto F = copy_struct
     [(''TypeMeta'', assign),
      (''ObjectMeta'', dc_ObjectMeta F),
      (''Spec'', PostgresClusterSpec_DeepCopyInto F),
      (''Status'', PostgresClusterStatus_DeepCopyInto F)]"

definition PostgresCluster_DeepCopy :: "'a foreign \<Rightarrow> 'a copier" where
  "PostgresCluster_DeepCopy F = copy_ptr (PostgresCluster_DeepCopyInto F)"

definition PostgresCluster_DeepCopyObject :: "'a foreign \<Rightarrow> 'a copier" where
  "PostgresCluster_DeepCopyObject F = as_object (PostgresCluster_DeepCopy F)"

lemma copies_PostgresCluster [copy_intros]:
  "foreign_ok F \<Longrightarrow> copies (T_PostgresCluster F) (PostgresCluster_DeepCopyInto F)"
  unfolding T_PostgresCluster_def PostgresCluster_DeepCopyInto_def by (rule copies_struct) (simp add: copy_intros)

definition PostgresClusterList_DeepCopyInto :: "'a foreign \<Rightarrow> 'a copier" where
  [deep_copies]: "PostgresClusterList_DeepCopyInto F = copy_struct
     [(''TypeMeta'', assign),
      (''ListMeta'', dc_ListMeta F),
      (''Items'', copy_slice (PostgresCluster_DeepCopyInto F))]"

definition PostgresClusterList_DeepCopy :: "'a foreign \<Rightarrow> 'a copier" where
  "PostgresClusterList_DeepCopy F = copy_ptr (PostgresClusterList_DeepCopyInto F)"

definition PostgresClusterList_DeepCopyObject :: "'a foreign \<Rightarrow> 'a copier" where
  "PostgresClusterList_DeepCopyObject F = as_object (PostgresClusterList_DeepCopy F)"

lemma copies_PostgresClusterList [copy_intros]:
  "foreign_ok F \<Longrightarrow> copies (T_PostgresClusterList F) (PostgresClusterList_DeepCopyInto F)"
  unfolding T_PostgresClusterList_def PostgresClusterList_DeepCopyInto_def by (rule copies_struct) (simp add: copy_intros)

definition PrometheusInstanceSpec_DeepCopyInto :: "'a foreign \<Rightarrow> 'a copier" where
  [deep_copies]: "PrometheusInstanceSpec_DeepCopyInto F = copy_struct
     [(''Storage'', copy_ptr assign),
      (''Resources'', dc_ResourceRequirements F),
      (''Ingress'', copy_ptr IngressSpec_DeepCopyInto),
      (''Expose'', copy_ptr ServiceExposeSpec_DeepCopyInto)]"

definition PrometheusInstanceSpec_DeepCopy :: "'a foreign \<Rightarrow> 'a copier" where
  "PrometheusInstanceSpec_DeepCopy F = copy_ptr (PrometheusInstanceSpec_DeepCopyInto F)"

lemma copies_PrometheusInstanceSpec [copy_intros]:
  "foreign_ok F \<Longrightarrow> copies (T_PrometheusInstanceSpec F) (PrometheusInstanceSpec_DeepCopyInto F)"
  unfolding T_PrometheusInstanceSpec_def PrometheusInstanceSpec_DeepCopyInto_def by (rule copies_struct) (simp add: copy_intros)

definition PrometheusInstanceStatus_DeepCopyInto :: "'a foreign \<Rightarrow> 'a copier" where
  [deep_copies]: "PrometheusInstanceStatus_DeepCopyInto F = copy_struct
     [(''Conditions'', copy_slice (dc_Condition F))]"

definition PrometheusInstanceStatus_DeepCopy :: "'a foreign \<Rightarrow> 'a copier" where
  "PrometheusInstanceStatus_DeepCopy F = copy_ptr (PrometheusInstanceStatus_DeepCopyInto F)"

lemma copies_PrometheusInstanceStatus [copy_intros]:
  "foreign_ok F \<Longrightarrow> copies (T_PrometheusInstanceStatus F) (PrometheusInstanceStatus_DeepCopyInto F)"
  unfolding T_PrometheusInstanceStatus_def PrometheusInstanceStatus_DeepCopyInto_def by (rule copies_struct) (simp add: copy_intros)

definition PrometheusInstance_DeepCopyInto :: "'a foreign \<Rightarrow> 'a copier" where
  [deep_copies]: "PrometheusInstance_DeepCopyInto F = copy_struct
     [(''TypeMeta'', assign),
      (''ObjectMeta'', dc_ObjectMeta F),
      (''Spec'', PrometheusInstanceSpec_DeepCopyInto F),
      (''Status'', PrometheusInstanceStatus_DeepCopyInto F)]"

definition PrometheusInstance_DeepCopy :: "'a foreign \<Rightarrow> 'a copier" where
  "PrometheusInstance_DeepCopy F = copy_ptr (PrometheusInstance_DeepCopyInto F)"

definition PrometheusInstance_DeepCopyObject :: "'a foreign \<Rightarrow> 'a copier" where
  "PrometheusInstance_DeepCopyObject F = as_object (PrometheusInstance_DeepCopy F)"

lemma copies_PrometheusInstance [copy_intros]:
  "foreign_ok F \<Longrightarrow> copies (T_PrometheusInstance F) (PrometheusInstance_DeepCopyInto F)"
  unfolding T_PrometheusInstance_def PrometheusInstance_DeepCopyInto_def by (rule copies_struct) (simp add: copy_intros)

definition PrometheusInstanceList_DeepCopyInto :: "'a foreign \<Rightarrow> 'a copier" where
  [deep_copies]: "PrometheusInstanceList_DeepCopyInto F = copy_struct
     [(''TypeMeta'', assign),
      (''ListMeta'', dc_ListMeta F),
      (''Items'', copy_slice (PrometheusInstance_DeepCopyInto F))]"

definition PrometheusInstanceList_DeepCopy :: "'a foreign \<Rightarrow> 'a copier" where
  "PrometheusInstanceList_DeepCopy F = copy_ptr (PrometheusInstanceList_DeepCopyInto F)"

definition PrometheusInstanceList_DeepCopyObject :: "'a foreign \<Rightarrow> 'a copier" where
  "PrometheusInstanceList_DeepCopyObject F = as_object (PrometheusInstanceList_DeepCopy F)"

lemma copies_PrometheusInstanceList [copy_intros]:
  "foreign_ok F \<Longrightarrow> copies (T_PrometheusInstanceList F) (PrometheusInstanceList_DeepCopyInto F)"
  unfolding T_PrometheusInstanceList_def PrometheusInstanceList_DeepCopyInto_def by (rule copies_struct) (simp add: copy_intros)

definition RabbitMQClusterSpec_DeepCopyInto :: "'a foreign \<Rightarrow> 'a copier" where
  [deep_copies]: "RabbitMQClusterSpec_DeepCopyInto F = copy_struct
     [(''Storage'', assign),
      (''Resources'', dc_ResourceRequirements F),
      (''Ingress'', copy_ptr IngressSpec_DeepCopyInto),
      (''Expose'', copy_ptr ServiceExposeSpec_DeepCopyInto),
      (''Monitoring'', assign)]"

definition RabbitMQClusterSpec_DeepCopy :: "'a foreign \<Rightarrow> 'a copier" where
  "RabbitMQClusterSpec_DeepCopy F = copy_ptr (RabbitMQClusterSpec_DeepCopyInto F)"

lemma copies_RabbitMQClusterSpec [copy_intros]:
  "foreign_ok F \<Longrightarrow> copies (T_RabbitMQClusterSpec F) (RabbitMQClusterSpec_DeepCopyInto F)"
  unfolding T_RabbitMQClusterSpec_def RabbitMQClusterSpec_DeepCopyInto_def by (rule copies_struct) (simp add: copy_intros)

definition RabbitMQClusterStatus_DeepCopyInto :: "'a foreign \<Rightarrow> 'a copier" where
  [deep_copies]: "RabbitMQClusterStatus_DeepCopyInto F = copy_struct
     [(''Conditions'', copy_slice (dc_Condition F))]"

definition RabbitMQClusterStatus_DeepCopy :: "'a foreign \<Rightarrow> 'a copier" where
  "RabbitMQClusterStatus_DeepCopy F = copy_ptr (RabbitMQClusterStatus_DeepCopyInto F)"

lemma copies_RabbitMQClusterStatus [copy_intros]:
  "foreign_ok F \<Longrightarrow> copies (T_RabbitMQClusterStatus F) (RabbitMQClusterStatus_DeepCopyInto F)"
  unfolding T_RabbitMQClusterStatus_def RabbitMQClusterStatus_DeepCopyInto_def by (rule copies_struct) (simp add: copy_intros)

definition RabbitMQCluster_DeepCopyInto :: "'a foreign \<Rightarrow> 'a copier" where
  [deep_copies]: "RabbitMQCluster_DeepCopyInto F = copy_struct
     [(''TypeMeta'', assign),
      (''ObjectMeta'', dc_ObjectMeta F),
      (''Spec'', RabbitMQClusterSpec_DeepCopyInto F),
      (''Status'', RabbitMQClusterStatus_DeepCopyInto F)]"

definition RabbitMQCluster_DeepCopy :: "'a foreign \<Rightarrow> 'a copier" where
  "RabbitMQCluster_DeepCopy F = copy_ptr (RabbitMQCluster_DeepCopyInto F)"

definition RabbitMQCluster_DeepCopyObject :: "'a foreign \<Rightarrow> 'a copier" where
  "RabbitMQCluster_DeepCopyObject F = as_object (RabbitMQCluster_DeepCopy F)"

lemma copies_RabbitMQCluster [copy_intros]:
  "foreign_ok F \<Longrightarrow> copies (T_RabbitMQCluster F) (RabbitMQCluster_DeepCopyInto F)"
  unfolding T_RabbitMQCluster_def RabbitMQCluster_DeepCopyInto_def by (rule copies_struct) (simp add: copy_intros)

definition RabbitMQClusterList_DeepCopyInto :: "'a foreign \<Rightarrow> 'a copier" where
  [deep_copies]: "RabbitMQClusterList_DeepCopyInto F = copy_struct
     [(''TypeMeta'', assign),
      (''ListMeta'', dc_ListMeta F),
      (''Items'', copy_slice (RabbitMQCluster_DeepCopyInto F))]"

definition RabbitMQClusterList_DeepCopy :: "'a foreign \<Rightarrow> 'a copier" where
  "RabbitMQClusterList_DeepCopy F = copy_ptr (RabbitMQClusterList_DeepCopyInto F)"

definition RabbitMQClusterList_DeepCopyObject :: "'a foreign \<Rightarrow> 'a copier" where
  "RabbitMQClusterList_DeepCopyObject F = as_object (RabbitMQClusterList_DeepCopy F)"

lemma copies_RabbitMQClusterList [copy_intros]:
  "foreign_ok F \<Longrightarrow> copies (T_RabbitMQClusterList F) (RabbitMQClusterList_DeepCopyInto F)"
  unfolding T_RabbitMQClusterList_def RabbitMQClusterList_DeepCopyInto_def by (rule copies_struct) (simp add: copy_intros)

definition ValkeyClusterSpec_DeepCopyInto :: "'a foreign \<Rightarrow> 'a copier" where
  [deep_copies]: "ValkeyClusterSpec_DeepCopyInto F = copy_struct
     [(''Persistence'', assign),
      (''Resources'', dc_ResourceRequirements F),
      (''Expose'', copy_ptr ServiceExposeSpec_DeepCopyInto),
      (''Monitoring'', assign)]"

definition ValkeyClusterSpec_DeepCopy :: "'a foreign \<Rightarrow> 'a copier" where
  "ValkeyClusterSpec_DeepCopy F = copy_ptr (ValkeyClusterSpec_DeepCopyInto F)"

lemma copies_ValkeyClusterSpec [copy_intros]:
  "foreign_ok F \<Longrightarrow> copies (T_ValkeyClusterSpec F) (ValkeyClusterSpec_DeepCopyInto F)"
  unfolding T_ValkeyClusterSpec_def ValkeyClusterSpec_DeepCopyInto_def by (rule copies_struct) (simp add: copy_intros)

definition ValkeyClusterStatus_DeepCopyInto :: "'a foreign \<Rightarrow> 'a copier" where
  [deep_copies]: "ValkeyClusterStatus_DeepCopyInto F = copy_struct
     [(''Conditions'', copy_slice (dc_Condition F))]"

definition ValkeyClusterStatus_DeepCopy :: "'a foreign \<Rightarrow> 'a copier" where
  "ValkeyClusterStatus_DeepCopy F = copy_ptr (ValkeyClusterStatus_DeepCopyInto F)"

lemma copies_ValkeyClusterStatus [copy_intros]:
  "foreign_ok F \<Longrightarrow> copies (T_ValkeyClusterStatus F) (ValkeyClusterStatus_DeepCopyInto F)"
  unfolding T_ValkeyClusterStatus_def ValkeyClusterStatus_DeepCopyInto_def by (rule copies_struct) (simp add: copy_intros)

definition ValkeyCluster_DeepCopyInto :: "'a foreign \<Rightarrow> 'a copier" where
  [deep_copies]: "ValkeyCluster_DeepCopyInto F = copy_struct
     [(''TypeMeta'', assign),
      (''ObjectMeta'', dc_ObjectMeta F),
      (''Spec'', ValkeyClusterSpec_DeepCopyInto F),
      (''Status'', ValkeyClusterStatus_DeepCopyInto F)]"

definition ValkeyCluster_DeepCopy :: "'a foreign \<Rightarrow> 'a copier" where
  "ValkeyCluster_DeepCopy F = copy_ptr (ValkeyCluster_DeepCopyInto F)"

definition ValkeyCluster_DeepCopyObject :: "'a foreign \<Rightarrow> 'a copier" where
  "ValkeyCluster_DeepCopyObject F = as_object (ValkeyCluster_DeepCopy F)"

lemma copies_ValkeyCluster [copy_intros]:
  "foreign_ok F \<Longrightarrow> copies (T_ValkeyCluster F) (ValkeyCluster_DeepCopyInto F)"
  unfolding T_ValkeyCluster_def ValkeyCluster_DeepCopyInto_def by (rule copies_struct) (simp add: copy_intros)

definition ValkeyClusterList_DeepCopyInto :: "'a foreign \<Rightarrow> 'a copier" where
  [deep_copies]: "ValkeyClusterList_DeepCopyInto F = copy_struct
     [(''TypeMeta'', assign),
      (''ListMeta'', dc_ListMeta F),
      (''Items'', copy_slice (ValkeyCluster_DeepCopyInto F))]"

definition ValkeyClusterList_DeepCopy :: "'a foreign \<Rightarrow> 'a copier" where
  "ValkeyClusterList_DeepCopy F = copy_ptr (ValkeyClusterList_DeepCopyInto F)"

definition ValkeyClusterList_DeepCopyObject :: "'a foreign \<Rightarrow> 'a copier" where
  "ValkeyClusterList_DeepCopyObject F = as_object (ValkeyClusterList_DeepCopy F)"

lemma copies_ValkeyClusterList [copy_intros]:
  "foreign_ok F \<Longrightarrow> copies (T_ValkeyClusterList F) (ValkeyClusterList_DeepCopyInto F)"
  unfolding T_ValkeyClusterList_def ValkeyClusterList_DeepCopyInto_def by (rule copies_struct) (simp add: copy_intros)

subsection \<open>Objects\<close>

lemma isolates_object: "copies t f \<Longrightarrow> isolates (TPtr t) (as_object (copy_ptr f))"
  by (simp add: as_object_eq copies_isolates copies_ptr)

text \<open>
  C28: the generated deep copies are deep: the copy of any of the ten resources or of their
  lists says the same as the original, pointers, slices and maps followed, and a write to any
  cell that one of the two reaches is not seen through the other. (Given that the deep copies
  of the packages they build on are.)
\<close>

theorem deep_copies_share_nothing:
  assumes "foreign_ok F"
  shows "isolates (TPtr (T_AlloyInstance F)) (AlloyInstance_DeepCopyObject F) \<and>
         isolates (TPtr (T_AlloyInstanceList F)) (AlloyInstanceList_DeepCopyObject F) \<and>
         isolates (TPtr (T_GrafanaInstance F)) (GrafanaInstance_DeepCopyObject F) \<and>
         isolates (TPtr (T_GrafanaInstanceList F)) (GrafanaInstanceList_DeepCopyObject F) \<and>
         isolates (TPtr (T_KafkaCluster F)) (KafkaCluster_DeepCopyObject F) \<and>
         isolates (TPtr (T_KafkaClusterList F)) (KafkaClusterList_DeepCopyObject F) \<and>
         isolates (TPtr (T_LokiInstance F)) (LokiInstance_DeepCopyObject F) \<and>
         isolates (TPtr (T_LokiInstanceList F)) (LokiInstanceList_DeepCopyObject F) \<and>
         isolates (TPtr (T_MariaDBCluster F)) (MariaDBCluster_DeepCopyObject F) \<and>
         isolates (TPtr (T_MariaDBClusterList F)) (MariaDBClusterList_DeepCopyObject F) \<and>
         isolates (TPtr (T_MongoDBCluster F)) (MongoDBCluster_DeepCopyObject F) \<and>
         isolates (TPtr (T_MongoDBClusterList F)) (MongoDBClusterList_DeepCopyObject F) \<and>
         isolates (TPtr (T_PostgresCluster F)) (PostgresCluster_DeepCopyObject F) \<and>
         isolates (TPtr (T_PostgresClusterList F)) (PostgresClusterList_DeepCopyObject F) \<and>
         isolates (TPtr (T_PrometheusInstance F)) (PrometheusInstance_DeepCopyObject F) \<and>
         isolates (TPtr (T_PrometheusInstanceList F)) (PrometheusInstanceList_DeepCopyObject F) \<and>
         isolates (TPtr (T_RabbitMQCluster F)) (RabbitMQCluster_DeepCopyObject F) \<and>
         isolates (TPtr (T_RabbitMQClusterList F)) (RabbitMQClusterList_DeepCopyObject F) \<and>
         isolates (TPtr (T_ValkeyCluster F)) (ValkeyCluster_DeepCopyObject F) \<and>
         isolates (TPtr (T_ValkeyClusterList F)) (ValkeyClusterList_DeepCopyObject F)"
  unfolding AlloyInstance_DeepCopyObject_def AlloyInstance_DeepCopy_def AlloyInstanceList_DeepCopyObject_def AlloyInstanceList_DeepCopy_def GrafanaInstance_DeepCopyObject_def GrafanaInstance_DeepCopy_def GrafanaInstanceList_DeepCopyObject_def GrafanaInstanceList_DeepCopy_def KafkaCluster_DeepCopyObject_def KafkaCluster_DeepCopy_def KafkaClusterList_DeepCopyObject_def KafkaClusterList_DeepCopy_def LokiInstance_DeepCopyObject_def LokiInstance_DeepCopy_def LokiInstanceList_DeepCopyObject_def LokiInstanceList_DeepCopy_def MariaDBCluster_DeepCopyObject_def MariaDBCluster_DeepCopy_def MariaDBClusterList_DeepCopyObject_def MariaDBClusterList_DeepCopy_def MongoDBCluster_DeepCopyObject_def MongoDBCluster_DeepCopy_def MongoDBClusterList_DeepCopyObject_def MongoDBClusterList_DeepCopy_def PostgresCluster_DeepCopyObject_def PostgresCluster_DeepCopy_def PostgresClusterList_DeepCopyObject_def PostgresClusterList_DeepCopy_def PrometheusInstance_DeepCopyObject_def PrometheusInstance_DeepCopy_def PrometheusInstanceList_DeepCopyObject_def PrometheusInstanceList_DeepCopy_def RabbitMQCluster_DeepCopyObject_def RabbitMQCluster_DeepCopy_def RabbitMQClusterList_DeepCopyObject_def RabbitMQClusterList_DeepCopy_def ValkeyCluster_DeepCopyObject_def ValkeyCluster_DeepCopy_def ValkeyClusterList_DeepCopyObject_def ValkeyClusterList_DeepCopy_def
  using assms by (intro conjI isolates_object copy_intros)

text \<open>The structs of other packages, cut down to a field of each sort.\<close>

definition sample_foreign :: "string foreign" where
  "sample_foreign =
     \<lparr>t_ObjectMeta = TStruct [(''Name'', TScalar), (''Labels'', TMap TScalar), (''Finalizers'', TSlice TScalar)],
      t_ListMeta = TStruct [(''ResourceVersion'', TScalar), (''RemainingItemCount'', TPtr TScalar)],
      t_Condition = TStruct [(''Type'', TScalar), (''Status'', TScalar)],
      t_ResourceRequirements = TStruct [(''Limits'', TMap TScalar), (''Requests'', TMap TScalar)],
      dc_ObjectMeta = copy_struct [(''Labels'', copy_map assign), (''Finalizers'', copy_slice assign)],
      dc_ListMeta = copy_struct [(''RemainingItemCount'', copy_ptr assign)],
      dc_Condition = assign,
      dc_ResourceRequirements = copy_struct [(''Limits'', copy_map assign), (''Requests'', copy_map assign)]\<rparr>"

lemma sample_foreign_ok: "foreign_ok sample_foreign"
  by (auto simp: foreign_ok_def sample_foreign_def copies_assign copies_map copies_slice copies_ptr intro!: copies_struct)

theorem deep_copies_share_nothing_witness:
  "isolates (TPtr (T_PrometheusInstance sample_foreign)) (PrometheusInstance_DeepCopyObject sample_foreign)"
  using deep_copies_share_nothing [OF sample_foreign_ok] by blast

end
