(* ===== verification/Spec2Isabelle.thy ===== *)
theory Spec2Isabelle
  imports EngineProps Webhook AlloyProps FirstUpdate SpecDetermined SteadyState Forbidden Manager DeepCopies
begin

text \<open>
  A verification of the PaaS operator: a Kubernetes operator that lets a team ask for a database,
  a broker or an observability stack with a short custom resource, and turns that resource into
  the (much longer) resource of the vendor's own operator.

  \<^bold>\<open>The program.\<close> The API types (\<open>api/v1alpha1/*_types.go\<close>) define ten custom resources. One
  generic engine, \<open>internal/reconciler/reconciler.go\<close>, reconciles all of them: it guards a
  resource with a finalizer, server-side applies the vendor's target object, applies or prunes
  auxiliary objects, heals stuck StatefulSet rollouts, mirrors the target's status onto the
  resource, and on deletion removes target, auxiliary objects and volume claims before it
  releases the finalizer. What is specific to a vendor is an \<open>Adapter\<close>, one package each:
  \<open>internal/cnpg\<close>, \<open>mariadb\<close>, \<open>psmdb\<close>, \<open>valkey\<close>, \<open>rabbitmq\<close>, \<open>strimzi\<close>, \<open>grafana\<close>, \<open>prometheus\<close>,
  \<open>loki\<close>, \<open>alloy\<close>. \<open>internal/controller\<close> binds engine and adapters and declares the permissions,
  \<open>internal/webhook/v1alpha1\<close> keeps the observability stack to one instance per namespace, and
  \<open>cmd/main.go\<close> starts everything.

  \<^bold>\<open>Foundations.\<close>
  \<^item> \<open>Prelude\<close>: JSON values, association lists as objects, \<open>quote\<close> (Go's \<open>%q\<close>), decimal printing,
    label selectors, and the automation on them.
  \<^item> \<open>Kube\<close>: kinds, object metadata, conditions, \<open>unstructured\<close> objects; \<open>deps\<close> are the functions of
    apimachinery and controller-runtime that the code calls (nested field access, finalizer
    lists, status conditions), with their documented behaviour as \<open>nested_ok\<close>, \<open>finalizers_ok\<close>
    and \<open>conditions_ok\<close>; \<open>doc_deps\<close> is an instance for which all three hold.
  \<^item> \<open>Effects\<close>: the API client is a parameter, a record of functions over an opaque cluster state;
    a computation threads that state, appends every call with its outcome to a trace, and
    returns an error or a value. \<open>emits\<close>, \<open>all_events\<close> and \<open>stops_at_failure\<close> are the calculus in
    which traces are reasoned about for every client.

  \<^bold>\<open>The engine.\<close>
  \<^item> \<open>Reconciler\<close>: \<open>reconciler.go\<close> function by function, under the Go names; \<open>Reconcile\<close> is split into
    \<open>reconcileDelete\<close>, \<open>reconcileNormal\<close> and \<open>applyAndMirror\<close>, its loops into \<open>applyExtras\<close>,
    \<open>deleteExtras\<close>, \<open>deleteStalePods\<close>, \<open>pickDefaultClass\<close>. All recursion is structural.
  \<^item> \<open>Scripts\<close>: the straight-line paths follow a script of calls and stop at the first failure.
  \<^item> \<open>AdapterSpec\<close>: the contract of an integration as the locale \<open>adapter\<close>, and what the engine
    guarantees for every adapter that keeps it. \<open>EngineFacts\<close>, \<open>EngineRuns\<close>, \<open>EngineTouch\<close>: lemmas on
    whole runs. \<open>EngineProps\<close>: the engine's properties. They hold for every client, that is
    whatever the API server answers and however other clients change the cluster in between.
  \<^item> \<open>Cluster\<close>: one client, an API server in memory, on which the witnesses are evaluated.
  \<^item> \<open>Lifecycle\<close>: on that server a run refines an abstract relation, \<open>promise\<close>, between states of a
    platform (resources, objects, claims); runs always succeed, and at most two follow each
    other at once (the fuel of \<open>requeued\<close>). \<open>SteadyState\<close>: what is in the objects after a run, and
    that the next run changes nothing; the locale \<open>steady\<close> is what this needs of an integration.

  \<^bold>\<open>The integrations.\<close>
  \<^item> \<open>ApiTypes\<close>: spec and status of each resource as records. \<open>ApiCodec\<close>, \<open>SpecCodecs\<close>: encoding,
    defaulting, validation and decoding of the ten specs, from the struct tags and markers; the
    contract of a spec as the locale \<open>wire\<close>, interpreted ten times. \<open>FirstUpdate\<close>: which specs survive
    a typed update, and what a controller's first run makes of the others.
  \<^item> \<open>AdapterCommon\<close>, \<open>IngressObj\<close>, \<open>StatusSpec\<close>: what the packages share (labels, conditions, the
    two readers of condition lists, \<open>internal/ingress\<close>), and the contract of a status mirror
    as the locale \<open>status_mirror\<close>.
  \<^item> \<open>CnpgAdapter\<close>, \<open>MariadbAdapter\<close>, \<open>PsmdbAdapter\<close>, \<open>ValkeyAdapter\<close>, \<open>RabbitmqAdapter\<close>,
    \<open>StrimziAdapter\<close>, \<open>GrafanaAdapter\<close>, \<open>PrometheusAdapter\<close>, \<open>LokiAdapter\<close>, \<open>AlloyAdapter\<close>: one
    package each, every method of the adapter, with an interpretation of the contract.
  \<^item> \<open>AdapterProps\<close>: properties of all ten (contract, status mirror, arithmetic of readiness).
    \<open>Wiring\<close>: both ends of each reference between generated objects agree. \<open>Ownership\<close>: which
    objects a resource may write, and when two resources can clash. \<open>Quoting\<close>, \<open>AlloyProps\<close>: the
    generated Alloy configuration reads back. \<open>SpecDetermined\<close>: what of a spec the built objects
    depend on, by inverting the combinators the manifests are written with.

  \<^bold>\<open>Around the engine.\<close>
  \<^item> \<open>Controllers\<close>: names, constructors and permission markers of the ten controllers.
    \<open>Permissions\<close>: which permission each call needs, and that the generated role covers every call
    but three. \<open>Forbidden\<close>: what those three missing permissions do to a run.
  \<^item> \<open>Webhook\<close>: the create check of the three validators, with a server that handles creates one at
    a time (\<open>serial_step\<close>) and one on which they overlap (\<open>concurrent_step\<close>).
  \<^item> \<open>Manager\<close>: \<open>cmd/main.go\<close>, the options worked out from the flags and the setup sequence.
  \<^item> \<open>GoHeap\<close>, \<open>GoTypes\<close>, \<open>DeepCopies\<close>: the other theories model resources as values, for which a
    copy is the value itself. Here is what entitles them to it: a store with pointers, slices and
    maps, the structs of \<open>api/v1alpha1\<close> as descriptions of where they hold references, and every
    function of \<open>zz_generated.deepcopy.go\<close>, each proved a deep copy of its struct.

  \<^bold>\<open>Conventions.\<close> Go's \<open>int32\<close> and \<open>int64\<close> are words of that width, read with \<open>sint\<close>; durations are
  integers in nanoseconds; strings are lists of bytes; a Go map is an association list in the
  order of its literal. A nil pointer that is dereferenced is the error \<open>NilDeref\<close>.

  \<^bold>\<open>Not modelled.\<close> Log calls and contexts. The dashboards' JSON, embedded with \<open>go:embed\<close>, and
  \<open>resource.Quantity.String\<close> are parameters. Quantities are the strings they were written as.
  \<open>quote\<close> prints bytes above 127 as hexadecimal escapes, where Go prints a valid printable rune as
  it is. Scheme registration (\<open>api/v1alpha1/groupversion_info.go\<close> and the \<open>init\<close> functions of the
  API types) hands the Go types to apimachinery's \<open>SchemeBuilder\<close>, and \<open>SetupWithManager\<close> and the
  webhooks' setup functions hand them to controller-runtime: all of their effect is in those
  libraries, which are not part of the repository. So is parsing the command line in
  \<open>cmd/main.go\<close>. Constants and helpers that packages repeat word for word are defined once.
\<close>

end
